(* ===== verification/Go_Prelude.thy ===== *)
theory Go_Prelude
  imports Main "HOL-Library.AList" "HOL-Library.Sublist"
begin

text \<open>
  Shared vocabulary of the development.  It holds the parts of Go and of its standard library the
  operator's sources use: byte strings with the operations of package \<open>strings\<close>, decimal
  conversion (\<open>strconv.Atoi\<close>, \<open>strconv.Itoa\<close>), duration literals (\<open>time.ParseDuration\<close>),
  string maps with insertion, lookup and deletion, optional booleans (\<open>*bool\<close>), errors as values,
  and the retry loop of \<open>client-go/util/retry\<close>.  Lemmas that every component uses are
  collected in \<open>go_simps\<close> (rewriting of string and map operations) and \<open>frame_simps\<close> (which
  fields of a state an operation leaves alone).
\<close>

named_theorems go_simps \<open>rewriting of string, map and pointer operations\<close>
named_theorems frame_simps \<open>fields of a state that an operation leaves unchanged\<close>

section \<open>Errors\<close>

text \<open>
  An error returned by the API machinery, up to what the sources test: \<open>IsNotFound\<close>,
  \<open>IsNoMatchError\<close>, \<open>IsConflict\<close>, \<open>IsAlreadyExists\<close>, or any other error with its text.
\<close>

datatype kerr = NotFound | NoMatch | Conflict | AlreadyExists | OtherErr string

type_synonym 'a res = "kerr + 'a"

text \<open>A nilable error: \<open>None\<close> is \<open>nil\<close>.\<close>

type_synonym err = "kerr option"

section \<open>Pointers to booleans\<close>

definition isTrue :: "bool option \<Rightarrow> bool" where
  "isTrue b = (b = Some True)"

lemma isTrue_simps [simp]: "isTrue None = False" "isTrue (Some b) = b"
  by (auto simp: isTrue_def)

section \<open>Strings\<close>

definition hasPrefix :: "string \<Rightarrow> string \<Rightarrow> bool" where
  "hasPrefix s p = (take (length p) s = p)"

definition hasSuffix :: "string \<Rightarrow> string \<Rightarrow> bool" where
  "hasSuffix s p = (length p \<le> length s \<and> drop (length s - length p) s = p)"

fun containsStr :: "string \<Rightarrow> string \<Rightarrow> bool" where
  "containsStr [] p = (p = [])"
| "containsStr (c # s) p = (hasPrefix (c # s) p \<or> containsStr s p)"

definition trimSuffix :: "string \<Rightarrow> string \<Rightarrow> string" where
  "trimSuffix s p = (if hasSuffix s p then take (length s - length p) s else s)"

definition lowerChar :: "char \<Rightarrow> char" where
  "lowerChar c = (if 65 \<le> (of_char c :: nat) \<and> (of_char c :: nat) \<le> 90
                  then char_of (of_char c + 32 :: nat) else c)"

definition toLower :: "string \<Rightarrow> string" where
  "toLower s = map lowerChar s"

fun joinStr :: "string \<Rightarrow> string list \<Rightarrow> string" where
  "joinStr sep [] = []"
| "joinStr sep [x] = x"
| "joinStr sep (x # y # ys) = x @ sep @ joinStr sep (y # ys)"

text \<open>\<open>strings.Split\<close> with a one-byte separator.\<close>

fun splitChar :: "char \<Rightarrow> string \<Rightarrow> string list" where
  "splitChar c [] = [[]]"
| "splitChar c (x # xs) =
     (if x = c then [] # splitChar c xs
      else case splitChar c xs of [] \<Rightarrow> [[x]] | p # ps \<Rightarrow> (x # p) # ps)"

text \<open>\<open>strings.Replace(s, old, new, -1)\<close> for a non-empty \<open>old\<close>.\<close>

fun replaceAll :: "string \<Rightarrow> string \<Rightarrow> string \<Rightarrow> string" where
  "replaceAll [] old new = []"
| "replaceAll (c # s) old new =
     (if hasPrefix (c # s) old \<and> old \<noteq> [] then new @ replaceAll (drop (length old - 1) s) old new
      else c # replaceAll s old new)"

lemma hasPrefix_append [go_simps, simp]: "hasPrefix (p @ s) p"
  by (simp add: hasPrefix_def)

lemma hasPrefix_iff: "hasPrefix s p \<longleftrightarrow> prefix p s"
  by (metis append_take_drop_id hasPrefix_append hasPrefix_def prefixE prefixI)

lemma hasSuffix_append [go_simps, simp]: "hasSuffix (s @ p) p"
  by (simp add: hasSuffix_def)

lemma hasSuffix_Nil [go_simps, simp]: "hasSuffix s []"
  by (simp add: hasSuffix_def)

lemma hasSuffix_iff: "hasSuffix s p \<longleftrightarrow> suffix p s"
proof
  assume "hasSuffix s p"
  then have "s = take (length s - length p) s @ p"
    unfolding hasSuffix_def by (metis append_take_drop_id)
  then show "suffix p s" by (rule suffixI)
next
  assume "suffix p s"
  then show "hasSuffix s p" by (auto elim: suffixE)
qed

lemma trimSuffix_append: "hasSuffix s p \<Longrightarrow> trimSuffix s p @ p = s"
  unfolding hasSuffix_def trimSuffix_def by (metis append_take_drop_id)

lemma containsStr_iff: "containsStr s p \<longleftrightarrow> sublist p s"
proof (induction s)
  case Nil
  then show ?case by simp
next
  case (Cons c s)
  then show ?case by (simp add: hasPrefix_iff sublist_Cons_right)
qed

lemma splitChar_not_Nil [simp]: "splitChar c s \<noteq> []"
  by (cases s) (auto split: list.splits)

lemma splitChar_append_sep:
  "c \<notin> set p \<Longrightarrow> splitChar c (p @ c # s) = p # splitChar c s"
  by (induction p) (auto split: list.splits)

lemma splitChar_no_sep: "c \<notin> set s \<Longrightarrow> splitChar c s = [s]"
  by (induction s) (auto split: list.splits)

lemma splitChar_last:
  assumes "c \<notin> set s"
  shows "\<exists>ps. ps \<noteq> [] \<and> splitChar c (p @ c # s) = ps @ [s]"
proof (induction p)
  case Nil
  from assms show ?case by (simp add: splitChar_no_sep)
next
  case (Cons x p)
  then obtain q ps where "splitChar c (p @ c # s) = (q # ps) @ [s]"
    by (metis list.exhaust)
  then show ?case
    by (cases "x = c") (auto intro: exI [of _ "[] # q # ps"] exI [of _ "(x # q) # ps"])
qed

lemma last_splitChar: "c \<notin> set s \<Longrightarrow> last (splitChar c (p @ c # s)) = s"
  using splitChar_last [of c s p] by auto

section \<open>Decimal numbers\<close>

definition isDigit :: "char \<Rightarrow> bool" where
  "isDigit c = (48 \<le> (of_char c :: nat) \<and> (of_char c :: nat) \<le> 57)"

definition digitVal :: "char \<Rightarrow> nat" where
  "digitVal c = (of_char c :: nat) - 48"

definition digitChar :: "nat \<Rightarrow> char" where
  "digitChar d = char_of (48 + d)"

fun digitsVal :: "nat \<Rightarrow> string \<Rightarrow> nat" where
  "digitsVal acc [] = acc"
| "digitsVal acc (c # s) = digitsVal (10 * acc + digitVal c) s"

text \<open>
  \<open>strconv.Atoi\<close>: an optional sign and at least one digit; \<open>None\<close> for a syntax error or a value
  outside the 64-bit range.
\<close>

definition atoi :: "string \<Rightarrow> int option" where
  "atoi s =
     (let neg = (case s of c # _ \<Rightarrow> c = CHR ''-'' | [] \<Rightarrow> False);
          ds = (case s of c # r \<Rightarrow> if c = CHR ''-'' \<or> c = CHR ''+'' then r else s | [] \<Rightarrow> [])
      in if ds = [] \<or> \<not> list_all isDigit ds then None
         else let v = int (digitsVal 0 ds) in
              if neg then (if v \<le> 2 ^ 63 then Some (- v) else None)
              else (if v < 2 ^ 63 then Some v else None))"

fun itoaNat :: "nat \<Rightarrow> string" where
  "itoaNat n = (if n < 10 then [digitChar n] else itoaNat (n div 10) @ [digitChar (n mod 10)])"

declare itoaNat.simps [simp del]

definition itoa :: "int \<Rightarrow> string" where
  "itoa i = (if i < 0 then ''-'' @ itoaNat (nat (- i)) else itoaNat (nat i))"

lemma digitChar_props [simp]:
  assumes "d < 10"
  shows "isDigit (digitChar d)" and "digitVal (digitChar d) = d"
  using assms by (auto simp: isDigit_def digitVal_def digitChar_def)

lemma isDigit_not_sign: "isDigit c \<Longrightarrow> c \<noteq> CHR ''-'' \<and> c \<noteq> CHR ''+'' \<and> c \<noteq> CHR ''.''"
  by (auto simp: isDigit_def)

lemma digitsVal_append: "digitsVal acc (s @ t) = digitsVal (digitsVal acc s) t"
  by (induction s arbitrary: acc) auto

lemma itoaNat_digits: "list_all isDigit (itoaNat n) \<and> itoaNat n \<noteq> [] \<and> digitsVal 0 (itoaNat n) = n"
proof (induction n rule: itoaNat.induct)
  case (1 n)
  show ?case
  proof (cases "n < 10")
    case True
    then show ?thesis by (simp add: itoaNat.simps [of n])
  next
    case False
    with 1 show ?thesis
      by (simp add: itoaNat.simps [of n] digitsVal_append)
  qed
qed

lemma atoi_itoa:
  assumes "- (2 ^ 63) \<le> i" and "i < 2 ^ 63"
  shows "atoi (itoa i) = Some i"
proof (cases "i < 0")
  case True
  let ?n = "itoaNat (nat (- i))"
  from itoaNat_digits [of "nat (- i)"] True assms show ?thesis
    by (simp add: itoa_def atoi_def Let_def)
next
  case False
  obtain c r where cr: "itoaNat (nat i) = c # r"
    using itoaNat_digits [of "nat i"] by (cases "itoaNat (nat i)") auto
  with itoaNat_digits [of "nat i"] have "isDigit c" by simp
  with cr itoaNat_digits [of "nat i"] False assms isDigit_not_sign [of c] show ?thesis
    by (simp add: itoa_def atoi_def Let_def)
qed

section \<open>Durations\<close>

text \<open>
  \<open>time.ParseDuration\<close>: an optional sign, then \<open>0\<close> or a non-empty sequence of decimal numbers with
  an optional fraction and a unit.  The result is in nanoseconds.  The fraction is truncated
  exactly; Go computes it in \<open>float64\<close>, which is the same whenever the unit is a multiple of the
  fraction's scale.  \<open>spanDigits\<close> reads the leading digits.
\<close>

definition spanDigits :: "string \<Rightarrow> string \<times> string" where
  "spanDigits s = (takeWhile isDigit s, dropWhile isDigit s)"

definition isUnitChar :: "char \<Rightarrow> bool" where
  "isUnitChar c = (\<not> isDigit c \<and> c \<noteq> CHR ''.'')"

definition unitNanos :: "string \<Rightarrow> nat option" where
  "unitNanos u = map_of
     [(''ns'', 1), (''us'', 1000), ([CHR 0xC2, CHR 0xB5, CHR ''s''], 1000),
      ([CHR 0xCE, CHR 0xBC, CHR ''s''], 1000), (''ms'', 1000000), (''s'', 1000000000),
      (''m'', 60000000000), (''h'', 3600000000000)] u"

definition fracDigits :: "string \<Rightarrow> string \<times> string" where
  "fracDigits s = (case s of c # r \<Rightarrow> if c = CHR ''.'' then spanDigits r else ([], s) | [] \<Rightarrow> ([], []))"

fun parseDurSegs :: "nat \<Rightarrow> string \<Rightarrow> nat \<Rightarrow> nat option" where
  "parseDurSegs 0 s acc = None"
| "parseDurSegs (Suc fuel) s acc =
     (if s = [] then Some acc
      else let (ip, r1) = spanDigits s; (fp, r2) = fracDigits r1;
               u = takeWhile isUnitChar r2; r3 = dropWhile isUnitChar r2
           in if ip = [] \<and> fp = [] then None
              else case unitNanos u of
                None \<Rightarrow> None
              | Some n \<Rightarrow>
                  let v = digitsVal 0 ip * n + digitsVal 0 fp * n div 10 ^ length fp
                  in if acc + v > 2 ^ 63 then None else parseDurSegs fuel r3 (acc + v))"

definition parseDuration :: "string \<Rightarrow> int option" where
  "parseDuration s =
     (let neg = (case s of c # _ \<Rightarrow> c = CHR ''-'' | [] \<Rightarrow> False);
          r = (case s of c # t \<Rightarrow> if c = CHR ''-'' \<or> c = CHR ''+'' then t else s | [] \<Rightarrow> [])
      in if r = ''0'' then Some 0
         else if r = [] then None
         else case parseDurSegs (Suc (length r)) r 0 of
           None \<Rightarrow> None
         | Some d \<Rightarrow> if neg then Some (- int d) else if d \<ge> 2 ^ 63 then None else Some (int d))"

text \<open>A duration without a sign is never negative.\<close>

lemma parseDuration_nonneg:
  assumes "parseDuration s = Some d" and "\<not> hasPrefix s ''-''"
  shows "0 \<le> d"
  using assms
  by (cases s) (auto simp: parseDuration_def hasPrefix_def Let_def split: if_splits option.splits)

section \<open>String maps\<close>

text \<open>
  A Go map is an association list; the list order is the order in which a \<open>range\<close> loop visits it,
  which the language leaves open.
\<close>

type_synonym 'v gomap = "(string \<times> 'v) list"
type_synonym smap = "string gomap"

abbreviation lookup :: "'v gomap \<Rightarrow> string \<Rightarrow> 'v option" where
  "lookup \<equiv> map_of"

abbreviation store :: "string \<Rightarrow> 'v \<Rightarrow> 'v gomap \<Rightarrow> 'v gomap" where
  "store \<equiv> AList.update"

abbreviation remove :: "string \<Rightarrow> 'v gomap \<Rightarrow> 'v gomap" where
  "remove \<equiv> AList.delete"

definition hasKey :: "'v gomap \<Rightarrow> string \<Rightarrow> bool" where
  "hasKey m k = (lookup m k \<noteq> None)"

lemma lookup_store [go_simps, simp]: "lookup (store k v m) k' = (if k' = k then Some v else lookup m k')"
  by (simp add: update_conv')

lemma lookup_remove [go_simps, simp]: "lookup (remove k m) k' = (if k' = k then None else lookup m k')"
  by (simp add: AList.delete_conv')

lemma hasKey_store [go_simps, simp]: "hasKey (store k v m) k' \<longleftrightarrow> k' = k \<or> hasKey m k'"
  by (simp add: hasKey_def)

lemma hasKey_remove [go_simps, simp]: "hasKey (remove k m) k' \<longleftrightarrow> k' \<noteq> k \<and> hasKey m k'"
  by (simp add: hasKey_def)

lemma store_idem [simp]: "store k v (store k v m) = store k v m"
  by (induction m) auto

text \<open>A result that is mapped over its value only.\<close>

lemma map_sum_Inr: "map_sum id f r = Inr y \<longleftrightarrow> (\<exists>z. r = Inr z \<and> y = f z)"
  by (cases r) auto

section \<open>Retry on conflict\<close>

text \<open>
  \<open>retry.RetryOnConflict(retry.DefaultRetry, fn)\<close>: \<open>fn\<close> runs until it succeeds or fails with an
  error other than a conflict, at most \<open>DefaultRetry.Steps = 5\<close> times; the last conflict is then the
  result.
\<close>

fun retrySteps :: "nat \<Rightarrow> ('s \<Rightarrow> err \<times> 's) \<Rightarrow> 's \<Rightarrow> err \<times> 's" where
  "retrySteps 0 fn s = (Some Conflict, s)"
| "retrySteps (Suc n) fn s =
     (case fn s of (e, s1) \<Rightarrow> if e = Some Conflict \<and> n \<noteq> 0 then retrySteps n fn s1 else (e, s1))"

definition retryOnConflict :: "('s \<Rightarrow> err \<times> 's) \<Rightarrow> 's \<Rightarrow> err \<times> 's" where
  "retryOnConflict fn s = retrySteps 5 fn s"

text \<open>What every run of the body keeps, the retried body keeps.\<close>

lemma retrySteps_keeps:
  assumes "\<And>t. P t \<Longrightarrow> P (snd (fn t))" and "P s"
  shows "P (snd (retrySteps n fn s))"
  using assms(2)
proof (induction n arbitrary: s)
  case 0
  then show ?case by simp
next
  case (Suc n)
  from assms(1) [OF Suc.prems] Suc.IH show ?case
    by (cases "fn s") auto
qed

lemma retryOnConflict_keeps:
  assumes "\<And>t. P t \<Longrightarrow> P (snd (fn t))" and "P s"
  shows "P (snd (retryOnConflict fn s))"
  unfolding retryOnConflict_def using assms by (rule retrySteps_keeps)

lemma retryOnConflict_frame:
  assumes "\<And>t. f (snd (fn t)) = f t"
  shows "f (snd (retryOnConflict fn s)) = f s"
  using retryOnConflict_keeps [of "\<lambda>t. f t = f s" fn s] assms by simp

text \<open>The retried body succeeds only if its last run did.\<close>

lemma retrySteps_success:
  assumes "retrySteps n fn s = (None, s')"
  shows "\<exists>t. fn t = (None, s')"
  using assms
proof (induction n arbitrary: s)
  case 0
  then show ?case by simp
next
  case (Suc n)
  show ?case
  proof (cases "fn s")
    case (Pair e s1)
    with Suc.prems Suc.IH show ?thesis
      by (cases "e = Some Conflict \<and> n \<noteq> 0") auto
  qed
qed

lemma retryOnConflict_success:
  "retryOnConflict fn s = (None, s') \<Longrightarrow> \<exists>t. fn t = (None, s')"
  unfolding retryOnConflict_def by (rule retrySteps_success)

lemma retryOnConflict_first_success [simp]:
  "fn s = (None, s') \<Longrightarrow> retryOnConflict fn s = (None, s')"
  by (simp add: retryOnConflict_def numeral_eq_Suc)

end
