(* ===== verification/Api_Types.thy ===== *)
theory Api_Types
  imports Go_Prelude
begin

text \<open>
  The data the operator works on: the custom resources of \<open>src/api/v1alpha1\<close>
  (\<open>deviceconfig_types.go\<close>, \<open>remediationwf_types.go\<close>), one record per Go struct and one datatype
  per string enumeration, and the fields of the Kubernetes, KMM and Argo objects the sources read
  or write.  A pointer is an \<open>option\<close>, a slice a list, a map an association list; a selector is
  an optional map, since the sources distinguish a nil one from an empty one.  Field names
  carry a short prefix, since record fields are global constants.
\<close>

section \<open>Kubernetes objects\<close>

record Taint =
  t_Key :: string
  t_Value :: string
  t_Effect :: string

record Toleration =
  tol_Key :: string
  tol_Operator :: string
  tol_Value :: string
  tol_Effect :: string

text \<open>
  \<open>ToleratesTaint\<close> of the Kubernetes API, without the numeric operators, which the sources do not use.
\<close>

definition toleratesTaint :: "Toleration \<Rightarrow> Taint \<Rightarrow> bool" where
  "toleratesTaint tol t \<longleftrightarrow>
     (tol_Effect tol = [] \<or> tol_Effect tol = t_Effect t) \<and> (tol_Key tol = [] \<or> tol_Key tol = t_Key t)
     \<and> (tol_Operator tol = ''Exists''
        \<or> (tol_Operator tol = [] \<or> tol_Operator tol = ''Equal'') \<and> tol_Value tol = t_Value t)"

record LocalObjectReference =
  lor_Name :: string

record NamespacedName =
  nsn_Namespace :: string
  nsn_Name :: string

record NodeCondition =
  nc_Type :: string
  nc_Status :: string

record Node =
  n_Name :: string
  n_Labels :: smap
  n_Generation :: int
  n_Taints :: "Taint list"
  n_Unschedulable :: bool
  n_Conditions :: "NodeCondition list"
  n_BootID :: string
  n_OSImage :: string
  n_KernelVersion :: string

record Container =
  ct_Name :: string
  ct_Image :: string
  ct_Command :: "string list"
  ct_ImagePullPolicy :: string
  ct_Privileged :: "bool option"
  ct_Requests :: "string list"
  ct_VolumeMounts :: "string list"

record Pod =
  p_Name :: string
  p_Namespace :: string
  p_Labels :: smap
  p_Owners :: "(string \<times> string) list"
  p_NodeName :: string
  p_NodeSelector :: smap
  p_ServiceAccountName :: string
  p_HostPID :: bool
  p_HostNetwork :: bool
  p_RestartPolicy :: string
  p_ImagePullSecrets :: "LocalObjectReference list"
  p_InitContainers :: "Container list"
  p_Containers :: "Container list"
  p_Tolerations :: "Toleration list"
  p_Phase :: string
  p_WaitingReasons :: "string option list"

definition emptyContainer :: Container where
  "emptyContainer = \<lparr>ct_Name = [], ct_Image = [], ct_Command = [], ct_ImagePullPolicy = [],
     ct_Privileged = None, ct_Requests = [], ct_VolumeMounts = []\<rparr>"

definition emptyPod :: Pod where
  "emptyPod = \<lparr>p_Name = [], p_Namespace = [], p_Labels = [], p_Owners = [], p_NodeName = [],
     p_NodeSelector = [], p_ServiceAccountName = [], p_HostPID = False, p_HostNetwork = False,
     p_RestartPolicy = [], p_ImagePullSecrets = [], p_InitContainers = [], p_Containers = [],
     p_Tolerations = [], p_Phase = [], p_WaitingReasons = []\<rparr>"

text \<open>The status of a kernel module in KMM's \<open>NodeModulesConfig\<close>.\<close>

record NMCModule =
  nm_Namespace :: string
  nm_Name :: string
  nm_ContainerImage :: string
  nm_KernelVersion :: string
  nm_ModuleName :: string
  nm_LastTransitionTime :: string

record NMC =
  nmc_SpecModules :: "NMCModule list"
  nmc_StatusModules :: "NMCModule list"

record Condition =
  c_Type :: string
  c_Status :: string
  c_LastTransitionTime :: int
  c_Reason :: string
  c_Message :: string

datatype IntOrString = IntVal int | StrVal string

section \<open>Time stamps\<close>

text \<open>
  Strings in the layout \<open>2006-01-02 15:04:05 UTC\<close>, up to what \<open>time.Parse\<close> reads from them: the
  empty string, a well-formed stamp (its Unix time in seconds; the layout has no smaller unit), or
  any string that does not parse.
\<close>

datatype timestamp = NoTime | At int | Malformed string

definition formatTime :: "int \<Rightarrow> timestamp" where
  "formatTime ns = At (ns div 1000000000)"

fun parseTime :: "timestamp \<Rightarrow> int option" where
  "parseTime NoTime = None"
| "parseTime (At s) = Some (s * 1000000000)"
| "parseTime (Malformed _) = None"

lemma parseTime_formatTime:
  "\<exists>t. parseTime (formatTime ns) = Some t \<and> t \<le> ns \<and> ns < t + 1000000000"
proof -
  have "ns div 1000000000 * 1000000000 + ns mod 1000000000 = ns" by (rule div_mult_mod_eq)
  moreover have "0 \<le> ns mod 1000000000" and "ns mod 1000000000 < (1000000000::int)" by simp_all
  ultimately have "ns div 1000000000 * 1000000000 \<le> ns"
    and "ns < ns div 1000000000 * 1000000000 + 1000000000" by linarith+
  then show ?thesis by (simp add: formatTime_def)
qed

section \<open>Driver section of the DeviceConfig\<close>

datatype UpgradeState =
    UpgradeStateEmpty | UpgradeStateNotStarted | UpgradeStateStarted
  | UpgradeStateInstallInProgress | UpgradeStateInstallComplete | UpgradeStateInProgress
  | UpgradeStateComplete | UpgradeStateFailed | UpgradeStateTimedOut | UpgradeStateCordonFailed
  | UpgradeStateUncordonFailed | UpgradeStateDrainFailed | UpgradeStateRebootInProgress
  | UpgradeStateRebootFailed

record DrainSpec =
  ds_Force :: "bool option"
  ds_TimeoutSeconds :: int
  ds_GracePeriodSeconds :: int
  ds_IgnoreDaemonSets :: "bool option"
  ds_IgnoreNamespaces :: "string list"

record PodDeletionSpec =
  pd_Force :: "bool option"
  pd_TimeoutSeconds :: int
  pd_GracePeriodSeconds :: int

record DriverUpgradePolicySpec =
  up_Enable :: "bool option"
  up_MaxParallelUpgrades :: int
  up_MaxUnavailableNodes :: IntOrString
  up_NodeDrainPolicy :: "DrainSpec option"
  up_PodDeletionPolicy :: "PodDeletionSpec option"
  up_RebootRequired :: "bool option"

record RegistryTLS =
  tls_Insecure :: "bool option"
  tls_InsecureSkipTLSVerify :: "bool option"

record VFIOConfigSpec =
  vfio_DeviceIDs :: "string list"

record KernelModuleConfigSpec =
  km_LoadArgs :: "string list"
  km_UnloadArgs :: "string list"
  km_Parameters :: "string list"

record ImageSignSpec =
  is_KeySecret :: "LocalObjectReference option"
  is_CertSecret :: "LocalObjectReference option"

record ImageBuildSpec =
  ib_BaseImageRegistry :: string
  ib_SourceImageRepo :: string
  ib_PackageRepoURL :: string
  ib_GPGKeyURL :: string
  ib_BaseImageRegistryTLS :: RegistryTLS

record DriverSpec =
  d_Enable :: "bool option"
  d_DriverType :: string
  d_VFIOConfig :: VFIOConfigSpec
  d_KernelModuleConfig :: KernelModuleConfigSpec
  d_Blacklist :: "bool option"
  d_UseSourceImage :: "bool option"
  d_AMDGPUInstallerRepoURL :: string
  d_Version :: string
  d_Image :: string
  d_ImageRegistryTLS :: RegistryTLS
  d_ImageRegistrySecret :: "LocalObjectReference option"
  d_ImageSign :: ImageSignSpec
  d_ImageBuild :: ImageBuildSpec
  d_UpgradePolicy :: "DriverUpgradePolicySpec option"
  d_Tolerations :: "Toleration list"

section \<open>Operand sections\<close>

record DaemonSetUpgradeSpec =
  du_UpgradeStrategy :: string
  du_MaxUnavailable :: int

record DRADriverSpec =
  dra_Enable :: "bool option"
  dra_Image :: string
  dra_ImagePullPolicy :: string
  dra_Tolerations :: "Toleration list"
  dra_ImageRegistrySecret :: "LocalObjectReference option"
  dra_UpgradePolicy :: "DaemonSetUpgradeSpec option"
  dra_CmdLineArguments :: smap
  dra_Selector :: "smap option"

definition dra_IsEnabled :: "DRADriverSpec \<Rightarrow> bool" where
  "dra_IsEnabled d = isTrue (dra_Enable d)"

record DevicePluginSpec =
  dp_EnableDevicePlugin :: "bool option"
  dp_DevicePluginImage :: string
  dp_DevicePluginImagePullPolicy :: string
  dp_DevicePluginTolerations :: "Toleration list"
  dp_DevicePluginArguments :: smap
  dp_NodeLabellerImage :: string
  dp_NodeLabellerImagePullPolicy :: string
  dp_NodeLabellerTolerations :: "Toleration list"
  dp_NodeLabellerArguments :: "string list"
  dp_ImageRegistrySecret :: "LocalObjectReference option"
  dp_EnableNodeLabeller :: "bool option"
  dp_UpgradePolicy :: "DaemonSetUpgradeSpec option"
  dp_KubeletSocketPath :: string
  dp_HostNetwork :: "bool option"

definition dp_IsEnabled :: "DevicePluginSpec \<Rightarrow> bool" where
  "dp_IsEnabled d = isTrue (dp_EnableDevicePlugin d)"

record ConfigManagerSpec =
  cm_Enable :: "bool option"
  cm_Image :: string
  cm_ImagePullPolicy :: string
  cm_ImageRegistrySecret :: "LocalObjectReference option"
  cm_Config :: "LocalObjectReference option"
  cm_Selector :: "smap option"
  cm_UpgradePolicy :: "DaemonSetUpgradeSpec option"
  cm_ConfigManagerTolerations :: "Toleration list"

record StaticAuthConfig =
  sa_Enable :: bool
  sa_ClientName :: string

record KubeRbacConfig =
  rb_Enable :: "bool option"
  rb_Image :: string
  rb_DisableHttps :: "bool option"
  rb_Secret :: "LocalObjectReference option"
  rb_ClientCAConfigMap :: "LocalObjectReference option"
  rb_StaticAuthorization :: "StaticAuthConfig option"

text \<open>
  The types of the Prometheus operator the section refers to (\<open>RelabelConfig\<close>, \<open>SafeAuthorization\<close>,
  \<open>TLSConfig\<close>, \<open>AttachMetadata\<close>) are passed through unread: a value of them is its serialised text.
\<close>

record ServiceMonitorConfig =
  sm_Enable :: "bool option"
  sm_Interval :: string
  sm_AttachMetadata :: "string option"
  sm_HonorLabels :: "bool option"
  sm_HonorTimestamps :: "bool option"
  sm_Labels :: smap
  sm_Relabelings :: "string list"
  sm_MetricRelabelings :: "string list"
  sm_Authorization :: "string option"
  sm_BearerTokenFile :: string
  sm_TLSConfig :: "string option"

record PrometheusConfig =
  pr_ServiceMonitor :: "ServiceMonitorConfig option"

record ResourceRequirements =
  rr_Limits :: smap
  rr_Requests :: smap

record MetricsConfig =
  mc_Name :: string

record MetricsExporterSpec =
  me_Enable :: "bool option"
  me_Image :: string
  me_Prometheus :: "PrometheusConfig option"
  me_ImageRegistrySecret :: "LocalObjectReference option"
  me_ImagePullPolicy :: string
  me_Tolerations :: "Toleration list"
  me_Port :: int
  me_SvcType :: string
  me_NodePort :: int
  me_Config :: MetricsConfig
  me_RbacConfig :: KubeRbacConfig
  me_Selector :: "smap option"
  me_UpgradePolicy :: "DaemonSetUpgradeSpec option"
  me_PodResourceAPISocketPath :: string
  me_PodAnnotations :: smap
  me_ServiceAnnotations :: smap
  me_Resource :: "ResourceRequirements option"
  me_HostNetwork :: "bool option"

record LogsLocationConfig =
  ll_MountPath :: string
  ll_HostPath :: string
  ll_LogsExportSecrets :: "LocalObjectReference option list"

record TestRunnerSpec =
  tr_Enable :: "bool option"
  tr_Image :: string
  tr_ImagePullPolicy :: string
  tr_Tolerations :: "Toleration list"
  tr_ImageRegistrySecret :: "LocalObjectReference option"
  tr_Config :: "LocalObjectReference option"
  tr_Selector :: "smap option"
  tr_UpgradePolicy :: "DaemonSetUpgradeSpec option"
  tr_LogsLocation :: LogsLocationConfig

record UtilsContainerSpec =
  uc_Image :: string
  uc_ImagePullPolicy :: string
  uc_ImageRegistrySecret :: "LocalObjectReference option"

record CommonConfigSpec =
  cc_InitContainerImage :: string
  cc_ImageRegistrySecrets :: "LocalObjectReference list"
  cc_UtilsContainer :: UtilsContainerSpec

record RemediationWorkflowSpec =
  rw_Enable :: "bool option"
  rw_Config :: "LocalObjectReference option"
  rw_TtlForFailedWorkflows :: string
  rw_TesterImage :: string
  rw_MaxParallelWorkflows :: int
  rw_NodeRemediationTaints :: "Taint list"
  rw_NodeRemediationLabels :: smap
  rw_NodeDrainPolicy :: "DrainSpec option"
  rw_AutoStartWorkflow :: "bool option"
  rw_ConfigMapImage :: string
  rw_RebootTimeout :: string

section \<open>The DeviceConfig and its status\<close>

record DeviceConfigSpec =
  s_Driver :: DriverSpec
  s_MetricsExporter :: MetricsExporterSpec
  s_ConfigManager :: ConfigManagerSpec
  s_DevicePlugin :: DevicePluginSpec
  s_DRADriver :: DRADriverSpec
  s_TestRunner :: TestRunnerSpec
  s_CommonConfig :: CommonConfigSpec
  s_Selector :: "smap option"
  s_RemediationWorkflow :: RemediationWorkflowSpec

record DeploymentStatus =
  dst_NodesMatchingSelectorNumber :: int
  dst_DesiredNumber :: int
  dst_AvailableNumber :: int

record ModuleStatus =
  ms_ContainerImage :: string
  ms_KernelVersion :: string
  ms_LastTransitionTime :: string
  ms_Status :: UpgradeState
  ms_UpgradeStartTime :: timestamp
  ms_BootId :: string

record DeviceConfigStatus =
  st_DevicePlugin :: DeploymentStatus
  st_Drivers :: DeploymentStatus
  st_MetricsExporter :: DeploymentStatus
  st_ConfigManager :: DeploymentStatus
  st_RemediationWorkflow :: DeploymentStatus
  st_NodeModuleStatus :: "ModuleStatus gomap"
  st_Conditions :: "Condition list"
  st_ObservedGeneration :: int

record DeviceConfig =
  dc_Name :: string
  dc_Namespace :: string
  dc_Generation :: int
  dc_Deleting :: bool
  dc_Finalizers :: "string list"
  dc_Spec :: DeviceConfigSpec
  dc_Status :: DeviceConfigStatus

text \<open>The run history kept in the \<open>RemediationWorkflowStatus\<close> resource.\<close>

record WorkflowMetadata =
  wm_Name :: string
  wm_StartTime :: timestamp

type_synonym wfstatus = "WorkflowMetadata list gomap gomap"

abbreviation driver :: "DeviceConfig \<Rightarrow> DriverSpec" where
  "driver dc \<equiv> s_Driver (dc_Spec dc)"

abbreviation remediation :: "DeviceConfig \<Rightarrow> RemediationWorkflowSpec" where
  "remediation dc \<equiv> s_RemediationWorkflow (dc_Spec dc)"

abbreviation common :: "DeviceConfig \<Rightarrow> CommonConfigSpec" where
  "common dc \<equiv> s_CommonConfig (dc_Spec dc)"

text \<open>The labels a node list for the DeviceConfig is filtered by; a nil selector matches like an empty one.\<close>

definition selectorOf :: "DeviceConfig \<Rightarrow> smap" where
  "selectorOf dc = (case s_Selector (dc_Spec dc) of None \<Rightarrow> [] | Some m \<Rightarrow> m)"

abbreviation nodeModuleStatus :: "DeviceConfig \<Rightarrow> ModuleStatus gomap" where
  "nodeModuleStatus dc \<equiv> st_NodeModuleStatus (dc_Status dc)"

end
