(* ===== verification/Workflow_Types.thy ===== *)
theory Workflow_Types
  imports Api_Types
begin

text \<open>
  The data of the remediation manager: the condition-to-workflow mappings parsed from the
  remediation ConfigMap (\<open>remediation_handler.go\<close>), and the fields of the Argo Workflow objects the
  manager builds, reads and updates.  A parameter value made by \<open>AnyStringPtr\<close> is its text.
\<close>

section \<open>Condition-to-workflow mappings\<close>

record RecoveryPolicyConfig =
  rp_MaxAllowedRunsPerWindow :: int
  rp_WindowSize :: string

record ValidationTestsProfile =
  vt_Framework :: string
  vt_Recipe :: string
  vt_Iterations :: int
  vt_StopOnFailure :: bool
  vt_TimeoutSeconds :: int

record ConditionWorkflowMapping =
  m_NodeCondition :: string
  m_WorkflowTemplate :: string
  m_ValidationTests :: ValidationTestsProfile
  m_PhysicalActionNeeded :: bool
  m_NotifyRemediationMessage :: string
  m_NotifyTestFailureMessage :: string
  m_RecoveryPolicy :: RecoveryPolicyConfig
  m_SkipRebootStep :: bool

definition emptyMapping :: ConditionWorkflowMapping where
  "emptyMapping = \<lparr>m_NodeCondition = [], m_WorkflowTemplate = [],
     m_ValidationTests = \<lparr>vt_Framework = [], vt_Recipe = [], vt_Iterations = 0,
       vt_StopOnFailure = False, vt_TimeoutSeconds = 0\<rparr>,
     m_PhysicalActionNeeded = False, m_NotifyRemediationMessage = [],
     m_NotifyTestFailureMessage = [],
     m_RecoveryPolicy = \<lparr>rp_MaxAllowedRunsPerWindow = 0, rp_WindowSize = []\<rparr>,
     m_SkipRebootStep = False\<rparr>"

section \<open>Argo objects\<close>

record Parameter =
  prm_Name :: string
  prm_Value :: "string option"
  prm_Default :: "string option"
  prm_Path :: string

record WorkflowStep =
  stp_Name :: string
  stp_Template :: string
  stp_TemplateRef :: "(string \<times> string) option"
  stp_When :: string
  stp_ContinueOnFailed :: bool
  stp_Arguments :: "Parameter list"

record Template =
  tpl_Name :: string
  tpl_Labels :: smap
  tpl_Inputs :: "Parameter list"
  tpl_Outputs :: "Parameter list"
  tpl_Steps :: "WorkflowStep list list"
  tpl_Suspend :: bool
  tpl_Source :: string
  tpl_Container :: "Container option"
  tpl_NodeSelector :: smap
  tpl_HostnameNotIn :: "string list"
  tpl_Tolerations :: "Toleration list"
  tpl_PodSpecPatch :: string

record WorkflowSpec =
  wsp_Entrypoint :: string
  wsp_Templates :: "Template list"
  wsp_ServiceAccountName :: string
  wsp_TTL :: "int option"
  wsp_NodeSelector :: smap
  wsp_Arguments :: "Parameter list"

record OwnerReference =
  or_Kind :: string
  or_Name :: string
  or_Controller :: bool

record WorkflowTemplate =
  wt_Name :: string
  wt_Namespace :: string
  wt_Owners :: "OwnerReference list"
  wt_Spec :: WorkflowSpec

text \<open>A node of a workflow's status: a stage of the run.\<close>

record WfStage =
  ws_Type :: string
  ws_Phase :: string
  ws_DisplayName :: string
  ws_FinishedAt :: "int option"

record Workflow =
  wf_Name :: string
  wf_GenerateName :: string
  wf_Namespace :: string
  wf_Labels :: smap
  wf_Spec :: WorkflowSpec
  wf_Phase :: string
  wf_Nodes :: "WfStage gomap"

definition emptyWorkflowSpec :: WorkflowSpec where
  "emptyWorkflowSpec = \<lparr>wsp_Entrypoint = [], wsp_Templates = [], wsp_ServiceAccountName = [],
     wsp_TTL = None, wsp_NodeSelector = [], wsp_Arguments = []\<rparr>"

definition emptyTemplate :: Template where
  "emptyTemplate = \<lparr>tpl_Name = [], tpl_Labels = [], tpl_Inputs = [], tpl_Outputs = [],
     tpl_Steps = [], tpl_Suspend = False, tpl_Source = [], tpl_Container = None,
     tpl_NodeSelector = [], tpl_HostnameNotIn = [], tpl_Tolerations = [], tpl_PodSpecPatch = []\<rparr>"

record ConfigMap =
  cfm_Name :: string
  cfm_Namespace :: string
  cfm_Annotations :: smap
  cfm_Data :: smap

record Job =
  job_Name :: string
  job_Namespace :: string
  job_Owners :: "OwnerReference list"
  job_BackoffLimit :: int
  job_TTLSeconds :: int
  job_ServiceAccountName :: string
  job_RestartPolicy :: string
  job_Containers :: "Container list"
  job_ImagePullSecrets :: "LocalObjectReference list"
  job_Conditions :: "(string \<times> string \<times> string) list"

text \<open>The part of a Deployment or DaemonSet the manager updates: its pods' tolerations.\<close>

record Workload =
  wl_Name :: string
  wl_Namespace :: string
  wl_Tolerations :: "Toleration list"

end
