(* ===== verification/Operand_Types.thy ===== *)
theory Operand_Types
  imports Workflow_Types
begin

text \<open>
  The Kubernetes, KMM and Prometheus objects the operator deploys for a DeviceConfig: DaemonSets
  with their pod templates, the metrics Service, ServiceMonitor and Secret, and the KMM \<open>Module\<close>
  with its kernel mappings.  A record has the fields the sources set.  The remaining fields of a
  spec, which the sources leave unset and the API server fills with defaults, are one map
  \<open>_Unset\<close>: assigning a whole spec, as the sources do, clears it.
\<close>

section \<open>Pods\<close>

record VolumeMount =
  vm_Name :: string
  vm_MountPath :: string
  vm_ReadOnly :: bool

datatype VolumeSource =
    HostPathSource string "string option"
  | ConfigMapSource LocalObjectReference
  | SecretSource string

record Volume =
  vol_Name :: string
  vol_Source :: VolumeSource

datatype EnvSource = EnvValue string | EnvFieldRef string

record EnvVar =
  ev_Name :: string
  ev_Source :: EnvSource

record ContainerPort =
  cp_Name :: string
  cp_Protocol :: string
  cp_ContainerPort :: int

text \<open>The security context of a container, up to the fields the sources set.\<close>

record SecurityContext =
  sc_Privileged :: "bool option"
  sc_RunAsUser :: "int option"
  sc_AllowPrivilegeEscalation :: "bool option"

record ContainerSpec =
  k_Name :: string
  k_Image :: string
  k_Command :: "string list"
  k_Args :: "string list"
  k_WorkingDir :: string
  k_Env :: "EnvVar list"
  k_ImagePullPolicy :: string
  k_Security :: SecurityContext
  k_VolumeMounts :: "VolumeMount list"
  k_Ports :: "ContainerPort list"
  k_Resources :: ResourceRequirements

record PodSpec =
  ps_InitContainers :: "ContainerSpec list"
  ps_Containers :: "ContainerSpec list"
  ps_NodeName :: string
  ps_NodeSelector :: smap
  ps_ServiceAccountName :: string
  ps_PriorityClassName :: string
  ps_RestartPolicy :: string
  ps_Volumes :: "Volume list"
  ps_ImagePullSecrets :: "LocalObjectReference list"
  ps_Tolerations :: "Toleration list"
  ps_HostNetwork :: bool
  ps_TerminationGracePeriodSeconds :: "int option"

section \<open>DaemonSets\<close>

datatype UpdateStrategy = StrategyUnset | OnDelete | RollingUpdate int

record DaemonSetSpec =
  dss_MatchLabels :: smap
  dss_PodLabels :: smap
  dss_PodAnnotations :: smap
  dss_PodSpec :: PodSpec
  dss_UpdateStrategy :: UpdateStrategy
  dss_Unset :: smap

record DaemonSet =
  dset_Name :: string
  dset_Namespace :: string
  dset_Owners :: "OwnerReference list"
  dset_Generation :: int
  dset_Deleting :: bool
  dset_Spec :: DaemonSetSpec
  dset_NumberAvailable :: int
  dset_DesiredNumberScheduled :: int

text \<open>A pod the operator creates itself: a worker of the VFIO work.\<close>

record WorkerPod =
  wp_Name :: string
  wp_Namespace :: string
  wp_Labels :: smap
  wp_Owners :: "OwnerReference list"
  wp_Spec :: PodSpec

section \<open>Metrics objects\<close>

record ServicePort =
  sp_Name :: string
  sp_Protocol :: string
  sp_Port :: int
  sp_TargetPort :: int
  sp_NodePort :: int

record Service =
  svc_Name :: string
  svc_Namespace :: string
  svc_Labels :: smap
  svc_Annotations :: smap
  svc_Owners :: "OwnerReference list"
  svc_Selector :: smap
  svc_Type :: string
  svc_Ports :: "ServicePort list"
  svc_InternalTrafficPolicy :: "string option"
  svc_ExternalTrafficPolicy :: string
  svc_Unset :: smap

record Endpoint =
  ep_Port :: string
  ep_TargetPort :: int
  ep_RelabelConfigs :: "string list"
  ep_MetricRelabelConfigs :: "string list"
  ep_Interval :: string
  ep_HonorLabels :: bool
  ep_HonorTimestamps :: "bool option"
  ep_Scheme :: string
  ep_TLSConfig :: "string option"
  ep_BearerTokenFile :: string
  ep_Authorization :: "string option"

record ServiceMonitor =
  smo_Name :: string
  smo_Namespace :: string
  smo_Labels :: smap
  smo_Owners :: "OwnerReference list"
  smo_Selector :: smap
  smo_Endpoints :: "Endpoint list"
  smo_MatchNames :: "string list"
  smo_AttachMetadata :: "string option"
  smo_Unset :: smap

record Secret =
  sec_Name :: string
  sec_Namespace :: string
  sec_Owners :: "OwnerReference list"
  sec_StringData :: smap

record BuildConfigMap =
  bcm_Name :: string
  bcm_Namespace :: string
  bcm_Owners :: "OwnerReference list"
  bcm_Labels :: smap
  bcm_Data :: smap

section \<open>KMM modules\<close>

record TLSOptions =
  tlso_Insecure :: bool
  tlso_InsecureSkipTLSVerify :: bool

record KmmSign =
  sg_KeySecret :: LocalObjectReference
  sg_CertSecret :: LocalObjectReference
  sg_FilesToSign :: "string list"
  sg_UnsignedImageRegistryTLS :: TLSOptions

record KmmBuild =
  bd_DockerfileConfigMap :: LocalObjectReference
  bd_BuildArgs :: "(string \<times> string) list"
  bd_BaseImageRegistryTLS :: TLSOptions

record KernelMapping =
  kmp_Literal :: string
  kmp_ContainerImage :: string
  kmp_InTreeModuleToRemove :: string
  kmp_Build :: KmmBuild
  kmp_Sign :: "KmmSign option"
  kmp_RegistryTLS :: "TLSOptions option"

record ModprobeSpec =
  mp_ModuleName :: string
  mp_FirmwarePath :: string
  mp_LoadArgs :: "string list"
  mp_UnloadArgs :: "string list"
  mp_Parameters :: "string list"
  mp_ModulesLoadingOrder :: "string list"

record ModuleLoader =
  mld_Modprobe :: ModprobeSpec
  mld_Version :: string
  mld_KernelMappings :: "KernelMapping list"
  mld_ServiceAccountName :: string

record Module =
  mod_Name :: string
  mod_Namespace :: string
  mod_Owners :: "OwnerReference list"
  mod_Loader :: ModuleLoader
  mod_ImageRepoSecret :: "LocalObjectReference option"
  mod_Selector :: smap
  mod_Tolerations :: "Toleration list"
  mod_Status :: DeploymentStatus

section \<open>Zero values\<close>

definition noSecurity :: SecurityContext where
  "noSecurity = \<lparr>sc_Privileged = None, sc_RunAsUser = None, sc_AllowPrivilegeEscalation = None\<rparr>"

definition privileged :: SecurityContext where
  "privileged = noSecurity\<lparr>sc_Privileged := Some True\<rparr>"

definition noResources :: ResourceRequirements where
  "noResources = \<lparr>rr_Limits = [], rr_Requests = []\<rparr>"

definition zeroContainer :: ContainerSpec where
  "zeroContainer = \<lparr>k_Name = [], k_Image = [], k_Command = [], k_Args = [], k_WorkingDir = [],
     k_Env = [], k_ImagePullPolicy = [], k_Security = noSecurity, k_VolumeMounts = [],
     k_Ports = [], k_Resources = noResources\<rparr>"

definition zeroPodSpec :: PodSpec where
  "zeroPodSpec = \<lparr>ps_InitContainers = [], ps_Containers = [], ps_NodeName = [],
     ps_NodeSelector = [], ps_ServiceAccountName = [], ps_PriorityClassName = [],
     ps_RestartPolicy = [], ps_Volumes = [], ps_ImagePullSecrets = [], ps_Tolerations = [],
     ps_HostNetwork = False, ps_TerminationGracePeriodSeconds = None\<rparr>"

definition zeroDaemonSetSpec :: DaemonSetSpec where
  "zeroDaemonSetSpec = \<lparr>dss_MatchLabels = [], dss_PodLabels = [], dss_PodAnnotations = [],
     dss_PodSpec = zeroPodSpec, dss_UpdateStrategy = StrategyUnset, dss_Unset = []\<rparr>"

text \<open>Objects with only a name and a namespace, as a handler passes them to \<open>CreateOrPatch\<close>.\<close>

definition newDaemonSet :: "string \<Rightarrow> string \<Rightarrow> DaemonSet" where
  "newDaemonSet ns n = \<lparr>dset_Name = n, dset_Namespace = ns, dset_Owners = [], dset_Generation = 0,
     dset_Deleting = False, dset_Spec = zeroDaemonSetSpec, dset_NumberAvailable = 0,
     dset_DesiredNumberScheduled = 0\<rparr>"

definition newService :: "string \<Rightarrow> string \<Rightarrow> Service" where
  "newService ns n = \<lparr>svc_Name = n, svc_Namespace = ns, svc_Labels = [], svc_Annotations = [],
     svc_Owners = [], svc_Selector = [], svc_Type = [], svc_Ports = [],
     svc_InternalTrafficPolicy = None, svc_ExternalTrafficPolicy = [], svc_Unset = []\<rparr>"

definition newServiceMonitor :: "string \<Rightarrow> string \<Rightarrow> ServiceMonitor" where
  "newServiceMonitor ns n = \<lparr>smo_Name = n, smo_Namespace = ns, smo_Labels = [], smo_Owners = [],
     smo_Selector = [], smo_Endpoints = [], smo_MatchNames = [], smo_AttachMetadata = None,
     smo_Unset = []\<rparr>"

definition newSecret :: "string \<Rightarrow> string \<Rightarrow> Secret" where
  "newSecret ns n = \<lparr>sec_Name = n, sec_Namespace = ns, sec_Owners = [], sec_StringData = []\<rparr>"

definition newBuildConfigMap :: "string \<Rightarrow> string \<Rightarrow> BuildConfigMap" where
  "newBuildConfigMap ns n =
     \<lparr>bcm_Name = n, bcm_Namespace = ns, bcm_Owners = [], bcm_Labels = [], bcm_Data = []\<rparr>"

definition newModule :: "string \<Rightarrow> string \<Rightarrow> Module" where
  "newModule ns n = \<lparr>mod_Name = n, mod_Namespace = ns, mod_Owners = [],
     mod_Loader = \<lparr>mld_Modprobe = \<lparr>mp_ModuleName = [], mp_FirmwarePath = [], mp_LoadArgs = [],
         mp_UnloadArgs = [], mp_Parameters = [], mp_ModulesLoadingOrder = []\<rparr>,
       mld_Version = [], mld_KernelMappings = [], mld_ServiceAccountName = []\<rparr>,
     mod_ImageRepoSecret = None, mod_Selector = [], mod_Tolerations = [],
     mod_Status = \<lparr>dst_NodesMatchingSelectorNumber = 0, dst_DesiredNumber = 0,
       dst_AvailableNumber = 0\<rparr>\<rparr>"

end
