(* ===== verification/Cluster.thy ===== *)
theory Cluster
  imports Operand_Types
begin

text \<open>
  The Kubernetes API server and the clock, as the operator sees them.  They are not part of the
  repository, so they are a parameter: an \<open>apiserver\<close> record whose fields answer each call from
  the calls made before it.  Every theorem that does not assume more holds for every server,
  including one whose objects other clients change between two calls.  A component's state extends
  \<open>world\<close>, whose only field is the list of calls issued so far (newest first), and every call
  goes through one of the wrappers below, which record it.
\<close>

datatype kind =
    KNode | KPod | KNMC | KDeviceConfig | KConfigMap | KSecret | KService | KServiceMonitor
  | KDaemonSet | KDeployment | KModule | KJob | KWorkflow | KWorkflowTemplate
  | KRemediationWorkflowStatus | KServiceAccount | KDeviceClass | KCRD

datatype obj =
    ONode Node | OPod Pod | ODeviceConfig DeviceConfig | OConfigMap ConfigMap | OJob Job
  | OWorkflow Workflow | OWorkflowTemplate WorkflowTemplate | OWfStatus string wfstatus
  | OWorkload kind Workload | ONamed kind string string
  | ODaemonSet DaemonSet | OService Service | OServiceMonitor ServiceMonitor | OSecret Secret
  | OBuildConfigMap BuildConfigMap | OModule Module | OWorkerPod WorkerPod | ODeviceClass string

record DrainOptions =
  do_DisableEviction :: bool
  do_IgnoreAllDaemonSets :: bool
  do_GracePeriodSeconds :: int
  do_DeleteEmptyDirData :: bool
  do_Force :: bool
  do_Timeout :: int

text \<open>
  A call carries what it sends: \<open>CPatch new old\<close> is the merge patch from \<open>old\<close> to \<open>new\<close>,
  \<open>CPatchStatus\<close> the same on the status subresource, \<open>CList kind ns sel\<close> a list with a label
  selector (a namespace of \<open>None\<close> is all namespaces), \<open>CListOnNode\<close> one with the field selector
  \<open>spec.nodeName\<close> and \<open>CListExpr\<close> one with a selector expression.  \<open>CHTTP\<close> is a request to
  another server, with its method, \<open>CDiscover\<close> a query for a version of an API group.
\<close>

datatype call =
    CGet kind string string
  | CList kind "string option" smap
  | CListOnNode smap string
  | CListExpr kind string
  | CCreate obj
  | CPatch obj obj
  | CPatchStatus obj obj
  | CUpdate obj
  | CDelete kind string string
  | CDrain DrainOptions "Pod list"
  | CReadFile string
  | CHTTP string string
  | CRESTMapping
  | CDiscover string
  | CNow

record apiserver =
  o_node :: "call list \<Rightarrow> string \<Rightarrow> Node res"
  o_pod :: "call list \<Rightarrow> string \<Rightarrow> string \<Rightarrow> Pod res"
  o_nmc :: "call list \<Rightarrow> string \<Rightarrow> string \<Rightarrow> NMC res"
  o_dc :: "call list \<Rightarrow> string \<Rightarrow> string \<Rightarrow> DeviceConfig res"
  o_configmap :: "call list \<Rightarrow> string \<Rightarrow> string \<Rightarrow> ConfigMap res"
  o_job :: "call list \<Rightarrow> string \<Rightarrow> string \<Rightarrow> Job res"
  o_workflow :: "call list \<Rightarrow> string \<Rightarrow> string \<Rightarrow> Workflow res"
  o_wftemplate :: "call list \<Rightarrow> string \<Rightarrow> string \<Rightarrow> WorkflowTemplate res"
  o_wfstatus :: "call list \<Rightarrow> string \<Rightarrow> wfstatus option res"
  o_module :: "call list \<Rightarrow> string \<Rightarrow> string \<Rightarrow> Module res"
  o_daemonset :: "call list \<Rightarrow> string \<Rightarrow> string \<Rightarrow> DaemonSet res"
  o_service :: "call list \<Rightarrow> string \<Rightarrow> string \<Rightarrow> Service res"
  o_servicemonitor :: "call list \<Rightarrow> string \<Rightarrow> string \<Rightarrow> ServiceMonitor res"
  o_secret :: "call list \<Rightarrow> string \<Rightarrow> string \<Rightarrow> Secret res"
  o_buildcm :: "call list \<Rightarrow> string \<Rightarrow> string \<Rightarrow> BuildConfigMap res"
  o_workerpod :: "call list \<Rightarrow> string \<Rightarrow> string \<Rightarrow> WorkerPod res"
  o_exists :: "call list \<Rightarrow> kind \<Rightarrow> string \<Rightarrow> string \<Rightarrow> err"
  o_listPods :: "call list \<Rightarrow> call \<Rightarrow> Pod list res"
  o_listNodes :: "call list \<Rightarrow> smap \<Rightarrow> Node list res"
  o_listNodesExpr :: "call list \<Rightarrow> string \<Rightarrow> Node list res"
  o_parseSelector :: "string \<Rightarrow> bool"
  o_listDCs :: "call list \<Rightarrow> DeviceConfig list res"
  o_listWorkflows :: "call list \<Rightarrow> string \<Rightarrow> Workflow list res"
  o_listNames :: "call list \<Rightarrow> kind \<Rightarrow> string \<Rightarrow> string list res"
  o_listWorkloads :: "call list \<Rightarrow> kind \<Rightarrow> string \<Rightarrow> smap \<Rightarrow> Workload list res"
  o_createWorkflow :: "call list \<Rightarrow> Workflow \<Rightarrow> string res"
  o_write :: "call list \<Rightarrow> call \<Rightarrow> err"
  o_readFile :: "string \<Rightarrow> string option"
  o_getenv :: "string \<Rightarrow> string option"
  o_discover :: "call list \<Rightarrow> string \<Rightarrow> err"
  o_yaml :: "string \<Rightarrow> ConditionWorkflowMapping list option"
  o_now :: "call list \<Rightarrow> int"

record world =
  hist :: "call list"

section \<open>Call wrappers\<close>

definition logCall :: "call \<Rightarrow> 'a world_scheme \<Rightarrow> 'a world_scheme" where
  "logCall c s = s\<lparr>hist := c # hist s\<rparr>"

lemma hist_logCall [simp]: "hist (logCall c s) = c # hist s"
  by (simp add: logCall_def)

definition getNode :: "'e apiserver_scheme \<Rightarrow> string \<Rightarrow> 'a world_scheme \<Rightarrow> Node res \<times> 'a world_scheme" where
  "getNode api n s = (o_node api (hist s) n, logCall (CGet KNode [] n) s)"

definition getPod :: "'e apiserver_scheme \<Rightarrow> string \<Rightarrow> string \<Rightarrow> 'a world_scheme \<Rightarrow> Pod res \<times> 'a world_scheme" where
  "getPod api ns n s = (o_pod api (hist s) ns n, logCall (CGet KPod ns n) s)"

definition getNMC :: "'e apiserver_scheme \<Rightarrow> string \<Rightarrow> string \<Rightarrow> 'a world_scheme \<Rightarrow> NMC res \<times> 'a world_scheme" where
  "getNMC api ns n s = (o_nmc api (hist s) ns n, logCall (CGet KNMC ns n) s)"

definition getDC :: "'e apiserver_scheme \<Rightarrow> string \<Rightarrow> string \<Rightarrow> 'a world_scheme \<Rightarrow> DeviceConfig res \<times> 'a world_scheme" where
  "getDC api ns n s = (o_dc api (hist s) ns n, logCall (CGet KDeviceConfig ns n) s)"

definition getConfigMapObj :: "'e apiserver_scheme \<Rightarrow> string \<Rightarrow> string \<Rightarrow> 'a world_scheme \<Rightarrow> ConfigMap res \<times> 'a world_scheme" where
  "getConfigMapObj api ns n s = (o_configmap api (hist s) ns n, logCall (CGet KConfigMap ns n) s)"

definition getJob :: "'e apiserver_scheme \<Rightarrow> string \<Rightarrow> string \<Rightarrow> 'a world_scheme \<Rightarrow> Job res \<times> 'a world_scheme" where
  "getJob api ns n s = (o_job api (hist s) ns n, logCall (CGet KJob ns n) s)"

definition getWorkflow :: "'e apiserver_scheme \<Rightarrow> string \<Rightarrow> string \<Rightarrow> 'a world_scheme \<Rightarrow> Workflow res \<times> 'a world_scheme" where
  "getWorkflow api ns n s = (o_workflow api (hist s) ns n, logCall (CGet KWorkflow ns n) s)"

definition getWfTemplate :: "'e apiserver_scheme \<Rightarrow> string \<Rightarrow> string \<Rightarrow> 'a world_scheme \<Rightarrow> WorkflowTemplate res \<times> 'a world_scheme" where
  "getWfTemplate api ns n s = (o_wftemplate api (hist s) ns n, logCall (CGet KWorkflowTemplate ns n) s)"

definition getWfStatus :: "'e apiserver_scheme \<Rightarrow> string \<Rightarrow> 'a world_scheme \<Rightarrow> wfstatus option res \<times> 'a world_scheme" where
  "getWfStatus api ns s =
     (o_wfstatus api (hist s) ns, logCall (CGet KRemediationWorkflowStatus ns ''default'') s)"

definition getModule :: "'e apiserver_scheme \<Rightarrow> string \<Rightarrow> string \<Rightarrow> 'a world_scheme \<Rightarrow> Module res \<times> 'a world_scheme" where
  "getModule api ns n s = (o_module api (hist s) ns n, logCall (CGet KModule ns n) s)"

definition getDaemonSet :: "'e apiserver_scheme \<Rightarrow> string \<Rightarrow> string \<Rightarrow> 'a world_scheme \<Rightarrow> DaemonSet res \<times> 'a world_scheme" where
  "getDaemonSet api ns n s = (o_daemonset api (hist s) ns n, logCall (CGet KDaemonSet ns n) s)"

definition getService :: "'e apiserver_scheme \<Rightarrow> string \<Rightarrow> string \<Rightarrow> 'a world_scheme \<Rightarrow> Service res \<times> 'a world_scheme" where
  "getService api ns n s = (o_service api (hist s) ns n, logCall (CGet KService ns n) s)"

definition getServiceMonitor :: "'e apiserver_scheme \<Rightarrow> string \<Rightarrow> string \<Rightarrow> 'a world_scheme \<Rightarrow> ServiceMonitor res \<times> 'a world_scheme" where
  "getServiceMonitor api ns n s = (o_servicemonitor api (hist s) ns n, logCall (CGet KServiceMonitor ns n) s)"

definition getSecret :: "'e apiserver_scheme \<Rightarrow> string \<Rightarrow> string \<Rightarrow> 'a world_scheme \<Rightarrow> Secret res \<times> 'a world_scheme" where
  "getSecret api ns n s = (o_secret api (hist s) ns n, logCall (CGet KSecret ns n) s)"

definition getBuildCM :: "'e apiserver_scheme \<Rightarrow> string \<Rightarrow> string \<Rightarrow> 'a world_scheme \<Rightarrow> BuildConfigMap res \<times> 'a world_scheme" where
  "getBuildCM api ns n s = (o_buildcm api (hist s) ns n, logCall (CGet KConfigMap ns n) s)"

definition getWorker :: "'e apiserver_scheme \<Rightarrow> string \<Rightarrow> string \<Rightarrow> 'a world_scheme \<Rightarrow> WorkerPod res \<times> 'a world_scheme" where
  "getWorker api ns n s = (o_workerpod api (hist s) ns n, logCall (CGet KPod ns n) s)"

definition existsObj :: "'e apiserver_scheme \<Rightarrow> kind \<Rightarrow> string \<Rightarrow> string \<Rightarrow> 'a world_scheme \<Rightarrow> err \<times> 'a world_scheme" where
  "existsObj api k ns n s = (o_exists api (hist s) k ns n, logCall (CGet k ns n) s)"

definition listPods :: "'e apiserver_scheme \<Rightarrow> call \<Rightarrow> 'a world_scheme \<Rightarrow> Pod list res \<times> 'a world_scheme" where
  "listPods api c s = (o_listPods api (hist s) c, logCall c s)"

definition listNodes :: "'e apiserver_scheme \<Rightarrow> smap \<Rightarrow> 'a world_scheme \<Rightarrow> Node list res \<times> 'a world_scheme" where
  "listNodes api sel s = (o_listNodes api (hist s) sel, logCall (CList KNode None sel) s)"

definition listNodesExpr :: "'e apiserver_scheme \<Rightarrow> string \<Rightarrow> 'a world_scheme \<Rightarrow> Node list res \<times> 'a world_scheme" where
  "listNodesExpr api e s = (o_listNodesExpr api (hist s) e, logCall (CListExpr KNode e) s)"

definition listDCs :: "'e apiserver_scheme \<Rightarrow> 'a world_scheme \<Rightarrow> DeviceConfig list res \<times> 'a world_scheme" where
  "listDCs api s = (o_listDCs api (hist s), logCall (CList KDeviceConfig None []) s)"

definition listWorkflows :: "'e apiserver_scheme \<Rightarrow> string \<Rightarrow> smap \<Rightarrow> 'a world_scheme \<Rightarrow> Workflow list res \<times> 'a world_scheme" where
  "listWorkflows api ns sel s = (o_listWorkflows api (hist s) ns, logCall (CList KWorkflow (Some ns) sel) s)"

definition listNames :: "'e apiserver_scheme \<Rightarrow> kind \<Rightarrow> string \<Rightarrow> 'a world_scheme \<Rightarrow> string list res \<times> 'a world_scheme" where
  "listNames api k ns s = (o_listNames api (hist s) k ns, logCall (CList k (Some ns) []) s)"

definition listWorkloads :: "'e apiserver_scheme \<Rightarrow> kind \<Rightarrow> string \<Rightarrow> smap \<Rightarrow> 'a world_scheme \<Rightarrow> Workload list res \<times> 'a world_scheme" where
  "listWorkloads api k ns sel s = (o_listWorkloads api (hist s) k ns sel, logCall (CList k (Some ns) sel) s)"

definition createWf :: "'e apiserver_scheme \<Rightarrow> Workflow \<Rightarrow> 'a world_scheme \<Rightarrow> string res \<times> 'a world_scheme" where
  "createWf api w s = (o_createWorkflow api (hist s) w, logCall (CCreate (OWorkflow w)) s)"

definition writeObj :: "'e apiserver_scheme \<Rightarrow> call \<Rightarrow> 'a world_scheme \<Rightarrow> err \<times> 'a world_scheme" where
  "writeObj api c s = (o_write api (hist s) c, logCall c s)"

definition timeNow :: "'e apiserver_scheme \<Rightarrow> 'a world_scheme \<Rightarrow> int \<times> 'a world_scheme" where
  "timeNow api s = (o_now api (hist s), logCall CNow s)"

definition readFile :: "'e apiserver_scheme \<Rightarrow> string \<Rightarrow> 'a world_scheme \<Rightarrow> string option \<times> 'a world_scheme" where
  "readFile api f s = (o_readFile api f, logCall (CReadFile f) s)"

definition discover :: "'e apiserver_scheme \<Rightarrow> string \<Rightarrow> 'a world_scheme \<Rightarrow> err \<times> 'a world_scheme" where
  "discover api v s = (o_discover api (hist s) v, logCall (CDiscover v) s)"

lemmas call_defs = getNode_def getPod_def getNMC_def getDC_def getConfigMapObj_def getJob_def
  getWorkflow_def getWfTemplate_def getWfStatus_def getModule_def getDaemonSet_def
  getService_def getServiceMonitor_def getSecret_def getBuildCM_def getWorker_def listNodesExpr_def
  discover_def existsObj_def listPods_def
  listNodes_def listDCs_def listWorkflows_def listNames_def listWorkloads_def createWf_def
  writeObj_def timeNow_def readFile_def

section \<open>Which calls a computation issues\<close>

text \<open>
  \<open>issued s t\<close> are the calls between two states, newest first.  \<open>extends s t\<close> says that the log of
  \<open>t\<close> is a continuation of that of \<open>s\<close>: no wrapper ever forgets a call.
\<close>

definition extends :: "'a world_scheme \<Rightarrow> 'b world_scheme \<Rightarrow> bool" where
  "extends s t \<longleftrightarrow> suffix (hist s) (hist t)"

definition issued :: "'a world_scheme \<Rightarrow> 'b world_scheme \<Rightarrow> call list" where
  "issued s t = take (length (hist t) - length (hist s)) (hist t)"

lemma extends_refl [simp]: "extends s s"
  by (simp add: extends_def)

lemma extends_trans: "extends s t \<Longrightarrow> extends t u \<Longrightarrow> extends s u"
  by (auto simp: extends_def intro: suffix_order.trans)

lemma issued_refl [simp]: "issued s s = []"
  by (simp add: issued_def)

lemma issued_append:
  assumes "hist t = cs @ hist s"
  shows "issued s t = cs"
  using assms by (simp add: issued_def)

definition isWrite :: "call \<Rightarrow> bool" where
  "isWrite c = (case c of CCreate _ \<Rightarrow> True | CPatch _ _ \<Rightarrow> True | CPatchStatus _ _ \<Rightarrow> True
     | CUpdate _ \<Rightarrow> True | CDelete _ _ _ \<Rightarrow> True | CDrain _ _ \<Rightarrow> True | _ \<Rightarrow> False)"

definition writesOf :: "call list \<Rightarrow> call list" where
  "writesOf cs = filter isWrite cs"

end
