(* ===== verification/Driver_Utils.thy ===== *)
theory Driver_Utils
  imports Cluster
begin

text \<open>
  \<open>src/internal/utils.go\<close>: the node labels the operator owns, the default driver version of an OS
  image, the driver types, and the label templates with their inverse.  Go's \<open>range\<close> over the table
  of OS mappers visits it in an unspecified order, so the table is an argument of
  \<open>GetDefaultDriversVersion\<close>.
\<close>

section \<open>Constants\<close>

definition DriverTypeContainer :: string where "DriverTypeContainer = ''container''"
definition DriverTypeVFPassthrough :: string where "DriverTypeVFPassthrough = ''vf-passthrough''"
definition DriverTypePFPassthrough :: string where "DriverTypePFPassthrough = ''pf-passthrough''"

lemmas driver_types = DriverTypeContainer_def DriverTypeVFPassthrough_def DriverTypePFPassthrough_def

definition defaultOcDriversVersion :: string where "defaultOcDriversVersion = ''6.2.2''"

section \<open>Node labeller labels\<close>

definition nodeLabellerKinds :: "string list" where
  "nodeLabellerKinds = [''firmware'', ''family'', ''driver-version'', ''driver-src-version'',
     ''device-id'', ''product-name'', ''vram'', ''simd-count'', ''cu-count'']"

definition createLabelPrefix :: "string \<Rightarrow> bool \<Rightarrow> string" where
  "createLabelPrefix name experimental =
     (if experimental then ''beta.amd.com'' else ''amd.com'') @ ''/gpu.'' @ name"

definition allAMDComLabels :: "string list" where
  "allAMDComLabels = map (\<lambda>n. createLabelPrefix n False) nodeLabellerKinds
     @ [''amd.com/compute-partitioning-supported'', ''amd.com/memory-partitioning-supported'',
        ''amd.com/compute-memory-partition'']"

definition allBetaAMDComLabels :: "string list" where
  "allBetaAMDComLabels = map (\<lambda>n. createLabelPrefix n True) nodeLabellerKinds"

fun removePlainLabels :: "string list \<Rightarrow> smap \<Rightarrow> bool \<Rightarrow> bool \<times> smap" where
  "removePlainLabels [] m updated = (updated, m)"
| "removePlainLabels (l # ls) m updated =
     (if hasKey m l then removePlainLabels ls (remove l m) True
      else removePlainLabels ls m updated)"

fun removeCounterLabels :: "string list \<Rightarrow> smap \<Rightarrow> bool \<Rightarrow> bool \<times> smap" where
  "removeCounterLabels [] m updated = (updated, m)"
| "removeCounterLabels (l # ls) m updated =
     (case lookup m l of
        None \<Rightarrow> removeCounterLabels ls m updated
      | Some v \<Rightarrow> removeCounterLabels ls (remove (l @ ''.'' @ v) (remove l m)) True)"

definition RemoveOldNodeLabels :: "Node \<Rightarrow> bool \<times> Node" where
  "RemoveOldNodeLabels node =
     (case removePlainLabels allAMDComLabels (n_Labels node) False of (u1, m1) \<Rightarrow>
      case removeCounterLabels allBetaAMDComLabels m1 u1 of (u2, m2) \<Rightarrow>
        (u2, node\<lparr>n_Labels := m2\<rparr>))"

section \<open>Default driver versions\<close>

text \<open>The first occurrence of a pattern: what follows it.\<close>

fun afterFirst :: "string \<Rightarrow> string \<Rightarrow> string option" where
  "afterFirst [] p = (if p = [] then Some [] else None)"
| "afterFirst (c # s) p =
     (if hasPrefix (c # s) p then Some (drop (length p) (c # s)) else afterFirst s p)"

text \<open>The submatch of \<open>22\.04(?:\.(\d+))?\<close>: the digits of the patch level, empty without one.\<close>

definition ubuntuPatch :: "string \<Rightarrow> string" where
  "ubuntuPatch s =
     (case afterFirst s ''22.04'' of
        None \<Rightarrow> []
      | Some r \<Rightarrow> (case r of c # ds \<Rightarrow> if c = CHR ''.'' then takeWhile isDigit ds else [] | [] \<Rightarrow> []))"

definition UbuntuDefaultDriverVersionsMapper :: "string \<Rightarrow> string + string" where
  "UbuntuDefaultDriverVersionsMapper s =
     (if containsStr s ''20.04'' then Inr ''6.1.3''
      else if containsStr s ''22.04'' then
        (let d = ubuntuPatch s in
         if d = [] then Inr ''6.1.3''
         else case atoi d of
           None \<Rightarrow> Inl (''failed to parse patch version from '' @ s)
         | Some p \<Rightarrow> if p \<ge> 5 then Inr ''6.3.3'' else Inr ''6.1.3'')
      else if containsStr s ''24.04'' then Inr ''6.3.3''
      else Inl (''unsupported Ubuntu version: '' @ s))"

definition isSpace :: "char \<Rightarrow> bool" where
  "isSpace c = (c \<in> {CHR '' '', CHR 0x09, CHR 0x0A, CHR 0x0C, CHR 0x0D})"

text \<open>
  \<open>(\d+)\s*-?\s*sp(\d+)\<close> and \<open>(\d+)\.(\d+)\<close>, tried at every position from the left.  A run of digits is
  taken whole: a shorter run would have to be followed by a digit where neither pattern has one.
\<close>

definition matchSP :: "string \<Rightarrow> (string \<times> string) option" where
  "matchSP s =
     (let (d1, r1) = spanDigits s;
          r2 = dropWhile isSpace r1;
          r3 = (case r2 of c # t \<Rightarrow> if c = CHR ''-'' then dropWhile isSpace t else r2 | [] \<Rightarrow> []);
          d2 = takeWhile isDigit (drop 2 r3)
      in if d1 \<noteq> [] \<and> hasPrefix r3 ''sp'' \<and> d2 \<noteq> [] then Some (d1, d2) else None)"

definition matchMajorMinor :: "string \<Rightarrow> (string \<times> string) option" where
  "matchMajorMinor s =
     (let (d1, r1) = spanDigits s; d2 = takeWhile isDigit (drop 1 r1)
      in if d1 \<noteq> [] \<and> hasPrefix r1 ''.'' \<and> d2 \<noteq> [] then Some (d1, d2) else None)"

fun findMatch :: "(string \<Rightarrow> 'a option) \<Rightarrow> string \<Rightarrow> 'a option" where
  "findMatch m [] = m []"
| "findMatch m (c # s) = (case m (c # s) of Some r \<Rightarrow> Some r | None \<Rightarrow> findMatch m s)"

definition slesCodestream :: "string \<Rightarrow> string" where
  "slesCodestream osImage =
     (let lower = toLower osImage in
      case findMatch matchSP lower of
        Some (a, b) \<Rightarrow> a @ ''.'' @ b
      | None \<Rightarrow> (case findMatch matchMajorMinor lower of
          Some (a, b) \<Rightarrow> a @ ''.'' @ b
        | None \<Rightarrow> []))"

definition slesDefaultDriverVersions :: smap where
  "slesDefaultDriverVersions = [(''15.7'', ''31.30''), (''16.0'', ''31.30'')]"

definition SLESDefaultDriverVersionsMapper :: "string \<Rightarrow> string + string" where
  "SLESDefaultDriverVersionsMapper s =
     (let lower = toLower s;
          cs = (case findMatch matchSP lower of
                  Some (a, b) \<Rightarrow> a @ ''.'' @ b
                | None \<Rightarrow> (case findMatch matchMajorMinor lower of
                    Some (a, b) \<Rightarrow> a @ ''.'' @ b
                  | None \<Rightarrow> []))
      in if cs \<noteq> [] then
           (case lookup slesDefaultDriverVersions cs of
              Some v \<Rightarrow> Inr v
            | None \<Rightarrow> Inl (''unsupported SLES version '' @ s))
         else Inl (''unsupported SLES version '' @ s))"

type_synonym mapper = "string \<Rightarrow> string + string"

definition defaultDriverversionsMappers :: "mapper gomap" where
  "defaultDriverversionsMappers =
     [(''ubuntu'', UbuntuDefaultDriverVersionsMapper),
      (''rhel'', \<lambda>_. Inr defaultOcDriversVersion),
      (''redhat'', \<lambda>_. Inr defaultOcDriversVersion),
      (''red hat'', \<lambda>_. Inr defaultOcDriversVersion),
      (''sles'', SLESDefaultDriverVersionsMapper),
      (''suse'', SLESDefaultDriverVersionsMapper)]"

fun firstMapper :: "mapper gomap \<Rightarrow> string \<Rightarrow> string + string" where
  "firstMapper [] s = Inl (''OS: '' @ s @ '' not supported'')"
| "firstMapper ((os, mapper) # ms) s = (if containsStr s os then mapper s else firstMapper ms s)"

definition GetDefaultDriversVersion :: "mapper gomap \<Rightarrow> Node \<Rightarrow> string + string" where
  "GetDefaultDriversVersion mappers node = firstMapper mappers (toLower (n_OSImage node))"

text \<open>
  The error of \<open>GetDefaultDriversVersion\<close> is assigned to a variable declared inside the \<open>else\<close>
  block, which shadows the function's own; the one returned is never set.
\<close>

definition GetDriverVersion :: "mapper gomap \<Rightarrow> Node \<Rightarrow> DeviceConfig \<Rightarrow> string \<times> string option" where
  "GetDriverVersion mappers node dc =
     (if d_Version (driver dc) \<noteq> [] then (d_Version (driver dc), None)
      else case GetDefaultDriversVersion mappers node of
        Inr v \<Rightarrow> (v, None)
      | Inl e \<Rightarrow> ([], None))"

section \<open>Driver types and label templates\<close>

definition HasNodeLabelKey :: "Node \<Rightarrow> string \<Rightarrow> bool" where
  "HasNodeLabelKey node key = list_ex (\<lambda>(k, v). k = key) (n_Labels node)"

definition hasOpenShiftLabel :: "Node list \<Rightarrow> bool" where
  "hasOpenShiftLabel nodes = list_ex (\<lambda>n. hasKey (n_Labels n) ''node.openshift.io/os_id'') nodes"

definition IsPrometheusServiceMonitorEnable :: "DeviceConfig \<Rightarrow> bool" where
  "IsPrometheusServiceMonitorEnable dc =
     (case me_Prometheus (s_MetricsExporter (dc_Spec dc)) of
        None \<Rightarrow> False
      | Some p \<Rightarrow> (case pr_ServiceMonitor p of None \<Rightarrow> False | Some m \<Rightarrow> isTrue (sm_Enable m)))"

definition GetDriverTypeTag :: "DeviceConfig \<Rightarrow> string" where
  "GetDriverTypeTag dc =
     (let t = d_DriverType (driver dc) in
      if t = DriverTypeVFPassthrough \<or> t = DriverTypePFPassthrough then ''-'' @ t else [])"

definition ShouldUseKMM :: "DeviceConfig option \<Rightarrow> bool" where
  "ShouldUseKMM dco =
     (case dco of
        None \<Rightarrow> False
      | Some dc \<Rightarrow>
          if isTrue (d_Enable (driver dc))
          then d_DriverType (driver dc) \<noteq> DriverTypePFPassthrough
          else False)"

text \<open>
  A label template is a format with two \<open>%v\<close> verbs, \<open>pre %v . %v suf\<close>.  \<open>applyTemplate\<close> is \<open>Sprintf\<close>;
  \<open>matchTemplate\<close> is the anchored pattern \<open>^pre([^.]+)\.(.+)suf$\<close> that \<open>generateRegexPattern\<close> makes
  of it.
\<close>

type_synonym template = "string \<times> string"

definition VFIOMountReadyLabelTemplate :: template where
  "VFIOMountReadyLabelTemplate = (''gpu.operator.amd.com/'', ''.vfio.ready'')"

definition DriverTypeNodeLabelTemplate :: template where
  "DriverTypeNodeLabelTemplate = (''gpu.operator.amd.com/'', ''.driver'')"

definition applyTemplate :: "template \<Rightarrow> string \<Rightarrow> string \<Rightarrow> string" where
  "applyTemplate tp ns n = fst tp @ ns @ ''.'' @ n @ snd tp"

definition matchTemplate :: "template \<Rightarrow> string \<Rightarrow> (string \<times> string) option" where
  "matchTemplate tp key =
     (if hasPrefix key (fst tp) then
        (let body = drop (length (fst tp)) key;
             ns = takeWhile (\<lambda>c. c \<noteq> CHR ''.'') body;
             rest = dropWhile (\<lambda>c. c \<noteq> CHR ''.'') body
         in if ns \<noteq> [] \<and> rest \<noteq> [] \<and> hasSuffix (tl rest) (snd tp) then
              (let n = trimSuffix (tl rest) (snd tp) in
               if n \<noteq> [] \<and> CHR 0x0A \<notin> set n then Some (ns, n) else None)
            else None)
      else None)"

fun HasNodeLabelTemplateMatch :: "smap \<Rightarrow> template \<Rightarrow> bool \<times> string \<times> string \<times> string" where
  "HasNodeLabelTemplateMatch [] tp = (False, [], [], [])"
| "HasNodeLabelTemplateMatch ((key, v) # m) tp =
     (case matchTemplate tp key of
        Some (ns, n) \<Rightarrow> (True, key, ns, n)
      | None \<Rightarrow> HasNodeLabelTemplateMatch m tp)"

definition GetDriverTypeNodeLabel :: "DeviceConfig \<Rightarrow> string" where
  "GetDriverTypeNodeLabel dc = applyTemplate DriverTypeNodeLabelTemplate (dc_Namespace dc) (dc_Name dc)"

text \<open>
  The patches of \<open>UpdateDriverTypeNodeLabel\<close> and the joined errors.  Labels are changed in the map
  that the caller's node list shares, so the nodes are returned as well.
\<close>

fun updateDriverTypeLabels ::
  "'e apiserver_scheme \<Rightarrow> DeviceConfig \<Rightarrow> bool \<Rightarrow> Node list \<Rightarrow> 'a world_scheme
     \<Rightarrow> (kerr list \<times> Node list) \<times> 'a world_scheme" where
  "updateDriverTypeLabels api dc cleanup [] s = (([], []), s)"
| "updateDriverTypeLabels api dc cleanup (node # nodes) s =
     (let key = GetDriverTypeNodeLabel dc;
          skip = (if cleanup then \<not> hasKey (n_Labels node) key
                  else lookup (n_Labels node) key = Some (d_DriverType (driver dc)));
          node' = (if cleanup then node\<lparr>n_Labels := remove key (n_Labels node)\<rparr>
                   else node\<lparr>n_Labels := store key (d_DriverType (driver dc)) (n_Labels node)\<rparr>)
      in if skip then
           (case updateDriverTypeLabels api dc cleanup nodes s of ((es, ns), s1) \<Rightarrow> ((es, node # ns), s1))
         else
           (case writeObj api (CPatch (ONode node') (ONode node)) s of (e, s1) \<Rightarrow>
            case updateDriverTypeLabels api dc cleanup nodes s1 of ((es, ns), s2) \<Rightarrow>
              ((case e of None \<Rightarrow> es | Some x \<Rightarrow> x # es, node' # ns), s2)))"

definition UpdateDriverTypeNodeLabel ::
  "'e apiserver_scheme \<Rightarrow> DeviceConfig option \<Rightarrow> Node list option \<Rightarrow> bool \<Rightarrow> 'a world_scheme
     \<Rightarrow> (kerr list \<times> Node list) \<times> 'a world_scheme" where
  "UpdateDriverTypeNodeLabel api dco nodeso cleanup s =
     (case dco of
        None \<Rightarrow> (([OtherErr ''received nil DeviceConfig''], case nodeso of None \<Rightarrow> [] | Some ns \<Rightarrow> ns), s)
      | Some dc \<Rightarrow> (case nodeso of
          None \<Rightarrow> (([OtherErr ''received nil node list''], []), s)
        | Some nodes \<Rightarrow>
            if isTrue (d_Enable (driver dc)) then updateDriverTypeLabels api dc cleanup nodes s
            else (([], nodes), s)))"

section \<open>Removal of node labeller labels\<close>

lemma removePlainLabels_lookup:
  "removePlainLabels ls m u = (u', m') \<Longrightarrow>
     lookup m' k = (if k \<in> set ls then None else lookup m k)"
  by (induction ls m u rule: removePlainLabels.induct)
    (auto simp: hasKey_def split: if_splits)

lemma removePlainLabels_flag:
  "removePlainLabels ls m u = (u', m') \<Longrightarrow> u' \<longleftrightarrow> u \<or> (\<exists>l \<in> set ls. hasKey m l)"
proof (induction ls m u rule: removePlainLabels.induct)
  case (1 m u)
  then show ?case by simp
next
  case (2 l ls m u)
  then show ?case by (cases "hasKey m l") (auto simp: hasKey_def)
qed

text \<open>A counter label is a labeller label followed by a dot and the value it had.\<close>

definition counterOf :: "string list \<Rightarrow> string \<Rightarrow> bool" where
  "counterOf ls k \<longleftrightarrow> (\<exists>l \<in> set ls. \<exists>v. k = l @ ''.'' @ v)"

lemma removeCounterLabels_None:
  "removeCounterLabels ls m u = (u', m') \<Longrightarrow> lookup m k = None \<Longrightarrow> lookup m' k = None"
  by (induction ls m u rule: removeCounterLabels.induct) (auto split: option.splits)

lemma removeCounterLabels_removed:
  "removeCounterLabels ls m u = (u', m') \<Longrightarrow> k \<in> set ls \<Longrightarrow> lookup m' k = None"
proof (induction ls m u rule: removeCounterLabels.induct)
  case (1 m u)
  then show ?case by simp
next
  case (2 l ls m u)
  show ?case
  proof (cases "lookup m l")
    case None
    with 2 show ?thesis by (auto intro: removeCounterLabels_None)
  next
    case (Some v)
    with 2 show ?thesis by (auto intro: removeCounterLabels_None)
  qed
qed

lemma removeCounterLabels_counter:
  "removeCounterLabels ls m u = (u', m') \<Longrightarrow> distinct ls \<Longrightarrow> (\<forall>a \<in> set ls. \<not> counterOf ls a) \<Longrightarrow>
     l \<in> set ls \<Longrightarrow> lookup m l = Some v \<Longrightarrow> lookup m' (l @ ''.'' @ v) = None"
proof (induction ls m u rule: removeCounterLabels.induct)
  case (1 m u)
  then show ?case by simp
next
  case (2 h ls m u)
  from "2.prems"(3) have nc: "\<forall>a \<in> set ls. \<not> counterOf ls a" by (auto simp: counterOf_def)
  show ?case
  proof (cases "lookup m h")
    case None
    with 2 nc show ?thesis by auto
  next
    case (Some w)
    let ?m = "remove (h @ ''.'' @ w) (remove h m)"
    from "2.prems"(1) Some have run: "removeCounterLabels ls ?m True = (u', m')" by simp
    show ?thesis
    proof (cases "l = h")
      case True
      with Some "2.prems"(5) have "w = v" by simp
      with True run show ?thesis by (auto intro: removeCounterLabels_None)
    next
      case False
      with "2.prems" have "l \<in> set ls" by auto
      moreover have "l \<noteq> h @ ''.'' @ w" using "2.prems"(3,4) by (auto simp: counterOf_def)
      ultimately show ?thesis using "2.IH"(2) [OF Some run _ nc] "2.prems"(2,5) False by simp
    qed
  qed
qed

lemma removeCounterLabels_kept:
  "removeCounterLabels ls m u = (u', m') \<Longrightarrow> k \<notin> set ls \<Longrightarrow> \<not> counterOf ls k \<Longrightarrow>
     lookup m' k = lookup m k"
  by (induction ls m u rule: removeCounterLabels.induct)
    (auto simp: counterOf_def split: option.splits)

lemma removeCounterLabels_flag:
  "removeCounterLabels ls m u = (u', m') \<Longrightarrow> u \<Longrightarrow> u'"
  by (induction ls m u rule: removeCounterLabels.induct) (auto split: option.splits)

lemma removeCounterLabels_unchanged:
  "removeCounterLabels ls m u = (False, m') \<Longrightarrow> m' = m \<and> \<not> u \<and> (\<forall>l \<in> set ls. lookup m l = None)"
proof (induction ls m u rule: removeCounterLabels.induct)
  case (1 m u)
  then show ?case by simp
next
  case (2 l ls m u)
  then show ?case
    by (cases "lookup m l") (auto dest: removeCounterLabels_flag)
qed

lemma removePlainLabels_unchanged:
  "removePlainLabels ls m u = (False, m') \<Longrightarrow> m' = m \<and> \<not> u \<and> (\<forall>l \<in> set ls. \<not> hasKey m l)"
proof (induction ls m u rule: removePlainLabels.induct)
  case (1 m u)
  then show ?case by simp
next
  case (2 l ls m u)
  then show ?case by (cases "hasKey m l") (auto dest: removePlainLabels_flag)
qed

lemma betaLabels_shape:
  "distinct allBetaAMDComLabels" "\<forall>a \<in> set allBetaAMDComLabels. \<not> counterOf allBetaAMDComLabels a"
  by (auto simp: allBetaAMDComLabels_def nodeLabellerKinds_def createLabelPrefix_def counterOf_def)

section \<open>Label templates\<close>

lemma matchTemplate_applyTemplate:
  assumes "ns \<noteq> []" and "CHR ''.'' \<notin> set ns" and "n \<noteq> []" and "CHR 0x0A \<notin> set n"
  shows "matchTemplate tp (applyTemplate tp ns n) = Some (ns, n)"
proof -
  let ?p = "\<lambda>c. c \<noteq> CHR ''.''"
  have "takeWhile ?p (ns @ ''.'' @ n @ snd tp) = ns"
    and "dropWhile ?p (ns @ ''.'' @ n @ snd tp) = CHR ''.'' # n @ snd tp"
    using assms(2) by (induction ns) auto
  then show ?thesis
    using assms by (simp add: matchTemplate_def applyTemplate_def trimSuffix_def)
qed

lemma matchTemplate_inverse:
  assumes "matchTemplate tp key = Some (ns, n)"
  shows "key = applyTemplate tp ns n"
proof -
  let ?body = "drop (length (fst tp)) key"
  let ?rest = "dropWhile (\<lambda>c. c \<noteq> CHR ''.'') ?body"
  from assms have pre: "hasPrefix key (fst tp)" and ns: "ns = takeWhile (\<lambda>c. c \<noteq> CHR ''.'') ?body"
    and rest: "?rest \<noteq> []" and suf: "hasSuffix (tl ?rest) (snd tp)"
    and n: "n = trimSuffix (tl ?rest) (snd tp)"
    by (auto simp: matchTemplate_def Let_def split: if_splits)
  from pre have key: "key = fst tp @ ?body" by (metis append_take_drop_id hasPrefix_def)
  from hd_dropWhile [OF rest] have "hd ?rest = CHR ''.''" by simp
  with rest have r: "?rest = CHR ''.'' # tl ?rest" by (metis list.collapse)
  from suf n have "tl ?rest = n @ snd tp" by (simp add: trimSuffix_append)
  with r ns have "?body = ns @ CHR ''.'' # n @ snd tp" by (metis takeWhile_dropWhile_id)
  with key show ?thesis by (simp add: applyTemplate_def)
qed

lemma HasNodeLabelTemplateMatch_sound:
  "HasNodeLabelTemplateMatch m tp = (True, key, ns, n) \<Longrightarrow>
     key \<in> fst ` set m \<and> key = applyTemplate tp ns n"
  by (induction m tp rule: HasNodeLabelTemplateMatch.induct)
    (auto split: option.splits dest: matchTemplate_inverse)

lemma HasNodeLabelTemplateMatch_complete:
  assumes "matchTemplate tp key = Some p" and "key \<in> fst ` set m"
  shows "fst (HasNodeLabelTemplateMatch m tp)"
  using assms
  by (induction m tp rule: HasNodeLabelTemplateMatch.induct) (auto split: option.splits)

section \<open>Driver type labels\<close>

lemma updateDriverTypeLabels_frame:
  assumes "\<And>c t. f (logCall c t) = f t"
  shows "f (snd (updateDriverTypeLabels api dc cleanup nodes s)) = f s"
  using assms by (induction nodes arbitrary: s) (auto simp: Let_def writeObj_def split_beta)

lemma updateDriverTypeLabels_nodes:
  "map n_Name (snd (fst (updateDriverTypeLabels api dc cleanup nodes s))) = map n_Name nodes"
  by (induction nodes arbitrary: s) (auto simp: Let_def split_beta)

lemma updateDriverTypeLabels_result:
  assumes "n \<in> set (snd (fst (updateDriverTypeLabels api dc cleanup nodes s)))"
  shows "lookup (n_Labels n) (GetDriverTypeNodeLabel dc) =
           (if cleanup then None else Some (d_DriverType (driver dc)))"
  using assms
  by (induction nodes arbitrary: s) (auto simp: Let_def hasKey_def split_beta split: if_splits)

lemma updateDriverTypeLabels_quiet:
  assumes "\<forall>n \<in> set nodes. lookup (n_Labels n) (GetDriverTypeNodeLabel dc) =
           (if cleanup then None else Some (d_DriverType (driver dc)))"
  shows "updateDriverTypeLabels api dc cleanup nodes s = (([], nodes), s)"
  using assms by (induction nodes) (auto simp: Let_def hasKey_def)

section \<open>Order of the mapper table\<close>

lemma firstMapper_unique:
  assumes "distinct (map fst ms)" and "\<forall>(os, f) \<in> set ms. containsStr s os \<longrightarrow> f s = r"
    and "\<exists>(os, f) \<in> set ms. containsStr s os"
  shows "firstMapper ms s = r"
  using assms by (induction ms s rule: firstMapper.induct) auto

lemma firstMapper_none:
  "\<forall>(os, f) \<in> set ms. \<not> containsStr s os \<Longrightarrow> firstMapper ms s = Inl (''OS: '' @ s @ '' not supported'')"
  by (induction ms s rule: firstMapper.induct) auto

end
