(* ===== verification/Upgrade_Helper.thy ===== *)
theory Upgrade_Helper
  imports Driver_Utils
begin

text \<open>
  The helper of the upgrade manager (\<open>upgradeMgrHelper\<close> of
  \<open>src/internal/controllers/upgrademgr.go\<close>): its in-memory state, its getters and setters, the tests
  that classify a node, and the steps of a node's driver upgrade (cordon, drain, reboot, module
  version label).  The state record extends \<open>world\<close>, so every call to the API server is logged.
  Goroutines are recorded in \<open>spawned\<close>; running one is a separate step.  Log messages and the
  sleeps between two polls are left out.
\<close>

section \<open>State\<close>

record env = apiserver +
  mapperOrder :: "call list \<Rightarrow> mapper gomap"

datatype task = TNodeUpgrade DeviceConfig Node | TDeleteRebootPod string DeviceConfig bool

record driverSpec =
  version :: string
  enable :: bool

record upgradeMgrHelper = world +
  nodeStatus :: "string \<rightharpoonup> UpgradeState"
  nodeUpgradeStartTime :: "string \<rightharpoonup> timestamp"
  nodeBootID :: "string \<rightharpoonup> string"
  init :: bool
  currentSpec :: driverSpec
  isOpenShift :: bool
  spawned :: "task list"

type_synonym umgr = upgradeMgrHelper

definition newUpgradeMgrHelperHandler :: "bool \<Rightarrow> umgr" where
  "newUpgradeMgrHelperHandler ocp =
     \<lparr>hist = [], nodeStatus = Map.empty, nodeUpgradeStartTime = Map.empty, nodeBootID = Map.empty,
      init = False, currentSpec = \<lparr>version = [], enable = False\<rparr>, isOpenShift = ocp, spawned = []\<rparr>"

record Result =
  Requeue :: bool
  RequeueAfter :: int

definition noRequeue :: Result where "noRequeue = \<lparr>Requeue = False, RequeueAfter = 0\<rparr>"

text \<open>\<open>requeueIn n\<close> asks for a reconcile in \<open>n\<close> seconds.\<close>

definition requeueIn :: "int \<Rightarrow> Result" where "requeueIn n = \<lparr>Requeue = True, RequeueAfter = n\<rparr>"

definition spawn :: "task \<Rightarrow> umgr \<Rightarrow> umgr" where
  "spawn t s = s\<lparr>spawned := t # spawned s\<rparr>"

section \<open>Getters and setters\<close>

definition isInit :: "umgr \<Rightarrow> bool \<times> umgr" where
  "isInit s = (if \<not> init s then (True, s\<lparr>init := True\<rparr>) else (False, s))"

definition getNodeStatus :: "umgr \<Rightarrow> string \<Rightarrow> UpgradeState" where
  "getNodeStatus s n = (case nodeStatus s n of Some st \<Rightarrow> st | None \<Rightarrow> UpgradeStateEmpty)"

definition setNodeStatus :: "string \<Rightarrow> UpgradeState \<Rightarrow> umgr \<Rightarrow> umgr" where
  "setNodeStatus n st s =
     (if getNodeStatus s n \<noteq> st then s\<lparr>nodeStatus := (nodeStatus s)(n \<mapsto> st)\<rparr> else s)"

definition getUpgradeStartTime :: "umgr \<Rightarrow> string \<Rightarrow> timestamp" where
  "getUpgradeStartTime s n = (case nodeUpgradeStartTime s n of Some t \<Rightarrow> t | None \<Rightarrow> NoTime)"

definition setUpgradeStartTime :: "'e apiserver_scheme \<Rightarrow> string \<Rightarrow> umgr \<Rightarrow> umgr" where
  "setUpgradeStartTime api n s =
     (case timeNow api s of (now, s1) \<Rightarrow>
        s1\<lparr>nodeUpgradeStartTime := (nodeUpgradeStartTime s1)(n \<mapsto> formatTime now)\<rparr>)"

definition clearUpgradeStartTime :: "string \<Rightarrow> umgr \<Rightarrow> umgr" where
  "clearUpgradeStartTime n s = s\<lparr>nodeUpgradeStartTime := (nodeUpgradeStartTime s)(n \<mapsto> NoTime)\<rparr>"

definition getBootID :: "umgr \<Rightarrow> string \<Rightarrow> string" where
  "getBootID s n = (case nodeBootID s n of Some b \<Rightarrow> b | None \<Rightarrow> [])"

definition setBootID :: "string \<Rightarrow> string \<Rightarrow> umgr \<Rightarrow> umgr" where
  "setBootID n b s = s\<lparr>nodeBootID := (nodeBootID s)(n \<mapsto> b)\<rparr>"

definition clearNodeStatus :: "umgr \<Rightarrow> umgr" where
  "clearNodeStatus s = s\<lparr>nodeStatus := Map.empty\<rparr>"

definition specChanged :: "umgr \<Rightarrow> DeviceConfig \<Rightarrow> bool" where
  "specChanged s dc \<longleftrightarrow>
     version (currentSpec s) \<noteq> [] \<and> version (currentSpec s) \<noteq> d_Version (driver dc)"

definition setcurrentSpec :: "DeviceConfig \<Rightarrow> umgr \<Rightarrow> umgr" where
  "setcurrentSpec dc s =
     s\<lparr>currentSpec := \<lparr>version = d_Version (driver dc), enable = isTrue (d_Enable (driver dc))\<rparr>\<rparr>"

section \<open>Node labels and taints\<close>

definition versionLabel :: "DeviceConfig \<Rightarrow> string" where
  "versionLabel dc =
     ''kmm.node.kubernetes.io/version-module.'' @ dc_Namespace dc @ ''.'' @ dc_Name dc"

definition driverUpgradeStateLabelKey :: string where
  "driverUpgradeStateLabelKey = ''operator.amd.com/gpu-driver-upgrade-state''"

definition isLabelUpgradeRequiredOnNode :: "Node \<Rightarrow> bool" where
  "isLabelUpgradeRequiredOnNode node \<longleftrightarrow>
     lookup (n_Labels node) driverUpgradeStateLabelKey = Some ''upgrade-required''"

definition removeLabelUpgradeRequiredOnNode ::
  "'e apiserver_scheme \<Rightarrow> Node \<Rightarrow> 'a world_scheme \<Rightarrow> err \<times> 'a world_scheme" where
  "removeLabelUpgradeRequiredOnNode api node s =
     (case getNode api (n_Name node) s of
        (Inl e, s1) \<Rightarrow> (Some e, s1)
      | (Inr nodeObj, s1) \<Rightarrow>
          if lookup (n_Labels nodeObj) driverUpgradeStateLabelKey = Some ''upgrade-required'' then
            writeObj api (CPatch
              (ONode (nodeObj\<lparr>n_Labels := remove driverUpgradeStateLabelKey (n_Labels nodeObj)\<rparr>))
              (ONode nodeObj)) s1
          else (None, s1))"

definition upgradeTaint :: Taint where
  "upgradeTaint = \<lparr>t_Key = ''amd-gpu-driver-upgrade'', t_Value = ''true'', t_Effect = ''NoSchedule''\<rparr>"

definition sameTaint :: "Taint \<Rightarrow> Taint \<Rightarrow> bool" where
  "sameTaint a b \<longleftrightarrow> t_Key a = t_Key b \<and> t_Effect a = t_Effect b"

definition addOrRemoveTaintToNode ::
  "'e apiserver_scheme \<Rightarrow> Node \<Rightarrow> bool \<Rightarrow> 'a world_scheme \<Rightarrow> err \<times> 'a world_scheme" where
  "addOrRemoveTaintToNode api node taint s =
     retryOnConflict (\<lambda>s.
       case getNode api (n_Name node) s of
         (Inl e, s1) \<Rightarrow> (Some e, s1)
       | (Inr nodeObj, s1) \<Rightarrow>
           let exists = list_ex (sameTaint upgradeTaint) (n_Taints node) in
           if taint then
             (if exists then (None, s1)
              else writeObj api (CPatch
                (ONode (nodeObj\<lparr>n_Taints := n_Taints node @ [upgradeTaint]\<rparr>)) (ONode nodeObj)) s1)
           else
             (if \<not> exists then (None, s1)
              else writeObj api (CPatch
                (ONode (nodeObj\<lparr>n_Taints := filter (\<lambda>t. \<not> sameTaint upgradeTaint t) (n_Taints node)\<rparr>))
                (ONode nodeObj)) s1)) s"

definition cordonOrUncordonNode ::
  "'e apiserver_scheme \<Rightarrow> Node \<Rightarrow> bool \<Rightarrow> 'a world_scheme \<Rightarrow> err \<times> 'a world_scheme" where
  "cordonOrUncordonNode api node cordon s =
     (case getNode api (n_Name node) s of
        (Inl e, s1) \<Rightarrow> (Some e, s1)
      | (Inr _, s1) \<Rightarrow> addOrRemoveTaintToNode api node cordon s1)"

definition updateModuleVersionOnNode ::
  "env \<Rightarrow> DeviceConfig \<Rightarrow> Node \<Rightarrow> 'a world_scheme \<Rightarrow> err \<times> 'a world_scheme" where
  "updateModuleVersionOnNode api dc node s =
     retryOnConflict (\<lambda>s.
       case getNode api (n_Name node) s of
         (Inl e, s1) \<Rightarrow> (Some e, s1)
       | (Inr nodeObj, s1) \<Rightarrow>
           (case GetDriverVersion (mapperOrder api (hist s1)) node dc of
              (v, None) \<Rightarrow>
                writeObj api (CPatch
                  (ONode (nodeObj\<lparr>n_Labels := store (versionLabel dc) v (n_Labels nodeObj)\<rparr>))
                  (ONode nodeObj)) s1
            | (v, Some _) \<Rightarrow> writeObj api (CPatch (ONode nodeObj) (ONode nodeObj)) s1)) s"

text \<open>
  The version is the part of the container image after its last dash.  \<open>strings.Split\<close> with a
  non-empty separator never returns an empty slice.
\<close>

definition imageVersion :: "string \<Rightarrow> string" where
  "imageVersion img = last (splitChar (CHR ''-'') img)"

definition resetModuleVersionOnNode ::
  "'e apiserver_scheme \<Rightarrow> DeviceConfig \<Rightarrow> Node \<Rightarrow> 'a world_scheme \<Rightarrow> err \<times> 'a world_scheme" where
  "resetModuleVersionOnNode api dc node s =
     (case getNode api (n_Name node) s of
        (Inl e, s1) \<Rightarrow> (Some e, s1)
      | (Inr nodeObj, s1) \<Rightarrow>
          (case lookup (n_Labels nodeObj) (versionLabel dc) of
             None \<Rightarrow> (None, s1)
           | Some currentLabelVal \<Rightarrow>
               (case getNMC api [] (n_Name node) s1 of
                  (Inl e, s2) \<Rightarrow> (Some e, s2)
                | (Inr nmc, s2) \<Rightarrow>
                    (case find (\<lambda>m. nm_Name m = dc_Name dc \<and> nm_Namespace m = dc_Namespace dc)
                        (nmc_StatusModules nmc) of
                       None \<Rightarrow> (None, s2)
                     | Some m \<Rightarrow>
                         if nm_ContainerImage m \<noteq> [] \<and> currentLabelVal \<noteq> imageVersion (nm_ContainerImage m)
                         then writeObj api (CPatch
                           (ONode (nodeObj\<lparr>n_Labels := store (versionLabel dc)
                              (imageVersion (nm_ContainerImage m)) (n_Labels nodeObj)\<rparr>))
                           (ONode nodeObj)) s2
                         else (None, s2)))))"

section \<open>Initial state of a node\<close>

definition isNodeInFailedUpgradeStates :: "UpgradeState \<Rightarrow> bool" where
  "isNodeInFailedUpgradeStates st \<longleftrightarrow>
     st = UpgradeStateFailed \<or> st = UpgradeStateCordonFailed \<or> st = UpgradeStateUncordonFailed \<or>
     st = UpgradeStateDrainFailed \<or> st = UpgradeStateTimedOut"

fun deletePods :: "'e apiserver_scheme \<Rightarrow> Pod list \<Rightarrow> 'a world_scheme \<Rightarrow> 'a world_scheme" where
  "deletePods api [] s = s"
| "deletePods api (p # ps) s =
     deletePods api ps (snd (writeObj api (CDelete KPod (p_Namespace p) (p_Name p)) s))"

definition kmmSelector :: "string \<Rightarrow> DeviceConfig \<Rightarrow> smap" where
  "kmmSelector component dc =
     [(''app.kubernetes.io/component'', component), (''app.kubernetes.io/part-of'', ''kmm''),
      (''kmm.node.kubernetes.io/module.name'', dc_Name dc)]"

definition itemsOf :: "'a list res \<Rightarrow> 'a list" where
  "itemsOf r = (case r of Inr xs \<Rightarrow> xs | Inl _ \<Rightarrow> [])"

definition cleanupDanglingKMMPods ::
  "'e apiserver_scheme \<Rightarrow> Node \<Rightarrow> DeviceConfig \<Rightarrow> 'a world_scheme \<Rightarrow> err \<times> 'a world_scheme" where
  "cleanupDanglingKMMPods api node dc s =
     (case listPods api (CListOnNode (kmmSelector ''worker'' dc) (n_Name node)) s of (wr, s1) \<Rightarrow>
      case listPods api (CList KPod None (kmmSelector ''build'' dc)) s1 of (br, s2) \<Rightarrow>
        (None, deletePods api (itemsOf wr @ itemsOf br) s2))"

definition handleInitStatus :: "'e apiserver_scheme \<Rightarrow> Node \<Rightarrow> DeviceConfig \<Rightarrow> umgr \<Rightarrow> umgr" where
  "handleInitStatus api node dc s =
     (let s0 = (if getNodeStatus s (n_Name node) = UpgradeStateEmpty
                then setNodeStatus (n_Name node) UpgradeStateNotStarted s else s)
      in if isNodeInFailedUpgradeStates (getNodeStatus s0 (n_Name node))
            \<and> isLabelUpgradeRequiredOnNode node then
           (case removeLabelUpgradeRequiredOnNode api node s0 of
              (Some _, s1) \<Rightarrow> s1
            | (None, s1) \<Rightarrow>
                (case resetModuleVersionOnNode api dc node s1 of
                   (Some _, s2) \<Rightarrow> s2
                 | (None, s2) \<Rightarrow>
                     (case cleanupDanglingKMMPods api node dc s2 of
                        (Some _, s3) \<Rightarrow> s3
                      | (None, s3) \<Rightarrow> setNodeStatus (n_Name node) UpgradeStateNotStarted s3)))
         else s0)"

section \<open>Classification of a node\<close>

definition isNodeNew :: "env \<Rightarrow> Node \<Rightarrow> DeviceConfig \<Rightarrow> umgr \<Rightarrow> bool \<times> umgr" where
  "isNodeNew api node dc s =
     (case lookup (n_Labels node) (versionLabel dc) of
        None \<Rightarrow> (True, setNodeStatus (n_Name node) UpgradeStateInstallInProgress s)
      | Some moduleName \<Rightarrow>
          (case lookup (nodeModuleStatus dc) (n_Name node) of
             None \<Rightarrow> (False, s)
           | Some ms \<Rightarrow>
               if moduleName \<noteq> d_Version (driver dc) \<and> ms_Status ms = UpgradeStateInstallInProgress then
                 (case updateModuleVersionOnNode api dc node s of
                    (e, s1) \<Rightarrow>
                      let s2 = (if e \<noteq> None then setNodeStatus (n_Name node) UpgradeStateFailed s1 else s1)
                      in (True, setNodeStatus (n_Name node) UpgradeStateInstallInProgress s2))
               else (False, s)))"

definition isNodeNmcStatusMissing ::
  "'e apiserver_scheme \<Rightarrow> Node \<Rightarrow> DeviceConfig \<Rightarrow> umgr \<Rightarrow> bool \<times> umgr" where
  "isNodeNmcStatusMissing api node dc s =
     (case lookup (nodeModuleStatus dc) (n_Name node) of
        None \<Rightarrow> (False, s)
      | Some ms \<Rightarrow>
          if ms_ContainerImage ms = [] \<and> getNodeStatus s (n_Name node) = UpgradeStateInProgress then
            (case cordonOrUncordonNode api node False s of
               (Some _, s1) \<Rightarrow> (False, setNodeStatus (n_Name node) UpgradeStateUncordonFailed s1)
             | (None, s1) \<Rightarrow> (True, s1))
          else (False, s))"

definition isNodeReady :: "env \<Rightarrow> Node \<Rightarrow> DeviceConfig \<Rightarrow> umgr \<Rightarrow> bool \<times> umgr" where
  "isNodeReady api node dc s =
     (case lookup (nodeModuleStatus dc) (n_Name node) of
        None \<Rightarrow> (False, s)
      | Some ms \<Rightarrow>
          if hasSuffix (ms_ContainerImage ms)
               (fst (GetDriverVersion (mapperOrder api (hist s)) node dc)) then
            (let currentState = getNodeStatus s (n_Name node) in
             if currentState = UpgradeStateComplete \<or> currentState = UpgradeStateInstallComplete
             then (True, s)
             else case cordonOrUncordonNode api node False s of
               (Some _, s1) \<Rightarrow> (False, setNodeStatus (n_Name node) UpgradeStateUncordonFailed s1)
             | (None, s1) \<Rightarrow>
                 if currentState = UpgradeStateInstallInProgress
                 then (True, setNodeStatus (n_Name node) UpgradeStateInstallComplete s1)
                 else (True, setNodeStatus (n_Name node) UpgradeStateComplete s1))
          else (False, s))"

definition isNodeStateUpgradeStarted :: "umgr \<Rightarrow> Node \<Rightarrow> bool" where
  "isNodeStateUpgradeStarted s node \<longleftrightarrow>
     getNodeStatus s (n_Name node) = UpgradeStateStarted \<or>
     getNodeStatus s (n_Name node) = UpgradeStateRebootInProgress"

definition isNodeStateInstallInProgress :: "umgr \<Rightarrow> Node \<Rightarrow> bool" where
  "isNodeStateInstallInProgress s node \<longleftrightarrow>
     getNodeStatus s (n_Name node) = UpgradeStateInstallInProgress"

definition isNodeStateUpgradeInProgress :: "env \<Rightarrow> Node \<Rightarrow> DeviceConfig \<Rightarrow> umgr \<Rightarrow> bool \<times> umgr" where
  "isNodeStateUpgradeInProgress api node dc s =
     (let currentStatus = getNodeStatus s (n_Name node);
          relabel = (case lookup (n_Labels node) (versionLabel dc) of
                       None \<Rightarrow> False
                     | Some moduleName \<Rightarrow>
                         moduleName \<noteq> d_Version (driver dc) \<and> currentStatus = UpgradeStateInProgress)
      in if relabel then
           (case updateModuleVersionOnNode api dc node s of
              (Some _, s1) \<Rightarrow> (True, setNodeStatus (n_Name node) UpgradeStateFailed s1)
            | (None, s1) \<Rightarrow> (True, s1))
         else (getNodeStatus s (n_Name node) = UpgradeStateInProgress, s))"

definition isNodeStateUpgradeFailed :: "umgr \<Rightarrow> Node \<Rightarrow> bool" where
  "isNodeStateUpgradeFailed s node \<longleftrightarrow> isNodeInFailedUpgradeStates (getNodeStatus s (n_Name node))"

definition isNodeReadyForUpgrade :: "Node \<Rightarrow> bool" where
  "isNodeReadyForUpgrade node \<longleftrightarrow>
     \<not> n_Unschedulable node \<and>
     list_all (\<lambda>c. \<not> (nc_Type c = ''Ready'' \<and> nc_Status c \<noteq> ''True'')) (n_Conditions node)"

section \<open>Upgrade policy\<close>

text \<open>
  \<open>intstr.GetScaledValueFromIntOrPercent\<close> of the vendored apimachinery, rounding up.  It computes
  the percentage in \<open>float64\<close>; the exact ceiling is the same value while the product stays below
  \<open>2^46\<close>, far above any cluster size.
\<close>

definition ceilPercent :: "int \<Rightarrow> int \<Rightarrow> int" where
  "ceilPercent v n = - ((- (v * n)) div 100)"

definition GetScaledValueFromIntOrPercent :: "IntOrString \<Rightarrow> int \<Rightarrow> int option" where
  "GetScaledValueFromIntOrPercent v n =
     (case v of
        IntVal i \<Rightarrow> Some i
      | StrVal str \<Rightarrow>
          if hasSuffix str ''%'' then map_option (\<lambda>p. ceilPercent p n) (atoi (trimSuffix str ''%''))
          else None)"

definition isUpgradePolicyViolated :: "int \<Rightarrow> int \<Rightarrow> int \<Rightarrow> DriverUpgradePolicySpec \<Rightarrow> int \<times> bool" where
  "isUpgradePolicyViolated upgradeInProgress upgradeFailedState totalNodes up =
     (let maxParallelUpdates = up_MaxParallelUpgrades up in
      case GetScaledValueFromIntOrPercent (up_MaxUnavailableNodes up) totalNodes of
        None \<Rightarrow> (maxParallelUpdates, True)
      | Some maxUnavailableNodes \<Rightarrow>
          (let remainingUnavailable = maxUnavailableNodes - upgradeFailedState;
               maxParallelAllowed = (if maxParallelUpdates = 0 then remainingUnavailable
                                     else min maxParallelUpdates remainingUnavailable)
           in if maxParallelAllowed = 0 \<or> upgradeInProgress \<ge> maxParallelAllowed
              then (maxParallelAllowed, True)
              else (maxParallelAllowed, False)))"

section \<open>Time out\<close>

definition twoHours :: int where "twoHours = 7200000000000"

definition hasUpgradeTimeExceeded :: "'e apiserver_scheme \<Rightarrow> string \<Rightarrow> DeviceConfig \<Rightarrow> umgr \<Rightarrow> bool \<times> umgr" where
  "hasUpgradeTimeExceeded api n dc s =
     (case lookup (nodeModuleStatus dc) n of
        None \<Rightarrow> (False, s)
      | Some ms \<Rightarrow>
          (let internal = getUpgradeStartTime s n;
               running = (ms_Status ms = UpgradeStateStarted \<or> ms_Status ms = UpgradeStateInstallInProgress
                          \<or> ms_Status ms = UpgradeStateInProgress
                          \<or> ms_Status ms = UpgradeStateRebootInProgress);
               start = (if internal = NoTime then (if running then ms_UpgradeStartTime ms else NoTime)
                        else internal)
           in case parseTime start of
                None \<Rightarrow> (False, s)
              | Some t \<Rightarrow> (case timeNow api s of (now, s1) \<Rightarrow> (now - t > twoHours, s1))))"

definition handleUpgradeTimedOut :: "'e apiserver_scheme \<Rightarrow> Node \<Rightarrow> DeviceConfig \<Rightarrow> umgr \<Rightarrow> umgr" where
  "handleUpgradeTimedOut api node dc s =
     (let st = getNodeStatus s (n_Name node) in
      if st = UpgradeStateStarted \<or> st = UpgradeStateInProgress \<or> st = UpgradeStateRebootInProgress then
        (case hasUpgradeTimeExceeded api (n_Name node) dc s of
           (True, s1) \<Rightarrow> setNodeStatus (n_Name node) UpgradeStateTimedOut s1
         | (False, s1) \<Rightarrow> s1)
      else s)"

section \<open>Draining\<close>

definition validResources :: "string list" where
  "validResources = ''amd.com/gpu'' #
     concat (map (\<lambda>c. map (\<lambda>m. ''amd.com/'' @ c @ ''_'' @ m) [''nps1'', ''nps4''])
       [''spx'', ''cpx'', ''dpx'', ''qpx'', ''tpx''])"

definition operandSuffixes :: "string list" where
  "operandSuffixes = [''metrics-exporter'', ''device-config-manager'', ''device-plugin'',
     ''node-labeller'', ''test-runner'', ''dra-driver'']"

definition usesGPU :: "Container \<Rightarrow> bool" where
  "usesGPU c \<longleftrightarrow> list_ex (\<lambda>r. r \<in> set validResources) (ct_Requests c)
     \<or> list_ex (\<lambda>m. hasPrefix m ''/dev/dri'') (ct_VolumeMounts c)"

definition mustDrain :: "DeviceConfig \<Rightarrow> Pod \<Rightarrow> bool" where
  "mustDrain dc pod \<longleftrightarrow>
     list_ex (\<lambda>suf. hasPrefix (p_Name pod) (dc_Name dc @ ''-'' @ suf)) operandSuffixes
     \<or> list_ex usesGPU (p_Containers pod)"

definition getPodsToDrainOrDelete ::
  "'e apiserver_scheme \<Rightarrow> DeviceConfig \<Rightarrow> Node \<Rightarrow> 'a world_scheme \<Rightarrow> Pod list res \<times> 'a world_scheme" where
  "getPodsToDrainOrDelete api dc node s =
     (case listPods api (CListOnNode [] (n_Name node)) s of
        (Inl e, s1) \<Rightarrow> (Inl e, s1)
      | (Inr pods, s1) \<Rightarrow> (Inr (filter (mustDrain dc) pods), s1))"

definition drainOptions :: "DriverUpgradePolicySpec \<Rightarrow> DrainOptions" where
  "drainOptions up =
     (let base = \<lparr>do_DisableEviction = False, do_IgnoreAllDaemonSets = True,
            do_GracePeriodSeconds = -1, do_DeleteEmptyDirData = True, do_Force = False, do_Timeout = 0\<rparr>
      in case up_NodeDrainPolicy up of
           Some d \<Rightarrow> base\<lparr>do_Force := isTrue (ds_Force d),
                         do_Timeout := ds_TimeoutSeconds d * 1000000000,
                         do_GracePeriodSeconds := ds_GracePeriodSeconds d\<rparr>
         | None \<Rightarrow> (case up_PodDeletionPolicy up of
             Some p \<Rightarrow> base\<lparr>do_DisableEviction := True, do_Force := isTrue (pd_Force p),
                           do_Timeout := pd_TimeoutSeconds p * 1000000000,
                           do_GracePeriodSeconds := pd_GracePeriodSeconds p\<rparr>
           | None \<Rightarrow> base))"

text \<open>Without an upgrade policy the code would dereference a nil pointer; callers check it first.\<close>

definition deleteOrDrainPods ::
  "'e apiserver_scheme \<Rightarrow> DeviceConfig \<Rightarrow> Node \<Rightarrow> 'a world_scheme \<Rightarrow> err \<times> 'a world_scheme" where
  "deleteOrDrainPods api dc node s =
     (case getPodsToDrainOrDelete api dc node s of
        (Inl e, s1) \<Rightarrow> (Some e, s1)
      | (Inr pods, s1) \<Rightarrow>
          if pods \<noteq> [] then
            (case d_UpgradePolicy (driver dc) of
               None \<Rightarrow> (Some (OtherErr ''nil UpgradePolicy''), s1)
             | Some up \<Rightarrow> writeObj api (CDrain (drainOptions up) pods) s1)
          else (None, s1))"

section \<open>Reboot\<close>

definition getRebootPod :: "umgr \<Rightarrow> string \<Rightarrow> DeviceConfig \<Rightarrow> Pod" where
  "getRebootPod s nodeName dc =
     (let uc = cc_UtilsContainer (common dc);
          img = (if uc_Image uc \<noteq> [] then uc_Image uc
                 else if isOpenShift s then ''docker.io/rocm/gpu-operator-utils:rhubi-latest''
                 else ''docker.io/rocm/gpu-operator-utils:latest'')
      in emptyPod\<lparr>
        p_Name := ''amd-gpu-operator-'' @ nodeName @ ''-reboot-worker'',
        p_Namespace := dc_Namespace dc,
        p_ServiceAccountName := ''amd-gpu-operator-utils-container'',
        p_HostPID := True, p_HostNetwork := True, p_RestartPolicy := ''Never'',
        p_NodeSelector := [(''kubernetes.io/hostname'', nodeName)],
        p_ImagePullSecrets := (case uc_ImageRegistrySecret uc of None \<Rightarrow> [] | Some r \<Rightarrow> [r]),
        p_Containers := [emptyContainer\<lparr>
          ct_Name := ''reboot-container'', ct_Image := img,
          ct_Command := [''/nsenter'', ''--all'', ''--target=1'', ''--'', ''sh'', ''-c'', ''sync; sudo reboot''],
          ct_Privileged := Some True, ct_ImagePullPolicy := uc_ImagePullPolicy uc\<rparr>],
        p_Tolerations := [\<lparr>tol_Key = ''amd-gpu-driver-upgrade'', tol_Operator = ''Equal'',
          tol_Value = ''true'', tol_Effect = ''NoSchedule''\<rparr>]\<rparr>)"

definition nodeIsReady :: "Node \<Rightarrow> bool" where
  "nodeIsReady node = list_ex (\<lambda>c. nc_Type c = ''Ready'' \<and> nc_Status c = ''True'') (n_Conditions node)"

definition nodeNotReady :: "Node \<Rightarrow> bool" where
  "nodeNotReady node = list_ex (\<lambda>c. nc_Type c = ''Ready'' \<and> nc_Status c \<noteq> ''True'') (n_Conditions node)"

text \<open>The tail of \<open>deleteRebootPod\<close> once the wait is over or was skipped.\<close>

definition finishReboot :: "'e apiserver_scheme \<Rightarrow> string \<Rightarrow> DeviceConfig \<Rightarrow> umgr \<Rightarrow> umgr" where
  "finishReboot api nodeName dc s =
     (let pod = getRebootPod s nodeName dc in
      case writeObj api (CDelete KPod (p_Namespace pod) (p_Name pod)) s of (_, s1) \<Rightarrow>
      case getDC api (dc_Namespace dc) (dc_Name dc) s1 of
        (Inl _, s2) \<Rightarrow> s2
      | (Inr fetched, s2) \<Rightarrow>
          if d_Version (driver fetched) = d_Version (driver dc)
          then setNodeStatus nodeName UpgradeStateInProgress s2 else s2)"

text \<open>The polling loop of \<open>deleteRebootPod\<close>; its first argument counts the remaining polls.\<close>

fun awaitNodeReady :: "nat \<Rightarrow> 'e apiserver_scheme \<Rightarrow> string \<Rightarrow> DeviceConfig \<Rightarrow> umgr \<Rightarrow> umgr" where
  "awaitNodeReady 0 api nodeName dc s = finishReboot api nodeName dc s"
| "awaitNodeReady (Suc k) api nodeName dc s =
     (case getDC api (dc_Namespace dc) (dc_Name dc) s of
        (Inl _, s1) \<Rightarrow> s1
      | (Inr fetched, s1) \<Rightarrow>
          (case getNode api nodeName s1 of
             (Inr node, s2) \<Rightarrow>
               if nodeIsReady node then
                 (let pod = getRebootPod s nodeName dc in
                  case writeObj api (CDelete KPod (p_Namespace pod) (p_Name pod)) s2 of (_, s3) \<Rightarrow>
                    if d_Version (driver fetched) = d_Version (driver dc)
                    then setNodeStatus nodeName UpgradeStateInProgress s3 else s3)
               else awaitNodeReady k api nodeName dc s2
           | (Inl _, s2) \<Rightarrow> awaitNodeReady k api nodeName dc s2))"

definition deleteRebootPod :: "'e apiserver_scheme \<Rightarrow> string \<Rightarrow> DeviceConfig \<Rightarrow> bool \<Rightarrow> umgr \<Rightarrow> umgr" where
  "deleteRebootPod api nodeName dc force s =
     (case getPod api (dc_Namespace dc) (p_Name (getRebootPod s nodeName dc)) s of
        (Inl _, s1) \<Rightarrow> s1
      | (Inr _, s1) \<Rightarrow>
          if force then finishReboot api nodeName dc s1
          else awaitNodeReady 360 api nodeName dc s1)"

fun waitForDriverUpgrade ::
  "nat \<Rightarrow> 'e apiserver_scheme \<Rightarrow> Node \<Rightarrow> DeviceConfig \<Rightarrow> 'a world_scheme \<Rightarrow> 'a world_scheme" where
  "waitForDriverUpgrade 0 api node dc s = s"
| "waitForDriverUpgrade (Suc k) api node dc s =
     (case getNMC api (dc_Namespace dc) (n_Name node) s of
        (Inr nmc, s1) \<Rightarrow>
          if list_ex (\<lambda>m. hasSuffix (nm_ContainerImage m) (d_Version (driver dc))) (nmc_StatusModules nmc)
          then s1 else waitForDriverUpgrade k api node dc s1
      | (Inl _, s1) \<Rightarrow> waitForDriverUpgrade k api node dc s1)"

fun waitForRebootPod :: "nat \<Rightarrow> 'e apiserver_scheme \<Rightarrow> Node \<Rightarrow> DeviceConfig \<Rightarrow> umgr \<Rightarrow> umgr" where
  "waitForRebootPod 0 api node dc s = s"
| "waitForRebootPod (Suc k) api node dc s =
     (case getPod api (dc_Namespace dc) (p_Name (getRebootPod s (n_Name node) dc)) s of
        (Inl _, s1) \<Rightarrow> waitForRebootPod k api node dc s1
      | (Inr _, s1) \<Rightarrow>
          (case getNode api (n_Name node) s1 of
             (Inl _, s2) \<Rightarrow> waitForRebootPod k api node dc s2
           | (Inr nodeObj, s2) \<Rightarrow>
               if n_BootID nodeObj \<noteq> getBootID s2 (n_Name node)
               then setBootID (n_Name node) (n_BootID nodeObj) s2
               else if nodeNotReady nodeObj then s2
               else waitForRebootPod k api node dc s2))"

definition handleNodeReboot :: "env \<Rightarrow> Node \<Rightarrow> DeviceConfig \<Rightarrow> umgr \<Rightarrow> umgr" where
  "handleNodeReboot api node dc s =
     (let rebootPod = getRebootPod s (n_Name node) dc;
          (delErr, s2) =
            (case getPod api (dc_Namespace dc) (p_Name rebootPod) s of
               (Inr pod, s1) \<Rightarrow> writeObj api (CDelete KPod (p_Namespace pod) (p_Name pod)) s1
             | (Inl _, s1) \<Rightarrow> (None, s1))
      in if delErr \<noteq> None then setNodeStatus (n_Name node) UpgradeStateRebootFailed s2
         else case updateModuleVersionOnNode api dc node s2 of
           (Some _, s3) \<Rightarrow> setNodeStatus (n_Name node) UpgradeStateFailed s3
         | (None, s3) \<Rightarrow>
             (let s4 = waitForDriverUpgrade 360 api node dc s3;
                  s5 = setBootID (n_Name node) (n_BootID node) s4
              in case writeObj api (CCreate (OPod rebootPod)) s5 of
                   (Some _, s6) \<Rightarrow> setNodeStatus (n_Name node) UpgradeStateRebootFailed s6
                 | (None, s6) \<Rightarrow>
                     (let s7 = waitForRebootPod 300 api node dc s6 in
                      case getDC api (dc_Namespace dc) (dc_Name dc) s7 of
                        (Inl _, s8) \<Rightarrow> s8
                      | (Inr fetched, s8) \<Rightarrow>
                          (let s9 = (if d_Version (driver fetched) = d_Version (driver dc)
                                     then setNodeStatus (n_Name node) UpgradeStateRebootInProgress s8
                                     else s8)
                           in deleteRebootPod api (n_Name node) dc False s9))))"

section \<open>Upgrade of one node\<close>

definition isDeviceConfigValid ::
  "'e apiserver_scheme \<Rightarrow> DeviceConfig \<Rightarrow> 'a world_scheme \<Rightarrow> bool \<times> 'a world_scheme" where
  "isDeviceConfigValid api dc s =
     (case getDC api (dc_Namespace dc) (dc_Name dc) s of
        (Inl _, s1) \<Rightarrow> (False, s1)
      | (Inr cur, s1) \<Rightarrow> (d_Version (driver dc) = d_Version (driver cur), s1))"

definition rebootRequired :: "DeviceConfig \<Rightarrow> bool" where
  "rebootRequired dc =
     (case d_UpgradePolicy (driver dc) of None \<Rightarrow> False | Some up \<Rightarrow> isTrue (up_RebootRequired up))"

definition labelAlreadySet :: "Node res \<Rightarrow> DeviceConfig \<Rightarrow> bool" where
  "labelAlreadySet r dc =
     (case r of Inl _ \<Rightarrow> False
      | Inr nodeObj \<Rightarrow> lookup (n_Labels nodeObj) (versionLabel dc) = Some (d_Version (driver dc)))"

definition handleNodeUpgrade :: "env \<Rightarrow> DeviceConfig \<Rightarrow> Node \<Rightarrow> umgr \<Rightarrow> umgr" where
  "handleNodeUpgrade api dc node s =
     (case getNode api (n_Name node) s of (r, s1) \<Rightarrow>
      if labelAlreadySet r dc then setNodeStatus (n_Name node) UpgradeStateInProgress s1
      else
        case cordonOrUncordonNode api node True s1 of (cordonErr, s2) \<Rightarrow>
        case isDeviceConfigValid api dc s2 of (valid1, s3) \<Rightarrow>
        if \<not> valid1 then s3
        else if cordonErr \<noteq> None then setNodeStatus (n_Name node) UpgradeStateCordonFailed s3
        else
          case deleteOrDrainPods api dc node s3 of (drainErr, s4) \<Rightarrow>
          case isDeviceConfigValid api dc s4 of (valid2, s5) \<Rightarrow>
          if \<not> valid2 then s5
          else if drainErr \<noteq> None then setNodeStatus (n_Name node) UpgradeStateDrainFailed s5
          else if rebootRequired dc then handleNodeReboot api node dc s5
          else
            case updateModuleVersionOnNode api dc node s5 of
              (Some _, s6) \<Rightarrow> setNodeStatus (n_Name node) UpgradeStateFailed s6
            | (None, s6) \<Rightarrow> setNodeStatus (n_Name node) UpgradeStateInProgress s6)"

end
