(* ===== verification/Upgrade_Mgr.thy ===== *)
theory Upgrade_Mgr
  imports Upgrade_Helper
begin

text \<open>
  The upgrade manager (\<open>upgradeMgr\<close> of \<open>src/internal/controllers/upgrademgr.go\<close>): \<open>HandleUpgrade\<close>,
  the pass over the nodes of a DeviceConfig that each reconcile makes, \<open>HandleDelete\<close>, and the
  goroutines a pass starts.  The pass is split as the code is: restoring the in-memory states after
  a restart, classifying every node, applying the upgrade policy, starting upgrades.
\<close>

section \<open>Restoring states after a restart\<close>

definition initNodeState :: "env \<Rightarrow> DeviceConfig \<Rightarrow> string \<Rightarrow> ModuleStatus \<Rightarrow> umgr \<Rightarrow> umgr" where
  "initNodeState api dc nodeName ms s =
     (if ms_Status ms = UpgradeStateStarted then
        (if rebootRequired dc then
           (case getNode api nodeName s of
              (Inl _, s1) \<Rightarrow> s1
            | (Inr nodeObj, s1) \<Rightarrow>
                if n_BootID nodeObj = ms_BootId ms then handleNodeReboot api nodeObj dc s1
                else spawn (TDeleteRebootPod nodeName dc False)
                       (setBootID (n_Name nodeObj) (n_BootID nodeObj) s1))
         else setNodeStatus nodeName UpgradeStateEmpty (spawn (TDeleteRebootPod nodeName dc True) s))
      else if ms_Status ms = UpgradeStateRebootInProgress then
        (case getPod api (dc_Namespace dc) (p_Name (getRebootPod s nodeName dc)) s of
           (Inl _, s1) \<Rightarrow> setNodeStatus nodeName UpgradeStateInProgress s1
         | (Inr _, s1) \<Rightarrow>
             spawn (TDeleteRebootPod nodeName dc False) (setNodeStatus nodeName (ms_Status ms) s1))
      else setNodeStatus nodeName (ms_Status ms) s)"

fun initInternalNodeStates :: "env \<Rightarrow> DeviceConfig \<Rightarrow> ModuleStatus gomap \<Rightarrow> umgr \<Rightarrow> umgr" where
  "initInternalNodeStates api dc [] s = s"
| "initInternalNodeStates api dc ((nodeName, ms) # rest) s =
     initInternalNodeStates api dc rest (initNodeState api dc nodeName ms s)"

section \<open>Classifying the nodes\<close>

text \<open>The branch of the loop body a node takes.\<close>

datatype verdict = VFailed | VInProgress | VDone | VInstall | VNotReady | VCandidate

definition processNode :: "env \<Rightarrow> DeviceConfig \<Rightarrow> Node \<Rightarrow> umgr \<Rightarrow> verdict \<times> umgr" where
  "processNode api dc node s =
     (let s1 = handleInitStatus api node dc s;
          s2 = handleUpgradeTimedOut api node dc s1
      in if isNodeStateUpgradeFailed s2 node then (VFailed, clearUpgradeStartTime (n_Name node) s2)
         else case isNodeNmcStatusMissing api node dc s2 of
           (True, s3) \<Rightarrow> (VInProgress, s3)
         | (False, s3) \<Rightarrow>
             if isNodeStateUpgradeStarted s3 node then (VInProgress, s3)
             else case isNodeReady api node dc s3 of
               (True, s4) \<Rightarrow> (VDone, clearUpgradeStartTime (n_Name node) s4)
             | (False, s4) \<Rightarrow>
                 (case isNodeNew api node dc s4 of
                    (True, s5) \<Rightarrow> (VInstall, s5)
                  | (False, s5) \<Rightarrow>
                      if isNodeStateInstallInProgress s5 node then (VInstall, s5)
                      else case isNodeStateUpgradeInProgress api node dc s5 of
                        (True, s6) \<Rightarrow> (VInProgress, s6)
                      | (False, s6) \<Rightarrow>
                          if \<not> isNodeReadyForUpgrade node then (VNotReady, s6)
                          else (VCandidate, s6)))"

record loopState =
  candidateNodes :: "Node list"
  upgradeDone :: int
  upgradeInProgress :: int
  upgradeFailedState :: int
  installInProgress :: int
  loopRes :: Result

definition loopInit :: loopState where
  "loopInit = \<lparr>candidateNodes = [], upgradeDone = 0, upgradeInProgress = 0, upgradeFailedState = 0,
     installInProgress = 0, loopRes = noRequeue\<rparr>"

fun countVerdict :: "verdict \<Rightarrow> Node \<Rightarrow> loopState \<Rightarrow> loopState" where
  "countVerdict VFailed node l = l\<lparr>upgradeFailedState := upgradeFailedState l + 1\<rparr>"
| "countVerdict VInProgress node l = l\<lparr>upgradeInProgress := upgradeInProgress l + 1\<rparr>"
| "countVerdict VDone node l = l\<lparr>upgradeDone := upgradeDone l + 1\<rparr>"
| "countVerdict VInstall node l = l\<lparr>installInProgress := installInProgress l + 1\<rparr>"
| "countVerdict VNotReady node l = l\<lparr>loopRes := requeueIn 20\<rparr>"
| "countVerdict VCandidate node l = l\<lparr>candidateNodes := candidateNodes l @ [node]\<rparr>"

fun processNodes :: "env \<Rightarrow> DeviceConfig \<Rightarrow> Node list \<Rightarrow> loopState \<Rightarrow> umgr \<Rightarrow> loopState \<times> umgr" where
  "processNodes api dc [] l s = (l, s)"
| "processNodes api dc (node # nodes) l s =
     (case processNode api dc node s of (v, s1) \<Rightarrow> processNodes api dc nodes (countVerdict v node l) s1)"

section \<open>Starting upgrades\<close>

definition startUpgrade :: "env \<Rightarrow> DeviceConfig \<Rightarrow> Node \<Rightarrow> umgr \<Rightarrow> umgr" where
  "startUpgrade api dc node s =
     spawn (TNodeUpgrade dc node)
       (setUpgradeStartTime api (n_Name node) (setNodeStatus (n_Name node) UpgradeStateStarted s))"

fun startUpgrades :: "env \<Rightarrow> DeviceConfig \<Rightarrow> Node list \<Rightarrow> umgr \<Rightarrow> umgr" where
  "startUpgrades api dc [] s = s"
| "startUpgrades api dc (node # nodes) s = startUpgrades api dc nodes (startUpgrade api dc node s)"

definition preparePass :: "env \<Rightarrow> DeviceConfig \<Rightarrow> umgr \<Rightarrow> umgr" where
  "preparePass api dc s =
     (case isInit s of (first, s1) \<Rightarrow>
      let s2 = (if first then initInternalNodeStates api dc (nodeModuleStatus dc) s1 else s1);
          s3 = (if specChanged s2 dc then clearNodeStatus s2 else s2)
      in setcurrentSpec dc s3)"

definition HandleUpgrade :: "env \<Rightarrow> DeviceConfig \<Rightarrow> Node list \<Rightarrow> umgr \<Rightarrow> Result \<times> umgr" where
  "HandleUpgrade api dc nodes s =
     (if \<not> isTrue (d_Enable (driver dc)) then (noRequeue, s)
      else case d_UpgradePolicy (driver dc) of
        None \<Rightarrow> (noRequeue, s)
      | Some up \<Rightarrow>
          if up_Enable up = Some False then (noRequeue, s)
          else
            case processNodes api dc nodes loopInit (preparePass api dc s) of (l, s1) \<Rightarrow>
            if candidateNodes l = [] \<and>
               (upgradeInProgress l > 0 \<or> upgradeFailedState l > 0 \<or> installInProgress l > 0)
            then (requeueIn 20, s1)
            else if upgradeDone l = int (length nodes) \<or> candidateNodes l = [] then (loopRes l, s1)
            else
              case isUpgradePolicyViolated (upgradeInProgress l) (upgradeFailedState l)
                     (int (length nodes)) up of (maxParallelUpgrades, policyViolated) \<Rightarrow>
              if policyViolated then (requeueIn 20, s1)
              else (requeueIn 20,
                    startUpgrades api dc
                      (take (nat (maxParallelUpgrades - upgradeInProgress l)) (candidateNodes l)) s1))"

section \<open>Deletion and goroutines\<close>

fun deleteNodes :: "env \<Rightarrow> DeviceConfig \<Rightarrow> Node list \<Rightarrow> umgr \<Rightarrow> umgr" where
  "deleteNodes api dc [] s = s"
| "deleteNodes api dc (node # nodes) s =
     deleteNodes api dc nodes
       (deleteRebootPod api (n_Name node) dc True (snd (cordonOrUncordonNode api node False s)))"

definition HandleDelete :: "env \<Rightarrow> DeviceConfig \<Rightarrow> Node list \<Rightarrow> umgr \<Rightarrow> Result \<times> umgr" where
  "HandleDelete api dc nodes s = (noRequeue, clearNodeStatus (deleteNodes api dc nodes s))"

definition runTask :: "env \<Rightarrow> task \<Rightarrow> umgr \<Rightarrow> umgr" where
  "runTask api t s =
     (case t of
        TNodeUpgrade dc node \<Rightarrow> handleNodeUpgrade api dc node s
      | TDeleteRebootPod n dc force \<Rightarrow> deleteRebootPod api n dc force s)"

definition GetNodeStatus :: "umgr \<Rightarrow> string \<Rightarrow> UpgradeState" where
  "GetNodeStatus s n = getNodeStatus s n"

definition GetNodeUpgradeStartTime :: "umgr \<Rightarrow> string \<Rightarrow> timestamp" where
  "GetNodeUpgradeStartTime s n = getUpgradeStartTime s n"

definition GetNodeBootId :: "umgr \<Rightarrow> string \<Rightarrow> string" where
  "GetNodeBootId s n = getBootID s n"

end
