(* ===== verification/Upgrade_Facts.thy ===== *)
theory Upgrade_Facts
  imports Upgrade_Mgr
begin

text \<open>
  Facts on the operations of the upgrade manager that its properties share: which parts of the
  state an operation leaves alone, what each test does to the status of the node it is about, and
  that no operation touches the status of another node.
\<close>

section \<open>Operations that only talk to the API server\<close>

lemma more_logCall [simp]: "world.more (logCall c s) = world.more s"
  by (simp add: logCall_def)

lemma more_calls [simp]:
  "world.more (snd (getNode api n s)) = world.more s"
  "world.more (snd (getPod api ns n s)) = world.more s"
  "world.more (snd (getNMC api ns n s)) = world.more s"
  "world.more (snd (getDC api ns n s)) = world.more s"
  "world.more (snd (listPods api c s)) = world.more s"
  "world.more (snd (writeObj api c s)) = world.more s"
  "world.more (snd (timeNow api s)) = world.more s"
  by (simp_all add: call_defs)

lemma more_addOrRemoveTaintToNode [simp]:
  "world.more (snd (addOrRemoveTaintToNode api node b s)) = world.more s"
  unfolding addOrRemoveTaintToNode_def
  by (rule retryOnConflict_frame) (simp add: split_beta Let_def split: sum.splits)

lemma more_cordonOrUncordonNode [simp]:
  "world.more (snd (cordonOrUncordonNode api node b s)) = world.more s"
  by (simp add: cordonOrUncordonNode_def split_beta split: sum.splits)

lemma more_updateModuleVersionOnNode [simp]:
  "world.more (snd (updateModuleVersionOnNode api dc node s)) = world.more s"
  unfolding updateModuleVersionOnNode_def
  by (rule retryOnConflict_frame) (simp add: split_beta split: sum.splits option.splits)

lemma more_removeLabelUpgradeRequiredOnNode [simp]:
  "world.more (snd (removeLabelUpgradeRequiredOnNode api node s)) = world.more s"
  by (simp add: removeLabelUpgradeRequiredOnNode_def split_beta split: sum.splits)

lemma more_resetModuleVersionOnNode [simp]:
  "world.more (snd (resetModuleVersionOnNode api dc node s)) = world.more s"
  by (simp add: resetModuleVersionOnNode_def split_beta split: sum.splits option.splits)

lemma more_deletePods [simp]: "world.more (deletePods api ps s) = world.more s"
  by (induction ps arbitrary: s) auto

lemma more_cleanupDanglingKMMPods [simp]:
  "world.more (snd (cleanupDanglingKMMPods api node dc s)) = world.more s"
  by (simp add: cleanupDanglingKMMPods_def split_beta)

lemma more_getPodsToDrainOrDelete [simp]:
  "world.more (snd (getPodsToDrainOrDelete api dc node s)) = world.more s"
  by (simp add: getPodsToDrainOrDelete_def split_beta split: sum.splits)

lemma more_deleteOrDrainPods [simp]:
  "world.more (snd (deleteOrDrainPods api dc node s)) = world.more s"
  by (simp add: deleteOrDrainPods_def split_beta split: sum.splits option.splits)

lemma more_waitForDriverUpgrade [simp]:
  "world.more (waitForDriverUpgrade k api node dc s) = world.more s"
  by (induction k arbitrary: s) (auto simp: split_beta split: sum.splits)

lemma more_isDeviceConfigValid [simp]:
  "world.more (snd (isDeviceConfigValid api dc s)) = world.more s"
  by (simp add: isDeviceConfigValid_def split_beta split: sum.splits)

text \<open>The manager's own fields are read from what follows the call log.\<close>

lemma fields_of_more:
  assumes "world.more s = world.more t"
  shows "nodeStatus s = nodeStatus t" and "nodeUpgradeStartTime s = nodeUpgradeStartTime t"
    and "nodeBootID s = nodeBootID t" and "isOpenShift s = isOpenShift t"
    and "spawned s = spawned t" and "init s = init t" and "currentSpec s = currentSpec t"
  using assms by (cases s; cases t; simp)+

lemma getNodeStatus_more: "world.more s = world.more t \<Longrightarrow> getNodeStatus s = getNodeStatus t"
  by (simp add: fun_eq_iff getNodeStatus_def fields_of_more(1) [of s t])

lemma getUpgradeStartTime_more:
  "world.more s = world.more t \<Longrightarrow> getUpgradeStartTime s = getUpgradeStartTime t"
  by (simp add: fun_eq_iff getUpgradeStartTime_def fields_of_more(2) [of s t])

text \<open>The status and the goroutines after each of these operations.\<close>

lemmas quiet_ops = more_logCall more_calls more_addOrRemoveTaintToNode more_cordonOrUncordonNode
  more_updateModuleVersionOnNode more_removeLabelUpgradeRequiredOnNode
  more_resetModuleVersionOnNode more_deletePods more_cleanupDanglingKMMPods
  more_getPodsToDrainOrDelete more_deleteOrDrainPods more_waitForDriverUpgrade
  more_isDeviceConfigValid

lemmas status_quiet [simp] = quiet_ops [THEN getNodeStatus_more]
lemmas spawned_quiet [simp] = quiet_ops [THEN fields_of_more(5)]
lemmas startTime_quiet [simp] = quiet_ops [THEN getUpgradeStartTime_more]
lemmas init_quiet [simp] = quiet_ops [THEN fields_of_more(6)]

section \<open>The per-node stores\<close>

text \<open>
  The three \<open>sync.Map\<close>s of the helper have the same contract: a load returns the last value
  stored under the key, or a default.  The loops that store one value per node are
  reasoned about once, for any store with that contract.
\<close>

locale node_store =
  fixes load :: "'s \<Rightarrow> string \<Rightarrow> 'v"
    and store_at :: "string \<Rightarrow> 'v \<Rightarrow> 's \<Rightarrow> 's"
  assumes load_store: "load (store_at k v s) k' = (if k' = k then v else load s k')"
begin

lemma load_store_same: "load (store_at k v s) k = v"
  by (simp add: load_store)

lemma load_store_other: "k' \<noteq> k \<Longrightarrow> load (store_at k v s) k' = load s k'"
  by (simp add: load_store)

lemma load_store_all:
  "load (fold (\<lambda>k. store_at k v) ks s) k' = (if k' \<in> set ks then v else load s k')"
  by (induction ks arbitrary: s) (auto simp: load_store)

end

interpretation status: node_store getNodeStatus setNodeStatus
  by unfold_locales (simp add: setNodeStatus_def getNodeStatus_def)

interpretation boot: node_store getBootID setBootID
  by unfold_locales (simp add: setBootID_def getBootID_def)

interpretation started_at: node_store getUpgradeStartTime
  "\<lambda>n t s. s\<lparr>nodeUpgradeStartTime := (nodeUpgradeStartTime s)(n \<mapsto> t)\<rparr>"
  by unfold_locales (simp add: getUpgradeStartTime_def)

lemmas status_simps [simp] = status.load_store

lemma status_other_fields [simp]:
  "getNodeStatus (clearUpgradeStartTime k s) = getNodeStatus s"
  "getNodeStatus (setUpgradeStartTime api k s) = getNodeStatus s"
  "getNodeStatus (setBootID k b s) = getNodeStatus s"
  "getNodeStatus (spawn t s) = getNodeStatus s"
  "getNodeStatus (setcurrentSpec dc s) = getNodeStatus s"
  "getNodeStatus (s\<lparr>init := i\<rparr>) = getNodeStatus s"
  by (simp_all add: fun_eq_iff getNodeStatus_def clearUpgradeStartTime_def setUpgradeStartTime_def
      setBootID_def spawn_def setcurrentSpec_def timeNow_def logCall_def)

lemma spawned_other [simp]:
  "spawned (setNodeStatus k v s) = spawned s"
  "spawned (clearUpgradeStartTime k s) = spawned s"
  "spawned (setUpgradeStartTime api k s) = spawned s"
  "spawned (setBootID k b s) = spawned s"
  "spawned (setcurrentSpec dc s) = spawned s"
  "spawned (clearNodeStatus s) = spawned s"
  "spawned (s\<lparr>init := i\<rparr>) = spawned s"
  by (simp_all add: setNodeStatus_def clearUpgradeStartTime_def setUpgradeStartTime_def
      setBootID_def setcurrentSpec_def clearNodeStatus_def timeNow_def logCall_def)

lemma status_cleared [simp]: "getNodeStatus (clearNodeStatus s) n = UpgradeStateEmpty"
  by (simp add: getNodeStatus_def clearNodeStatus_def)

lemma hist_own_fields [simp]:
  "hist (setNodeStatus k v s) = hist s"
  "hist (clearUpgradeStartTime k s) = hist s"
  "hist (setBootID k b s) = hist s"
  "hist (setcurrentSpec dc s) = hist s"
  "hist (clearNodeStatus s) = hist s"
  "hist (spawn t s) = hist s"
  by (simp_all add: setNodeStatus_def clearUpgradeStartTime_def setBootID_def setcurrentSpec_def
      clearNodeStatus_def spawn_def)

section \<open>No operation touches another node\<close>

lemma handleInitStatus_other:
  "m \<noteq> n_Name node \<Longrightarrow> getNodeStatus (handleInitStatus api node dc s) m = getNodeStatus s m"
  by (simp add: handleInitStatus_def Let_def split_beta split: option.splits)

lemma hasUpgradeTimeExceeded_status [simp]:
  "getNodeStatus (snd (hasUpgradeTimeExceeded api n dc s)) = getNodeStatus s"
  "spawned (snd (hasUpgradeTimeExceeded api n dc s)) = spawned s"
  by (simp_all add: hasUpgradeTimeExceeded_def Let_def split_beta split: option.splits)

lemma handleUpgradeTimedOut_other:
  "m \<noteq> n_Name node \<Longrightarrow> getNodeStatus (handleUpgradeTimedOut api node dc s) m = getNodeStatus s m"
  by (simp add: handleUpgradeTimedOut_def Let_def split_beta split: bool.splits)

lemma isNodeNmcStatusMissing_other:
  "m \<noteq> n_Name node \<Longrightarrow>
     getNodeStatus (snd (isNodeNmcStatusMissing api node dc s)) m = getNodeStatus s m"
  by (simp add: isNodeNmcStatusMissing_def split_beta split: option.splits)

lemma isNodeReady_other:
  "m \<noteq> n_Name node \<Longrightarrow> getNodeStatus (snd (isNodeReady api node dc s)) m = getNodeStatus s m"
  by (simp add: isNodeReady_def Let_def split_beta split: option.splits)

lemma isNodeNew_other:
  "m \<noteq> n_Name node \<Longrightarrow> getNodeStatus (snd (isNodeNew api node dc s)) m = getNodeStatus s m"
  by (simp add: isNodeNew_def Let_def split_beta split: option.splits)

lemma isNodeStateUpgradeInProgress_other:
  "m \<noteq> n_Name node \<Longrightarrow>
     getNodeStatus (snd (isNodeStateUpgradeInProgress api node dc s)) m = getNodeStatus s m"
  by (simp add: isNodeStateUpgradeInProgress_def Let_def split_beta split: option.splits)

lemmas classify_other = handleInitStatus_other handleUpgradeTimedOut_other
  isNodeNmcStatusMissing_other isNodeReady_other isNodeNew_other isNodeStateUpgradeInProgress_other

lemma processNode_other:
  "m \<noteq> n_Name node \<Longrightarrow> getNodeStatus (snd (processNode api dc node s)) m = getNodeStatus s m"
  by (simp add: processNode_def Let_def split_beta classify_other split: bool.splits)

section \<open>What the tests do to the node's own status\<close>

text \<open>The states in which a node takes part in an upgrade.\<close>

definition activeState :: "UpgradeState \<Rightarrow> bool" where
  "activeState st \<longleftrightarrow> st = UpgradeStateStarted \<or> st = UpgradeStateRebootInProgress
     \<or> st = UpgradeStateInProgress"

lemma active_not_failed: "activeState st \<Longrightarrow> \<not> isNodeInFailedUpgradeStates st"
  by (auto simp: activeState_def isNodeInFailedUpgradeStates_def)

lemma handleInitStatus_status:
  "getNodeStatus (handleInitStatus api node dc s) (n_Name node) =
     (if getNodeStatus s (n_Name node) = UpgradeStateEmpty then UpgradeStateNotStarted
      else getNodeStatus s (n_Name node))
   \<or> (isNodeInFailedUpgradeStates (getNodeStatus s (n_Name node))
      \<and> isLabelUpgradeRequiredOnNode node
      \<and> getNodeStatus (handleInitStatus api node dc s) (n_Name node) = UpgradeStateNotStarted)"
  by (auto simp: handleInitStatus_def Let_def split_beta isNodeInFailedUpgradeStates_def
      split: option.splits)

lemma handleUpgradeTimedOut_status:
  "getNodeStatus (handleUpgradeTimedOut api node dc s) (n_Name node) = getNodeStatus s (n_Name node)
   \<or> (activeState (getNodeStatus s (n_Name node))
      \<and> getNodeStatus (handleUpgradeTimedOut api node dc s) (n_Name node) = UpgradeStateTimedOut)"
  by (auto simp: handleUpgradeTimedOut_def Let_def split_beta activeState_def split: bool.splits)

lemma isNodeNmcStatusMissing_true:
  "isNodeNmcStatusMissing api node dc s = (True, s') \<Longrightarrow>
     getNodeStatus s (n_Name node) = UpgradeStateInProgress
     \<and> getNodeStatus s' (n_Name node) = UpgradeStateInProgress"
  by (auto simp: isNodeNmcStatusMissing_def split_beta split: option.splits if_splits)

lemma isNodeNmcStatusMissing_false:
  "isNodeNmcStatusMissing api node dc s = (False, s') \<Longrightarrow>
     getNodeStatus s' (n_Name node) = getNodeStatus s (n_Name node)
     \<or> (getNodeStatus s (n_Name node) = UpgradeStateInProgress
        \<and> getNodeStatus s' (n_Name node) = UpgradeStateUncordonFailed)"
  by (auto simp: isNodeNmcStatusMissing_def split_beta split: option.splits if_splits)

lemma isNodeReady_true:
  "isNodeReady api node dc s = (True, s') \<Longrightarrow>
     getNodeStatus s' (n_Name node) = UpgradeStateComplete
     \<or> getNodeStatus s' (n_Name node) = UpgradeStateInstallComplete"
  by (auto simp: isNodeReady_def split_beta Let_def split: option.splits if_splits)

lemma isNodeReady_false:
  "isNodeReady api node dc s = (False, s') \<Longrightarrow>
     getNodeStatus s' (n_Name node) = getNodeStatus s (n_Name node)
     \<or> getNodeStatus s' (n_Name node) = UpgradeStateUncordonFailed"
  by (auto simp: isNodeReady_def split_beta Let_def split: option.splits if_splits)

lemma isNodeNew_true:
  "isNodeNew api node dc s = (True, s') \<Longrightarrow>
     getNodeStatus s' (n_Name node) = UpgradeStateInstallInProgress"
  by (auto simp: isNodeNew_def split_beta Let_def split: option.splits if_splits)

lemma isNodeNew_false: "isNodeNew api node dc s = (False, s') \<Longrightarrow> s' = s"
  by (auto simp: isNodeNew_def split_beta Let_def split: option.splits if_splits)

lemma isNodeStateUpgradeInProgress_true:
  "isNodeStateUpgradeInProgress api node dc s = (True, s') \<Longrightarrow>
     getNodeStatus s (n_Name node) = UpgradeStateInProgress
     \<and> (getNodeStatus s' (n_Name node) = UpgradeStateInProgress
        \<or> getNodeStatus s' (n_Name node) = UpgradeStateFailed)"
  by (auto simp: isNodeStateUpgradeInProgress_def split_beta Let_def split: option.splits if_splits)

lemma isNodeStateUpgradeInProgress_false:
  "isNodeStateUpgradeInProgress api node dc s = (False, s') \<Longrightarrow>
     s' = s \<and> getNodeStatus s (n_Name node) \<noteq> UpgradeStateInProgress"
  by (auto simp: isNodeStateUpgradeInProgress_def split_beta Let_def split: option.splits if_splits)

text \<open>The outcomes of one pass over a node, with the intermediate states named.\<close>

lemma processNode_cases:
  assumes "processNode api dc node s = (v, s')"
  obtains
    (failed) "v = VFailed"
      "s' = clearUpgradeStartTime (n_Name node)
              (handleUpgradeTimedOut api node dc (handleInitStatus api node dc s))"
      "isNodeInFailedUpgradeStates (getNodeStatus s' (n_Name node))"
  | (missing) "v = VInProgress"
      "isNodeNmcStatusMissing api node dc
         (handleUpgradeTimedOut api node dc (handleInitStatus api node dc s)) = (True, s')"
  | (rest) s2 s3 where
      "s2 = handleUpgradeTimedOut api node dc (handleInitStatus api node dc s)"
      "\<not> isNodeInFailedUpgradeStates (getNodeStatus s2 (n_Name node))"
      "isNodeNmcStatusMissing api node dc s2 = (False, s3)"
      "v = VInProgress \<and> isNodeStateUpgradeStarted s3 node \<and> s' = s3
       \<or> \<not> isNodeStateUpgradeStarted s3 node \<and>
         (case isNodeReady api node dc s3 of
            (True, s4) \<Rightarrow> v = VDone \<and> s' = clearUpgradeStartTime (n_Name node) s4
          | (False, s4) \<Rightarrow>
              (case isNodeNew api node dc s4 of
                 (True, s5) \<Rightarrow> v = VInstall \<and> s' = s5
               | (False, s5) \<Rightarrow>
                   if isNodeStateInstallInProgress s5 node then v = VInstall \<and> s' = s5
                   else case isNodeStateUpgradeInProgress api node dc s5 of
                     (True, s6) \<Rightarrow> v = VInProgress \<and> s' = s6
                   | (False, s6) \<Rightarrow>
                       s' = s6 \<and> v = (if isNodeReadyForUpgrade node then VCandidate else VNotReady)))"
proof -
  let ?s2 = "handleUpgradeTimedOut api node dc (handleInitStatus api node dc s)"
  show ?thesis
  proof (cases "isNodeStateUpgradeFailed ?s2 node")
    case True
    with assms have "v = VFailed" "s' = clearUpgradeStartTime (n_Name node) ?s2"
      by (simp_all add: processNode_def Let_def)
    with True show ?thesis by (intro failed) (simp_all add: isNodeStateUpgradeFailed_def)
  next
    case False
    obtain b s3 where nmc: "isNodeNmcStatusMissing api node dc ?s2 = (b, s3)" by fastforce
    show ?thesis
    proof (cases b)
      case True
      with False assms nmc have "v = VInProgress" "s' = s3"
        by (simp_all add: processNode_def Let_def)
      with True nmc show ?thesis by (intro missing) simp_all
    next
      case b: False
      with False assms nmc show ?thesis
        by (intro rest [OF refl, where ?s3.0 = s3])
          (auto simp: processNode_def Let_def isNodeStateUpgradeFailed_def
            split: prod.splits bool.splits if_splits)
    qed
  qed
qed

end
