(* ===== verification/Upgrade_Pass.thy ===== *)
theory Upgrade_Pass
  imports Upgrade_Facts
begin

text \<open>
  The pass of the upgrade manager over the nodes of a DeviceConfig: the state machine that one
  pass may drive a node through, the meaning of the counters the pass computes, and the bounds the
  upgrade policy puts on the number of nodes that take part in an upgrade.
\<close>

section \<open>The state machine of a pass\<close>

text \<open>
  \<open>passStep\<close> is the specification: the moves a reconcile may make with a node before it starts new
  upgrades.  No move leads into an active state.
\<close>

inductive passStep :: "UpgradeState \<Rightarrow> UpgradeState \<Rightarrow> bool" where
  seen: "passStep UpgradeStateEmpty UpgradeStateNotStarted"
| retried: "isNodeInFailedUpgradeStates st \<Longrightarrow> passStep st UpgradeStateNotStarted"
| timedOut: "activeState st \<Longrightarrow> passStep st UpgradeStateTimedOut"
| uncordonFailed: "st \<noteq> UpgradeStateStarted \<Longrightarrow> st \<noteq> UpgradeStateRebootInProgress \<Longrightarrow>
    st \<noteq> UpgradeStateComplete \<Longrightarrow> st \<noteq> UpgradeStateInstallComplete \<Longrightarrow>
    passStep st UpgradeStateUncordonFailed"
| installed: "passStep UpgradeStateInstallInProgress UpgradeStateInstallComplete"
| completed: "st \<noteq> UpgradeStateStarted \<Longrightarrow> st \<noteq> UpgradeStateRebootInProgress \<Longrightarrow>
    st \<noteq> UpgradeStateInstallInProgress \<Longrightarrow> passStep st UpgradeStateComplete"
| new: "st \<noteq> UpgradeStateStarted \<Longrightarrow> st \<noteq> UpgradeStateRebootInProgress \<Longrightarrow>
    passStep st UpgradeStateInstallInProgress"
| relabelFailed: "passStep UpgradeStateInProgress UpgradeStateFailed"

code_pred passStep .

inductive_simps passStep_Started: "passStep UpgradeStateStarted st"
inductive_cases passStep_to: "passStep st st'"

lemmas passMoves [intro] = passStep.intros [THEN r_into_rtranclp [of passStep]]

lemma passStep_inactive: "passStep st st' \<Longrightarrow> \<not> activeState st'"
  by (auto elim!: passStep_to simp: activeState_def)

lemma passSteps_inactive: "passStep\<^sup>*\<^sup>* st st' \<Longrightarrow> activeState st' \<Longrightarrow> st' = st"
  by (induction rule: rtranclp_induct) (auto dest: passStep_inactive)

lemma handleInitStatus_passes:
  "passStep\<^sup>*\<^sup>* (getNodeStatus s (n_Name node)) (getNodeStatus (handleInitStatus api node dc s) (n_Name node))"
  using handleInitStatus_status [of api node dc s]
  by (auto split: if_splits)

lemma handleUpgradeTimedOut_passes:
  "passStep\<^sup>*\<^sup>* (getNodeStatus s (n_Name node)) (getNodeStatus (handleUpgradeTimedOut api node dc s) (n_Name node))"
  using handleUpgradeTimedOut_status [of api node dc s] by auto

lemma isNodeNmcStatusMissing_passes:
  "passStep\<^sup>*\<^sup>* (getNodeStatus s (n_Name node))
     (getNodeStatus (snd (isNodeNmcStatusMissing api node dc s)) (n_Name node))"
proof (cases "isNodeNmcStatusMissing api node dc s")
  case (Pair b s')
  then show ?thesis
    using isNodeNmcStatusMissing_true [of api node dc s s'] isNodeNmcStatusMissing_false [of api node dc s s']
    by (cases b) auto
qed

lemma isNodeReady_passes:
  assumes "\<not> isNodeStateUpgradeStarted s node"
  shows "passStep\<^sup>*\<^sup>* (getNodeStatus s (n_Name node))
     (getNodeStatus (snd (isNodeReady api node dc s)) (n_Name node))"
  using assms
  by (auto simp: isNodeReady_def split_beta Let_def isNodeStateUpgradeStarted_def
      split: option.splits)

lemma isNodeNew_passes:
  assumes "getNodeStatus s (n_Name node) \<noteq> UpgradeStateStarted"
    and "getNodeStatus s (n_Name node) \<noteq> UpgradeStateRebootInProgress"
  shows "passStep\<^sup>*\<^sup>* (getNodeStatus s (n_Name node))
     (getNodeStatus (snd (isNodeNew api node dc s)) (n_Name node))"
proof (cases "isNodeNew api node dc s")
  case (Pair b s')
  with assms show ?thesis
    using isNodeNew_true [of api node dc s s'] isNodeNew_false [of api node dc s s']
    by (cases b) auto
qed

lemma isNodeStateUpgradeInProgress_passes:
  "passStep\<^sup>*\<^sup>* (getNodeStatus s (n_Name node))
     (getNodeStatus (snd (isNodeStateUpgradeInProgress api node dc s)) (n_Name node))"
proof (cases "isNodeStateUpgradeInProgress api node dc s")
  case (Pair b s')
  then show ?thesis
    using isNodeStateUpgradeInProgress_true [of api node dc s s']
      isNodeStateUpgradeInProgress_false [of api node dc s s']
    by (cases b) auto
qed

text \<open>The classification of a node makes moves of the machine only.\<close>

lemma processNode_passes:
  "passStep\<^sup>*\<^sup>* (getNodeStatus s (n_Name node)) (getNodeStatus (snd (processNode api dc node s)) (n_Name node))"
proof -
  let ?n = "n_Name node"
  let ?s1 = "handleInitStatus api node dc s"
  let ?s2 = "handleUpgradeTimedOut api node dc ?s1"
  obtain v s' where pn: "processNode api dc node s = (v, s')" by fastforce
  have upto2: "passStep\<^sup>*\<^sup>* (getNodeStatus s ?n) (getNodeStatus ?s2 ?n)"
    by (rule rtranclp_trans [OF handleInitStatus_passes handleUpgradeTimedOut_passes])
  from pn show ?thesis
  proof (cases rule: processNode_cases)
    case failed
    with pn upto2 show ?thesis by simp
  next
    case missing
    with pn upto2 show ?thesis
      using isNodeNmcStatusMissing_passes [of ?s2 node api dc] by (simp add: rtranclp_trans)
  next
    case (rest s2 s3)
    have upto3: "passStep\<^sup>*\<^sup>* (getNodeStatus s ?n) (getNodeStatus s3 ?n)"
      using upto2 isNodeNmcStatusMissing_passes [of s2 node api dc] rest(1,3)
      by (simp add: rtranclp_trans)
    show ?thesis
    proof (cases "isNodeStateUpgradeStarted s3 node")
      case True
      with rest(4) pn upto3 show ?thesis by simp
    next
      case False
      obtain b4 s4 where s4: "isNodeReady api node dc s3 = (b4, s4)" by fastforce
      have upto4: "passStep\<^sup>*\<^sup>* (getNodeStatus s ?n) (getNodeStatus s4 ?n)"
        using upto3 isNodeReady_passes [OF False, of api dc] s4 by (simp add: rtranclp_trans)
      show ?thesis
      proof (cases b4)
        case True
        with False rest(4) s4 pn upto4 show ?thesis by simp
      next
        case b4: False
        with isNodeReady_false [of api node dc s3 s4] s4 False
        have ns: "getNodeStatus s4 ?n \<noteq> UpgradeStateStarted" "getNodeStatus s4 ?n \<noteq> UpgradeStateRebootInProgress"
          by (auto simp: isNodeStateUpgradeStarted_def)
        obtain b5 s5 where s5: "isNodeNew api node dc s4 = (b5, s5)" by fastforce
        have upto5: "passStep\<^sup>*\<^sup>* (getNodeStatus s ?n) (getNodeStatus s5 ?n)"
          using upto4 isNodeNew_passes [OF ns, of api dc] s5 by (simp add: rtranclp_trans)
        have upto6: "passStep\<^sup>*\<^sup>* (getNodeStatus s ?n)
            (getNodeStatus (snd (isNodeStateUpgradeInProgress api node dc s5)) ?n)"
          using upto5 isNodeStateUpgradeInProgress_passes [of s5 node api dc] by (rule rtranclp_trans)
        from False b4 rest(4) s4 s5 pn upto5 upto6 show ?thesis
          by (auto split: bool.splits prod.splits if_splits)
      qed
    qed
  qed
qed

section \<open>What the verdicts mean\<close>

fun verdictFits :: "verdict \<Rightarrow> UpgradeState \<Rightarrow> bool" where
  "verdictFits VFailed st = isNodeInFailedUpgradeStates st"
| "verdictFits VInProgress st = (activeState st \<or> st = UpgradeStateFailed)"
| "verdictFits VDone st = (st = UpgradeStateComplete \<or> st = UpgradeStateInstallComplete)"
| "verdictFits VInstall st = (st = UpgradeStateInstallInProgress)"
| "verdictFits VNotReady st = (\<not> activeState st \<and> st \<noteq> UpgradeStateInstallInProgress)"
| "verdictFits VCandidate st = (\<not> activeState st \<and> st \<noteq> UpgradeStateInstallInProgress)"

lemma processNode_verdict:
  assumes "processNode api dc node s = (v, s')"
  shows "verdictFits v (getNodeStatus s' (n_Name node))"
  using assms
proof (cases rule: processNode_cases)
  case failed
  then show ?thesis by simp
next
  case missing
  then show ?thesis by (auto dest: isNodeNmcStatusMissing_true simp: activeState_def)
next
  case (rest s2 s3)
  show ?thesis
  proof (cases "isNodeStateUpgradeStarted s3 node")
    case True
    with rest(4) show ?thesis by (auto simp: isNodeStateUpgradeStarted_def activeState_def)
  next
    case False
    obtain b4 s4 where s4: "isNodeReady api node dc s3 = (b4, s4)" by fastforce
    obtain b5 s5 where s5: "isNodeNew api node dc s4 = (b5, s5)" by fastforce
    obtain b6 s6 where s6: "isNodeStateUpgradeInProgress api node dc s5 = (b6, s6)" by fastforce
    have ns: "b4 = False \<Longrightarrow> b5 = False \<Longrightarrow> \<not> isNodeStateUpgradeStarted s5 node"
      using isNodeReady_false [of api node dc s3 s4] isNodeNew_false [of api node dc s4 s5] s4 s5 False
      by (auto simp: isNodeStateUpgradeStarted_def)
    from False rest(4) s4 s5 s6 ns show ?thesis
      using isNodeReady_true [of api node dc s3 s4] isNodeNew_true [of api node dc s4 s5]
        isNodeStateUpgradeInProgress_true [of api node dc s5 s6]
        isNodeStateUpgradeInProgress_false [of api node dc s5 s6]
      by (cases b4; cases b5; cases b6)
        (auto simp: isNodeStateInstallInProgress_def isNodeStateUpgradeStarted_def activeState_def
          split: if_splits)
  qed
qed

section \<open>Loops that visit every node once\<close>

lemma length_filter_imp:
  "(\<And>x. x \<in> set xs \<Longrightarrow> P x \<Longrightarrow> Q x) \<Longrightarrow> length (filter P xs) \<le> length (filter Q xs)"
  by (induction xs) (auto intro: le_SucI)

lemma length_filter_or:
  "length (filter (\<lambda>x. P x \<or> Q x) xs) \<le> length (filter P xs) + length (filter Q xs)"
  by (induction xs) auto

lemma length_filter_named:
  assumes "distinct (map f xs)"
  shows "length (filter (\<lambda>x. f x \<in> set ks) xs) \<le> length ks"
proof -
  from assms have "distinct (map f (filter (\<lambda>x. f x \<in> set ks) xs))"
    by (simp add: distinct_map_filter)
  then have "length (map f (filter (\<lambda>x. f x \<in> set ks) xs)) = card (f ` {x \<in> set xs. f x \<in> set ks})"
    by (metis distinct_card set_filter set_map)
  also have "\<dots> \<le> card (set ks)" by (rule card_mono) auto
  also have "\<dots> \<le> length ks" by (rule card_length)
  finally show ?thesis by simp
qed

text \<open>The verdicts of a loop over the nodes, in order, and the state after it.\<close>

fun passLoop :: "(Node \<Rightarrow> 's \<Rightarrow> 'v \<times> 's) \<Rightarrow> Node list \<Rightarrow> 's \<Rightarrow> (Node \<times> 'v) list \<times> 's" where
  "passLoop step [] s = ([], s)"
| "passLoop step (node # nodes) s =
     (case step node s of (v, s1) \<Rightarrow>
      case passLoop step nodes s1 of (vs, s2) \<Rightarrow> ((node, v) # vs, s2))"

text \<open>
  A body that changes the status of its own node only.  When the names are distinct, every node is
  judged on the status it had before the loop, and leaves the loop with the status its own
  iteration gave it.
\<close>

locale node_pass =
  fixes step :: "Node \<Rightarrow> 's \<Rightarrow> 'v \<times> 's"
    and st :: "'s \<Rightarrow> string \<Rightarrow> 'q"
  assumes step_other: "m \<noteq> n_Name node \<Longrightarrow> st (snd (step node s)) m = st s m"
begin

lemma loop_nodes: "map fst (fst (passLoop step nodes s)) = nodes"
  by (induction nodes arbitrary: s) (auto simp: split_beta)

lemma loop_other: "m \<notin> n_Name ` set nodes \<Longrightarrow> st (snd (passLoop step nodes s)) m = st s m"
  by (induction nodes arbitrary: s) (auto simp: split_beta step_other)

lemma loop_visit:
  assumes "distinct (map n_Name nodes)" and "(node, v) \<in> set (fst (passLoop step nodes s))"
  shows "\<exists>t. st t (n_Name node) = st s (n_Name node) \<and> v = fst (step node t)
    \<and> st (snd (passLoop step nodes s)) (n_Name node) = st (snd (step node t)) (n_Name node)"
  using assms
proof (induction nodes arbitrary: s)
  case Nil
  then show ?case by simp
next
  case (Cons a nodes)
  let ?s1 = "snd (step a s)"
  consider "node = a" "v = fst (step a s)" | "(node, v) \<in> set (fst (passLoop step nodes ?s1))"
    using Cons.prems(2) by (auto simp: split_beta)
  then show ?case
  proof cases
    case 1
    with Cons.prems(1) have "st (snd (passLoop step (a # nodes) s)) (n_Name a) = st ?s1 (n_Name a)"
      using loop_other [of "n_Name a" nodes ?s1] by (simp add: split_beta)
    with 1 show ?thesis by (intro exI [of _ s]) simp
  next
    case 2
    then have "node \<in> set nodes"
      using loop_nodes [of nodes ?s1] by (metis fst_conv image_eqI set_map)
    with Cons.prems(1) have "n_Name node \<noteq> n_Name a" by (metis distinct.simps(2) image_eqI list.simps(9) set_map)
    with 2 Cons.IH [of ?s1] Cons.prems(1) show ?thesis
      by (auto simp: split_beta step_other)
  qed
qed

lemma loop_count:
  assumes "distinct (map n_Name nodes)"
    and "\<And>node v s s'. step node s = (v, s') \<Longrightarrow> P (st s' (n_Name node)) \<Longrightarrow> Q v"
  shows "length (filter (\<lambda>n. P (st (snd (passLoop step nodes s)) (n_Name n))) nodes)
       \<le> length (filter (\<lambda>(n, v). Q v) (fst (passLoop step nodes s)))"
proof -
  let ?vs = "fst (passLoop step nodes s)"
  let ?s' = "snd (passLoop step nodes s)"
  define R where "R = (\<lambda>n::Node. P (st ?s' (n_Name n)))"
  have "length (filter R nodes) = length (filter R (map fst ?vs))"
    by (simp only: loop_nodes)
  also have "\<dots> = length (filter (\<lambda>(n, v). R n) ?vs)"
    by (simp add: filter_map comp_def case_prod_unfold)
  finally have "length (filter (\<lambda>n. P (st ?s' (n_Name n))) nodes)
      = length (filter (\<lambda>(n, v). P (st ?s' (n_Name n))) ?vs)"
    by (simp add: R_def)
  also have "\<dots> \<le> length (filter (\<lambda>(n, v). Q v) ?vs)"
  proof (rule length_filter_imp, clarify)
    fix n v
    assume "(n, v) \<in> set ?vs" and P: "P (st ?s' (n_Name n))"
    from loop_visit [OF assms(1) this(1)] P assms(2) show "Q v"
      by (metis prod.collapse)
  qed
  finally show ?thesis .
qed

end

interpretation pass: node_pass "processNode api dc" getNodeStatus for api dc
  by unfold_locales (rule processNode_other)

lemma processNodes_passLoop:
  "processNodes api dc nodes l s =
     (fold (\<lambda>(n, v). countVerdict v n) (fst (passLoop (processNode api dc) nodes s)) l,
      snd (passLoop (processNode api dc) nodes s))"
  by (induction nodes arbitrary: l s) (auto simp: split_beta)

lemma counters_fold:
  "upgradeInProgress (fold (\<lambda>(n, v). countVerdict v n) vs l) =
     upgradeInProgress l + int (length (filter (\<lambda>(n, v). v = VInProgress) vs))"
  "upgradeFailedState (fold (\<lambda>(n, v). countVerdict v n) vs l) =
     upgradeFailedState l + int (length (filter (\<lambda>(n, v). v = VFailed) vs))"
  "upgradeDone (fold (\<lambda>(n, v). countVerdict v n) vs l) =
     upgradeDone l + int (length (filter (\<lambda>(n, v). v = VDone) vs))"
  "installInProgress (fold (\<lambda>(n, v). countVerdict v n) vs l) =
     installInProgress l + int (length (filter (\<lambda>(n, v). v = VInstall) vs))"
  "candidateNodes (fold (\<lambda>(n, v). countVerdict v n) vs l) =
     candidateNodes l @ map fst (filter (\<lambda>(n, v). v = VCandidate) vs)"
proof (induction vs arbitrary: l)
  case (Cons p vs)
  obtain n v where p: "p = (n, v)" by fastforce
  {
    case 1
    show ?case unfolding p by (cases v) (simp_all add: Cons.IH)
  next
    case 2
    show ?case unfolding p by (cases v) (simp_all add: Cons.IH)
  next
    case 3
    show ?case unfolding p by (cases v) (simp_all add: Cons.IH)
  next
    case 4
    show ?case unfolding p by (cases v) (simp_all add: Cons.IH)
  next
    case 5
    show ?case unfolding p by (cases v) (simp_all add: Cons.IH)
  }
qed simp_all

section \<open>Bounds on the number of active nodes\<close>

definition activeCount :: "umgr \<Rightarrow> Node list \<Rightarrow> nat" where
  "activeCount s nodes = length (filter (\<lambda>n. activeState (getNodeStatus s (n_Name n))) nodes)"

lemma processNodes_active:
  assumes "distinct (map n_Name nodes)" and "processNodes api dc nodes loopInit s = (l, s')"
  shows "int (activeCount s' nodes) \<le> upgradeInProgress l"
proof -
  have Q: "\<And>node v s s'. processNode api dc node s = (v, s') \<Longrightarrow>
      activeState (getNodeStatus s' (n_Name node)) \<Longrightarrow> v = VInProgress"
  proof -
    fix node v and s s' :: umgr
    assume "processNode api dc node s = (v, s')" and act: "activeState (getNodeStatus s' (n_Name node))"
    then have "verdictFits v (getNodeStatus s' (n_Name node))" by (intro processNode_verdict)
    with act active_not_failed [OF act] show "v = VInProgress"
      by (cases v) (auto simp: activeState_def)
  qed
  from assms(2) have s': "s' = snd (passLoop (processNode api dc) nodes s)"
    and l: "upgradeInProgress l =
      int (length (filter (\<lambda>(n, v). v = VInProgress) (fst (passLoop (processNode api dc) nodes s))))"
    by (auto simp: processNodes_passLoop counters_fold loopInit_def)
  from pass.loop_count [OF assms(1), where P = activeState and Q = "\<lambda>v. v = VInProgress", OF Q]
  show ?thesis unfolding activeCount_def s' l of_nat_le_iff .
qed

lemma processNodes_active_mono:
  assumes "distinct (map n_Name nodes)" and "processNodes api dc nodes l0 s = (l, s')"
  shows "activeCount s' nodes \<le> activeCount s nodes"
  unfolding activeCount_def
proof (rule length_filter_imp)
  fix node
  assume "node \<in> set nodes" and act: "activeState (getNodeStatus s' (n_Name node))"
  moreover from assms(2) have s': "s' = snd (passLoop (processNode api dc) nodes s)"
    by (simp add: processNodes_passLoop)
  ultimately obtain v where "(node, v) \<in> set (fst (passLoop (processNode api dc) nodes s))"
    using pass.loop_nodes [of api dc nodes s] by (metis (no_types, lifting) imageE prod.collapse set_map)
  from pass.loop_visit [OF assms(1) this] obtain t where
    "getNodeStatus t (n_Name node) = getNodeStatus s (n_Name node)"
    "getNodeStatus s' (n_Name node) = getNodeStatus (snd (processNode api dc node t)) (n_Name node)"
    using s' by auto
  with passSteps_inactive [OF processNode_passes [of t node api dc]] act
  show "activeState (getNodeStatus s (n_Name node))" by simp
qed

text \<open>
  The nodes a pass starts: those and only those become \<open>Upgrade-Started\<close>, and each gets its own
  goroutine.
\<close>

lemma startUpgrades_status:
  "getNodeStatus (startUpgrades api dc ns s) m =
     (if m \<in> n_Name ` set ns then UpgradeStateStarted else getNodeStatus s m)"
  by (induction ns arbitrary: s) (auto simp: startUpgrade_def)

lemma startUpgrades_spawned:
  "spawned (startUpgrades api dc ns s) = rev (map (TNodeUpgrade dc) ns) @ spawned s"
  by (induction ns arbitrary: s) (simp_all add: startUpgrade_def, simp add: spawn_def)

lemma startUpgrades_active:
  assumes "distinct (map n_Name nodes)"
  shows "activeCount (startUpgrades api dc ns s) nodes \<le> activeCount s nodes + length ns"
proof -
  have "activeCount (startUpgrades api dc ns s) nodes
      \<le> length (filter (\<lambda>n. activeState (getNodeStatus s (n_Name n)) \<or> n_Name n \<in> set (map n_Name ns)) nodes)"
    unfolding activeCount_def by (rule length_filter_imp) (auto simp: startUpgrades_status split: if_splits)
  also have "\<dots> \<le> activeCount s nodes + length (filter (\<lambda>n. n_Name n \<in> set (map n_Name ns)) nodes)"
    unfolding activeCount_def by (rule length_filter_or)
  also have "\<dots> \<le> activeCount s nodes + length ns"
    using length_filter_named [OF assms, of "map n_Name ns"] by simp
  finally show ?thesis .
qed

text \<open>The policy admits a start only below both limits.\<close>

lemma isUpgradePolicyViolated_admits:
  assumes "isUpgradePolicyViolated ip fs n up = (mx, False)"
  shows "ip < mx"
    and "up_MaxParallelUpgrades up \<noteq> 0 \<Longrightarrow> mx \<le> up_MaxParallelUpgrades up"
    and "\<exists>u. GetScaledValueFromIntOrPercent (up_MaxUnavailableNodes up) n = Some u \<and> mx + fs \<le> u"
  using assms by (auto simp: isUpgradePolicyViolated_def Let_def split: option.splits if_splits)

text \<open>The outcomes of a pass.\<close>

lemma HandleUpgrade_cases:
  assumes "HandleUpgrade api dc nodes s = (r, s')"
  obtains
    (off) "s' = s" "r = noRequeue"
      "\<not> isTrue (d_Enable (driver dc)) \<or> d_UpgradePolicy (driver dc) = None
       \<or> (\<exists>up. d_UpgradePolicy (driver dc) = Some up \<and> up_Enable up = Some False)"
  | (idle) up l where "d_UpgradePolicy (driver dc) = Some up"
      "processNodes api dc nodes loopInit (preparePass api dc s) = (l, s')"
  | (starts) up l s1 mx where "d_UpgradePolicy (driver dc) = Some up"
      "processNodes api dc nodes loopInit (preparePass api dc s) = (l, s1)"
      "isUpgradePolicyViolated (upgradeInProgress l) (upgradeFailedState l) (int (length nodes)) up
         = (mx, False)"
      "candidateNodes l \<noteq> []" "r = requeueIn 20"
      "s' = startUpgrades api dc (take (nat (mx - upgradeInProgress l)) (candidateNodes l)) s1"
proof (cases "isTrue (d_Enable (driver dc)) \<and> (\<exists>up. d_UpgradePolicy (driver dc) = Some up \<and> up_Enable up \<noteq> Some False)")
  case False
  with assms show ?thesis by (intro off) (auto simp: HandleUpgrade_def split: option.splits if_splits)
next
  case True
  then obtain up where en: "isTrue (d_Enable (driver dc))" and up: "d_UpgradePolicy (driver dc) = Some up"
    and "up_Enable up \<noteq> Some False" by auto
  obtain l s1 where l: "processNodes api dc nodes loopInit (preparePass api dc s) = (l, s1)" by fastforce
  obtain mx pv where p: "isUpgradePolicyViolated (upgradeInProgress l) (upgradeFailedState l)
      (int (length nodes)) up = (mx, pv)" by fastforce
  show ?thesis
  proof (cases "s' = s1")
    case True
    with up l show ?thesis by (intro idle) auto
  next
    case False
    with assms en up \<open>up_Enable up \<noteq> Some False\<close> l p show ?thesis
      by (intro starts [OF up l]) (auto simp: HandleUpgrade_def split: if_splits)
  qed
qed

lemma preparePass_status:
  assumes "init s"
  shows "getNodeStatus (preparePass api dc s) m = getNodeStatus s m
    \<or> getNodeStatus (preparePass api dc s) m = UpgradeStateEmpty"
    and "spawned (preparePass api dc s) = spawned s"
  using assms by (auto simp: preparePass_def isInit_def Let_def)

lemma preparePass_active:
  assumes "init s"
  shows "activeCount (preparePass api dc s) nodes \<le> activeCount s nodes"
  unfolding activeCount_def
proof (rule length_filter_imp)
  fix n
  assume "activeState (getNodeStatus (preparePass api dc s) (n_Name n))"
  with preparePass_status(1) [OF assms, of api dc "n_Name n"]
  show "activeState (getNodeStatus s (n_Name n))" by (auto simp: activeState_def)
qed

lemma started_bound:
  assumes "distinct (map n_Name nodes)"
    and "processNodes api dc nodes loopInit s0 = (l, s1)"
    and "isUpgradePolicyViolated (upgradeInProgress l) (upgradeFailedState l) (int (length nodes)) up
           = (mx, False)"
  shows "int (activeCount
    (startUpgrades api dc (take (nat (mx - upgradeInProgress l)) (candidateNodes l)) s1) nodes) \<le> mx"
proof -
  let ?ns = "take (nat (mx - upgradeInProgress l)) (candidateNodes l)"
  have "int (activeCount (startUpgrades api dc ?ns s1) nodes) \<le> int (activeCount s1 nodes) + int (length ?ns)"
    using startUpgrades_active [OF assms(1), of api dc ?ns s1] by linarith
  also have "\<dots> \<le> upgradeInProgress l + (mx - upgradeInProgress l)"
    using processNodes_active [OF assms(1,2)] isUpgradePolicyViolated_admits(1) [OF assms(3)] by auto
  finally show ?thesis by simp
qed

end
