(* ===== verification/Samples.thy ===== *)
theory Samples
  imports Upgrade_Helper
begin

text \<open>
  Concrete inputs at which the properties of the development are instantiated: a DeviceConfig with
  its sections, two nodes, and an API server that knows one node, answers every read with it and
  accepts every write.
\<close>

definition sampleTLS :: RegistryTLS where
  "sampleTLS = \<lparr>tls_Insecure = None, tls_InsecureSkipTLSVerify = None\<rparr>"

definition samplePolicy :: DriverUpgradePolicySpec where
  "samplePolicy = \<lparr>up_Enable = Some True, up_MaxParallelUpgrades = 1,
     up_MaxUnavailableNodes = StrVal ''25%'', up_NodeDrainPolicy = None,
     up_PodDeletionPolicy = None, up_RebootRequired = None\<rparr>"

definition sampleDriver :: DriverSpec where
  "sampleDriver = \<lparr>d_Enable = Some True, d_DriverType = ''container'',
     d_VFIOConfig = \<lparr>vfio_DeviceIDs = []\<rparr>,
     d_KernelModuleConfig = \<lparr>km_LoadArgs = [], km_UnloadArgs = [], km_Parameters = []\<rparr>,
     d_Blacklist = None, d_UseSourceImage = None, d_AMDGPUInstallerRepoURL = [],
     d_Version = ''6.3.3'', d_Image = [], d_ImageRegistryTLS = sampleTLS,
     d_ImageRegistrySecret = None, d_ImageSign = \<lparr>is_KeySecret = None, is_CertSecret = None\<rparr>,
     d_ImageBuild = \<lparr>ib_BaseImageRegistry = [], ib_SourceImageRepo = [], ib_PackageRepoURL = [],
       ib_GPGKeyURL = [], ib_BaseImageRegistryTLS = sampleTLS\<rparr>,
     d_UpgradePolicy = Some samplePolicy, d_Tolerations = []\<rparr>"

definition sampleMetrics :: MetricsExporterSpec where
  "sampleMetrics = \<lparr>me_Enable = Some True, me_Image = [], me_Prometheus = None,
     me_ImageRegistrySecret = None, me_ImagePullPolicy = [], me_Tolerations = [], me_Port = 5000,
     me_SvcType = ''ClusterIP'', me_NodePort = 0, me_Config = \<lparr>mc_Name = []\<rparr>,
     me_RbacConfig = \<lparr>rb_Enable = None, rb_Image = [], rb_DisableHttps = None, rb_Secret = None,
       rb_ClientCAConfigMap = None, rb_StaticAuthorization = None\<rparr>,
     me_Selector = None, me_UpgradePolicy = None, me_PodResourceAPISocketPath = [],
     me_PodAnnotations = [], me_ServiceAnnotations = [], me_Resource = None, me_HostNetwork = None\<rparr>"

definition samplePlugin :: DevicePluginSpec where
  "samplePlugin = \<lparr>dp_EnableDevicePlugin = Some True, dp_DevicePluginImage = [],
     dp_DevicePluginImagePullPolicy = [], dp_DevicePluginTolerations = [],
     dp_DevicePluginArguments = [], dp_NodeLabellerImage = [], dp_NodeLabellerImagePullPolicy = [],
     dp_NodeLabellerTolerations = [], dp_NodeLabellerArguments = [], dp_ImageRegistrySecret = None,
     dp_EnableNodeLabeller = Some True, dp_UpgradePolicy = None, dp_KubeletSocketPath = [],
     dp_HostNetwork = None\<rparr>"

definition sampleRemediation :: RemediationWorkflowSpec where
  "sampleRemediation = \<lparr>rw_Enable = Some True, rw_Config = Some \<lparr>lor_Name = ''cm''\<rparr>,
     rw_TtlForFailedWorkflows = ''24h'', rw_TesterImage = [], rw_MaxParallelWorkflows = 0,
     rw_NodeRemediationTaints = [], rw_NodeRemediationLabels = [], rw_NodeDrainPolicy = None,
     rw_AutoStartWorkflow = Some True, rw_ConfigMapImage = [], rw_RebootTimeout = []\<rparr>"

definition sampleSpec :: DeviceConfigSpec where
  "sampleSpec = \<lparr>s_Driver = sampleDriver, s_MetricsExporter = sampleMetrics,
     s_ConfigManager = \<lparr>cm_Enable = None, cm_Image = [], cm_ImagePullPolicy = [],
       cm_ImageRegistrySecret = None, cm_Config = None, cm_Selector = None, cm_UpgradePolicy = None,
       cm_ConfigManagerTolerations = []\<rparr>,
     s_DevicePlugin = samplePlugin,
     s_DRADriver = \<lparr>dra_Enable = None, dra_Image = [], dra_ImagePullPolicy = [],
       dra_Tolerations = [], dra_ImageRegistrySecret = None, dra_UpgradePolicy = None,
       dra_CmdLineArguments = [], dra_Selector = None\<rparr>,
     s_TestRunner = \<lparr>tr_Enable = None, tr_Image = [], tr_ImagePullPolicy = [], tr_Tolerations = [],
       tr_ImageRegistrySecret = None, tr_Config = None, tr_Selector = None, tr_UpgradePolicy = None,
       tr_LogsLocation = \<lparr>ll_MountPath = [], ll_HostPath = [], ll_LogsExportSecrets = []\<rparr>\<rparr>,
     s_CommonConfig = \<lparr>cc_InitContainerImage = [], cc_ImageRegistrySecrets = [],
       cc_UtilsContainer = \<lparr>uc_Image = [], uc_ImagePullPolicy = [], uc_ImageRegistrySecret = None\<rparr>\<rparr>,
     s_Selector = Some [(''feature.node.kubernetes.io/amd-gpu'', ''true'')],
     s_RemediationWorkflow = sampleRemediation\<rparr>"

definition sampleDeployment :: DeploymentStatus where
  "sampleDeployment =
     \<lparr>dst_NodesMatchingSelectorNumber = 0, dst_DesiredNumber = 0, dst_AvailableNumber = 0\<rparr>"

definition sampleModuleStatus :: "UpgradeState \<Rightarrow> ModuleStatus" where
  "sampleModuleStatus st = \<lparr>ms_ContainerImage = ''registry/driver:ubuntu-22.04-6.1.3'',
     ms_KernelVersion = [], ms_LastTransitionTime = [], ms_Status = st,
     ms_UpgradeStartTime = NoTime, ms_BootId = ''boot-1''\<rparr>"

definition sampleStatus :: "ModuleStatus gomap \<Rightarrow> DeviceConfigStatus" where
  "sampleStatus m = \<lparr>st_DevicePlugin = sampleDeployment, st_Drivers = sampleDeployment,
     st_MetricsExporter = sampleDeployment, st_ConfigManager = sampleDeployment,
     st_RemediationWorkflow = sampleDeployment, st_NodeModuleStatus = m, st_Conditions = [],
     st_ObservedGeneration = 0\<rparr>"

definition sampleDC :: DeviceConfig where
  "sampleDC = \<lparr>dc_Name = ''gpu'', dc_Namespace = ''kube-amd-gpu'', dc_Generation = 1,
     dc_Deleting = False, dc_Finalizers = [], dc_Spec = sampleSpec,
     dc_Status = sampleStatus [(''node-a'', sampleModuleStatus UpgradeStateComplete)]\<rparr>"

definition sampleNode :: "string \<Rightarrow> Node" where
  "sampleNode n = \<lparr>n_Name = n,
     n_Labels = [(''kmm.node.kubernetes.io/version-module.kube-amd-gpu.gpu'', ''6.1.3'')],
     n_Generation = 1, n_Taints = [], n_Unschedulable = False,
     n_Conditions = [\<lparr>nc_Type = ''Ready'', nc_Status = ''True''\<rparr>], n_BootID = ''boot-1'',
     n_OSImage = ''Ubuntu 22.04.5 LTS'', n_KernelVersion = ''5.15''\<rparr>"

definition nodeA :: Node where "nodeA = sampleNode ''node-a''"
definition nodeB :: Node where "nodeB = sampleNode ''node-b''"

definition sampleApi :: env where
  "sampleApi = \<lparr>o_node = \<lambda>h n. Inr (sampleNode n), o_pod = \<lambda>h ns n. Inl NotFound,
     o_nmc = \<lambda>h ns n. Inl NotFound, o_dc = \<lambda>h ns n. Inr sampleDC,
     o_configmap = \<lambda>h ns n. Inl NotFound, o_job = \<lambda>h ns n. Inl NotFound,
     o_workflow = \<lambda>h ns n. Inl NotFound, o_wftemplate = \<lambda>h ns n. Inl NotFound,
     o_wfstatus = \<lambda>h ns. Inr (Some []), o_module = \<lambda>h ns n. Inl NotFound,
     o_daemonset = \<lambda>h ns n. Inl NotFound, o_service = \<lambda>h ns n. Inl NotFound,
     o_servicemonitor = \<lambda>h ns n. Inl NotFound, o_secret = \<lambda>h ns n. Inl NotFound,
     o_buildcm = \<lambda>h ns n. Inl NotFound, o_workerpod = \<lambda>h ns n. Inl NotFound,
     o_exists = \<lambda>h k ns n. Some NotFound, o_listPods = \<lambda>h c. Inr [], o_listNodes = \<lambda>h sel. Inr [],
     o_listNodesExpr = \<lambda>h e. Inr [], o_parseSelector = \<lambda>e. True,
     o_listDCs = \<lambda>h. Inr [sampleDC], o_listWorkflows = \<lambda>h ns. Inr [],
     o_listNames = \<lambda>h k ns. Inr [], o_listWorkloads = \<lambda>h k ns sel. Inr [],
     o_createWorkflow = \<lambda>h w. Inr (wf_GenerateName w @ ''x1''), o_write = \<lambda>h c. None,
     o_readFile = \<lambda>f. Some [], o_getenv = \<lambda>v. None, o_discover = \<lambda>h v. None, o_yaml = \<lambda>y. Some [], o_now = \<lambda>h. 10000000000000,
     mapperOrder = \<lambda>h. defaultDriverversionsMappers\<rparr>"

text \<open>A manager that has made its first pass.\<close>

definition sampleMgr :: umgr where
  "sampleMgr = (newUpgradeMgrHelperHandler False)\<lparr>init := True\<rparr>"

lemmas sample_defs = sampleTLS_def samplePolicy_def sampleDriver_def sampleMetrics_def
  samplePlugin_def sampleRemediation_def sampleSpec_def sampleDeployment_def
  sampleModuleStatus_def sampleStatus_def sampleDC_def sampleNode_def nodeA_def nodeB_def
  sampleApi_def sampleMgr_def newUpgradeMgrHelperHandler_def

end
