(* ===== verification/Upgrade_Safety.thy ===== *)
theory Upgrade_Safety
  imports Upgrade_Pass Samples
begin

text \<open>
  The properties of the upgrade manager: refinement of the state machine, the limits of the
  upgrade policy, failed nodes and their retry, time outs, the order of the steps of a node's
  upgrade, restarts, and the bounds on polling.
\<close>

section \<open>Helper lemmas\<close>

lemma handleInitStatus_spawned [simp]: "spawned (handleInitStatus api node dc s) = spawned s"
  by (simp add: handleInitStatus_def Let_def split_beta split: option.splits)

lemma handleUpgradeTimedOut_spawned [simp]: "spawned (handleUpgradeTimedOut api node dc s) = spawned s"
  by (simp add: handleUpgradeTimedOut_def Let_def split_beta split: bool.splits)

lemma isNodeNmcStatusMissing_spawned [simp]:
  "spawned (snd (isNodeNmcStatusMissing api node dc s)) = spawned s"
  by (simp add: isNodeNmcStatusMissing_def split_beta split: option.splits)

lemma isNodeReady_spawned [simp]: "spawned (snd (isNodeReady api node dc s)) = spawned s"
  by (simp add: isNodeReady_def Let_def split_beta split: option.splits)

lemma isNodeNew_spawned [simp]: "spawned (snd (isNodeNew api node dc s)) = spawned s"
  by (simp add: isNodeNew_def Let_def split_beta split: option.splits)

lemma isNodeStateUpgradeInProgress_spawned [simp]:
  "spawned (snd (isNodeStateUpgradeInProgress api node dc s)) = spawned s"
  by (simp add: isNodeStateUpgradeInProgress_def Let_def split_beta split: option.splits)

lemma processNode_spawned [simp]: "spawned (snd (processNode api dc node s)) = spawned s"
  by (simp add: processNode_def Let_def split_beta split: bool.splits)

lemma processNodes_spawned: "spawned (snd (processNodes api dc nodes l s)) = spawned s"
  by (induction nodes arbitrary: l s) (auto simp: split_beta)

text \<open>Only nodes that pass the last test of the loop are candidates, in the order of the list.\<close>

lemma processNode_candidate:
  "fst (processNode api dc node s) = VCandidate \<Longrightarrow> isNodeReadyForUpgrade node"
  by (auto simp: processNode_def Let_def split_beta split: bool.splits if_splits)

lemma subseq_map_filter: "subseq (map f (filter P xs)) (map f xs)"
  by (intro subseq_map subseq_filter_left)

lemma processNodes_candidates:
  assumes "processNodes api dc nodes loopInit s = (l, s')"
  shows "subseq (candidateNodes l) nodes"
  using assms subseq_map_filter [of fst "\<lambda>(n, v). v = VCandidate" "fst (passLoop (processNode api dc) nodes s)"]
  by (auto simp: processNodes_passLoop counters_fold loopInit_def pass.loop_nodes)

lemma candidate_before:
  assumes "distinct (map n_Name nodes)" and "processNodes api dc nodes loopInit s = (l, s')"
    and "n \<in> set (candidateNodes l)"
  shows "isNodeReadyForUpgrade n"
    and "\<not> activeState (getNodeStatus s' (n_Name n))"
    and "passStep\<^sup>*\<^sup>* (getNodeStatus s (n_Name n)) (getNodeStatus s' (n_Name n))"
proof -
  from assms(2,3) have v: "(n, VCandidate) \<in> set (fst (passLoop (processNode api dc) nodes s))"
    and s': "s' = snd (passLoop (processNode api dc) nodes s)"
    by (auto simp: processNodes_passLoop counters_fold loopInit_def)
  from pass.loop_visit [OF assms(1) v] obtain t where
    t: "getNodeStatus t (n_Name n) = getNodeStatus s (n_Name n)" "VCandidate = fst (processNode api dc n t)"
      "getNodeStatus s' (n_Name n) = getNodeStatus (snd (processNode api dc n t)) (n_Name n)"
    using s' by auto
  from t(2) show "isNodeReadyForUpgrade n" by (metis processNode_candidate)
  from processNode_verdict [of api dc n t VCandidate] t show "\<not> activeState (getNodeStatus s' (n_Name n))"
    by (metis prod.collapse verdictFits.simps(6))
  from processNode_passes [of t n api dc] t
  show "passStep\<^sup>*\<^sup>* (getNodeStatus s (n_Name n)) (getNodeStatus s' (n_Name n))" by simp
qed

section \<open>State machine and policy limits\<close>


lemma pass_parallel_limit:
  assumes "distinct (map n_Name nodes)" and "init s"
    and "d_UpgradePolicy (driver dc) = Some up" and "up_MaxParallelUpgrades up > 0"
  shows "int (activeCount (snd (HandleUpgrade api dc nodes s)) nodes)
       \<le> max (int (activeCount s nodes)) (up_MaxParallelUpgrades up)"
proof -
  obtain r s' where h: "HandleUpgrade api dc nodes s = (r, s')" by fastforce
  then show ?thesis
  proof (cases rule: HandleUpgrade_cases)
    case off
    with h show ?thesis by simp
  next
    case (idle up' l)
    with h processNodes_active_mono [OF assms(1) idle(2)] preparePass_active [OF assms(2), of api dc nodes]
    show ?thesis by simp
  next
    case (starts up' l s1 mx)
    with assms(3) have "up' = up" by simp
    with started_bound [OF assms(1) starts(2,3)] isUpgradePolicyViolated_admits(2) [OF starts(3)]
      starts(6) h assms(4) show ?thesis by simp
  qed
qed

text \<open>
  C2: with a limit on parallel upgrades, a pass never raises the number of nodes that take part in
  an upgrade above the limit: the number of active nodes after \<open>HandleUpgrade\<close> is at most the
  larger of the limit and the number before, for every behaviour of the API server.
\<close>

theorem HandleUpgrade_parallel_limit:
  assumes "distinct (map n_Name nodes)" and "init s"
    and "d_UpgradePolicy (driver dc) = Some up" and "up_MaxParallelUpgrades up > 0"
  shows "int (activeCount (snd (HandleUpgrade api dc nodes s)) nodes)
       \<le> max (int (activeCount s nodes)) (up_MaxParallelUpgrades up)"
  using assms by (rule pass_parallel_limit)

theorem HandleUpgrade_parallel_limit_witness:
  "int (activeCount (snd (HandleUpgrade sampleApi sampleDC [nodeA, nodeB] sampleMgr)) [nodeA, nodeB])
     \<le> max (int (activeCount sampleMgr [nodeA, nodeB])) 1"
proof -
  have "distinct (map n_Name [nodeA, nodeB])" and "init sampleMgr"
    and "d_UpgradePolicy (driver sampleDC) = Some samplePolicy"
    and "up_MaxParallelUpgrades samplePolicy > 0"
    by (simp_all add: sample_defs)
  from HandleUpgrade_parallel_limit [OF this, of sampleApi] show ?thesis
    by (simp add: samplePolicy_def)
qed



lemma pass_starts:
  assumes "distinct (map n_Name nodes)" and "init s"
  shows "\<exists>ns. spawned (snd (HandleUpgrade api dc nodes s)) = rev (map (TNodeUpgrade dc) ns) @ spawned s
      \<and> subseq ns nodes
      \<and> (\<forall>n \<in> set ns. isNodeReadyForUpgrade n
           \<and> getNodeStatus (snd (HandleUpgrade api dc nodes s)) (n_Name n) = UpgradeStateStarted
           \<and> \<not> activeState (getNodeStatus (snd (processNodes api dc nodes loopInit (preparePass api dc s))) (n_Name n)))
      \<and> (ns \<noteq> [] \<longrightarrow> (\<forall>m. m \<notin> n_Name ` set ns \<longrightarrow>
           getNodeStatus (snd (HandleUpgrade api dc nodes s)) m
           = getNodeStatus (snd (processNodes api dc nodes loopInit (preparePass api dc s))) m))"
proof -
  obtain r s' where h: "HandleUpgrade api dc nodes s = (r, s')" by fastforce
  then show ?thesis
  proof (cases rule: HandleUpgrade_cases)
    case off
    with h show ?thesis by (intro exI [of _ "[]"]) simp
  next
    case (idle up' l)
    with h processNodes_spawned [of api dc nodes loopInit "preparePass api dc s"]
      preparePass_status(2) [OF assms(2), of api dc]
    show ?thesis by (intro exI [of _ "[]"]) simp
  next
    case (starts up l s1 mx)
    define ns where "ns = take (nat (mx - upgradeInProgress l)) (candidateNodes l)"
    have "subseq ns nodes" unfolding ns_def
      by (rule subseq_order.trans [OF prefix_imp_subseq [OF take_is_prefix] processNodes_candidates [OF starts(2)]])
    moreover have "n \<in> set (candidateNodes l)" if "n \<in> set ns" for n
      using that unfolding ns_def by (rule in_set_takeD)
    moreover have "spawned s1 = spawned s"
      using starts(2) processNodes_spawned [of api dc nodes loopInit "preparePass api dc s"]
        preparePass_status(2) [OF assms(2), of api dc] by simp
    ultimately show ?thesis
      using h starts(2,6) candidate_before(1,2) [OF assms(1) starts(2)]
      by (intro exI [of _ ns])
        (simp add: startUpgrades_spawned startUpgrades_status flip: ns_def)
  qed
qed



section \<open>Failed nodes, retry and time out\<close>

text \<open>
  a node in a failed state without the retry label is left alone: the pass counts it as failed,
  keeps its status, forgets its start time and makes no call to the API server at all.
\<close>

theorem processNode_failed_sticky:
  assumes "isNodeInFailedUpgradeStates (getNodeStatus s (n_Name node))"
    and "\<not> isLabelUpgradeRequiredOnNode node"
  shows "processNode api dc node s = (VFailed, clearUpgradeStartTime (n_Name node) s)"
proof -
  from assms have "handleInitStatus api node dc s = s"
    by (auto simp: handleInitStatus_def Let_def isNodeInFailedUpgradeStates_def)
  moreover from assms(1) have "handleUpgradeTimedOut api node dc s = s"
    by (auto simp: handleUpgradeTimedOut_def Let_def isNodeInFailedUpgradeStates_def)
  ultimately show ?thesis
    using assms(1) by (simp add: processNode_def isNodeStateUpgradeFailed_def)
qed

theorem processNode_failed_sticky_witness:
  "processNode sampleApi sampleDC nodeA (setNodeStatus ''node-a'' UpgradeStateDrainFailed sampleMgr)
   = (VFailed, clearUpgradeStartTime ''node-a'' (setNodeStatus ''node-a'' UpgradeStateDrainFailed sampleMgr))"
proof -
  have n: "n_Name nodeA = ''node-a''" by (simp add: sample_defs)
  have "isNodeInFailedUpgradeStates (getNodeStatus (setNodeStatus ''node-a'' UpgradeStateDrainFailed sampleMgr) (n_Name nodeA))"
    and "\<not> isLabelUpgradeRequiredOnNode nodeA"
    by code_simp+
  from processNode_failed_sticky [OF this, of sampleApi sampleDC] show ?thesis by (simp add: n)
qed

text \<open>
  the retry label makes a failed node eligible again: if the calls that remove the label and
  reset the module version succeed, \<open>handleInitStatus\<close> deletes the KMM worker pods of the node and
  the KMM build pods, and sets the status to \<open>NotStarted\<close>; if one of them fails the node stays
  failed.
\<close>

theorem handleInitStatus_retry:
  assumes "isNodeInFailedUpgradeStates (getNodeStatus s (n_Name node))"
    and "isLabelUpgradeRequiredOnNode node"
    and "removeLabelUpgradeRequiredOnNode api node s = (e1, s1)"
    and "resetModuleVersionOnNode api dc node s1 = (e2, s2)"
  shows "getNodeStatus (handleInitStatus api node dc s) (n_Name node) =
           (if e1 = None \<and> e2 = None then UpgradeStateNotStarted else getNodeStatus s (n_Name node))
    \<and> (e1 = None \<longrightarrow> e2 = None \<longrightarrow>
      hist (handleInitStatus api node dc s) = hist (snd (cleanupDanglingKMMPods api node dc s2)))"
proof -
  from assms(1) have ne: "getNodeStatus s (n_Name node) \<noteq> UpgradeStateEmpty"
    by (auto simp: isNodeInFailedUpgradeStates_def)
  obtain s3 where c: "cleanupDanglingKMMPods api node dc s2 = (None, s3)"
    by (simp add: cleanupDanglingKMMPods_def split_beta)
  have st: "getNodeStatus s1 = getNodeStatus s" "getNodeStatus s2 = getNodeStatus s"
    using getNodeStatus_more [OF more_removeLabelUpgradeRequiredOnNode [of api node s]] assms(3)
      getNodeStatus_more [OF more_resetModuleVersionOnNode [of api dc node s1]] assms(4) by auto
  from assms ne c st show ?thesis
    by (cases e1; cases e2) (simp_all add: handleInitStatus_def)
qed

definition failedA :: umgr where
  "failedA = setNodeStatus ''node-a'' UpgradeStateDrainFailed sampleMgr"

definition labelledA :: Node where
  "labelledA = nodeA\<lparr>n_Labels := store driverUpgradeStateLabelKey ''upgrade-required'' (n_Labels nodeA)\<rparr>"

theorem handleInitStatus_retry_witness:
  "getNodeStatus (handleInitStatus sampleApi labelledA sampleDC failedA) ''node-a'' = UpgradeStateDrainFailed"
proof -
  have "isNodeInFailedUpgradeStates (getNodeStatus failedA (n_Name labelledA))"
    and "isLabelUpgradeRequiredOnNode labelledA"
    by code_simp+
  moreover have "fst (resetModuleVersionOnNode sampleApi sampleDC labelledA
      (snd (removeLabelUpgradeRequiredOnNode sampleApi labelledA failedA))) = Some NotFound"
    and "getNodeStatus failedA ''node-a'' = UpgradeStateDrainFailed" and "n_Name labelledA = ''node-a''"
    by code_simp+
  ultimately show ?thesis
    using handleInitStatus_retry [of failedA labelledA sampleApi _ _ sampleDC]
    by (metis option.distinct(1) prod.collapse)
qed

text \<open>
  an upgrade that runs for more than two hours times out: with a start time recorded by the
  manager, a node in an active state whose module status is reported becomes \<open>Timed-Out\<close> in the
  next pass, and is counted as failed.
\<close>

theorem processNode_timeout:
  assumes "activeState (getNodeStatus s (n_Name node))"
    and "lookup (nodeModuleStatus dc) (n_Name node) = Some ms"
    and "getUpgradeStartTime s (n_Name node) = At t"
    and "o_now api (hist s) - t * 1000000000 > twoHours"
  shows "fst (processNode api dc node s) = VFailed
       \<and> getNodeStatus (snd (processNode api dc node s)) (n_Name node) = UpgradeStateTimedOut"
proof -
  from assms(1) have i: "handleInitStatus api node dc s = s"
    by (auto simp: handleInitStatus_def Let_def isNodeInFailedUpgradeStates_def activeState_def)
  from assms have "handleUpgradeTimedOut api node dc s
      = setNodeStatus (n_Name node) UpgradeStateTimedOut (logCall CNow s)"
    by (auto simp: handleUpgradeTimedOut_def hasUpgradeTimeExceeded_def timeNow_def activeState_def)
  with i show ?thesis
    by (simp add: processNode_def isNodeStateUpgradeFailed_def isNodeInFailedUpgradeStates_def)
qed

definition startedA :: umgr where
  "startedA = sampleMgr\<lparr>nodeStatus := [''node-a'' \<mapsto> UpgradeStateStarted],
     nodeUpgradeStartTime := [''node-a'' \<mapsto> At 100]\<rparr>"

theorem processNode_timeout_witness:
  "getNodeStatus (snd (processNode sampleApi sampleDC nodeA startedA)) (n_Name nodeA) = UpgradeStateTimedOut"
proof -
  have "activeState (getNodeStatus startedA (n_Name nodeA))"
    and "lookup (nodeModuleStatus sampleDC) (n_Name nodeA) = Some (sampleModuleStatus UpgradeStateComplete)"
    and "getUpgradeStartTime startedA (n_Name nodeA) = At 100"
    and "o_now sampleApi (hist startedA) - 100 * 1000000000 > twoHours"
    by code_simp+
  then show ?thesis by (simp add: processNode_timeout)
qed

text \<open>
  a node that is in no active state, or whose two hours are not over, never times out.
\<close>

theorem timeout_only_when_late:
  assumes "getNodeStatus (handleUpgradeTimedOut api node dc s) (n_Name node) \<noteq> getNodeStatus s (n_Name node)"
  shows "activeState (getNodeStatus s (n_Name node))
    \<and> getNodeStatus (handleUpgradeTimedOut api node dc s) (n_Name node) = UpgradeStateTimedOut
    \<and> (\<exists>ms t. lookup (nodeModuleStatus dc) (n_Name node) = Some ms
         \<and> (getUpgradeStartTime s (n_Name node) = At t
            \<or> getUpgradeStartTime s (n_Name node) = NoTime \<and> ms_UpgradeStartTime ms = At t)
         \<and> o_now api (hist s) - t * 1000000000 > twoHours)"
proof -
  have p: "parseTime x = Some t \<Longrightarrow> \<exists>u. x = At u \<and> t = u * 1000000000" for x t by (cases x) auto
  show ?thesis
    using assms handleUpgradeTimedOut_status [of api node dc s]
    by (auto simp: handleUpgradeTimedOut_def hasUpgradeTimeExceeded_def timeNow_def Let_def
        split: if_splits option.splits bool.splits prod.splits dest!: p)
qed

theorem timeout_only_when_late_witness:
  "\<exists>ms t. lookup (nodeModuleStatus sampleDC) (n_Name nodeA) = Some ms
     \<and> (getUpgradeStartTime startedA (n_Name nodeA) = At t
        \<or> getUpgradeStartTime startedA (n_Name nodeA) = NoTime \<and> ms_UpgradeStartTime ms = At t)
     \<and> o_now sampleApi (hist startedA) - t * 1000000000 > twoHours"
proof -
  have "getNodeStatus (handleUpgradeTimedOut sampleApi nodeA sampleDC startedA) (n_Name nodeA)
      \<noteq> getNodeStatus startedA (n_Name nodeA)"
    by code_simp
  from timeout_only_when_late [OF this] show ?thesis by blast
qed

section \<open>The policy\<close>

text \<open>
  the policy check is exact: a further upgrade is allowed if and only if the limit on
  unavailable nodes could be computed, the nodes in progress and the failed nodes together are
  below it, and the limit on parallel upgrades, unless it is zero, is not reached either.
\<close>

theorem isUpgradePolicyViolated_iff:
  assumes "0 \<le> ip" and "0 \<le> fs"
  shows "\<not> snd (isUpgradePolicyViolated ip fs n up) \<longleftrightarrow>
    (\<exists>u. GetScaledValueFromIntOrPercent (up_MaxUnavailableNodes up) n = Some u \<and> ip + fs < u
      \<and> (up_MaxParallelUpgrades up = 0 \<or> ip < up_MaxParallelUpgrades up))"
  using assms by (auto simp: isUpgradePolicyViolated_def Let_def split: option.splits)

theorem isUpgradePolicyViolated_iff_witness:
  "\<not> snd (isUpgradePolicyViolated 0 0 2 samplePolicy) \<longleftrightarrow>
    (\<exists>u. GetScaledValueFromIntOrPercent (up_MaxUnavailableNodes samplePolicy) 2 = Some u \<and> (0::int) + 0 < u
      \<and> (up_MaxParallelUpgrades samplePolicy = 0 \<or> 0 < up_MaxParallelUpgrades samplePolicy))"
  by (rule isUpgradePolicyViolated_iff) simp_all

text \<open>
  A percentage of the nodes is rounded up: \<open>maxUnavailableNodes\<close> given as \<open>v%\<close> of \<open>n\<close> nodes is the
  least integer that is not below the exact share, so a positive percentage of a non-empty
  cluster always allows at least one node, and one of at most 100 never more than all.
\<close>

theorem scaled_percent_ceiling:
  assumes "0 \<le> v" and "v < 2 ^ 63"
  shows "\<exists>k. GetScaledValueFromIntOrPercent (StrVal (itoa v @ ''%'')) n = Some k
    \<and> v * n \<le> 100 * k \<and> 100 * k < v * n + 100
    \<and> (0 < v \<longrightarrow> v \<le> 100 \<longrightarrow> 0 < n \<longrightarrow> 1 \<le> k \<and> k \<le> n)"
proof -
  let ?k = "ceilPercent v n"
  from atoi_itoa [of v] assms have "GetScaledValueFromIntOrPercent (StrVal (itoa v @ ''%'')) n = Some ?k"
    by (simp add: GetScaledValueFromIntOrPercent_def trimSuffix_def)
  moreover have b: "v * n \<le> 100 * ?k" "100 * ?k < v * n + 100"
    unfolding ceilPercent_def by linarith+
  moreover have "1 \<le> ?k \<and> ?k \<le> n" if "0 < v" "v \<le> 100" "0 < n"
  proof -
    from that have "0 < v * n" and "v * n \<le> 100 * n" by (simp_all add: mult_right_mono)
    with b show ?thesis by linarith
  qed
  ultimately show ?thesis by blast
qed

theorem scaled_percent_ceiling_witness:
  "\<exists>k. GetScaledValueFromIntOrPercent (StrVal (itoa 25 @ ''%'')) 2 = Some k \<and> 25 * 2 \<le> 100 * k \<and> 1 \<le> k"
proof -
  have "(0::int) \<le> 25" and "(25::int) < 2 ^ 63" by simp_all
  from scaled_percent_ceiling [OF this, of 2] show ?thesis by auto
qed

text \<open>
  C17: progress: when a pass finds candidates and the policy is not violated, it starts as many
  upgrades as the policy leaves room for, and at least one.
\<close>

theorem HandleUpgrade_progress:
  assumes "isTrue (d_Enable (driver dc))" and "d_UpgradePolicy (driver dc) = Some up"
    and "up_Enable up \<noteq> Some False" and "init s"
    and "processNodes api dc nodes loopInit (preparePass api dc s) = (l, s1)"
    and "candidateNodes l \<noteq> []"
    and "isUpgradePolicyViolated (upgradeInProgress l) (upgradeFailedState l) (int (length nodes)) up = (mx, False)"
  shows "length (spawned (snd (HandleUpgrade api dc nodes s)))
      = length (spawned s) + min (nat (mx - upgradeInProgress l)) (length (candidateNodes l))
    \<and> length (spawned s) < length (spawned (snd (HandleUpgrade api dc nodes s)))
    \<and> fst (HandleUpgrade api dc nodes s) = requeueIn 20"
proof -
  from assms(5) have vs: "candidateNodes l = map fst (filter (\<lambda>(n, v). v = VCandidate)
        (fst (passLoop (processNode api dc) nodes (preparePass api dc s))))"
    and dn: "upgradeDone l = int (length (filter (\<lambda>(n, v). v = VDone)
        (fst (passLoop (processNode api dc) nodes (preparePass api dc s)))))"
    by (auto simp: processNodes_passLoop counters_fold loopInit_def)
  let ?vs = "fst (passLoop (processNode api dc) nodes (preparePass api dc s))"
  have len: "length ?vs = length nodes" by (metis length_map pass.loop_nodes)
  from assms(6) vs obtain x where x: "x \<in> set ?vs" "snd x = VCandidate"
    by (auto simp: filter_empty_conv)
  have "length (filter (\<lambda>(n, v). v = VDone) ?vs) < length ?vs"
    by (rule length_filter_less [OF x(1)]) (use x(2) in auto)
  with dn len have "upgradeDone l \<noteq> int (length nodes)" by simp
  moreover have "spawned s1 = spawned s"
    using assms(5) processNodes_spawned [of api dc nodes loopInit "preparePass api dc s"]
      preparePass_status(2) [OF assms(4), of api dc] by simp
  moreover have "upgradeInProgress l < mx" by (rule isUpgradePolicyViolated_admits(1) [OF assms(7)])
  ultimately show ?thesis
    using assms by (cases "candidateNodes l") (simp_all add: HandleUpgrade_def startUpgrades_spawned)
qed

theorem HandleUpgrade_progress_witness:
  "length (spawned (snd (HandleUpgrade sampleApi sampleDC [nodeA, nodeB] sampleMgr))) > length (spawned sampleMgr)"
proof -
  let ?p = "processNodes sampleApi sampleDC [nodeA, nodeB] loopInit (preparePass sampleApi sampleDC sampleMgr)"
  have a: "isTrue (d_Enable (driver sampleDC))" and b: "d_UpgradePolicy (driver sampleDC) = Some samplePolicy"
    and c: "up_Enable samplePolicy \<noteq> Some False" and d: "init sampleMgr"
    by (simp_all add: sample_defs)
  have p: "?p = (fst ?p, snd ?p)" by (rule surjective_pairing)
  have e: "candidateNodes (fst ?p) \<noteq> []"
    and f: "isUpgradePolicyViolated (upgradeInProgress (fst ?p)) (upgradeFailedState (fst ?p))
      (int (length [nodeA, nodeB])) samplePolicy = (1, False)"
    by code_simp+
  from HandleUpgrade_progress [OF a b c d p e f] show ?thesis by blast
qed

section \<open>Unsupported operating systems\<close>

text \<open>
  for a node whose OS image no mapper knows, and a DeviceConfig that leaves the version open,
  \<open>GetDriverVersion\<close> reports no error and an empty version; every reported image ends in it, so the
  node counts as ready: with a successful uncordon \<open>isNodeReady\<close> marks the upgrade complete whatever
  driver runs there.
\<close>

theorem unsupported_os_is_ready:
  assumes "d_Version (driver dc) = []"
    and "GetDefaultDriversVersion (mapperOrder api (hist s)) node = Inl msg"
    and "lookup (nodeModuleStatus dc) (n_Name node) = Some ms"
    and "cordonOrUncordonNode api node False s = (None, s1)"
    and "getNodeStatus s (n_Name node) = UpgradeStateNotStarted"
  shows "GetDriverVersion (mapperOrder api (hist s)) node dc = ([], None)
    \<and> isNodeReady api node dc s = (True, setNodeStatus (n_Name node) UpgradeStateComplete s1)"
  using assms by (simp add: isNodeReady_def GetDriverVersion_def)

definition windowsNode :: Node where
  "windowsNode = nodeA\<lparr>n_OSImage := ''Windows Server''\<rparr>"

definition openVersionDC :: DeviceConfig where
  "openVersionDC = sampleDC\<lparr>dc_Spec := sampleSpec\<lparr>s_Driver := sampleDriver\<lparr>d_Version := []\<rparr>\<rparr>\<rparr>"

theorem unsupported_os_is_ready_witness:
  "fst (isNodeReady sampleApi windowsNode openVersionDC (setNodeStatus ''node-a'' UpgradeStateNotStarted sampleMgr))"
proof -
  let ?s = "setNodeStatus ''node-a'' UpgradeStateNotStarted sampleMgr"
  have "d_Version (driver openVersionDC) = []"
    and "GetDefaultDriversVersion (mapperOrder sampleApi (hist ?s)) windowsNode
      = Inl ''OS: windows server not supported''"
    and "lookup (nodeModuleStatus openVersionDC) (n_Name windowsNode) = Some (sampleModuleStatus UpgradeStateComplete)"
    and "fst (cordonOrUncordonNode sampleApi windowsNode False ?s) = None"
    and "getNodeStatus ?s (n_Name windowsNode) = UpgradeStateNotStarted"
    by code_simp+
  then show ?thesis
    using unsupported_os_is_ready [of openVersionDC sampleApi ?s windowsNode]
    by (metis fst_conv prod.collapse)
qed

end
