(* ===== verification/Traces.thy ===== *)
theory Traces
  imports Cluster
begin

text \<open>
  Which calls a computation makes.  \<open>ran P s t\<close>: the computation from \<open>s\<close> to \<open>t\<close> only added calls
  satisfying \<open>P\<close> to the log; \<open>callsUpTo k s t\<close>: it added at most \<open>k\<close> calls.  The rules are conditional
  rewrite rules that push both through the call wrappers, so that the automation that
  unfolds an operation also establishes what it called.
\<close>

definition ran :: "(call \<Rightarrow> bool) \<Rightarrow> 'a world_scheme \<Rightarrow> 'b world_scheme \<Rightarrow> bool" where
  "ran P s t \<longleftrightarrow> (\<exists>cs. hist t = cs @ hist s \<and> list_all P cs)"

lemma ran_refl [simp]: "ran P s s"
  by (simp add: ran_def)

lemma ran_trans [trans]: "ran P s t \<Longrightarrow> ran P t u \<Longrightarrow> ran P s u"
  by (auto simp: ran_def)

lemma ran_mono: "ran P s t \<Longrightarrow> (\<And>c. P c \<Longrightarrow> Q c) \<Longrightarrow> ran Q s t"
  by (auto simp: ran_def list_all_iff)

lemma ran_hist: "hist t = hist t' \<Longrightarrow> ran P s t = ran P s t'"
  by (simp add: ran_def)

lemma ran_logCall [simp]: "ran P s t \<Longrightarrow> P c \<Longrightarrow> ran P s (logCall c t)"
  by (auto simp: ran_def)

lemma ran_calls [simp]:
  "ran P s t \<Longrightarrow> P (CGet KNode [] n) \<Longrightarrow> ran P s (snd (getNode api n t))"
  "ran P s t \<Longrightarrow> P (CGet KPod ns n) \<Longrightarrow> ran P s (snd (getPod api ns n t))"
  "ran P s t \<Longrightarrow> P (CGet KNMC ns n) \<Longrightarrow> ran P s (snd (getNMC api ns n t))"
  "ran P s t \<Longrightarrow> P (CGet KDeviceConfig ns n) \<Longrightarrow> ran P s (snd (getDC api ns n t))"
  "ran P s t \<Longrightarrow> P (CGet KConfigMap ns n) \<Longrightarrow> ran P s (snd (getConfigMapObj api ns n t))"
  "ran P s t \<Longrightarrow> P (CGet KJob ns n) \<Longrightarrow> ran P s (snd (getJob api ns n t))"
  "ran P s t \<Longrightarrow> P (CGet KWorkflow ns n) \<Longrightarrow> ran P s (snd (getWorkflow api ns n t))"
  "ran P s t \<Longrightarrow> P (CGet KWorkflowTemplate ns n) \<Longrightarrow> ran P s (snd (getWfTemplate api ns n t))"
  "ran P s t \<Longrightarrow> P (CGet KRemediationWorkflowStatus ns ''default'') \<Longrightarrow> ran P s (snd (getWfStatus api ns t))"
  "ran P s t \<Longrightarrow> P (CGet KModule ns n) \<Longrightarrow> ran P s (snd (getModule api ns n t))"
  "ran P s t \<Longrightarrow> P (CGet KDaemonSet ns n) \<Longrightarrow> ran P s (snd (getDaemonSet api ns n t))"
  "ran P s t \<Longrightarrow> P (CGet KService ns n) \<Longrightarrow> ran P s (snd (getService api ns n t))"
  "ran P s t \<Longrightarrow> P (CGet KServiceMonitor ns n) \<Longrightarrow> ran P s (snd (getServiceMonitor api ns n t))"
  "ran P s t \<Longrightarrow> P (CGet KSecret ns n) \<Longrightarrow> ran P s (snd (getSecret api ns n t))"
  "ran P s t \<Longrightarrow> P (CGet KConfigMap ns n) \<Longrightarrow> ran P s (snd (getBuildCM api ns n t))"
  "ran P s t \<Longrightarrow> P (CGet KPod ns n) \<Longrightarrow> ran P s (snd (getWorker api ns n t))"
  "ran P s t \<Longrightarrow> P (CListExpr KNode e) \<Longrightarrow> ran P s (snd (listNodesExpr api e t))"
  "ran P s t \<Longrightarrow> P (CDiscover v) \<Longrightarrow> ran P s (snd (discover api v t))"
  "ran P s t \<Longrightarrow> P (CGet k ns n) \<Longrightarrow> ran P s (snd (existsObj api k ns n t))"
  "ran P s t \<Longrightarrow> P c \<Longrightarrow> ran P s (snd (listPods api c t))"
  "ran P s t \<Longrightarrow> P (CList KNode None sel) \<Longrightarrow> ran P s (snd (listNodes api sel t))"
  "ran P s t \<Longrightarrow> P (CList KDeviceConfig None []) \<Longrightarrow> ran P s (snd (listDCs api t))"
  "ran P s t \<Longrightarrow> P (CList KWorkflow (Some ns) sel) \<Longrightarrow> ran P s (snd (listWorkflows api ns sel t))"
  "ran P s t \<Longrightarrow> P (CList k (Some ns) []) \<Longrightarrow> ran P s (snd (listNames api k ns t))"
  "ran P s t \<Longrightarrow> P (CList k (Some ns) sel) \<Longrightarrow> ran P s (snd (listWorkloads api k ns sel t))"
  "ran P s t \<Longrightarrow> P (CCreate (OWorkflow w)) \<Longrightarrow> ran P s (snd (createWf api w t))"
  "ran P s t \<Longrightarrow> P c \<Longrightarrow> ran P s (snd (writeObj api c t))"
  "ran P s t \<Longrightarrow> P CNow \<Longrightarrow> ran P s (snd (timeNow api t))"
  "ran P s t \<Longrightarrow> P (CReadFile f) \<Longrightarrow> ran P s (snd (readFile api f t))"
  by (simp_all add: call_defs)

lemma ran_retry:
  assumes "\<And>u. ran P u (snd (fn u))" and "ran P s t"
  shows "ran P s (snd (retryOnConflict fn t))"
  by (rule retryOnConflict_keeps [where P = "ran P s"]) (use assms ran_trans in blast)+

lemma ran_issued: "ran P s t \<Longrightarrow> list_all P (issued s t)"
  by (auto simp: ran_def issued_def)

lemma ran_member: "ran P s t \<Longrightarrow> c \<in> set (issued s t) \<Longrightarrow> P c"
  by (metis list_all_iff ran_issued)

section \<open>Numbers of calls\<close>

definition callsUpTo :: "nat \<Rightarrow> 'a world_scheme \<Rightarrow> 'b world_scheme \<Rightarrow> bool" where
  "callsUpTo k s t \<longleftrightarrow> length (hist t) \<le> length (hist s) + k"

lemma callsUpTo_refl [simp]: "callsUpTo k s s"
  by (simp add: callsUpTo_def)

lemma callsUpTo_trans: "callsUpTo j s t \<Longrightarrow> callsUpTo k t u \<Longrightarrow> j + k \<le> n \<Longrightarrow> callsUpTo n s u"
  by (simp add: callsUpTo_def)

lemma callsUpTo_issued: "ran (\<lambda>c. True) s t \<Longrightarrow> callsUpTo k s t \<Longrightarrow> length (issued s t) \<le> k"
  by (auto simp: callsUpTo_def issued_def)

lemma hist_calls [simp]:
  "hist (snd (getNode api n t)) = CGet KNode [] n # hist t"
  "hist (snd (getPod api ns n t)) = CGet KPod ns n # hist t"
  "hist (snd (getNMC api ns n t)) = CGet KNMC ns n # hist t"
  "hist (snd (getDC api ns n t)) = CGet KDeviceConfig ns n # hist t"
  "hist (snd (listPods api c t)) = c # hist t"
  "hist (snd (writeObj api c t)) = c # hist t"
  "hist (snd (timeNow api t)) = CNow # hist t"
  by (simp_all add: call_defs)

lemma calls_retrySteps:
  assumes "\<And>u. length (hist (snd (fn u))) \<le> length (hist u) + k"
  shows "length (hist (snd (retrySteps n fn s))) \<le> length (hist s) + n * k"
proof (induction n arbitrary: s)
  case 0
  then show ?case by simp
next
  case (Suc n)
  obtain e s1 where fs: "fn s = (e, s1)" by fastforce
  with assms [of s] have "length (hist s1) \<le> length (hist s) + k" by simp
  with Suc.IH [of s1] fs show ?case by auto
qed

lemma calls_retryOnConflict:
  assumes "\<And>u. length (hist (snd (fn u))) \<le> length (hist u) + k"
  shows "length (hist (snd (retryOnConflict fn s))) \<le> length (hist s) + 5 * k"
  unfolding retryOnConflict_def using assms by (rule calls_retrySteps)

end
