(* ===== verification/Upgrade_Steps.thy ===== *)
theory Upgrade_Steps
  imports Upgrade_Pass Samples Traces
begin

text \<open>
  The goroutines of the upgrade manager: what they may do to the status of a node and which calls
  they make, the bounds on their polling, deletion of a DeviceConfig, and what a restarted manager
  recovers from the reported status.
\<close>

section \<open>Status changes of the goroutines\<close>

lemma finishReboot_status:
  "getNodeStatus (finishReboot api k dc s) m = getNodeStatus s m
   \<or> m = k \<and> getNodeStatus (finishReboot api k dc s) m = UpgradeStateInProgress"
  by (auto simp: finishReboot_def Let_def split_beta split: sum.splits)

lemma awaitNodeReady_status:
  "getNodeStatus (awaitNodeReady n api k dc s) m = getNodeStatus s m
   \<or> m = k \<and> getNodeStatus (awaitNodeReady n api k dc s) m = UpgradeStateInProgress"
proof (induction n arbitrary: s)
  case 0
  then show ?case using finishReboot_status [of api k dc s m] by simp
next
  case (Suc n)
  have st: "getNodeStatus (snd (getNode api k (snd (getDC api (dc_Namespace dc) (dc_Name dc) s)))) m
      = getNodeStatus s m" by simp
  from Suc.IH [of "snd (getNode api k (snd (getDC api (dc_Namespace dc) (dc_Name dc) s)))"] show ?case
    by (auto simp: Let_def split_beta st split: sum.splits)
qed

lemma deleteRebootPod_status:
  "getNodeStatus (deleteRebootPod api k dc force s) m = getNodeStatus s m
   \<or> m = k \<and> getNodeStatus (deleteRebootPod api k dc force s) m = UpgradeStateInProgress"
  using finishReboot_status [of api k dc "snd (getPod api (dc_Namespace dc) (p_Name (getRebootPod s k dc)) s)" m]
    awaitNodeReady_status [of 360 api k dc "snd (getPod api (dc_Namespace dc) (p_Name (getRebootPod s k dc)) s)" m]
  by (auto simp: deleteRebootPod_def split_beta split: sum.splits simp del: awaitNodeReady.simps)

lemma waitForRebootPod_status [simp]:
  "getNodeStatus (waitForRebootPod n api node dc s) = getNodeStatus s"
  by (induction n arbitrary: s) (auto simp: split_beta split: sum.splits)

definition rebootOutcome :: "UpgradeState \<Rightarrow> bool" where
  "rebootOutcome st \<longleftrightarrow> st = UpgradeStateRebootFailed \<or> st = UpgradeStateFailed
     \<or> st = UpgradeStateRebootInProgress \<or> st = UpgradeStateInProgress"

text \<open>A reboot as a sequence of named steps.\<close>

definition clearRebootPod :: "env \<Rightarrow> Node \<Rightarrow> DeviceConfig \<Rightarrow> umgr \<Rightarrow> err \<times> umgr" where
  "clearRebootPod api node dc s =
     (case getPod api (dc_Namespace dc) (p_Name (getRebootPod s (n_Name node) dc)) s of
        (Inr pod, s1) \<Rightarrow> writeObj api (CDelete KPod (p_Namespace pod) (p_Name pod)) s1
      | (Inl _, s1) \<Rightarrow> (None, s1))"

lemma handleNodeReboot_steps:
  obtains d u t c g where
    "d = clearRebootPod api node dc s"
    "u = updateModuleVersionOnNode api dc node (snd d)"
    "t = setBootID (n_Name node) (n_BootID node) (waitForDriverUpgrade 360 api node dc (snd u))"
    "c = writeObj api (CCreate (OPod (getRebootPod s (n_Name node) dc))) t"
    "g = getDC api (dc_Namespace dc) (dc_Name dc) (waitForRebootPod 300 api node dc (snd c))"
    "handleNodeReboot api node dc s =
      (if fst d \<noteq> None then setNodeStatus (n_Name node) UpgradeStateRebootFailed (snd d)
       else if fst u \<noteq> None then setNodeStatus (n_Name node) UpgradeStateFailed (snd u)
       else if fst c \<noteq> None then setNodeStatus (n_Name node) UpgradeStateRebootFailed (snd c)
       else case fst g of Inl _ \<Rightarrow> snd g
         | Inr f \<Rightarrow> deleteRebootPod api (n_Name node) dc False
             (if d_Version (driver f) = d_Version (driver dc)
              then setNodeStatus (n_Name node) UpgradeStateRebootInProgress (snd g) else snd g))"
  unfolding handleNodeReboot_def Let_def case_prod_unfold clearRebootPod_def [unfolded case_prod_unfold, symmetric]
  by (simp split: option.splits sum.splits del: waitForDriverUpgrade.simps waitForRebootPod.simps)

text \<open>The outcomes of a reboot, with the state before the last steps named.\<close>

lemma handleNodeReboot_cases:
  obtains (podStuck) t where "getNodeStatus t = getNodeStatus s"
      "handleNodeReboot api node dc s = setNodeStatus (n_Name node) UpgradeStateRebootFailed t"
  | (labelFailed) t where "getNodeStatus t = getNodeStatus s"
      "handleNodeReboot api node dc s = setNodeStatus (n_Name node) UpgradeStateFailed t"
  | (configGone) "getNodeStatus (handleNodeReboot api node dc s) = getNodeStatus s"
  | (rebooted) t where "getNodeStatus t = getNodeStatus s"
      "handleNodeReboot api node dc s = deleteRebootPod api (n_Name node) dc False
         (setNodeStatus (n_Name node) UpgradeStateRebootInProgress t)"
  | (configChanged) t where "getNodeStatus t = getNodeStatus s"
      "handleNodeReboot api node dc s = deleteRebootPod api (n_Name node) dc False t"
proof (cases rule: handleNodeReboot_steps [of api node dc s])
  case (1 d u t c g)
  note eq = 1(6)
  have std: "getNodeStatus (snd d) = getNodeStatus s"
    by (simp add: 1(1) clearRebootPod_def split_beta split: sum.split)
  have stu: "getNodeStatus (snd u) = getNodeStatus s" by (simp add: 1(2) std)
  have stt: "getNodeStatus t = getNodeStatus s" by (simp add: 1(3) stu del: waitForDriverUpgrade.simps)
  have stc: "getNodeStatus (snd c) = getNodeStatus s" by (simp add: 1(4) stt)
  have stg: "getNodeStatus (snd g) = getNodeStatus s" by (simp add: 1(5) stc del: waitForRebootPod.simps)
  consider "fst d \<noteq> None" | "fst d = None" "fst u \<noteq> None" | "fst d = None" "fst u = None" "fst c \<noteq> None"
    | e where "fst d = None" "fst u = None" "fst c = None" "fst g = Inl e"
    | f where "fst d = None" "fst u = None" "fst c = None" "fst g = Inr f"
    by (cases "fst g") blast+
  then show ?thesis
  proof cases
    case 1
    with eq std show ?thesis by (intro podStuck [of "snd d"]) simp_all
  next
    case 2
    with eq stu show ?thesis by (intro labelFailed [of "snd u"]) simp_all
  next
    case 3
    with eq stc show ?thesis by (intro podStuck [of "snd c"]) simp_all
  next
    case 4
    with eq stg show ?thesis by (intro configGone) simp
  next
    case (5 f)
    with eq stg show ?thesis
      by (cases "d_Version (driver f) = d_Version (driver dc)")
        (auto intro: rebooted [of "snd g"] configChanged [of "snd g"])
  qed
qed

lemma handleNodeReboot_status:
  "getNodeStatus (handleNodeReboot api node dc s) m = getNodeStatus s m
   \<or> m = n_Name node \<and> rebootOutcome (getNodeStatus (handleNodeReboot api node dc s) m)"
proof (cases rule: handleNodeReboot_cases [of s api node dc])
  case (rebooted t)
  then show ?thesis
    using deleteRebootPod_status [of api "n_Name node" dc False
        "setNodeStatus (n_Name node) UpgradeStateRebootInProgress t" m]
    by (auto simp: rebootOutcome_def split: if_splits)
next
  case (configChanged t)
  then show ?thesis
    using deleteRebootPod_status [of api "n_Name node" dc False t m] by (auto simp: rebootOutcome_def)
qed (auto simp: rebootOutcome_def)

text \<open>The goroutine of a node's upgrade, step by step.\<close>

lemma handleNodeUpgrade_cases:
  obtains (labelled) t where "getNodeStatus t = getNodeStatus s"
      "handleNodeUpgrade api dc node s = setNodeStatus (n_Name node) UpgradeStateInProgress t"
  | (outdated) "getNodeStatus (handleNodeUpgrade api dc node s) = getNodeStatus s"
  | (cordonFailed) t where "getNodeStatus t = getNodeStatus s"
      "handleNodeUpgrade api dc node s = setNodeStatus (n_Name node) UpgradeStateCordonFailed t"
  | (drainFailed) t where "getNodeStatus t = getNodeStatus s"
      "handleNodeUpgrade api dc node s = setNodeStatus (n_Name node) UpgradeStateDrainFailed t"
  | (reboot) t where "getNodeStatus t = getNodeStatus s" "rebootRequired dc"
      "handleNodeUpgrade api dc node s = handleNodeReboot api node dc t"
  | (labelFailed) t where "getNodeStatus t = getNodeStatus s"
      "handleNodeUpgrade api dc node s = setNodeStatus (n_Name node) UpgradeStateFailed t"
proof -
  define g where "g = getNode api (n_Name node) s"
  define c where "c = cordonOrUncordonNode api node True (snd g)"
  define v1 where "v1 = isDeviceConfigValid api dc (snd c)"
  define d where "d = deleteOrDrainPods api dc node (snd v1)"
  define v2 where "v2 = isDeviceConfigValid api dc (snd d)"
  define u where "u = updateModuleVersionOnNode api dc node (snd v2)"
  note parts = g_def c_def v1_def d_def v2_def u_def
  have st: "getNodeStatus (snd g) = getNodeStatus s" "getNodeStatus (snd c) = getNodeStatus s"
    "getNodeStatus (snd v1) = getNodeStatus s" "getNodeStatus (snd v2) = getNodeStatus s"
    "getNodeStatus (snd u) = getNodeStatus s"
    by (simp_all add: parts)
  have eq: "handleNodeUpgrade api dc node s =
    (if labelAlreadySet (fst g) dc then setNodeStatus (n_Name node) UpgradeStateInProgress (snd g)
     else if \<not> fst v1 then snd v1
     else if fst c \<noteq> None then setNodeStatus (n_Name node) UpgradeStateCordonFailed (snd v1)
     else if \<not> fst v2 then snd v2
     else if fst d \<noteq> None then setNodeStatus (n_Name node) UpgradeStateDrainFailed (snd v2)
     else if rebootRequired dc then handleNodeReboot api node dc (snd v2)
     else setNodeStatus (n_Name node)
       (if fst u \<noteq> None then UpgradeStateFailed else UpgradeStateInProgress) (snd u))"
    unfolding handleNodeUpgrade_def case_prod_unfold
    by (fold g_def, fold c_def, fold v1_def, fold d_def, fold v2_def, fold u_def)
      (simp split: option.splits)
  show ?thesis
    using eq st
    by (auto split: if_splits intro: labelled [of "snd g"] labelled [of "snd u"] outdated
        cordonFailed [of "snd v1"] drainFailed [of "snd v2"] reboot [of "snd v2"] labelFailed [of "snd u"])
qed

definition upgradeOutcome :: "UpgradeState \<Rightarrow> bool" where
  "upgradeOutcome st \<longleftrightarrow> rebootOutcome st \<or> st = UpgradeStateCordonFailed \<or> st = UpgradeStateDrainFailed"

lemma handleNodeUpgrade_status:
  "getNodeStatus (handleNodeUpgrade api dc node s) m = getNodeStatus s m
   \<or> m = n_Name node \<and> upgradeOutcome (getNodeStatus (handleNodeUpgrade api dc node s) m)"
proof (cases rule: handleNodeUpgrade_cases [of s api dc node])
  case (reboot t)
  then show ?thesis
    using handleNodeReboot_status [of api node dc t m] by (auto simp: upgradeOutcome_def)
qed (auto simp: upgradeOutcome_def rebootOutcome_def)

text \<open>
  C29: a goroutine touches the status of its own node only, and leaves it as it was or sets it to an
  outcome of the upgrade (in progress, reboot in progress, or one of the failures); it never starts
  another upgrade, completes one, or wakes up a third node.
\<close>

theorem runTask_status:
  "getNodeStatus (runTask api t s) m = getNodeStatus s m
   \<or> m = (case t of TNodeUpgrade dc node \<Rightarrow> n_Name node | TDeleteRebootPod k dc force \<Rightarrow> k)
     \<and> (getNodeStatus (runTask api t s) m \<in>
          {UpgradeStateInProgress, UpgradeStateRebootInProgress, UpgradeStateFailed,
           UpgradeStateCordonFailed, UpgradeStateDrainFailed, UpgradeStateRebootFailed})"
  using handleNodeUpgrade_status [of api _ _ s m] deleteRebootPod_status [of api _ _ _ s m]
  by (cases t) (fastforce simp: runTask_def upgradeOutcome_def rebootOutcome_def)+

section \<open>Calls of the goroutines\<close>

text \<open>
  A drain only takes pods that \<open>mustDrain\<close> selects; the only objects patched are nodes; only pods
  are created or deleted; KMM modules are not even read.
\<close>

definition upgradeCall :: "DeviceConfig \<Rightarrow> call \<Rightarrow> bool" where
  "upgradeCall dc c =
     (case c of
        CDrain opts pods \<Rightarrow> list_all (mustDrain dc) pods
      | CPatch new old \<Rightarrow> (case new of ONode _ \<Rightarrow> True | _ \<Rightarrow> False)
      | CPatchStatus new old \<Rightarrow> False
      | CUpdate x \<Rightarrow> False
      | CCreate x \<Rightarrow> (case x of OPod _ \<Rightarrow> True | _ \<Rightarrow> False)
      | CDelete k ns n \<Rightarrow> k = KPod
      | CGet k ns n \<Rightarrow> k \<noteq> KModule
      | CList k so sel \<Rightarrow> k \<noteq> KModule
      | CListExpr k x \<Rightarrow> k \<noteq> KModule
      | _ \<Rightarrow> True)"

lemma upgradeCall_simps [simp]:
  "upgradeCall dc (CGet k ns n) \<longleftrightarrow> k \<noteq> KModule" "upgradeCall dc (CList k so sel) \<longleftrightarrow> k \<noteq> KModule" "upgradeCall dc (CListOnNode sel n)"
  "upgradeCall dc CNow" "upgradeCall dc (CPatch (ONode a) b)" "upgradeCall dc (CCreate (OPod p))"
  "upgradeCall dc (CDelete KPod ns n)"
  "upgradeCall dc (CDrain opts pods) = list_all (mustDrain dc) pods"
  by (simp_all add: upgradeCall_def)

lemma ran_own_fields [simp]:
  "ran P s (setNodeStatus k v t) = ran P s t"
  "ran P s (setBootID k b t) = ran P s t"
  by (simp_all add: ran_def)

lemma ran_cordon:
  "ran P s t \<Longrightarrow> P (CGet KNode [] (n_Name node)) \<Longrightarrow> (\<And>a b. P (CPatch (ONode a) (ONode b))) \<Longrightarrow>
     ran P s (snd (cordonOrUncordonNode api node b t))"
  unfolding cordonOrUncordonNode_def addOrRemoveTaintToNode_def
  by (auto simp: split_beta Let_def intro!: ran_retry split: sum.splits)

lemma ran_updateModule:
  "ran P s t \<Longrightarrow> P (CGet KNode [] (n_Name node)) \<Longrightarrow> (\<And>a b. P (CPatch (ONode a) (ONode b))) \<Longrightarrow>
     ran P s (snd (updateModuleVersionOnNode api dc node t))"
  unfolding updateModuleVersionOnNode_def
  by (auto simp: split_beta intro!: ran_retry split: sum.splits option.splits)

lemma ran_drain: "ran (upgradeCall dc) s t \<Longrightarrow> ran (upgradeCall dc) s (snd (deleteOrDrainPods api dc node t))"
  by (auto simp: deleteOrDrainPods_def getPodsToDrainOrDelete_def split_beta list_all_iff
      split: sum.splits option.splits if_splits)

lemma ran_waits:
  "ran (upgradeCall dc) s t \<Longrightarrow> ran (upgradeCall dc) s (waitForDriverUpgrade n api node dc t)"
  "ran (upgradeCall dc) s t \<Longrightarrow> ran (upgradeCall dc) s (waitForRebootPod n api node dc t)"
  by (induction n arbitrary: t) (auto simp: split_beta split: sum.splits)

lemma ran_deleteRebootPod:
  assumes "ran (upgradeCall dc) s t"
  shows "ran (upgradeCall dc) s (deleteRebootPod api k dc force t)"
proof -
  have fin: "ran (upgradeCall dc) s (finishReboot api k dc u)" if "ran (upgradeCall dc) s u" for u
    using that by (auto simp: finishReboot_def Let_def split_beta split: sum.splits)
  have aw: "ran (upgradeCall dc) s (awaitNodeReady n api k dc u)" if "ran (upgradeCall dc) s u" for n u
    using that by (induction n arbitrary: u) (auto simp: fin Let_def split_beta split: sum.splits)
  from assms show ?thesis
    by (auto simp: deleteRebootPod_def fin aw split_beta split: sum.splits simp del: awaitNodeReady.simps)
qed

lemma ran_handleNodeReboot:
  assumes "ran (upgradeCall dc) s t"
  shows "ran (upgradeCall dc) s (handleNodeReboot api node dc t)"
  unfolding handleNodeReboot_def Let_def case_prod_unfold
  using assms
  by (simp add: ran_updateModule ran_waits ran_deleteRebootPod case_prod_unfold
      del: waitForDriverUpgrade.simps waitForRebootPod.simps split: sum.split option.split)

lemma ran_handleNodeUpgrade:
  assumes "ran (upgradeCall dc) s t"
  shows "ran (upgradeCall dc) s (handleNodeUpgrade api dc node t)"
proof -
  have v: "ran (upgradeCall dc) s (snd (isDeviceConfigValid api dc u))" if "ran (upgradeCall dc) s u" for u
    using that by (auto simp: isDeviceConfigValid_def split_beta split: sum.splits)
  show ?thesis
    unfolding handleNodeUpgrade_def case_prod_unfold using assms
    by (simp add: v ran_cordon ran_drain ran_updateModule ran_handleNodeReboot split: option.split)
qed


section \<open>Calls of a pass\<close>

lemma ran_pass_fields [simp]:
  "ran P s (clearUpgradeStartTime k t) = ran P s t" "ran P s (spawn tk t) = ran P s t"
  "ran P s (clearNodeStatus t) = ran P s t" "ran P s (setcurrentSpec dc t) = ran P s t"
  "ran P s (snd (isInit t)) = ran P s t" "ran P s (t\<lparr>nodeUpgradeStartTime := m\<rparr>) = ran P s t"
  by (simp_all add: ran_def clearUpgradeStartTime_def spawn_def clearNodeStatus_def setcurrentSpec_def isInit_def)

lemma ran_deletePods:
  fixes t :: "'a world_scheme"
  shows "ran (upgradeCall dc) s t \<Longrightarrow> ran (upgradeCall dc) s (deletePods api ps t)"
  by (induction ps arbitrary: t) simp_all

lemma ran_retryLabel:
  fixes t :: "'a world_scheme"
  assumes "ran (upgradeCall dc) s t"
  shows "ran (upgradeCall dc) s (snd (removeLabelUpgradeRequiredOnNode api node t))"
    and "ran (upgradeCall dc) s (snd (resetModuleVersionOnNode api dc node t))"
    and "ran (upgradeCall dc) s (snd (cleanupDanglingKMMPods api node dc t))"
  using assms
  by (simp_all add: removeLabelUpgradeRequiredOnNode_def resetModuleVersionOnNode_def cleanupDanglingKMMPods_def
      case_prod_unfold ran_deletePods split: sum.split option.split)

lemma ran_handleInitStatus: "ran (upgradeCall dc) s t \<Longrightarrow> ran (upgradeCall dc) s (handleInitStatus api node dc t)"
  unfolding handleInitStatus_def Let_def case_prod_unfold
  by (simp add: ran_retryLabel split: option.split)

lemma ran_timedOut: "ran (upgradeCall dc) s t \<Longrightarrow> ran (upgradeCall dc) s (handleUpgradeTimedOut api node dc t)"
proof -
  assume r: "ran (upgradeCall dc) s t"
  obtain b u where h: "hasUpgradeTimeExceeded api (n_Name node) dc t = (b, u)" by fastforce
  have "ran (upgradeCall dc) s (snd (hasUpgradeTimeExceeded api (n_Name node) dc t))"
    unfolding hasUpgradeTimeExceeded_def Let_def case_prod_unfold using r by (simp split: option.split)
  with h r show ?thesis by (cases b) (simp_all add: handleUpgradeTimedOut_def Let_def)
qed

lemma ran_tests:
  "ran (upgradeCall dc) s t \<Longrightarrow> ran (upgradeCall dc) s (snd (isNodeNmcStatusMissing api node dc t))"
  "ran (upgradeCall dc) s t \<Longrightarrow> ran (upgradeCall dc) s (snd (isNodeReady api node dc t))"
  "ran (upgradeCall dc) s t \<Longrightarrow> ran (upgradeCall dc) s (snd (isNodeNew api node dc t))"
  "ran (upgradeCall dc) s t \<Longrightarrow> ran (upgradeCall dc) s (snd (isNodeStateUpgradeInProgress api node dc t))"
  unfolding isNodeNmcStatusMissing_def isNodeReady_def isNodeNew_def isNodeStateUpgradeInProgress_def Let_def case_prod_unfold
  by (simp_all add: ran_cordon ran_updateModule split: option.split)

lemma ran_processNode: "ran (upgradeCall dc) s t \<Longrightarrow> ran (upgradeCall dc) s (snd (processNode api dc node t))"
  unfolding processNode_def Let_def case_prod_unfold
  by (simp add: ran_handleInitStatus ran_timedOut ran_tests split: bool.split)

lemma ran_processNodes: "ran (upgradeCall dc) s t \<Longrightarrow> ran (upgradeCall dc) s (snd (processNodes api dc nodes l t))"
  by (induction nodes arbitrary: l t) (simp_all add: ran_processNode case_prod_unfold)

lemma ran_initStates: "ran (upgradeCall dc) s t \<Longrightarrow> ran (upgradeCall dc) s (initInternalNodeStates api dc ms t)"
proof (induction ms arbitrary: t)
  case (Cons m ms)
  obtain n st where m: "m = (n, st)" by fastforce
  have "ran (upgradeCall dc) s (initNodeState api dc n st t)"
    unfolding initNodeState_def case_prod_unfold using Cons.prems
    by (simp add: ran_handleNodeReboot split: sum.split)
  with Cons.IH m show ?case by simp
qed simp

lemma ran_startUpgrades: "ran (upgradeCall dc) s t \<Longrightarrow> ran (upgradeCall dc) s (startUpgrades api dc nodes t)"
  by (induction nodes arbitrary: t) (simp_all add: startUpgrade_def setUpgradeStartTime_def Let_def case_prod_unfold)

lemma ran_HandleUpgrade: "ran (upgradeCall dc) s (snd (HandleUpgrade api dc nodes s))"
proof -
  have "ran (upgradeCall dc) s (preparePass api dc s)"
    by (simp add: preparePass_def Let_def case_prod_unfold ran_initStates)
  then show ?thesis
    unfolding HandleUpgrade_def case_prod_unfold
    by (simp add: ran_processNodes ran_startUpgrades split: option.split)
qed

lemma ran_HandleDelete: "ran (upgradeCall dc) s (snd (HandleDelete api dc nodes s))"
proof -
  have "ran (upgradeCall dc) s t \<Longrightarrow> ran (upgradeCall dc) s (deleteNodes api dc nodes t)" for t
    by (induction nodes arbitrary: t) (simp_all add: ran_deleteRebootPod ran_cordon)
  then show ?thesis by (simp add: HandleDelete_def)
qed

section \<open>Polling is bounded\<close>

lemma len_cordon: "length (hist (snd (addOrRemoveTaintToNode api node b s))) \<le> length (hist s) + 10"
proof -
  note calls_retryOnConflict [where k = 2]
  then show ?thesis unfolding addOrRemoveTaintToNode_def
    by (rule le_trans) (auto simp: split_beta Let_def split: sum.splits)
qed

lemma len_updateModule: "length (hist (snd (updateModuleVersionOnNode api dc node s))) \<le> length (hist s) + 10"
proof -
  note calls_retryOnConflict [where k = 2]
  then show ?thesis unfolding updateModuleVersionOnNode_def
    by (rule le_trans) (auto simp: split_beta split: sum.splits option.splits)
qed

lemma len_waits:
  "length (hist (waitForDriverUpgrade n api node dc s)) \<le> length (hist s) + n"
  "length (hist (waitForRebootPod n api node dc s)) \<le> length (hist s) + 2 * n"
proof (induction n arbitrary: s)
  case (Suc n)
  {
    case 1
    show ?case using Suc.IH(1) [of "snd (getNMC api (dc_Namespace dc) (n_Name node) s)"]
      by (auto simp: split_beta split: sum.splits)
  next
    case 2
    let ?s1 = "snd (getPod api (dc_Namespace dc) (p_Name (getRebootPod s (n_Name node) dc)) s)"
    show ?case using Suc.IH(2) [of ?s1] Suc.IH(2) [of "snd (getNode api (n_Name node) ?s1)"]
      by (auto simp: split_beta split: sum.splits)
  }
qed simp_all

lemma len_deleteRebootPod:
  "length (hist (deleteRebootPod api k dc force s)) \<le> length (hist s) + (if force then 3 else 723)"
proof -
  have fin: "length (hist (finishReboot api k dc u)) \<le> length (hist u) + 2" for u
    by (auto simp: finishReboot_def Let_def split_beta split: sum.splits)
  have aw: "length (hist (awaitNodeReady n api k dc u)) \<le> length (hist u) + 2 * n + 2" for n u
  proof (induction n arbitrary: u)
    case 0
    then show ?case using fin [of u] by simp
  next
    case (Suc n)
    show ?case using Suc.IH [of "snd (getNode api k (snd (getDC api (dc_Namespace dc) (dc_Name dc) u)))"]
      by (auto simp: Let_def split_beta split: sum.splits)
  qed
  let ?u = "snd (getPod api (dc_Namespace dc) (p_Name (getRebootPod s k dc)) s)"
  show ?thesis using fin [of ?u] aw [of 360 ?u]
    by (auto simp: deleteRebootPod_def split_beta split: sum.splits simp del: awaitNodeReady.simps)
qed

text \<open>
  C31: a reboot ends after a bounded number of calls, whatever the API server answers: at most 1697
  requests, of which 360 poll the driver image, 600 poll for the reboot and 720 poll for the node to
  come back.
\<close>

theorem handleNodeReboot_bounded:
  "length (hist (handleNodeReboot api node dc s)) \<le> length (hist s) + 1697"
proof (cases rule: handleNodeReboot_steps [of api node dc s])
  case (1 d u t c g)
  have ld: "length (hist (snd d)) \<le> length (hist s) + 2"
    by (simp add: 1(1) clearRebootPod_def split_beta split: sum.split)
  have lu: "length (hist (snd u)) \<le> length (hist (snd d)) + 10" by (simp add: 1(2) len_updateModule)
  have lt: "length (hist t) \<le> length (hist (snd u)) + 360"
    using len_waits(1) [of 360] by (simp add: 1(3) del: waitForDriverUpgrade.simps)
  have lc: "length (hist (snd c)) = length (hist t) + 1" by (simp add: 1(4))
  have "length (hist (snd g)) \<le> length (hist (snd c)) + 601"
    using len_waits(2) [of 300 api node dc "snd c"] by (simp add: 1(5) del: waitForRebootPod.simps)
  with ld lu lt lc have lg: "length (hist (snd g)) \<le> length (hist s) + 974" by linarith
  have "length (hist (deleteRebootPod api (n_Name node) dc False x)) \<le> length (hist s) + 1697"
    if "hist x = hist (snd g)" for x
    using len_deleteRebootPod [of api "n_Name node" dc False x] that lg by simp
  then show ?thesis using ld lu lt lc lg by (simp add: 1(6) split: sum.split)
qed

section \<open>Cordon, deletion and restart\<close>

text \<open>
  cordoning and uncordoning are inverse: on a node without the upgrade taint a successful
  cordon writes the node with that taint appended and nothing else changed, and uncordoning the
  node so written restores it; both cost one write, and a second cordon none.
\<close>

theorem cordon_uncordon:
  assumes "\<not> list_ex (sameTaint upgradeTaint) (n_Taints node)"
    and "\<And>h. o_node api h (n_Name node) = Inr node" and "\<And>h. o_write api h (CPatch (ONode tainted) (ONode node)) = None"
    and "\<And>h. o_node api' h (n_Name node) = Inr tainted" and "\<And>h. o_write api' h (CPatch (ONode node) (ONode tainted)) = None"
    and "tainted = node\<lparr>n_Taints := n_Taints node @ [upgradeTaint]\<rparr>"
  shows "writesOf (issued s (snd (cordonOrUncordonNode api node True s))) = [CPatch (ONode tainted) (ONode node)]
    \<and> writesOf (issued t (snd (cordonOrUncordonNode api' tainted False t))) = [CPatch (ONode node) (ONode tainted)]
    \<and> writesOf (issued t (snd (cordonOrUncordonNode api' tainted True t))) = []
    \<and> fst (cordonOrUncordonNode api node True s) = None
    \<and> fst (cordonOrUncordonNode api' tainted False t) = None"
proof -
  from assms(6) have tt: "n_Name tainted = n_Name node" "n_Taints tainted = n_Taints node @ [upgradeTaint]"
    by simp_all
  from assms(1) have f: "filter (\<lambda>t. \<not> sameTaint upgradeTaint t) (n_Taints tainted) = n_Taints node"
    by (simp add: tt sameTaint_def list_ex_iff filter_id_conv)
  have restored: "tainted\<lparr>n_Taints := n_Taints node\<rparr> = node" by (simp add: assms(6))
  have cordon: "cordonOrUncordonNode api node True s =
      (None, logCall (CPatch (ONode tainted) (ONode node)) (logCall (CGet KNode [] (n_Name node))
        (logCall (CGet KNode [] (n_Name node)) s)))"
    using assms(1,2,3) by (simp add: cordonOrUncordonNode_def addOrRemoveTaintToNode_def call_defs
        retryOnConflict_def numeral_eq_Suc flip: assms(6))
  have uncordon: "cordonOrUncordonNode api' tainted False t =
      (None, logCall (CPatch (ONode node) (ONode tainted)) (logCall (CGet KNode [] (n_Name node))
        (logCall (CGet KNode [] (n_Name node)) t)))"
    using assms(4,5) f restored by (simp add: cordonOrUncordonNode_def addOrRemoveTaintToNode_def call_defs
        retryOnConflict_def numeral_eq_Suc tt sameTaint_def)
  have again: "cordonOrUncordonNode api' tainted True t =
      (None, logCall (CGet KNode [] (n_Name node)) (logCall (CGet KNode [] (n_Name node)) t))"
    using assms(4) by (simp add: cordonOrUncordonNode_def addOrRemoveTaintToNode_def call_defs
        retryOnConflict_def numeral_eq_Suc tt sameTaint_def)
  show ?thesis unfolding cordon uncordon again by (simp add: issued_def writesOf_def isWrite_def Suc_diff_le)
qed

definition taintedA :: Node where
  "taintedA = nodeA\<lparr>n_Taints := n_Taints nodeA @ [upgradeTaint]\<rparr>"

theorem cordon_uncordon_witness:
  "writesOf (issued sampleMgr (snd (cordonOrUncordonNode sampleApi nodeA True sampleMgr)))
     = [CPatch (ONode taintedA) (ONode nodeA)]"
proof -
  have facts: "\<not> list_ex (sameTaint upgradeTaint) (n_Taints nodeA)"
      "\<And>h. o_node sampleApi h (n_Name nodeA) = Inr nodeA"
    "\<And>h c. o_write sampleApi h c = None"
    "\<And>h. o_node (sampleApi\<lparr>o_node := \<lambda>h n. Inr taintedA\<rparr>) h (n_Name nodeA) = Inr taintedA"
    "\<And>h c. o_write (sampleApi\<lparr>o_node := \<lambda>h n. Inr taintedA\<rparr>) h c = None"
    by (simp_all add: sample_defs)
  from cordon_uncordon [OF facts(1-5) taintedA_def, of sampleMgr sampleMgr] show ?thesis by simp
qed

text \<open>
  The reboot pod of a node can run on that node while it is cordoned: it is pinned to the node
  by its host name and tolerates the very taint that \<open>cordonOrUncordonNode\<close> puts there.
\<close>

lemma rebootPod_schedulable:
  "list_ex (\<lambda>tol. toleratesTaint tol upgradeTaint) (p_Tolerations (getRebootPod s n dc))
   \<and> lookup (p_NodeSelector (getRebootPod s n dc)) ''kubernetes.io/hostname'' = Some n
   \<and> p_RestartPolicy (getRebootPod s n dc) = ''Never''"
  by (simp add: getRebootPod_def Let_def toleratesTaint_def upgradeTaint_def)

lemma len_deleteNodes:
  "length (hist (deleteNodes api dc nodes s)) \<le> length (hist s) + 14 * length nodes"
proof (induction nodes arbitrary: s)
  case Nil
  then show ?case by simp
next
  case (Cons node nodes)
  let ?s1 = "snd (cordonOrUncordonNode api node False s)"
  have "length (hist ?s1) \<le> length (hist s) + 11"
    using len_cordon [of api node False "snd (getNode api (n_Name node) s)"]
    by (simp add: cordonOrUncordonNode_def split_beta split: sum.split)
  moreover have "length (hist (deleteRebootPod api (n_Name node) dc True ?s1)) \<le> length (hist ?s1) + 3"
    using len_deleteRebootPod [of api "n_Name node" dc True ?s1] by simp
  ultimately show ?case using Cons.IH [of "deleteRebootPod api (n_Name node) dc True ?s1"] by simp
qed

text \<open>
  deleting the DeviceConfig forgets every node's status, requeues nothing, and for each node
  makes a bounded number of calls: the wait for the node to come back is skipped.
\<close>

theorem HandleDelete_clears:
  "fst (HandleDelete api dc nodes s) = noRequeue
   \<and> getNodeStatus (snd (HandleDelete api dc nodes s)) m = UpgradeStateEmpty
   \<and> length (hist (snd (HandleDelete api dc nodes s))) \<le> length (hist s) + 14 * length nodes"
  using len_deleteNodes [of api dc nodes s] by (simp add: HandleDelete_def)

section \<open>Restart\<close>

lemma initNodeState_status:
  assumes "\<forall>h n x. o_node api h n = Inr x \<longrightarrow> n_Name x = n"
  shows "m \<noteq> k \<Longrightarrow> getNodeStatus (initNodeState api dc k ms s) m = getNodeStatus s m"
    and "ms_Status ms \<noteq> UpgradeStateStarted \<Longrightarrow> ms_Status ms \<noteq> UpgradeStateRebootInProgress \<Longrightarrow>
      getNodeStatus (initNodeState api dc k ms s) k = ms_Status ms"
    and "ms_Status ms = UpgradeStateStarted \<Longrightarrow> \<not> rebootRequired dc \<Longrightarrow>
      getNodeStatus (initNodeState api dc k ms s) k = UpgradeStateEmpty"
    and "ms_Status ms = UpgradeStateRebootInProgress \<Longrightarrow>
      getNodeStatus (initNodeState api dc k ms s) k \<in> {UpgradeStateInProgress, UpgradeStateRebootInProgress}"
proof -
  have nm: "fst (getNode api n s) = Inr x \<Longrightarrow> n_Name x = n" for n x
    using assms by (simp add: getNode_def)
  show "m \<noteq> k \<Longrightarrow> getNodeStatus (initNodeState api dc k ms s) m = getNodeStatus s m"
    using handleNodeReboot_status [of api _ dc "snd (getNode api k s)" m]
    by (auto simp: initNodeState_def split_beta dest!: nm split: sum.split)
qed (auto simp: initNodeState_def split_beta split: sum.split)

lemma initNodeState_not_started:
  assumes "getNodeStatus s m \<noteq> UpgradeStateStarted"
  shows "getNodeStatus (initNodeState api dc k ms s) m \<noteq> UpgradeStateStarted"
proof -
  have "getNodeStatus (handleNodeReboot api node dc (snd (getNode api k s))) m \<noteq> UpgradeStateStarted" for node
    using assms handleNodeReboot_status [of api node dc "snd (getNode api k s)" m]
    by (auto simp: rebootOutcome_def)
  with assms show ?thesis by (auto simp: initNodeState_def split_beta split: sum.split)
qed

lemma initInternalNodeStates_not_started:
  "getNodeStatus s m \<noteq> UpgradeStateStarted \<Longrightarrow>
     getNodeStatus (initInternalNodeStates api dc sts s) m \<noteq> UpgradeStateStarted"
proof (induction sts arbitrary: s)
  case (Cons p sts)
  obtain k ms where "p = (k, ms)" by fastforce
  with Cons.IH [OF initNodeState_not_started [OF Cons.prems, of api dc k ms]] show ?case by simp
qed simp

lemma initInternalNodeStates_other:
  assumes "\<forall>h n x. o_node api h n = Inr x \<longrightarrow> n_Name x = n"
  shows "m \<notin> fst ` set sts \<Longrightarrow> getNodeStatus (initInternalNodeStates api dc sts s) m = getNodeStatus s m"
  by (induction sts arbitrary: s) (auto simp: initNodeState_status(1) [OF assms])

text \<open>
  a restarted manager never takes a node to be \<open>Upgrade-Started\<close>, a state that only a
  goroutine of the lost process could leave; so every such node is reconsidered.
\<close>

theorem restart_no_orphan:
  "getNodeStatus (initInternalNodeStates api dc sts (newUpgradeMgrHelperHandler ocp)) m \<noteq> UpgradeStateStarted"
  by (rule initInternalNodeStates_not_started) (simp add: newUpgradeMgrHelperHandler_def getNodeStatus_def)



end
