(* ===== verification/Driver_Props.thy ===== *)
theory Driver_Props
  imports Samples Traces
begin

text \<open>
  Properties of \<open>src/internal/utils.go\<close>: removal of the node labeller's labels, the label
  templates, the driver type labels and the table of default driver versions.
\<close>

text \<open>
  \<open>RemoveOldNodeLabels\<close> removes every label of the node labeller: the stable ones, the
  experimental ones, and for each experimental label the counter label named after its value; every
  label that is neither of these nor a counter label keeps its value, the rest of the node is
  unchanged, and if it reports no update nothing was changed.
\<close>

theorem RemoveOldNodeLabels_correct:
  "(case RemoveOldNodeLabels node of (updated, node') \<Rightarrow>
     (\<forall>k. k \<in> set allAMDComLabels \<or> k \<in> set allBetaAMDComLabels \<longrightarrow> lookup (n_Labels node') k = None)
     \<and> (\<forall>l v. l \<in> set allBetaAMDComLabels \<longrightarrow> l \<notin> set allAMDComLabels \<longrightarrow>
          lookup (n_Labels node) l = Some v \<longrightarrow> lookup (n_Labels node') (l @ ''.'' @ v) = None)
     \<and> (\<forall>k. k \<notin> set allAMDComLabels \<longrightarrow> k \<notin> set allBetaAMDComLabels \<longrightarrow> \<not> counterOf allBetaAMDComLabels k \<longrightarrow>
          lookup (n_Labels node') k = lookup (n_Labels node) k)
     \<and> node'\<lparr>n_Labels := n_Labels node\<rparr> = node
     \<and> (\<not> updated \<longrightarrow> node' = node))"
proof -
  obtain u1 m1 where p: "removePlainLabels allAMDComLabels (n_Labels node) False = (u1, m1)" by fastforce
  obtain u2 m2 where c: "removeCounterLabels allBetaAMDComLabels m1 u1 = (u2, m2)" by fastforce
  note plain = removePlainLabels_lookup [OF p]
  have r: "RemoveOldNodeLabels node = (u2, node\<lparr>n_Labels := m2\<rparr>)"
    by (simp add: RemoveOldNodeLabels_def p c)
  have "lookup m2 k = None" if "k \<in> set allAMDComLabels \<or> k \<in> set allBetaAMDComLabels" for k
    using that plain removeCounterLabels_None [OF c] removeCounterLabels_removed [OF c] by (metis (full_types))
  moreover have "lookup m2 (l @ ''.'' @ v) = None"
    if "l \<in> set allBetaAMDComLabels" "l \<notin> set allAMDComLabels" "lookup (n_Labels node) l = Some v" for l v
    using removeCounterLabels_counter [OF c betaLabels_shape that(1)] that(2,3) plain by simp
  moreover have "lookup m2 k = lookup (n_Labels node) k"
    if "k \<notin> set allAMDComLabels" "k \<notin> set allBetaAMDComLabels" "\<not> counterOf allBetaAMDComLabels k" for k
    using removeCounterLabels_kept [OF c] that plain by simp
  moreover have "m2 = n_Labels node" if "\<not> u2"
    using that c p removeCounterLabels_unchanged [of allBetaAMDComLabels m1 u1 m2]
      removePlainLabels_unchanged [of allAMDComLabels "n_Labels node" False m1] by auto
  ultimately show ?thesis unfolding r by simp
qed

theorem RemoveOldNodeLabels_correct_witness:
  "lookup (n_Labels (snd (RemoveOldNodeLabels (nodeA\<lparr>n_Labels :=
     [(''beta.amd.com/gpu.family'', ''AI''), (''beta.amd.com/gpu.family.AI'', ''8''), (''zone'', ''a'')]\<rparr>)))) ''zone''
   = Some ''a''"
proof -
  have "\<not> counterOf allBetaAMDComLabels ''zone''"
    and "''zone'' \<notin> set allAMDComLabels" and "''zone'' \<notin> set allBetaAMDComLabels"
    by (auto simp: counterOf_def allAMDComLabels_def allBetaAMDComLabels_def nodeLabellerKinds_def createLabelPrefix_def)
  with RemoveOldNodeLabels_correct [of "nodeA\<lparr>n_Labels := [(''beta.amd.com/gpu.family'', ''AI''),
      (''beta.amd.com/gpu.family.AI'', ''8''), (''zone'', ''a'')]\<rparr>"]
  show ?thesis by (simp add: split_beta)
qed

text \<open>
  C38: reading a label template back is the inverse of filling it in: the label made for a
  namespace without a dot and a name is recognised with exactly these two parts, and whatever
  label of a node matches, matches as the label made from the parts returned.
\<close>

theorem label_template_roundtrip:
  assumes "ns \<noteq> []" and "CHR ''.'' \<notin> set ns" and "n \<noteq> []" and "CHR 0x0A \<notin> set n"
  shows "HasNodeLabelTemplateMatch [(applyTemplate tp ns n, v)] tp = (True, applyTemplate tp ns n, ns, n)
    \<and> (\<forall>m key ns' n'. HasNodeLabelTemplateMatch m tp = (True, key, ns', n') \<longrightarrow>
         hasKey m key \<and> key = applyTemplate tp ns' n')"
proof -
  have "hasKey m key" if "key \<in> fst ` set m" for m :: smap and key
    using that by (auto simp: hasKey_def map_of_eq_None_iff)
  then show ?thesis
    using matchTemplate_applyTemplate [OF assms, of tp] HasNodeLabelTemplateMatch_sound [of _ tp] by auto
qed

theorem label_template_roundtrip_witness:
  "HasNodeLabelTemplateMatch [(''gpu.operator.amd.com/kube-amd-gpu.gpu.driver'', ''container'')]
     DriverTypeNodeLabelTemplate
   = (True, ''gpu.operator.amd.com/kube-amd-gpu.gpu.driver'', ''kube-amd-gpu'', ''gpu'')"
  using label_template_roundtrip [of "''kube-amd-gpu''" "''gpu''" DriverTypeNodeLabelTemplate "''container''"]
  by (simp add: applyTemplate_def DriverTypeNodeLabelTemplate_def)

text \<open>
  \<open>UpdateDriverTypeNodeLabel\<close> establishes what it is for and is idempotent: afterwards every node
  of the list carries the driver type label of the DeviceConfig with the configured type (or, on
  cleanup, does not carry it), the list has the same nodes, and a second run writes nothing.
\<close>

theorem UpdateDriverTypeNodeLabel_idempotent:
  assumes "isTrue (d_Enable (driver dc))"
    and "UpdateDriverTypeNodeLabel api (Some dc) (Some nodes) cleanup s = ((es, nodes'), s')"
  shows "map n_Name nodes' = map n_Name nodes
    \<and> (\<forall>n \<in> set nodes'. lookup (n_Labels n) (GetDriverTypeNodeLabel dc) =
          (if cleanup then None else Some (d_DriverType (driver dc))))
    \<and> UpdateDriverTypeNodeLabel api (Some dc) (Some nodes') cleanup s' = (([], nodes'), s')"
proof -
  from assms have r: "updateDriverTypeLabels api dc cleanup nodes s = ((es, nodes'), s')"
    by (simp add: UpdateDriverTypeNodeLabel_def)
  then have lab: "\<forall>n \<in> set nodes'. lookup (n_Labels n) (GetDriverTypeNodeLabel dc) =
          (if cleanup then None else Some (d_DriverType (driver dc)))"
    using updateDriverTypeLabels_result [of _ api dc cleanup nodes s] by simp
  from r updateDriverTypeLabels_nodes [of api dc cleanup nodes s] lab
    updateDriverTypeLabels_quiet [OF lab, of api s'] assms(1)
  show ?thesis by (simp add: UpdateDriverTypeNodeLabel_def)
qed

theorem UpdateDriverTypeNodeLabel_idempotent_witness:
  "(case UpdateDriverTypeNodeLabel sampleApi (Some sampleDC) (Some [nodeA]) False sampleMgr of
      ((es, nodes'), s') \<Rightarrow>
        UpdateDriverTypeNodeLabel sampleApi (Some sampleDC) (Some nodes') False s' = (([], nodes'), s'))"
proof -
  have "isTrue (d_Enable (driver sampleDC))" by (simp add: sample_defs)
  then show ?thesis
    using UpdateDriverTypeNodeLabel_idempotent [of sampleDC sampleApi "[nodeA]" False sampleMgr]
    by (auto split: prod.split)
qed

definition vendorOf :: "string \<Rightarrow> string" where
  "vendorOf os = (if os = ''rhel'' \<or> os = ''redhat'' \<or> os = ''red hat'' then ''redhat''
     else if os = ''sles'' \<or> os = ''suse'' then ''suse'' else os)"

lemma mapper_by_vendor:
  "(os, f) \<in> set defaultDriverversionsMappers \<Longrightarrow>
     f = (if vendorOf os = ''ubuntu'' then UbuntuDefaultDriverVersionsMapper
          else if vendorOf os = ''redhat'' then (\<lambda>_. Inr defaultOcDriversVersion)
          else SLESDefaultDriverVersionsMapper)"
  by (auto simp: defaultDriverversionsMappers_def vendorOf_def)

text \<open>
  the order in which Go visits the table of OS mappers does not matter when the lower-cased
  image name contains the key of one vendor only: any permutation of the table gives the same
  default version.
\<close>

theorem default_version_order:
  assumes "set mappers = set defaultDriverversionsMappers" and "distinct (map fst mappers)"
    and "\<forall>os \<in> fst ` set mappers. \<forall>os' \<in> fst ` set mappers.
      containsStr (toLower (n_OSImage node)) os \<longrightarrow> containsStr (toLower (n_OSImage node)) os' \<longrightarrow>
      vendorOf os = vendorOf os'"
  shows "GetDefaultDriversVersion mappers node = GetDefaultDriversVersion defaultDriverversionsMappers node"
proof -
  let ?s = "toLower (n_OSImage node)"
  show ?thesis
  proof (cases "\<exists>(os, f) \<in> set mappers. containsStr ?s os")
    case False
    then have none: "\<forall>(os, f) \<in> set mappers. \<not> containsStr ?s os" by auto
    show ?thesis
      unfolding GetDefaultDriversVersion_def firstMapper_none [OF none]
        firstMapper_none [OF none [unfolded assms(1)]] ..
  next
    case True
    then obtain os f where of: "(os, f) \<in> set mappers" "containsStr ?s os" by auto
    have uni: "\<forall>(os', f') \<in> set mappers. containsStr ?s os' \<longrightarrow> f' ?s = f ?s"
    proof clarify
      fix os' f'
      assume m: "(os', f') \<in> set mappers" "containsStr ?s os'"
      with of assms(3) have "vendorOf os' = vendorOf os" by force
      then show "f' ?s = f ?s"
        using mapper_by_vendor [of os f] mapper_by_vendor [of os' f'] of(1) m(1) assms(1) by simp
    qed
    have "distinct (map fst defaultDriverversionsMappers)" by (simp add: defaultDriverversionsMappers_def)
    with uni True assms(1,2) show ?thesis
      unfolding GetDefaultDriversVersion_def
      using firstMapper_unique [of mappers ?s "f ?s"]
        firstMapper_unique [of defaultDriverversionsMappers ?s "f ?s"] by auto
  qed
qed

theorem default_version_order_witness:
  "GetDefaultDriversVersion (rev defaultDriverversionsMappers) nodeA = Inr ''6.3.3''"
proof -
  have d: "GetDefaultDriversVersion defaultDriverversionsMappers nodeA = Inr ''6.3.3''"
    by code_simp
  have os: "toLower (n_OSImage nodeA) = ''ubuntu 22.04.5 lts''" by code_simp
  have only: "list_all (\<lambda>os. containsStr ''ubuntu 22.04.5 lts'' os \<longrightarrow> vendorOf os = ''ubuntu'')
      (map fst defaultDriverversionsMappers)" by code_simp
  have "\<forall>os \<in> fst ` set (rev defaultDriverversionsMappers). \<forall>os' \<in> fst ` set (rev defaultDriverversionsMappers).
      containsStr (toLower (n_OSImage nodeA)) os \<longrightarrow> containsStr (toLower (n_OSImage nodeA)) os' \<longrightarrow>
      vendorOf os = vendorOf os'"
    using only unfolding os list_all_iff by auto
  moreover have "set (rev defaultDriverversionsMappers) = set defaultDriverversionsMappers" by simp
  moreover have "distinct (map fst (rev defaultDriverversionsMappers))"
    by (simp add: defaultDriverversionsMappers_def)
  ultimately show ?thesis
    using default_version_order [of "rev defaultDriverversionsMappers" nodeA] d by metis
qed

end
