(* ===== verification/Conditions.thy ===== *)
theory Conditions
  imports Samples
begin

text \<open>
  \<open>src/internal/conditions/deviceconfig.go\<close>: the conditions in the status of a DeviceConfig.  The
  clients of the package see the interface \<open>ConditionUpdater\<close>; its contract is the locale
  \<open>condition_store\<close>, which the manager's operations are shown to satisfy for each condition type.
\<close>

definition ConditionTypeReady :: string where "ConditionTypeReady = ''Ready''"
definition ConditionTypeError :: string where "ConditionTypeError = ''Error''"
definition ValidationError :: string where "ValidationError = ''ValidationError''"
definition ErrorStatus :: string where "ErrorStatus = ''Error''"
definition ReadyStatus :: string where "ReadyStatus = ''OperatorReady''"
definition NoMatchingNodes :: string where "NoMatchingNodes = ''NoMatchingNodes''"

definition findCondition :: "Condition list \<Rightarrow> string \<Rightarrow> Condition option" where
  "findCondition cs t = find (\<lambda>c. c_Type c = t) cs"

text \<open>
  The code writes through the pointer to the first condition of the type; the time of the last
  transition is kept when the status does not change.
\<close>

fun replaceFirst :: "Condition \<Rightarrow> Condition list \<Rightarrow> Condition list" where
  "replaceFirst n [] = []"
| "replaceFirst n (c # cs) = (if c_Type c = c_Type n then n # cs else c # replaceFirst n cs)"

definition setCondition :: "Condition \<Rightarrow> Condition list \<Rightarrow> Condition list" where
  "setCondition n cs =
     (case findCondition cs (c_Type n) of
        Some e \<Rightarrow>
          replaceFirst (if c_Status e = c_Status n
                        then n\<lparr>c_LastTransitionTime := c_LastTransitionTime e\<rparr> else n) cs
      | None \<Rightarrow> cs @ [n])"

definition deleteCondition :: "string \<Rightarrow> Condition list \<Rightarrow> Condition list" where
  "deleteCondition t cs = filter (\<lambda>c. c_Type c \<noteq> t) cs"

abbreviation conditions :: "DeviceConfig \<Rightarrow> Condition list" where
  "conditions dc \<equiv> st_Conditions (dc_Status dc)"

definition withConditions :: "(Condition list \<Rightarrow> Condition list) \<Rightarrow> DeviceConfig \<Rightarrow> DeviceConfig" where
  "withConditions f dc =
     dc\<lparr>dc_Status := (dc_Status dc)\<lparr>st_Conditions := f (st_Conditions (dc_Status dc))\<rparr>\<rparr>"

definition mkCondition :: "string \<Rightarrow> string \<Rightarrow> string \<Rightarrow> string \<Rightarrow> int \<Rightarrow> Condition" where
  "mkCondition t status reason message now =
     \<lparr>c_Type = t, c_Status = status, c_LastTransitionTime = now, c_Reason = reason, c_Message = message\<rparr>"

definition SetReadyCondition ::
  "'e apiserver_scheme \<Rightarrow> string \<Rightarrow> string \<Rightarrow> string \<Rightarrow> DeviceConfig \<Rightarrow> 'a world_scheme
     \<Rightarrow> DeviceConfig \<times> 'a world_scheme" where
  "SetReadyCondition api status reason message dc s =
     (case timeNow api s of (now, s1) \<Rightarrow>
        (withConditions (setCondition (mkCondition ConditionTypeReady status reason message now)) dc, s1))"

definition GetReadyCondition :: "DeviceConfig \<Rightarrow> Condition option" where
  "GetReadyCondition dc = findCondition (conditions dc) ConditionTypeReady"

definition SetErrorCondition ::
  "'e apiserver_scheme \<Rightarrow> string \<Rightarrow> string \<Rightarrow> string \<Rightarrow> DeviceConfig \<Rightarrow> 'a world_scheme
     \<Rightarrow> DeviceConfig \<times> 'a world_scheme" where
  "SetErrorCondition api status reason message dc s =
     (case timeNow api s of (now, s1) \<Rightarrow>
        (withConditions (setCondition (mkCondition ConditionTypeError status reason message now)) dc, s1))"

definition DeleteReadyCondition :: "DeviceConfig \<Rightarrow> DeviceConfig" where
  "DeleteReadyCondition dc = withConditions (deleteCondition ConditionTypeReady) dc"

definition DeleteErrorCondition :: "DeviceConfig \<Rightarrow> DeviceConfig" where
  "DeleteErrorCondition dc = withConditions (deleteCondition ConditionTypeError) dc"

section \<open>The list of conditions\<close>

definition oneOfEach :: "Condition list \<Rightarrow> bool" where
  "oneOfEach cs = distinct (map c_Type cs)"

lemma find_replaceFirst:
  "findCondition (replaceFirst n cs) t =
     (if t = c_Type n \<and> findCondition cs t \<noteq> None then Some n else findCondition cs t)"
  by (induction cs) (auto simp: findCondition_def)

lemma types_replaceFirst [simp]: "map c_Type (replaceFirst n cs) = map c_Type cs"
  by (induction cs) auto

lemma find_append: "findCondition (cs @ [n]) t =
    (case findCondition cs t of Some c \<Rightarrow> Some c | None \<Rightarrow> if c_Type n = t then Some n else None)"
  by (induction cs) (auto simp: findCondition_def)

lemma findCondition_None_iff: "findCondition cs t = None \<longleftrightarrow> t \<notin> c_Type ` set cs"
  by (auto simp: findCondition_def find_None_iff)

lemma findCondition_type: "findCondition cs t = Some c \<Longrightarrow> c_Type c = t \<and> c \<in> set cs"
  by (auto simp: findCondition_def find_Some_iff)

lemma find_setCondition:
  "findCondition (setCondition n cs) t =
     (if t = c_Type n then
        Some (case findCondition cs t of
                Some e \<Rightarrow> if c_Status e = c_Status n
                          then n\<lparr>c_LastTransitionTime := c_LastTransitionTime e\<rparr> else n
              | None \<Rightarrow> n)
      else findCondition cs t)"
  by (auto simp: setCondition_def find_replaceFirst find_append split: option.splits)

lemma find_deleteCondition:
  "findCondition (deleteCondition d cs) t = (if t = d then None else findCondition cs t)"
  by (induction cs) (auto simp: findCondition_def deleteCondition_def)

lemma oneOfEach_setCondition: "oneOfEach cs \<Longrightarrow> oneOfEach (setCondition n cs)"
  by (auto simp: oneOfEach_def setCondition_def findCondition_None_iff split: option.splits)

lemma oneOfEach_deleteCondition: "oneOfEach cs \<Longrightarrow> oneOfEach (deleteCondition t cs)"
  by (auto simp: oneOfEach_def deleteCondition_def distinct_map_filter)

section \<open>The interface\<close>

text \<open>
  What a client relies on: a condition that was set is the one that is read, deleting it makes
  it absent, and operations on one type do not show in another.
\<close>

locale condition_store =
  fixes get :: "'c \<Rightarrow> Condition option"
    and put :: "Condition \<Rightarrow> 'c \<Rightarrow> 'c"
    and del :: "'c \<Rightarrow> 'c"
    and valid :: "'c \<Rightarrow> bool"
    and ctype :: string
  assumes get_put: "c_Type n = ctype \<Longrightarrow>
      \<exists>c. get (put n s) = Some c \<and> c_Status c = c_Status n \<and> c_Reason c = c_Reason n
        \<and> c_Message c = c_Message n \<and> c_Type c = ctype"
    and transition: "c_Type n = ctype \<Longrightarrow> get s = Some e \<Longrightarrow> get (put n s) = Some c \<Longrightarrow>
      c_LastTransitionTime c
        = (if c_Status e = c_Status n then c_LastTransitionTime e else c_LastTransitionTime n)"
    and get_put_other: "c_Type n \<noteq> ctype \<Longrightarrow> get (put n s) = get s"
    and get_del: "get (del s) = None"
    and valid_put: "valid s \<Longrightarrow> valid (put n s)"
    and valid_del: "valid s \<Longrightarrow> valid (del s)"
begin

text \<open>Repeating a condition changes nothing that a reader sees.\<close>

lemma put_again:
  assumes "c_Type n = ctype" and "c_Type n' = ctype" and "c_Status n' = c_Status n"
    and "get (put n s) = Some c" and "get (put n' (put n s)) = Some c'"
  shows "c_LastTransitionTime c' = c_LastTransitionTime c"
proof -
  from get_put [OF assms(1), of s] assms(4) have "c_Status c = c_Status n" by auto
  with transition [OF assms(2,4,5)] assms(3) show ?thesis by simp
qed

lemma put_after_del:
  assumes "c_Type n = ctype"
  shows "\<exists>c. get (put n (del s)) = Some c \<and> c_Status c = c_Status n"
  using get_put [OF assms, of "del s"] by auto

lemma valid_run:
  "valid s \<Longrightarrow> valid (fold (\<lambda>x s. case x of None \<Rightarrow> del s | Some n \<Rightarrow> put n s) xs s)"
proof (induction xs arbitrary: s)
  case (Cons x xs)
  then show ?case by (cases x) (auto simp: valid_put valid_del)
qed simp

end

interpretation ready: condition_store "\<lambda>cs. findCondition cs ConditionTypeReady" setCondition
  "deleteCondition ConditionTypeReady" oneOfEach ConditionTypeReady
  by unfold_locales
    (auto simp: find_setCondition find_deleteCondition oneOfEach_setCondition oneOfEach_deleteCondition
      split: option.splits if_splits)

interpretation failure: condition_store "\<lambda>cs. findCondition cs ConditionTypeError" setCondition
  "deleteCondition ConditionTypeError" oneOfEach ConditionTypeError
  by unfold_locales
    (auto simp: find_setCondition find_deleteCondition oneOfEach_setCondition oneOfEach_deleteCondition
      split: option.splits if_splits)

section \<open>Properties\<close>

lemma conditions_with [simp]:
  "conditions (withConditions f dc) = f (conditions dc)"
  "dc_Spec (withConditions f dc) = dc_Spec dc"
  "dc_Name (withConditions f dc) = dc_Name dc"
  "dc_Namespace (withConditions f dc) = dc_Namespace dc"
  "st_NodeModuleStatus (dc_Status (withConditions f dc)) = st_NodeModuleStatus (dc_Status dc)"
  by (simp_all add: withConditions_def)

text \<open>
  setting the Ready condition makes exactly the given status, reason and message readable,
  moves the transition time only when the status changes, leaves the Error condition and the rest
  of the DeviceConfig alone, and keeps at most one condition per type.
\<close>

theorem SetReadyCondition_correct:
  assumes "SetReadyCondition api status reason message dc s = (dc', s')"
  shows "(\<exists>c. GetReadyCondition dc' = Some c \<and> c_Status c = status \<and> c_Reason c = reason \<and> c_Message c = message
      \<and> c_LastTransitionTime c = (case GetReadyCondition dc of
          Some e \<Rightarrow> if c_Status e = status then c_LastTransitionTime e else o_now api (hist s)
        | None \<Rightarrow> o_now api (hist s)))
    \<and> findCondition (conditions dc') ConditionTypeError = findCondition (conditions dc) ConditionTypeError
    \<and> withConditions (\<lambda>_. conditions dc) dc' = dc
    \<and> (oneOfEach (conditions dc) \<longrightarrow> oneOfEach (conditions dc'))
    \<and> GetReadyCondition (DeleteReadyCondition dc') = None"
proof -
  let ?n = "mkCondition ConditionTypeReady status reason message (o_now api (hist s))"
  from assms have dc': "dc' = withConditions (setCondition ?n) dc"
    by (simp add: SetReadyCondition_def timeNow_def)
  have ty: "c_Type ?n = ConditionTypeReady" and ne: "c_Type ?n \<noteq> ConditionTypeError"
    by (simp_all add: mkCondition_def ConditionTypeReady_def ConditionTypeError_def)
  have "findCondition (conditions dc') ConditionTypeError = findCondition (conditions dc) ConditionTypeError"
    unfolding dc' using failure.get_put_other [OF ne] by simp
  moreover have "oneOfEach (conditions dc) \<longrightarrow> oneOfEach (conditions dc')"
    unfolding dc' using ready.valid_put by simp
  moreover have "GetReadyCondition (DeleteReadyCondition dc') = None"
    unfolding GetReadyCondition_def DeleteReadyCondition_def using ready.get_del by simp
  moreover have "withConditions (\<lambda>_. conditions dc) dc' = dc"
    by (simp add: dc' withConditions_def)
  moreover have "\<exists>c. GetReadyCondition dc' = Some c \<and> c_Status c = status \<and> c_Reason c = reason \<and> c_Message c = message
      \<and> c_LastTransitionTime c = (case GetReadyCondition dc of
          Some e \<Rightarrow> if c_Status e = status then c_LastTransitionTime e else o_now api (hist s)
        | None \<Rightarrow> o_now api (hist s))"
    by (auto simp: GetReadyCondition_def dc' find_setCondition mkCondition_def split: option.split)
  ultimately show ?thesis by blast
qed

theorem SetReadyCondition_correct_witness:
  "\<exists>c. GetReadyCondition (fst (SetReadyCondition sampleApi ''True'' ReadyStatus [] sampleDC sampleMgr)) = Some c
     \<and> c_Status c = ''True'' \<and> c_LastTransitionTime c = 10000000000000"
proof -
  let ?r = "SetReadyCondition sampleApi ''True'' ReadyStatus [] sampleDC sampleMgr"
  have "?r = (fst ?r, snd ?r)" by simp
  from SetReadyCondition_correct [OF this] show ?thesis
    by (auto simp: sample_defs GetReadyCondition_def findCondition_def)
qed

end
