(* ===== verification/Validator.thy ===== *)
theory Validator
  imports Driver_Utils Traces
begin

text \<open>
  \<open>src/internal/validator\<close>: the checks a DeviceConfig passes before it is reconciled, and
  \<open>ValidateSLESDriverVersion\<close> of \<open>src/internal/utils.go\<close> with its cache of registry answers.  Error
  texts are constructors of \<open>verr\<close>, with the values the text mentions.  Go's \<open>range\<close> over the table of
  validators visits it in an unspecified order, so the table is an argument.
\<close>

section \<open>Environment and state\<close>

text \<open>
  The SUSE registry: a reply is an error of the client, an error of the transport, or a status with
  the token decoded from its body, if any.
\<close>

datatype httpReply = BadRequest | Unreachable | Reply int "string option"

text \<open>The CRD as far as the code reads it: its group, and its versions with their \<open>served\<close> flag.\<close>

record venv = apiserver +
  o_http :: "call list \<Rightarrow> string \<Rightarrow> string \<Rightarrow> string \<Rightarrow> httpReply"
  o_crd :: "call list \<Rightarrow> string \<Rightarrow> (string \<times> (string \<times> bool) list) res"

datatype slesErr = NoCodestream string | BadURL | NoRegistry | AuthFailed int | BadToken
  | NotAvailable string string | UnexpectedStatus int string string

datatype verr =
    InvalidDriverType string
  | EmptySecretRef | SecretNotFound string string | SecretError string kerr
  | EmptyMapRef | ConfigMapNotFound string string | ConfigMapError string kerr
  | CRDUnavailable kerr | CRDGroup string | CRDVersion
  | InField string verr
  | BothEnabled
  | InvalidFlag string | InvalidFlagValue string string
  | TaintEffect string | TaintKey string | TaintValue string
  | NoRemediationConfig | LabelKey string | LabelValue string
  | NodeListFailed kerr | SlesNode string slesErr
  | NoSpecValidator string

record vstate = world +
  slesVersionCache :: "string \<rightharpoonup> slesErr option \<times> int"

section \<open>SLES driver versions\<close>

definition slesVersionCacheTTL :: int where "slesVersionCacheTTL = 300000000000"

definition slesRegistryAuthURL :: string where
  "slesRegistryAuthURL = ''https://scc.suse.com/api/registry/authorize?service=SUSE+Linux+Docker+Registry&scope=repository:third-party/amd/amdgpu-driver:pull''"

definition slesManifestURL :: "string \<Rightarrow> string \<Rightarrow> string" where
  "slesManifestURL cs v =
     ''https://registry.suse.com/v2/third-party/amd/amdgpu-driver/manifests/sles-'' @ cs @ ''-'' @ v"

definition http :: "venv \<Rightarrow> string \<Rightarrow> string \<Rightarrow> string \<Rightarrow> 'a world_scheme \<Rightarrow> httpReply \<times> 'a world_scheme" where
  "http env m url tok s = (o_http env (hist s) m url tok, logCall (CHTTP m url) s)"

definition cacheHit :: "venv \<Rightarrow> string \<Rightarrow> vstate \<Rightarrow> slesErr option option \<times> vstate" where
  "cacheHit env key s =
     (case slesVersionCache s key of
        None \<Rightarrow> (None, s)
      | Some (e, expiresAt) \<Rightarrow>
          (case timeNow env s of (now, s1) \<Rightarrow> if now < expiresAt then (Some e, s1) else (None, s1)))"

definition manifestResult :: "int \<Rightarrow> string \<Rightarrow> string \<Rightarrow> slesErr option" where
  "manifestResult status v cs =
     (if status = 200 then None
      else if status = 404 then Some (NotAvailable v cs)
      else Some (UnexpectedStatus status cs v))"

definition askRegistry :: "venv \<Rightarrow> string \<Rightarrow> string \<Rightarrow> vstate \<Rightarrow> slesErr option \<times> vstate" where
  "askRegistry env cs v s =
     (case http env ''GET'' slesRegistryAuthURL [] s of
        (BadRequest, s1) \<Rightarrow> (Some BadURL, s1)
      | (Unreachable, s1) \<Rightarrow> (Some NoRegistry, s1)
      | (Reply st body, s1) \<Rightarrow>
          if st \<noteq> 200 then (Some (AuthFailed st), s1)
          else (case body of
            None \<Rightarrow> (Some BadToken, s1)
          | Some tok \<Rightarrow>
              (case http env ''HEAD'' (slesManifestURL cs v) tok s1 of
                 (BadRequest, s2) \<Rightarrow> (Some BadURL, s2)
               | (Unreachable, s2) \<Rightarrow> (Some NoRegistry, s2)
               | (Reply st2 _, s2) \<Rightarrow>
                   (case timeNow env s2 of (now, s3) \<Rightarrow>
                      (manifestResult st2 v cs,
                       s3\<lparr>slesVersionCache := (slesVersionCache s3)
                            (cs @ ''@'' @ v \<mapsto> (manifestResult st2 v cs, now + slesVersionCacheTTL))\<rparr>)))))"

definition isSles :: "string \<Rightarrow> bool" where
  "isSles osImage \<longleftrightarrow> containsStr (toLower osImage) ''suse'' \<or> containsStr (toLower osImage) ''sles''"

definition ValidateSLESDriverVersion :: "venv \<Rightarrow> string \<Rightarrow> string \<Rightarrow> vstate \<Rightarrow> slesErr option \<times> vstate" where
  "ValidateSLESDriverVersion env osImage v s =
     (if \<not> isSles osImage then (None, s)
      else let cs = slesCodestream osImage in
        if cs = [] then (Some (NoCodestream osImage), s)
        else case cacheHit env (cs @ ''@'' @ v) s of
          (Some e, s1) \<Rightarrow> (e, s1)
        | (None, s1) \<Rightarrow> askRegistry env cs v s1)"

fun checkSlesNodes :: "venv \<Rightarrow> string \<Rightarrow> Node list \<Rightarrow> string list \<Rightarrow> vstate \<Rightarrow> verr option \<times> vstate" where
  "checkSlesNodes env v [] seen s = (None, s)"
| "checkSlesNodes env v (node # nodes) seen s =
     (if n_OSImage node \<in> set seen then checkSlesNodes env v nodes seen s
      else case ValidateSLESDriverVersion env (n_OSImage node) v s of
        (Some e, s1) \<Rightarrow> (Some (SlesNode (n_Name node) e), s1)
      | (None, s1) \<Rightarrow> checkSlesNodes env v nodes (n_OSImage node # seen) s1)"

definition validateSLESDriverVersion :: "venv \<Rightarrow> DeviceConfig \<Rightarrow> string \<Rightarrow> vstate \<Rightarrow> verr option \<times> vstate" where
  "validateSLESDriverVersion env dc v s =
     (if ib_BaseImageRegistry (d_ImageBuild (driver dc)) \<noteq> [] then (None, s)
      else case listNodes env (selectorOf dc) s of
        (Inl e, s1) \<Rightarrow> (Some (NodeListFailed e), s1)
      | (Inr nodes, s1) \<Rightarrow> checkSlesNodes env v nodes [] s1)"

section \<open>References\<close>

definition validateSecret :: "venv \<Rightarrow> LocalObjectReference \<Rightarrow> string \<Rightarrow> vstate \<Rightarrow> verr option \<times> vstate" where
  "validateSecret env ref ns s =
     (if lor_Name ref = [] then (Some EmptySecretRef, s)
      else case existsObj env KSecret ns (lor_Name ref) s of
        (None, s1) \<Rightarrow> (None, s1)
      | (Some NotFound, s1) \<Rightarrow> (Some (SecretNotFound (lor_Name ref) ns), s1)
      | (Some e, s1) \<Rightarrow> (Some (SecretError (lor_Name ref) e), s1))"

definition validateConfigMap :: "venv \<Rightarrow> string \<Rightarrow> string \<Rightarrow> vstate \<Rightarrow> verr option \<times> vstate" where
  "validateConfigMap env name ns s =
     (if name = [] then (Some EmptyMapRef, s)
      else case getConfigMapObj env ns name s of
        (Inr _, s1) \<Rightarrow> (None, s1)
      | (Inl NotFound, s1) \<Rightarrow> (Some (ConfigMapNotFound name ns), s1)
      | (Inl e, s1) \<Rightarrow> (Some (ConfigMapError name e), s1))"

definition ServiceMonitorCRDName :: string where
  "ServiceMonitorCRDName = ''servicemonitors.monitoring.coreos.com''"
definition ServiceMonitorCRDGroup :: string where "ServiceMonitorCRDGroup = ''monitoring.coreos.com''"
definition ServiceMonitorCRDVersion :: string where "ServiceMonitorCRDVersion = ''v1''"

definition validateServiceMonitorCRD :: "venv \<Rightarrow> vstate \<Rightarrow> verr option \<times> vstate" where
  "validateServiceMonitorCRD env s =
     (let s1 = logCall (CGet KCRD [] ServiceMonitorCRDName) s in
      case o_crd env (hist s) ServiceMonitorCRDName of
        Inl e \<Rightarrow> (Some (CRDUnavailable e), s1)
      | Inr (grp, versions) \<Rightarrow>
          if grp \<noteq> ServiceMonitorCRDGroup then (Some (CRDGroup grp), s1)
          else if \<not> list_ex (\<lambda>(v, served). v = ServiceMonitorCRDVersion \<and> served) versions then (Some CRDVersion, s1)
          else (None, s1))"

text \<open>Steps of a validator run in order until one fails; an error is wrapped with its field's name.\<close>

fun firstError :: "(vstate \<Rightarrow> verr option \<times> vstate) list \<Rightarrow> vstate \<Rightarrow> verr option \<times> vstate" where
  "firstError [] s = (None, s)"
| "firstError (f # fs) s =
     (case f s of (Some e, s1) \<Rightarrow> (Some e, s1) | (None, s1) \<Rightarrow> firstError fs s1)"

definition inField :: "string \<Rightarrow> verr option \<times> vstate \<Rightarrow> verr option \<times> vstate" where
  "inField f r = (map_option (InField f) (fst r), snd r)"

definition optSecret ::
  "venv \<Rightarrow> string \<Rightarrow> LocalObjectReference option \<Rightarrow> string \<Rightarrow> vstate \<Rightarrow> verr option \<times> vstate" where
  "optSecret env f ref ns s =
     (case ref of None \<Rightarrow> (None, s) | Some r \<Rightarrow> inField f (validateSecret env r ns s))"

section \<open>Label syntax\<close>

text \<open>
  \<open>validation.IsQualifiedName\<close> and \<open>IsValidLabelValue\<close> of the vendored apimachinery, as predicates: no
  error is reported.
\<close>

definition isAlnum :: "char \<Rightarrow> bool" where
  "isAlnum c = (let n = (of_char c :: nat) in
     48 \<le> n \<and> n \<le> 57 \<or> 65 \<le> n \<and> n \<le> 90 \<or> 97 \<le> n \<and> n \<le> 122)"

definition isLowerAlnum :: "char \<Rightarrow> bool" where
  "isLowerAlnum c = (let n = (of_char c :: nat) in 48 \<le> n \<and> n \<le> 57 \<or> 97 \<le> n \<and> n \<le> 122)"

definition matchesName :: "string \<Rightarrow> bool" where
  "matchesName s \<longleftrightarrow> s \<noteq> [] \<and> isAlnum (hd s) \<and> isAlnum (last s)
     \<and> list_all (\<lambda>c. isAlnum c \<or> c = CHR ''-'' \<or> c = CHR ''_'' \<or> c = CHR ''.'') s"

definition isDNS1123Label :: "string \<Rightarrow> bool" where
  "isDNS1123Label s \<longleftrightarrow> s \<noteq> [] \<and> isLowerAlnum (hd s) \<and> isLowerAlnum (last s)
     \<and> list_all (\<lambda>c. isLowerAlnum c \<or> c = CHR ''-'') s"

definition isDNS1123Subdomain :: "string \<Rightarrow> bool" where
  "isDNS1123Subdomain s \<longleftrightarrow> length s \<le> 253 \<and> list_all isDNS1123Label (splitChar (CHR ''.'') s)"

definition isQualifiedName :: "string \<Rightarrow> bool" where
  "isQualifiedName v =
     (case splitChar (CHR ''/'') v of
        [name] \<Rightarrow> length name \<le> 63 \<and> matchesName name
      | [pre, name] \<Rightarrow> pre \<noteq> [] \<and> isDNS1123Subdomain pre \<and> length name \<le> 63 \<and> matchesName name
      | _ \<Rightarrow> False)"

definition isValidLabelValue :: "string \<Rightarrow> bool" where
  "isValidLabelValue v \<longleftrightarrow> length v \<le> 63 \<and> (v = [] \<or> matchesName v)"

section \<open>Sections of the DeviceConfig\<close>

text \<open>\<open>ValidateDriverSpec\<close> also fills in the default driver type, through the pointer it is given.\<close>

definition defaultDriverType :: "DeviceConfig \<Rightarrow> DeviceConfig" where
  "defaultDriverType dc =
     (if d_DriverType (driver dc) = [] then
        dc\<lparr>dc_Spec := (dc_Spec dc)\<lparr>s_Driver := (driver dc)\<lparr>d_DriverType := DriverTypeContainer\<rparr>\<rparr>\<rparr>
      else dc)"

definition ValidateDriverSpec :: "venv \<Rightarrow> DeviceConfig \<Rightarrow> vstate \<Rightarrow> (verr option \<times> DeviceConfig) \<times> vstate" where
  "ValidateDriverSpec env dc0 s =
     (let dc = defaultDriverType dc0; d = driver dc; ns = dc_Namespace dc;
          r = (if d_DriverType d \<notin> {DriverTypeContainer, DriverTypeVFPassthrough, DriverTypePFPassthrough}
               then (Some (InvalidDriverType (d_DriverType d)), s)
               else if \<not> ShouldUseKMM (Some dc) then (None, s)
               else firstError
                 [optSecret env ''ImageRegistrySecret'' (d_ImageRegistrySecret d) ns,
                  optSecret env ''ImageSign KeySecret'' (is_KeySecret (d_ImageSign d)) ns,
                  optSecret env ''ImageSign CertSecret'' (is_CertSecret (d_ImageSign d)) ns,
                  \<lambda>s. if d_Version d \<noteq> [] then validateSLESDriverVersion env dc (d_Version d) s
                      else (None, s)] s)
      in ((fst r, dc), snd r))"

definition ValidateMetricsExporterSpec :: "venv \<Rightarrow> DeviceConfig \<Rightarrow> vstate \<Rightarrow> verr option \<times> vstate" where
  "ValidateMetricsExporterSpec env dc s =
     (let m = s_MetricsExporter (dc_Spec dc); ns = dc_Namespace dc in
      if \<not> isTrue (me_Enable m) then (None, s)
      else firstError
        [optSecret env ''ImageRegistrySecret'' (me_ImageRegistrySecret m) ns,
         \<lambda>s. if mc_Name (me_Config m) \<noteq> []
             then inField ''ConfigMap'' (validateConfigMap env (mc_Name (me_Config m)) ns s) else (None, s),
         \<lambda>s. if IsPrometheusServiceMonitorEnable dc
             then inField ''ServiceMonitor'' (validateServiceMonitorCRD env s) else (None, s)] s)"

definition ValidateDRADriverSpec :: "venv \<Rightarrow> DeviceConfig \<Rightarrow> vstate \<Rightarrow> verr option \<times> vstate" where
  "ValidateDRADriverSpec env dc s =
     (let d = s_DRADriver (dc_Spec dc) in
      if dra_IsEnabled d \<and> dp_IsEnabled (s_DevicePlugin (dc_Spec dc)) then (Some BothEnabled, s)
      else if \<not> dra_IsEnabled d then (None, s)
      else optSecret env ''ImageRegistrySecret'' (dra_ImageRegistrySecret d) (dc_Namespace dc) s)"

definition supportedFlagValues :: "string list gomap" where
  "supportedFlagValues =
     [(''resource_naming_strategy'', [''single'', ''mixed'']),
      (''driver_type'', [DriverTypeContainer, DriverTypeVFPassthrough, DriverTypePFPassthrough])]"

fun checkFlags :: "smap \<Rightarrow> verr option" where
  "checkFlags [] = None"
| "checkFlags ((key, val) # m) =
     (case lookup supportedFlagValues key of
        None \<Rightarrow> Some (InvalidFlag key)
      | Some vs \<Rightarrow> if val \<in> set vs then checkFlags m else Some (InvalidFlagValue key val))"

definition ValidateDevicePluginSpec :: "venv \<Rightarrow> DeviceConfig \<Rightarrow> vstate \<Rightarrow> verr option \<times> vstate" where
  "ValidateDevicePluginSpec env dc s =
     (let d = s_DevicePlugin (dc_Spec dc) in
      if dra_IsEnabled (s_DRADriver (dc_Spec dc)) \<and> dp_IsEnabled d then (Some BothEnabled, s)
      else if \<not> dp_IsEnabled d then (None, s)
      else firstError
        [optSecret env ''ImageRegistrySecret'' (dp_ImageRegistrySecret d) (dc_Namespace dc),
         \<lambda>s. (checkFlags (dp_DevicePluginArguments d), s)] s)"

definition validateTaintEffect :: "string \<Rightarrow> verr option" where
  "validateTaintEffect e =
     (if e \<noteq> ''NoSchedule'' \<and> e \<noteq> ''PreferNoSchedule'' \<and> e \<noteq> ''NoExecute'' then Some (TaintEffect e) else None)"

definition checkTaintValidation :: "Taint \<Rightarrow> verr option" where
  "checkTaintValidation t =
     (if \<not> isQualifiedName (t_Key t) then Some (TaintKey (t_Key t))
      else if t_Value t \<noteq> [] \<and> \<not> isValidLabelValue (t_Value t) then Some (TaintValue (t_Value t))
      else if t_Effect t \<noteq> [] then validateTaintEffect (t_Effect t)
      else None)"

fun checkLabels :: "smap \<Rightarrow> verr option" where
  "checkLabels [] = None"
| "checkLabels ((key, value) # m) =
     (if \<not> isQualifiedName key then Some (LabelKey key)
      else if \<not> isValidLabelValue value then Some (LabelValue value)
      else checkLabels m)"

fun checkTaints :: "Taint list \<Rightarrow> verr option" where
  "checkTaints [] = None"
| "checkTaints (t # ts) = (case checkTaintValidation t of Some e \<Rightarrow> Some e | None \<Rightarrow> checkTaints ts)"

definition configName :: "RemediationWorkflowSpec \<Rightarrow> string" where
  "configName r = (case rw_Config r of None \<Rightarrow> [] | Some c \<Rightarrow> lor_Name c)"

definition ValidateRemediationWorkflowSpec :: "venv \<Rightarrow> DeviceConfig \<Rightarrow> vstate \<Rightarrow> verr option \<times> vstate" where
  "ValidateRemediationWorkflowSpec env dc s =
     (let r = remediation dc in
      if \<not> isTrue (rw_Enable r) then (None, s)
      else if configName r = [] \<and> rw_ConfigMapImage r = [] then (Some NoRemediationConfig, s)
      else firstError
        [\<lambda>s. if configName r \<noteq> []
             then inField ''validating remediation workflow config map''
                    (validateConfigMap env (configName r) (dc_Namespace dc) s) else (None, s),
         \<lambda>s. (checkLabels (rw_NodeRemediationLabels r), s),
         \<lambda>s. (checkTaints (rw_NodeRemediationTaints r), s)] s)"

fun checkSecrets :: "venv \<Rightarrow> string \<Rightarrow> int \<Rightarrow> LocalObjectReference list \<Rightarrow> vstate \<Rightarrow> verr option \<times> vstate" where
  "checkSecrets env ns i [] s = (None, s)"
| "checkSecrets env ns i (r # rs) s =
     (case validateSecret env r ns s of
        (Some e, s1) \<Rightarrow> (Some (InField (''ImageRegistrySecrets['' @ itoa i @ '']'') e), s1)
      | (None, s1) \<Rightarrow> checkSecrets env ns (i + 1) rs s1)"

definition ValidateCommonConfigSpec :: "venv \<Rightarrow> DeviceConfig \<Rightarrow> vstate \<Rightarrow> verr option \<times> vstate" where
  "ValidateCommonConfigSpec env dc s =
     checkSecrets env (dc_Namespace dc) 0 (cc_ImageRegistrySecrets (common dc)) s"

section \<open>The validator\<close>

type_synonym specValidator = "DeviceConfig \<Rightarrow> vstate \<Rightarrow> (verr option \<times> DeviceConfig) \<times> vstate"

definition readOnly :: "(DeviceConfig \<Rightarrow> vstate \<Rightarrow> verr option \<times> vstate) \<Rightarrow> specValidator" where
  "readOnly f dc s = ((fst (f dc s), dc), snd (f dc s))"

definition NewValidator :: "venv \<Rightarrow> specValidator gomap" where
  "NewValidator env =
     [(''driver'', ValidateDriverSpec env),
      (''metricsExporter'', readOnly (ValidateMetricsExporterSpec env)),
      (''devicePlugin'', readOnly (ValidateDevicePluginSpec env)),
      (''draDriver'', readOnly (ValidateDRADriverSpec env)),
      (''remediationWorkflow'', readOnly (ValidateRemediationWorkflowSpec env)),
      (''commonConfig'', readOnly (ValidateCommonConfigSpec env))]"

text \<open>Both return the failed validations and the DeviceConfig with its default driver type.\<close>

fun ValidateDeviceConfigAll ::
  "specValidator gomap \<Rightarrow> DeviceConfig \<Rightarrow> vstate \<Rightarrow> ((string \<times> verr) list \<times> DeviceConfig) \<times> vstate" where
  "ValidateDeviceConfigAll [] dc s = (([], dc), s)"
| "ValidateDeviceConfigAll ((spec, v) # fs) dc s =
     (case v dc s of ((e, dc1), s1) \<Rightarrow>
      case ValidateDeviceConfigAll fs dc1 s1 of ((es, dc2), s2) \<Rightarrow>
        ((case e of None \<Rightarrow> es | Some x \<Rightarrow> (spec, x) # es, dc2), s2))"

fun ValidateDeviceConfigSpec ::
  "specValidator gomap \<Rightarrow> string list \<Rightarrow> DeviceConfig \<Rightarrow> vstate \<Rightarrow> (verr list \<times> DeviceConfig) \<times> vstate" where
  "ValidateDeviceConfigSpec fs [] dc s = (([], dc), s)"
| "ValidateDeviceConfigSpec fs (spec # specs) dc s =
     (case lookup fs spec of
        None \<Rightarrow>
          (case ValidateDeviceConfigSpec fs specs dc s of ((es, dc1), s1) \<Rightarrow>
             ((NoSpecValidator spec # es, dc1), s1))
      | Some v \<Rightarrow>
          (case v dc s of ((e, dc1), s1) \<Rightarrow>
           case ValidateDeviceConfigSpec fs specs dc1 s1 of ((es, dc2), s2) \<Rightarrow>
             ((case e of None \<Rightarrow> es | Some x \<Rightarrow> x # es, dc2), s2)))"

end
