(* ===== verification/Validator_Props.thy ===== *)
theory Validator_Props
  imports Validator Samples
begin

text \<open>
  Properties of the validator: what an accepted DeviceConfig satisfies, when a DeviceConfig is
  accepted, that validation writes nothing, and the cache of registry answers.
\<close>

section \<open>Single steps\<close>

lemma firstError_None [simp]:
  "fst (firstError (f # fs) s) = None \<longleftrightarrow> fst (f s) = None \<and> fst (firstError fs (snd (f s))) = None"
  by (cases "f s"; cases "fst (f s)") auto

declare firstError.simps(2) [simp del]

text \<open>What it means for a reference to resolve: at some moment, or at every moment.\<close>

definition secretSeen :: "venv \<Rightarrow> string \<Rightarrow> LocalObjectReference \<Rightarrow> bool" where
  "secretSeen env ns r \<longleftrightarrow> lor_Name r \<noteq> [] \<and> (\<exists>h. o_exists env h KSecret ns (lor_Name r) = None)"

definition secretStable :: "venv \<Rightarrow> string \<Rightarrow> LocalObjectReference \<Rightarrow> bool" where
  "secretStable env ns r \<longleftrightarrow> lor_Name r \<noteq> [] \<and> (\<forall>h. o_exists env h KSecret ns (lor_Name r) = None)"

definition mapSeen :: "venv \<Rightarrow> string \<Rightarrow> string \<Rightarrow> bool" where
  "mapSeen env ns n \<longleftrightarrow> n = [] \<or> (\<exists>h m. o_configmap env h ns n = Inr m)"

definition mapStable :: "venv \<Rightarrow> string \<Rightarrow> string \<Rightarrow> bool" where
  "mapStable env ns n \<longleftrightarrow> n = [] \<or> (\<forall>h. \<exists>m. o_configmap env h ns n = Inr m)"

definition goodCRD :: "(string \<times> (string \<times> bool) list) res \<Rightarrow> bool" where
  "goodCRD r = (case r of Inl _ \<Rightarrow> False
     | Inr (grp, vs) \<Rightarrow> grp = ServiceMonitorCRDGroup \<and> (ServiceMonitorCRDVersion, True) \<in> set vs)"

lemma validateSecret_sound: "fst (validateSecret env r ns s) = None \<Longrightarrow> secretSeen env ns r"
  by (auto simp: validateSecret_def secretSeen_def existsObj_def
      split: if_splits option.splits kerr.splits prod.splits)

lemma validateSecret_complete: "secretStable env ns r \<Longrightarrow> fst (validateSecret env r ns s) = None"
  by (simp add: validateSecret_def secretStable_def existsObj_def)

lemma optSecret_sound:
  "fst (optSecret env f ro ns s) = None \<Longrightarrow> (case ro of None \<Rightarrow> True | Some r \<Rightarrow> secretSeen env ns r)"
  by (auto simp: optSecret_def inField_def split: option.splits dest: validateSecret_sound)

lemma optSecret_complete:
  "(case ro of None \<Rightarrow> True | Some r \<Rightarrow> secretStable env ns r) \<Longrightarrow> fst (optSecret env f ro ns s) = None"
  by (auto simp: optSecret_def inField_def validateSecret_complete split: option.splits)

lemma validateConfigMap_sound: "fst (validateConfigMap env n ns s) = None \<Longrightarrow> mapSeen env ns n"
  by (auto simp: validateConfigMap_def mapSeen_def getConfigMapObj_def
      split: if_splits sum.splits kerr.splits prod.splits)

lemma validateConfigMap_complete:
  "n \<noteq> [] \<Longrightarrow> mapStable env ns n \<Longrightarrow> fst (validateConfigMap env n ns s) = None"
  by (auto simp: validateConfigMap_def mapStable_def getConfigMapObj_def split: sum.splits)
    (metis Inl_Inr_False)

lemma validateServiceMonitorCRD_iff:
  "fst (validateServiceMonitorCRD env s) = None
     \<longleftrightarrow> goodCRD (o_crd env (hist s) ServiceMonitorCRDName)"
proof (cases "o_crd env (hist s) ServiceMonitorCRDName")
  case (Inr r)
  obtain grp vs where "r = (grp, vs)" by fastforce
  with Inr show ?thesis
    by (auto simp: validateServiceMonitorCRD_def goodCRD_def Let_def list_ex_iff)
qed (simp add: validateServiceMonitorCRD_def goodCRD_def Let_def)

lemma checkFlags_iff:
  "checkFlags m = None \<longleftrightarrow>
     (\<forall>(k, v) \<in> set m. case lookup supportedFlagValues k of None \<Rightarrow> False | Some vs \<Rightarrow> v \<in> set vs)"
  by (induction m) (auto split: option.splits if_splits)

lemma checkLabels_iff:
  "checkLabels m = None \<longleftrightarrow> (\<forall>(k, v) \<in> set m. isQualifiedName k \<and> isValidLabelValue v)"
  by (induction m) (auto split: if_splits)

definition taintOk :: "Taint \<Rightarrow> bool" where
  "taintOk t \<longleftrightarrow> isQualifiedName (t_Key t) \<and> (t_Value t = [] \<or> isValidLabelValue (t_Value t))
     \<and> t_Effect t \<in> {[], ''NoSchedule'', ''PreferNoSchedule'', ''NoExecute''}"

lemma checkTaints_iff: "checkTaints ts = None \<longleftrightarrow> list_all taintOk ts"
  by (induction ts) (auto simp: checkTaintValidation_def validateTaintEffect_def taintOk_def split: option.splits)

lemma checkSecrets_sound:
  "fst (checkSecrets env ns i rs s) = None \<Longrightarrow> r \<in> set rs \<Longrightarrow> secretSeen env ns r"
proof (induction env ns i rs s rule: checkSecrets.induct)
  case (2 env ns i r' rs s)
  then show ?case
    using validateSecret_sound [of env r' ns s] by (auto split: prod.splits option.splits)
qed simp

lemma checkSecrets_complete:
  "list_all (secretStable env ns) rs \<Longrightarrow> fst (checkSecrets env ns i rs s) = None"
proof (induction rs arbitrary: i s)
  case (Cons r rs)
  then have "fst (validateSecret env r ns s) = None" by (simp add: validateSecret_complete)
  with Cons show ?case by (auto split: prod.splits option.splits)
qed simp

section \<open>Sections\<close>

text \<open>What an accepted DeviceConfig satisfies, with \<open>sec\<close> and \<open>cm\<close> the meaning of a resolved reference.\<close>

definition optRef :: "(LocalObjectReference \<Rightarrow> bool) \<Rightarrow> LocalObjectReference option \<Rightarrow> bool" where
  "optRef sec ro = (case ro of None \<Rightarrow> True | Some r \<Rightarrow> sec r)"

definition driverOk :: "(LocalObjectReference \<Rightarrow> bool) \<Rightarrow> DeviceConfig \<Rightarrow> bool" where
  "driverOk sec dc \<longleftrightarrow>
     d_DriverType (driver dc) \<in> {[], DriverTypeContainer, DriverTypeVFPassthrough, DriverTypePFPassthrough}
     \<and> (ShouldUseKMM (Some dc) \<longrightarrow> optRef sec (d_ImageRegistrySecret (driver dc))
         \<and> optRef sec (is_KeySecret (d_ImageSign (driver dc)))
         \<and> optRef sec (is_CertSecret (d_ImageSign (driver dc))))"

definition exporterOk :: "(LocalObjectReference \<Rightarrow> bool) \<Rightarrow> (string \<Rightarrow> bool) \<Rightarrow> bool \<Rightarrow> DeviceConfig \<Rightarrow> bool" where
  "exporterOk sec cm crd dc \<longleftrightarrow>
     (isTrue (me_Enable (s_MetricsExporter (dc_Spec dc))) \<longrightarrow>
        optRef sec (me_ImageRegistrySecret (s_MetricsExporter (dc_Spec dc)))
        \<and> cm (mc_Name (me_Config (s_MetricsExporter (dc_Spec dc))))
        \<and> (IsPrometheusServiceMonitorEnable dc \<longrightarrow> crd))"

definition pluginsOk :: "(LocalObjectReference \<Rightarrow> bool) \<Rightarrow> DeviceConfig \<Rightarrow> bool" where
  "pluginsOk sec dc \<longleftrightarrow>
     \<not> (dra_IsEnabled (s_DRADriver (dc_Spec dc)) \<and> dp_IsEnabled (s_DevicePlugin (dc_Spec dc)))
     \<and> (dra_IsEnabled (s_DRADriver (dc_Spec dc)) \<longrightarrow> optRef sec (dra_ImageRegistrySecret (s_DRADriver (dc_Spec dc))))
     \<and> (dp_IsEnabled (s_DevicePlugin (dc_Spec dc)) \<longrightarrow>
          optRef sec (dp_ImageRegistrySecret (s_DevicePlugin (dc_Spec dc)))
          \<and> (\<forall>(k, v) \<in> set (dp_DevicePluginArguments (s_DevicePlugin (dc_Spec dc))).
               case lookup supportedFlagValues k of None \<Rightarrow> False | Some vs \<Rightarrow> v \<in> set vs))"

definition remediationOk :: "(string \<Rightarrow> bool) \<Rightarrow> DeviceConfig \<Rightarrow> bool" where
  "remediationOk cm dc \<longleftrightarrow>
     (isTrue (rw_Enable (remediation dc)) \<longrightarrow>
        (configName (remediation dc) \<noteq> [] \<or> rw_ConfigMapImage (remediation dc) \<noteq> [])
        \<and> cm (configName (remediation dc))
        \<and> (\<forall>(k, v) \<in> set (rw_NodeRemediationLabels (remediation dc)). isQualifiedName k \<and> isValidLabelValue v)
        \<and> list_all taintOk (rw_NodeRemediationTaints (remediation dc)))"

definition specOk :: "(LocalObjectReference \<Rightarrow> bool) \<Rightarrow> (string \<Rightarrow> bool) \<Rightarrow> bool \<Rightarrow> DeviceConfig \<Rightarrow> bool" where
  "specOk sec cm crd dc \<longleftrightarrow> driverOk sec dc \<and> exporterOk sec cm crd dc \<and> pluginsOk sec dc
     \<and> remediationOk cm dc \<and> list_all sec (cc_ImageRegistrySecrets (common dc))"

text \<open>The default driver type does not change what is checked.\<close>

lemma defaultDriverType_idem [simp]: "defaultDriverType (defaultDriverType dc) = defaultDriverType dc"
  by (simp add: defaultDriverType_def DriverTypeContainer_def)

lemma defaultDriverType_fields [simp]:
  "dc_Namespace (defaultDriverType dc) = dc_Namespace dc"
  "s_MetricsExporter (dc_Spec (defaultDriverType dc)) = s_MetricsExporter (dc_Spec dc)"
  "s_DRADriver (dc_Spec (defaultDriverType dc)) = s_DRADriver (dc_Spec dc)"
  "s_DevicePlugin (dc_Spec (defaultDriverType dc)) = s_DevicePlugin (dc_Spec dc)"
  "remediation (defaultDriverType dc) = remediation dc"
  "common (defaultDriverType dc) = common dc"
  "selectorOf (defaultDriverType dc) = selectorOf dc"
  "d_ImageRegistrySecret (driver (defaultDriverType dc)) = d_ImageRegistrySecret (driver dc)"
  "d_ImageSign (driver (defaultDriverType dc)) = d_ImageSign (driver dc)"
  "d_ImageBuild (driver (defaultDriverType dc)) = d_ImageBuild (driver dc)"
  "d_Version (driver (defaultDriverType dc)) = d_Version (driver dc)"
  "d_Enable (driver (defaultDriverType dc)) = d_Enable (driver dc)"
  "IsPrometheusServiceMonitorEnable (defaultDriverType dc) = IsPrometheusServiceMonitorEnable dc"
  by (simp_all add: defaultDriverType_def IsPrometheusServiceMonitorEnable_def selectorOf_def)

lemma ShouldUseKMM_default [simp]: "ShouldUseKMM (Some (defaultDriverType dc)) = ShouldUseKMM (Some dc)"
  by (auto simp: ShouldUseKMM_def defaultDriverType_def driver_types)

lemma driverOk_default [simp]: "driverOk sec (defaultDriverType dc) = driverOk sec dc"
  by (auto simp: driverOk_def) (auto simp: defaultDriverType_def split: if_splits)

lemma sections_default [simp]:
  "exporterOk sec cm crd (defaultDriverType dc) = exporterOk sec cm crd dc"
  "pluginsOk sec (defaultDriverType dc) = pluginsOk sec dc"
  "remediationOk cm (defaultDriverType dc) = remediationOk cm dc"
  by (simp_all add: exporterOk_def pluginsOk_def remediationOk_def)

lemma optRef_seen: "fst (optSecret env f ro ns s) = None \<Longrightarrow> optRef (secretSeen env ns) ro"
  using optSecret_sound by (simp add: optRef_def)

lemma optRef_stable: "optRef (secretStable env ns) ro \<Longrightarrow> fst (optSecret env f ro ns s) = None"
  using optSecret_complete by (simp add: optRef_def)

lemma ValidateDriverSpec_sound:
  assumes "fst (fst (ValidateDriverSpec env dc s)) = None"
  shows "driverOk (secretSeen env (dc_Namespace dc)) dc"
proof -
  let ?d = "defaultDriverType dc"
  from assms have t: "d_DriverType (driver ?d) \<in> {DriverTypeContainer, DriverTypeVFPassthrough, DriverTypePFPassthrough}"
    by (simp add: ValidateDriverSpec_def Let_def split: if_splits)
  then have "d_DriverType (driver dc) \<in> {[], DriverTypeContainer, DriverTypeVFPassthrough, DriverTypePFPassthrough}"
    by (auto simp: defaultDriverType_def split: if_splits)
  moreover have "optRef (secretSeen env (dc_Namespace dc)) (d_ImageRegistrySecret (driver dc))
      \<and> optRef (secretSeen env (dc_Namespace dc)) (is_KeySecret (d_ImageSign (driver dc)))
      \<and> optRef (secretSeen env (dc_Namespace dc)) (is_CertSecret (d_ImageSign (driver dc)))"
    if "ShouldUseKMM (Some dc)"
    using assms that t by (auto simp: ValidateDriverSpec_def Let_def dest!: optRef_seen)
  ultimately show ?thesis by (simp add: driverOk_def)
qed

lemma ValidateMetricsExporterSpec_sound:
  assumes "fst (ValidateMetricsExporterSpec env dc s) = None"
  shows "exporterOk (secretSeen env (dc_Namespace dc)) (mapSeen env (dc_Namespace dc))
    (\<exists>h. goodCRD (o_crd env h ServiceMonitorCRDName)) dc"
proof (cases "isTrue (me_Enable (s_MetricsExporter (dc_Spec dc)))")
  case True
  with assms show ?thesis
    by (auto simp: ValidateMetricsExporterSpec_def exporterOk_def Let_def inField_def mapSeen_def
        validateServiceMonitorCRD_iff dest!: optRef_seen validateConfigMap_sound split: if_splits)
qed (simp add: exporterOk_def)

lemma ValidatePlugins_sound:
  assumes "fst (ValidateDRADriverSpec env dc s) = None" and "fst (ValidateDevicePluginSpec env dc s') = None"
  shows "pluginsOk (secretSeen env (dc_Namespace dc)) dc"
proof -
  from assms(1) have "optRef (secretSeen env (dc_Namespace dc)) (dra_ImageRegistrySecret (s_DRADriver (dc_Spec dc)))"
    if "dra_IsEnabled (s_DRADriver (dc_Spec dc))"
    using that by (auto simp: ValidateDRADriverSpec_def Let_def dest: optRef_seen split: if_splits)
  moreover from assms(2) have "optRef (secretSeen env (dc_Namespace dc)) (dp_ImageRegistrySecret (s_DevicePlugin (dc_Spec dc)))
      \<and> checkFlags (dp_DevicePluginArguments (s_DevicePlugin (dc_Spec dc))) = None"
    if "dp_IsEnabled (s_DevicePlugin (dc_Spec dc))"
    using that by (auto simp: ValidateDevicePluginSpec_def Let_def dest: optRef_seen split: if_splits)
  moreover from assms(1) have "\<not> (dra_IsEnabled (s_DRADriver (dc_Spec dc)) \<and> dp_IsEnabled (s_DevicePlugin (dc_Spec dc)))"
    by (auto simp: ValidateDRADriverSpec_def Let_def)
  ultimately show ?thesis unfolding pluginsOk_def checkFlags_iff by blast
qed

lemma ValidateRemediationWorkflowSpec_sound:
  assumes "fst (ValidateRemediationWorkflowSpec env dc s) = None"
  shows "remediationOk (mapSeen env (dc_Namespace dc)) dc"
proof (cases "isTrue (rw_Enable (remediation dc))")
  case True
  have m: "mapSeen env (dc_Namespace dc) []" by (simp add: mapSeen_def)
  from True assms show ?thesis
    by (auto simp: ValidateRemediationWorkflowSpec_def remediationOk_def Let_def inField_def m
        checkLabels_iff checkTaints_iff dest!: validateConfigMap_sound split: if_splits)
qed (simp add: remediationOk_def)

section \<open>The whole DeviceConfig\<close>

lemma NewValidator_changes:
  assumes "(spec, v) \<in> set (NewValidator env)"
  shows "snd (fst (v dc s)) = dc \<or> snd (fst (v dc s)) = defaultDriverType dc"
  using assms by (auto simp: NewValidator_def readOnly_def ValidateDriverSpec_def Let_def)

text \<open>Every validator of the table was run, on the DeviceConfig or on the one with its default type.\<close>

lemma ValidateAll_run:
  assumes "set fs \<subseteq> set (NewValidator env)"
    and "ValidateDeviceConfigAll fs dc s = (([], dc'), s')"
  shows "(\<forall>(spec, v) \<in> set fs. \<exists>d t. (d = dc \<or> d = defaultDriverType dc) \<and> fst (fst (v d t)) = None)
    \<and> (dc' = dc \<or> dc' = defaultDriverType dc)"
  using assms
proof (induction fs arbitrary: dc s)
  case (Cons p fs)
  obtain spec0 v0 where p: "p = (spec0, v0)" by fastforce
  obtain e dc1 s1 where v0: "v0 dc s = ((e, dc1), s1)" by (metis prod.exhaust)
  obtain es dc2 s2 where rest: "ValidateDeviceConfigAll fs dc1 s1 = ((es, dc2), s2)" by (metis prod.exhaust)
  have dc1: "dc1 = dc \<or> dc1 = defaultDriverType dc"
    using NewValidator_changes [of spec0 v0 env dc s] v0 Cons.prems p by auto
  from Cons.prems p v0 rest have e: "e = None" "es = []" "dc' = dc2" "s2 = s'" by (auto split: option.splits)
  with Cons.IH [of dc1 s1] Cons.prems rest have ih: "(\<forall>(spec, v) \<in> set fs. \<exists>d t. (d = dc1 \<or> d = defaultDriverType dc1)
      \<and> fst (fst (v d t)) = None) \<and> (dc' = dc1 \<or> dc' = defaultDriverType dc1)" by simp
  have "\<exists>d t. (d = dc \<or> d = defaultDriverType dc) \<and> fst (fst (v d t)) = None"
    if "(spec, v) \<in> set (p # fs)" for spec v
  proof (cases "(spec, v) = p")
    case True
    with p v0 e show ?thesis by (intro exI [of _ dc] exI [of _ s]) simp
  next
    case False
    with that bspec [OF conjunct1 [OF ih], of "(spec, v)"]
    obtain d t where "d = dc1 \<or> d = defaultDriverType dc1" "fst (fst (v d t)) = None" by auto
    with dc1 show ?thesis by (intro exI [of _ d] exI [of _ t]) auto
  qed
  moreover from ih dc1 have "dc' = dc \<or> dc' = defaultDriverType dc" by auto
  ultimately show ?case by blast
qed simp


definition sampleVenv :: venv where
  "sampleVenv = apiserver.extend
     ((apiserver.truncate sampleApi)\<lparr>o_configmap := \<lambda>h ns n.
        Inr \<lparr>cfm_Name = n, cfm_Namespace = ns, cfm_Annotations = [], cfm_Data = []\<rparr>\<rparr>)
     (venv.fields (\<lambda>h m url tok. Reply 200 (Some ''token'')) (\<lambda>h n. Inl NotFound))"

definition sampleVstate :: vstate where
  "sampleVstate = \<lparr>hist = [], slesVersionCache = Map.empty\<rparr>"

lemmas venv_defs = sampleVenv_def sampleVstate_def apiserver.defs venv.defs


section \<open>Completeness\<close>

lemma validators_complete:
  assumes "specOk (secretStable env (dc_Namespace dc)) (mapStable env (dc_Namespace dc))
      (\<forall>h. goodCRD (o_crd env h ServiceMonitorCRDName)) dc"
    and "\<not> ShouldUseKMM (Some dc) \<or> d_Version (driver dc) = [] \<or> ib_BaseImageRegistry (d_ImageBuild (driver dc)) \<noteq> []"
    and "(spec, v) \<in> set (NewValidator env)"
  shows "fst (fst (v dc s)) = None"
proof -
  from assms(1) have ok: "driverOk (secretStable env (dc_Namespace dc)) dc"
    "exporterOk (secretStable env (dc_Namespace dc)) (mapStable env (dc_Namespace dc))
      (\<forall>h. goodCRD (o_crd env h ServiceMonitorCRDName)) dc"
    "pluginsOk (secretStable env (dc_Namespace dc)) dc" "remediationOk (mapStable env (dc_Namespace dc)) dc"
    "list_all (secretStable env (dc_Namespace dc)) (cc_ImageRegistrySecrets (common dc))"
    by (simp_all add: specOk_def)
  have "d_DriverType (driver (defaultDriverType dc)) \<in> {DriverTypeContainer, DriverTypeVFPassthrough, DriverTypePFPassthrough}"
    using ok(1) by (auto simp: driverOk_def defaultDriverType_def)
  with ok(1) assms(2) have "fst (fst (ValidateDriverSpec env dc s)) = None"
    by (auto simp: ValidateDriverSpec_def Let_def driverOk_def optRef_stable validateSLESDriverVersion_def)
  moreover from ok(2) have "fst (ValidateMetricsExporterSpec env dc s) = None"
    by (auto simp: ValidateMetricsExporterSpec_def Let_def exporterOk_def optRef_stable inField_def
        validateConfigMap_complete validateServiceMonitorCRD_iff)
  moreover from ok(3) have "fst (ValidateDRADriverSpec env dc s) = None"
    by (auto simp: ValidateDRADriverSpec_def Let_def pluginsOk_def optRef_stable)
  moreover from ok(3) have "fst (ValidateDevicePluginSpec env dc s) = None"
    unfolding pluginsOk_def checkFlags_iff [symmetric]
    by (auto simp: ValidateDevicePluginSpec_def Let_def optRef_stable)
  moreover from ok(4) have "fst (ValidateRemediationWorkflowSpec env dc s) = None"
    unfolding remediationOk_def checkLabels_iff [symmetric] checkTaints_iff [symmetric]
    by (auto simp: ValidateRemediationWorkflowSpec_def Let_def inField_def validateConfigMap_complete)
  moreover from ok(5) have "fst (ValidateCommonConfigSpec env dc s) = None"
    by (simp add: ValidateCommonConfigSpec_def checkSecrets_complete)
  ultimately show ?thesis using assms(3) by (auto simp: NewValidator_def readOnly_def)
qed

text \<open>
  nothing else is rejected: when the references of a DeviceConfig that meets these conditions
  keep resolving, and the check against the SUSE registry does not apply, validation reports no
  error, in any order of the table.
\<close>

theorem ValidateDeviceConfigAll_complete:
  assumes "set fs \<subseteq> set (NewValidator env)"
    and "specOk (secretStable env (dc_Namespace dc)) (mapStable env (dc_Namespace dc))
      (\<forall>h. goodCRD (o_crd env h ServiceMonitorCRDName)) dc"
    and "\<not> ShouldUseKMM (Some dc) \<or> d_Version (driver dc) = [] \<or> ib_BaseImageRegistry (d_ImageBuild (driver dc)) \<noteq> []"
  shows "fst (fst (ValidateDeviceConfigAll fs dc s)) = []"
  using assms
proof (induction fs arbitrary: dc s)
  case (Cons p fs)
  obtain spec v where p: "p = (spec, v)" by fastforce
  with Cons.prems(1) have v: "(spec, v) \<in> set (NewValidator env)" by simp
  let ?dc1 = "snd (fst (v dc s))"
  have d: "?dc1 = dc \<or> ?dc1 = defaultDriverType dc" by (rule NewValidator_changes [OF v])
  then have "specOk (secretStable env (dc_Namespace ?dc1)) (mapStable env (dc_Namespace ?dc1))
      (\<forall>h. goodCRD (o_crd env h ServiceMonitorCRDName)) ?dc1"
    and "\<not> ShouldUseKMM (Some ?dc1) \<or> d_Version (driver ?dc1) = [] \<or> ib_BaseImageRegistry (d_ImageBuild (driver ?dc1)) \<noteq> []"
    using Cons.prems(2,3) by (auto simp: specOk_def)
  with Cons.IH [of ?dc1 "snd (v dc s)"] Cons.prems(1)
  have "fst (fst (ValidateDeviceConfigAll fs ?dc1 (snd (v dc s)))) = []" by simp
  with validators_complete [OF Cons.prems(2,3) v, of s] p show ?case
    by (simp add: split_beta)
qed simp

section \<open>The registry cache\<close>

definition transportError :: "slesErr option \<Rightarrow> bool" where
  "transportError e = (case e of Some BadURL \<Rightarrow> True | Some NoRegistry \<Rightarrow> True | Some BadToken \<Rightarrow> True
     | Some (AuthFailed _) \<Rightarrow> True | _ \<Rightarrow> False)"

lemma transportError_simps [simp]:
  "transportError (Some BadURL)" "transportError (Some NoRegistry)" "transportError (Some BadToken)"
  "transportError (Some (AuthFailed st))"
  by (simp_all add: transportError_def)

lemma manifestResult_answer [simp]: "\<not> transportError (manifestResult st v cs)"
  by (simp add: manifestResult_def transportError_def)

lemma askRegistry_cache:
  assumes "askRegistry env cs v s = (e, s')"
  shows "if transportError e then slesVersionCache s' = slesVersionCache s
    else \<exists>h. slesVersionCache s' (cs @ ''@'' @ v) = Some (e, o_now env h + slesVersionCacheTTL)"
  using assms
  by (auto simp: askRegistry_def http_def timeNow_def logCall_def split: httpReply.splits if_splits option.splits)

lemma cacheHit_cache:
  "cacheHit env key s = (r, s') \<Longrightarrow> slesVersionCache s' = slesVersionCache s
     \<and> (\<forall>e. r = Some e \<longrightarrow> (\<exists>x. slesVersionCache s key = Some (e, x)))"
  by (auto simp: cacheHit_def timeNow_def logCall_def split: option.splits if_splits)

text \<open>
  The cache of registry answers: an answer of the registry (available, not available, an
  unexpected status) is remembered, and until it expires the same question is answered from the
  cache without any request; a failure to reach the registry is never remembered.
\<close>

theorem ValidateSLESDriverVersion_cached:
  assumes "isSles os" and "slesCodestream os \<noteq> []"
    and "ValidateSLESDriverVersion env os v s = (e, s')"
  shows "if transportError e then slesVersionCache s' = slesVersionCache s
    else \<exists>x. slesVersionCache s' (slesCodestream os @ ''@'' @ v) = Some (e, x)
      \<and> (o_now env (hist s') < x \<longrightarrow> ValidateSLESDriverVersion env os v s' = (e, logCall CNow s'))"
proof -
  let ?key = "slesCodestream os @ ''@'' @ v"
  obtain r s1 where h: "cacheHit env ?key s = (r, s1)" by fastforce
  have stored: "if transportError e then slesVersionCache s' = slesVersionCache s
      else \<exists>x. slesVersionCache s' ?key = Some (e, x)"
    using assms cacheHit_cache [OF h] h askRegistry_cache [of env "slesCodestream os" v s1 e s']
    by (auto simp: ValidateSLESDriverVersion_def Let_def split: option.splits if_splits)
  moreover have "ValidateSLESDriverVersion env os v s' = (e, logCall CNow s')"
    if "slesVersionCache s' ?key = Some (e, x)" "o_now env (hist s') < x" for x
    using that assms(1,2) by (simp add: ValidateSLESDriverVersion_def Let_def cacheHit_def timeNow_def)
  ultimately show ?thesis by auto
qed

theorem ValidateSLESDriverVersion_cached_witness:
  "\<exists>x. slesVersionCache (snd (ValidateSLESDriverVersion sampleVenv ''SUSE Linux Enterprise Server 15 SP7'' ''31.30'' sampleVstate))
     (slesCodestream ''SUSE Linux Enterprise Server 15 SP7'' @ ''@'' @ ''31.30'') = Some (None, x)"
proof -
  let ?r = "ValidateSLESDriverVersion sampleVenv ''SUSE Linux Enterprise Server 15 SP7'' ''31.30'' sampleVstate"
  have os: "isSles ''SUSE Linux Enterprise Server 15 SP7''" "slesCodestream ''SUSE Linux Enterprise Server 15 SP7'' \<noteq> []"
    by code_simp+
  have r: "fst ?r = None"
    using os by (simp add: ValidateSLESDriverVersion_def Let_def cacheHit_def askRegistry_def http_def
        timeNow_def manifestResult_def venv_defs split: prod.split)
  have p: "?r = (fst ?r, snd ?r)" by simp
  from ValidateSLESDriverVersion_cached [OF os p] r show ?thesis
    by (auto simp: transportError_def)
qed

theorem ValidateDeviceConfigAll_complete_witness:
  "fst (fst (ValidateDeviceConfigAll (rev (NewValidator sampleVenv))
     (sampleDC\<lparr>dc_Spec := sampleSpec\<lparr>s_Driver := sampleDriver\<lparr>d_Version := []\<rparr>\<rparr>\<rparr>) sampleVstate)) = []"
proof -
  let ?dc = "sampleDC\<lparr>dc_Spec := sampleSpec\<lparr>s_Driver := sampleDriver\<lparr>d_Version := []\<rparr>\<rparr>\<rparr>"
  have a: "set (rev (NewValidator sampleVenv)) \<subseteq> set (NewValidator sampleVenv)" by simp
  have b: "specOk (secretStable sampleVenv (dc_Namespace ?dc)) (mapStable sampleVenv (dc_Namespace ?dc))
      (\<forall>h. goodCRD (o_crd sampleVenv h ServiceMonitorCRDName)) ?dc"
    by (simp add: specOk_def driverOk_def exporterOk_def pluginsOk_def remediationOk_def optRef_def
        sample_defs venv_defs mapStable_def driver_types IsPrometheusServiceMonitorEnable_def
        dra_IsEnabled_def dp_IsEnabled_def configName_def)
  have c: "\<not> ShouldUseKMM (Some ?dc) \<or> d_Version (driver ?dc) = []
      \<or> ib_BaseImageRegistry (d_ImageBuild (driver ?dc)) \<noteq> []"
    by simp
  from ValidateDeviceConfigAll_complete [OF a b c] show ?thesis .
qed

end
