(* ===== verification/Recovery_Tracker.thy ===== *)
theory Recovery_Tracker
  imports Traces
begin

text \<open>
  The remediation manager's record of recent runs (\<open>remediationMgrHelper\<close> of
  \<open>src/internal/controllers/remediation_handler.go\<close>): the in-memory tracker keyed by node and condition,
  the history kept in the \<open>RemediationWorkflowStatus\<close> resource, and the recovery policy that limits
  the runs per window.  Times are Unix nanoseconds; the stamps in the resource keep whole seconds.
\<close>

section \<open>State\<close>

record remediationMgrHelper = world +
  recoveryTracker :: "string \<rightharpoonup> int list"
  serviceAccountName :: string
  maxParallelWorkflows :: int
  tolerationsCache :: "string \<rightharpoonup> string"
  onOpenShift :: bool

type_synonym rmgr = remediationMgrHelper

definition newRemediationMgrHelperHandler :: "bool \<Rightarrow> rmgr" where
  "newRemediationMgrHelperHandler ocp =
     \<lparr>hist = [], recoveryTracker = Map.empty, serviceAccountName = [], maxParallelWorkflows = 0,
      tolerationsCache = Map.empty, onOpenShift = ocp\<rparr>"

definition DefaultRecoveryPolicyWindowSize :: string where "DefaultRecoveryPolicyWindowSize = ''300m''"
definition DefaultRecoveryPolicyMaxRunsPerWindow :: int where "DefaultRecoveryPolicyMaxRunsPerWindow = 3"
definition DefaultStatusCRCleanupWindowSize :: string where "DefaultStatusCRCleanupWindowSize = ''72h''"

section \<open>Recovery policy\<close>

definition getRecoveryTrackerKey :: "string \<Rightarrow> string \<Rightarrow> string" where
  "getRecoveryTrackerKey nodeName nodeCondition = nodeName @ ''-'' @ nodeCondition"

definition getMaxAllowedRunsPerWindow :: "RecoveryPolicyConfig \<Rightarrow> int" where
  "getMaxAllowedRunsPerWindow p =
     (if rp_MaxAllowedRunsPerWindow p = 0 then DefaultRecoveryPolicyMaxRunsPerWindow
      else rp_MaxAllowedRunsPerWindow p)"

definition getWindowSize :: "RecoveryPolicyConfig \<Rightarrow> string" where
  "getWindowSize p = (if rp_WindowSize p = [] then DefaultRecoveryPolicyWindowSize else rp_WindowSize p)"

definition getRecentRecoveryCount :: "rmgr \<Rightarrow> string \<Rightarrow> string \<Rightarrow> nat" where
  "getRecentRecoveryCount s nodeName nodeCondition =
     (case recoveryTracker s (getRecoveryTrackerKey nodeName nodeCondition) of
        None \<Rightarrow> 0 | Some attempts \<Rightarrow> length attempts)"

definition isRecoveryPolicyViolated :: "rmgr \<Rightarrow> string \<Rightarrow> ConditionWorkflowMapping \<Rightarrow> bool" where
  "isRecoveryPolicyViolated s nodeName m \<longleftrightarrow>
     int (getRecentRecoveryCount s nodeName (m_NodeCondition m))
       \<ge> getMaxAllowedRunsPerWindow (m_RecoveryPolicy m)"

section \<open>The in-memory tracker\<close>

definition setTracker :: "string \<Rightarrow> int list \<Rightarrow> rmgr \<Rightarrow> rmgr" where
  "setTracker key ts s = s\<lparr>recoveryTracker := (recoveryTracker s)(key \<mapsto> ts)\<rparr>"

definition loadOrStore :: "string \<Rightarrow> rmgr \<Rightarrow> int list \<times> rmgr" where
  "loadOrStore key s =
     (case recoveryTracker s key of Some ts \<Rightarrow> (ts, s) | None \<Rightarrow> ([], setTracker key [] s))"

text \<open>The slice from the first attempt after the cutoff on.\<close>

definition afterCutoff :: "int \<Rightarrow> int list \<Rightarrow> int list" where
  "afterCutoff cutoff ts = dropWhile (\<lambda>t. \<not> t > cutoff) ts"

definition dropOlderRecoveryAttemptsInternal ::
  "'e apiserver_scheme \<Rightarrow> string \<Rightarrow> string \<Rightarrow> string \<Rightarrow> rmgr \<Rightarrow> err \<times> rmgr" where
  "dropOlderRecoveryAttemptsInternal api nodeName nodeCondition windowSize s =
     (let key = getRecoveryTrackerKey nodeName nodeCondition in
      case loadOrStore key s of (ts, s1) \<Rightarrow>
      case parseDuration windowSize of
        None \<Rightarrow> (Some (OtherErr ''failed to parse window size''), s1)
      | Some w \<Rightarrow> (case timeNow api s1 of (now, s2) \<Rightarrow> (None, setTracker key (afterCutoff (now - w) ts) s2)))"

definition registerRecoveryAttemptInternal :: "string \<Rightarrow> string \<Rightarrow> int \<Rightarrow> rmgr \<Rightarrow> err \<times> rmgr" where
  "registerRecoveryAttemptInternal nodeName nodeCondition startTime s =
     (let key = getRecoveryTrackerKey nodeName nodeCondition in
      case loadOrStore key s of (ts, s1) \<Rightarrow> (None, setTracker key (ts @ [startTime]) s1))"

section \<open>The history in the status resource\<close>

text \<open>\<open>time.Parse\<close> of every stamp; the first failure ends the loop.\<close>

fun parseAttempts :: "WorkflowMetadata list \<Rightarrow> (WorkflowMetadata \<times> int) list option" where
  "parseAttempts [] = Some []"
| "parseAttempts (a # as) =
     (case parseTime (wm_StartTime a) of
        None \<Rightarrow> None
      | Some t \<Rightarrow> map_option (\<lambda>r. (a, t) # r) (parseAttempts as))"

fun keepRecent :: "int \<Rightarrow> WorkflowMetadata list gomap \<Rightarrow> WorkflowMetadata list gomap option" where
  "keepRecent cutoff [] = Some []"
| "keepRecent cutoff ((c, attempts) # conds) =
     (case parseAttempts attempts of
        None \<Rightarrow> None
      | Some ps \<Rightarrow>
          (let filtered = map fst (filter (\<lambda>(a, t). t > cutoff) ps) in
           map_option (\<lambda>r. if filtered = [] then r else (c, filtered) # r) (keepRecent cutoff conds)))"

fun keepRecentNodes :: "int \<Rightarrow> wfstatus \<Rightarrow> wfstatus option" where
  "keepRecentNodes cutoff [] = Some []"
| "keepRecentNodes cutoff ((n, conds) # nodes) =
     (case keepRecent cutoff conds of
        None \<Rightarrow> None
      | Some cs \<Rightarrow> map_option (\<lambda>r. if cs = [] then r else (n, cs) # r) (keepRecentNodes cutoff nodes))"

definition dropOlderRecoveryAttemptsFromStatusCR ::
  "'e apiserver_scheme \<Rightarrow> string \<Rightarrow> rmgr \<Rightarrow> err \<times> rmgr" where
  "dropOlderRecoveryAttemptsFromStatusCR api namespace s =
     (case getWfStatus api namespace s of
        (Inl e, s1) \<Rightarrow> (Some e, s1)
      | (Inr None, s1) \<Rightarrow> (None, s1)
      | (Inr (Some st), s1) \<Rightarrow>
          (case parseDuration DefaultStatusCRCleanupWindowSize of
             None \<Rightarrow> (Some (OtherErr ''failed to parse window size''), s1)
           | Some w \<Rightarrow>
               (case timeNow api s1 of (now, s2) \<Rightarrow>
                case keepRecentNodes (now - w) st of
                  None \<Rightarrow> (Some (OtherErr ''failed to parse attempt start time''), s2)
                | Some st' \<Rightarrow>
                    writeObj api (CPatchStatus (OWfStatus namespace st') (OWfStatus namespace st)) s2)))"

definition addAttempt :: "string \<Rightarrow> string \<Rightarrow> WorkflowMetadata \<Rightarrow> wfstatus \<Rightarrow> wfstatus" where
  "addAttempt n c a st =
     (let conds = (case lookup st n of None \<Rightarrow> [] | Some m \<Rightarrow> m);
          attempts = (case lookup conds c of None \<Rightarrow> [] | Some as \<Rightarrow> as)
      in store n (store c (attempts @ [a]) conds) st)"

definition registerRecoveryAttemptToStatusCR ::
  "'e apiserver_scheme \<Rightarrow> string \<Rightarrow> string \<Rightarrow> string \<Rightarrow> string \<Rightarrow> int \<Rightarrow> rmgr \<Rightarrow> err \<times> rmgr" where
  "registerRecoveryAttemptToStatusCR api nodeName nodeCondition namespace wfName startTime s =
     (case getWfStatus api namespace s of
        (Inl e, s1) \<Rightarrow> (Some e, s1)
      | (Inr sto, s1) \<Rightarrow>
          (let st = (case sto of None \<Rightarrow> [] | Some x \<Rightarrow> x);
               st' = addAttempt nodeName nodeCondition
                       \<lparr>wm_Name = wfName, wm_StartTime = formatTime startTime\<rparr> st
           in writeObj api (CPatchStatus (OWfStatus namespace st') (OWfStatus namespace st)) s1))"

definition registerRecoveryAttempt ::
  "'e apiserver_scheme \<Rightarrow> string \<Rightarrow> string \<Rightarrow> string \<Rightarrow> string \<Rightarrow> rmgr \<Rightarrow> err \<times> rmgr" where
  "registerRecoveryAttempt api nodeName nodeCondition namespace wfName s =
     (case timeNow api s of (startTime, s1) \<Rightarrow>
      case registerRecoveryAttemptInternal nodeName nodeCondition startTime s1 of
        (Some e, s2) \<Rightarrow> (Some e, s2)
      | (None, s2) \<Rightarrow> registerRecoveryAttemptToStatusCR api nodeName nodeCondition namespace wfName startTime s2)"

section \<open>Rebuilding the tracker\<close>

fun syncAttempts ::
  "'e apiserver_scheme \<Rightarrow> int \<Rightarrow> WorkflowMetadata list \<Rightarrow> rmgr \<Rightarrow> int list option \<times> rmgr" where
  "syncAttempts api w [] s = (Some [], s)"
| "syncAttempts api w (a # as) s =
     (case parseTime (wm_StartTime a) of
        None \<Rightarrow> (None, s)
      | Some t \<Rightarrow>
          (case timeNow api s of (now, s1) \<Rightarrow>
           case syncAttempts api w as s1 of (r, s2) \<Rightarrow>
             (map_option (\<lambda>ts. if t < now - w then ts else t # ts) r, s2)))"

definition mappingWindow :: "ConditionWorkflowMapping gomap \<Rightarrow> string \<Rightarrow> string" where
  "mappingWindow mappings c =
     (case lookup mappings c of
        None \<Rightarrow> DefaultRecoveryPolicyWindowSize | Some m \<Rightarrow> getWindowSize (m_RecoveryPolicy m))"

fun syncConditions ::
  "'e apiserver_scheme \<Rightarrow> ConditionWorkflowMapping gomap \<Rightarrow> string \<Rightarrow> WorkflowMetadata list gomap \<Rightarrow> rmgr
     \<Rightarrow> err \<times> rmgr" where
  "syncConditions api mappings n [] s = (None, s)"
| "syncConditions api mappings n ((c, attempts) # conds) s =
     (case parseDuration (mappingWindow mappings c) of
        None \<Rightarrow> (Some (OtherErr ''failed to parse window size''), s)
      | Some w \<Rightarrow>
          (case syncAttempts api w attempts s of
             (None, s1) \<Rightarrow> (Some (OtherErr ''failed to parse attempt start time''), s1)
           | (Some ts, s1) \<Rightarrow>
               syncConditions api mappings n conds (setTracker (getRecoveryTrackerKey n c) ts s1)))"

fun syncNodes ::
  "'e apiserver_scheme \<Rightarrow> ConditionWorkflowMapping gomap \<Rightarrow> wfstatus \<Rightarrow> rmgr \<Rightarrow> err \<times> rmgr" where
  "syncNodes api mappings [] s = (None, s)"
| "syncNodes api mappings ((n, conds) # nodes) s =
     (case syncConditions api mappings n conds s of
        (Some e, s1) \<Rightarrow> (Some e, s1)
      | (None, s1) \<Rightarrow> syncNodes api mappings nodes s1)"

definition syncInternalMapFromStatusCR ::
  "'e apiserver_scheme \<Rightarrow> string \<Rightarrow> ConditionWorkflowMapping gomap \<Rightarrow> rmgr \<Rightarrow> err \<times> rmgr" where
  "syncInternalMapFromStatusCR api namespace mappings s =
     (case getWfStatus api namespace s of
        (Inl e, s1) \<Rightarrow> (Some e, s1)
      | (Inr sto, s1) \<Rightarrow>
          syncNodes api mappings (case sto of None \<Rightarrow> [] | Some st \<Rightarrow> st) (s1\<lparr>recoveryTracker := Map.empty\<rparr>))"

definition createRemediationWorkflowStatus :: "'e apiserver_scheme \<Rightarrow> string \<Rightarrow> rmgr \<Rightarrow> err \<times> rmgr" where
  "createRemediationWorkflowStatus api namespace s = writeObj api (CCreate (OWfStatus namespace [])) s"

end
