(* ===== verification/Recovery_Props.thy ===== *)
theory Recovery_Props
  imports Recovery_Tracker Samples
begin

text \<open>
  Properties of the recovery tracker: the limit on runs per window, pruning by time, the history in
  the status resource and what a rebuilt tracker contains.
\<close>

section \<open>The default windows\<close>

lemma digit_chars [simp]:
  "isDigit (CHR ''3'')" "isDigit (CHR ''0'')" "isDigit (CHR ''7'')" "isDigit (CHR ''2'')"
  "\<not> isDigit (CHR ''m'')" "\<not> isDigit (CHR ''h'')"
  "digitVal (CHR ''3'') = 3" "digitVal (CHR ''0'') = 0" "digitVal (CHR ''7'') = 7" "digitVal (CHR ''2'') = 2"
  by (simp_all add: isDigit_def digitVal_def)

lemma default_windows [simp]:
  "parseDuration ''300m'' = Some 18000000000000"
  "parseDuration ''72h'' = Some 259200000000000"
  by (simp_all add: parseDuration_def spanDigits_def fracDigits_def unitNanos_def isUnitChar_def Let_def)

section \<open>The tracker as a store of attempts\<close>

definition attemptsAt :: "rmgr \<Rightarrow> string \<Rightarrow> int list" where
  "attemptsAt s k = (case recoveryTracker s k of None \<Rightarrow> [] | Some ts \<Rightarrow> ts)"

lemma getRecentRecoveryCount_attempts:
  "getRecentRecoveryCount s n c = length (attemptsAt s (getRecoveryTrackerKey n c))"
  by (simp add: getRecentRecoveryCount_def attemptsAt_def split: option.split)

lemma attempts_setTracker [simp]: "attemptsAt (setTracker k ts s) k' = (if k' = k then ts else attemptsAt s k')"
  by (simp add: attemptsAt_def setTracker_def)

lemma attempts_logCall [simp]: "attemptsAt (logCall c s) = attemptsAt s"
  by (simp add: fun_eq_iff attemptsAt_def logCall_def)

lemma loadOrStore_props [simp]:
  "fst (loadOrStore k s) = attemptsAt s k" "attemptsAt (snd (loadOrStore k s)) = attemptsAt s"
  "hist (snd (loadOrStore k s)) = hist s"
  by (auto simp: fun_eq_iff loadOrStore_def attemptsAt_def setTracker_def split: option.split)

lemma attempts_calls [simp]:
  "attemptsAt (snd (writeObj api c s)) = attemptsAt s"
  "attemptsAt (snd (getWfStatus api ns s)) = attemptsAt s"
  "attemptsAt (snd (timeNow api s)) = attemptsAt s"
  by (simp_all add: call_defs)

lemma drop_attempts:
  assumes "dropOlderRecoveryAttemptsInternal api n c w s = (None, s')"
  obtains d where "parseDuration w = Some d"
    "\<And>k. attemptsAt s' k = (if k = getRecoveryTrackerKey n c
       then afterCutoff (o_now api (hist s) - d) (attemptsAt s k) else attemptsAt s k)"
  using assms
  by (auto simp: dropOlderRecoveryAttemptsInternal_def Let_def split_beta timeNow_def split: option.splits)

lemma register_attempts:
  assumes "registerRecoveryAttempt api n c ns wfn s = (e, s')"
  shows "attemptsAt s' k = (if k = getRecoveryTrackerKey n c
       then attemptsAt s k @ [o_now api (hist s)] else attemptsAt s k)"
  using assms
  by (auto simp: registerRecoveryAttempt_def registerRecoveryAttemptInternal_def
      registerRecoveryAttemptToStatusCR_def Let_def split_beta timeNow_def getWfStatus_def writeObj_def
      split: sum.splits)

section \<open>Properties\<close>

lemma afterCutoff_length: "length (afterCutoff c ts) \<le> length ts"
  by (simp add: afterCutoff_def length_dropWhile_le)

lemma afterCutoff_sorted: "sorted ts \<Longrightarrow> afterCutoff c ts = filter (\<lambda>t. t > c) ts"
proof (induction ts)
  case (Cons t ts)
  show ?case
  proof (cases "t > c")
    case True
    with Cons.prems have "filter (\<lambda>t. t > c) (t # ts) = t # ts"
      by (auto simp: filter_id_conv)
    with True show ?thesis by (simp add: afterCutoff_def)
  next
    case False
    with Cons show ?thesis by (simp add: afterCutoff_def)
  qed
qed (simp add: afterCutoff_def)

text \<open>
  The recovery policy limits the runs: when a workflow may be scheduled, then after the older
  attempts are dropped and the new one is registered, the number of attempts remembered for the node
  and the condition is at most the allowed number of runs per window, and nothing is remembered or
  forgotten for any other key.
\<close>

lemma recovery_policy_bound:
  assumes "\<not> isRecoveryPolicyViolated s n m"
    and "dropOlderRecoveryAttemptsInternal api n (m_NodeCondition m) (getWindowSize (m_RecoveryPolicy m)) s = (None, s1)"
    and "registerRecoveryAttempt api n (m_NodeCondition m) ns wfn s1 = (e, s2)"
  shows "int (getRecentRecoveryCount s2 n (m_NodeCondition m)) \<le> getMaxAllowedRunsPerWindow (m_RecoveryPolicy m)
    \<and> 0 < getRecentRecoveryCount s2 n (m_NodeCondition m)
    \<and> (\<forall>k. k \<noteq> getRecoveryTrackerKey n (m_NodeCondition m) \<longrightarrow> attemptsAt s2 k = attemptsAt s k)"
proof -
  let ?k = "getRecoveryTrackerKey n (m_NodeCondition m)"
  obtain d where d: "\<And>k. attemptsAt s1 k = (if k = ?k
       then afterCutoff (o_now api (hist s) - d) (attemptsAt s k) else attemptsAt s k)"
    using drop_attempts [OF assms(2)] by metis
  from assms(1) have "int (length (attemptsAt s ?k)) < getMaxAllowedRunsPerWindow (m_RecoveryPolicy m)"
    by (simp add: isRecoveryPolicyViolated_def getRecentRecoveryCount_attempts)
  with afterCutoff_length [of "o_now api (hist s) - d" "attemptsAt s ?k"]
  show ?thesis
    by (simp add: getRecentRecoveryCount_attempts register_attempts [OF assms(3)] d)
qed

definition sampleRmgr :: rmgr where
  "sampleRmgr = newRemediationMgrHelperHandler False"

definition sampleMapping :: ConditionWorkflowMapping where
  "sampleMapping = emptyMapping\<lparr>m_NodeCondition := ''AMDGPUUnhealthy'', m_WorkflowTemplate := ''default-template''\<rparr>"

text \<open>
  pruning keeps exactly the recent attempts: on a tracker whose attempts are in the order of
  time, dropping the older ones leaves those, and only those, that lie within the window, still in
  order, and with a clock that does not run backwards registering an attempt keeps the order.
\<close>

theorem drop_keeps_window:
  assumes "dropOlderRecoveryAttemptsInternal api n c w s = (None, s1)"
    and "sorted (attemptsAt s (getRecoveryTrackerKey n c))"
    and "\<forall>t \<in> set (attemptsAt s (getRecoveryTrackerKey n c)). t \<le> o_now api (hist s1)"
    and "registerRecoveryAttempt api n c ns wfn s1 = (e, s2)"
  shows "\<exists>d. parseDuration w = Some d
    \<and> attemptsAt s1 (getRecoveryTrackerKey n c)
        = filter (\<lambda>t. o_now api (hist s) - d < t) (attemptsAt s (getRecoveryTrackerKey n c))
    \<and> sorted (attemptsAt s2 (getRecoveryTrackerKey n c))"
proof -
  let ?k = "getRecoveryTrackerKey n c"
  obtain d where d: "parseDuration w = Some d"
    "\<And>k. attemptsAt s1 k = (if k = ?k then afterCutoff (o_now api (hist s) - d) (attemptsAt s k) else attemptsAt s k)"
    using drop_attempts [OF assms(1)] by metis
  have f: "attemptsAt s1 ?k = filter (\<lambda>t. o_now api (hist s) - d < t) (attemptsAt s ?k)"
    using afterCutoff_sorted [OF assms(2)] d(2) [of ?k] by simp
  have "sorted (attemptsAt s2 ?k)"
    unfolding register_attempts [OF assms(4)] f using assms(2,3) by (auto simp: sorted_append sorted_wrt_filter)
  with d f show ?thesis by blast
qed

theorem drop_keeps_window_witness:
  "\<exists>d. parseDuration ''300m'' = Some d
     \<and> attemptsAt (snd (dropOlderRecoveryAttemptsInternal sampleApi ''n'' ''c'' ''300m'' sampleRmgr))
         (getRecoveryTrackerKey ''n'' ''c'') = filter (\<lambda>t. o_now sampleApi [] - d < t) []"
proof -
  let ?d = "dropOlderRecoveryAttemptsInternal sampleApi ''n'' ''c'' ''300m'' sampleRmgr"
  let ?r = "registerRecoveryAttempt sampleApi ''n'' ''c'' ''ns'' ''wf'' (snd ?d)"
  have "fst ?d = None"
    by (simp add: dropOlderRecoveryAttemptsInternal_def Let_def split_beta)
  then have d: "?d = (None, snd ?d)" by (metis prod.collapse)
  have a: "attemptsAt sampleRmgr (getRecoveryTrackerKey ''n'' ''c'') = []" and h: "hist sampleRmgr = []"
    by (simp_all add: sampleRmgr_def newRemediationMgrHelperHandler_def attemptsAt_def)
  have s: "sorted (attemptsAt sampleRmgr (getRecoveryTrackerKey ''n'' ''c''))"
    and t: "\<forall>t \<in> set (attemptsAt sampleRmgr (getRecoveryTrackerKey ''n'' ''c'')). t \<le> o_now sampleApi (hist (snd ?d))"
    by (simp_all add: a)
  have r: "?r = (fst ?r, snd ?r)" by simp
  from drop_keeps_window [OF d s t r] show ?thesis unfolding a h by blast
qed

section \<open>The history in the status resource\<close>

definition attemptsOf :: "wfstatus \<Rightarrow> string \<Rightarrow> string \<Rightarrow> WorkflowMetadata list" where
  "attemptsOf st n c = (case lookup st n of None \<Rightarrow> []
     | Some conds \<Rightarrow> (case lookup conds c of None \<Rightarrow> [] | Some as \<Rightarrow> as))"

definition startedAfter :: "int \<Rightarrow> WorkflowMetadata \<Rightarrow> bool" where
  "startedAfter cutoff a = (case parseTime (wm_StartTime a) of None \<Rightarrow> False | Some t \<Rightarrow> t > cutoff)"

lemma parseAttempts_filter:
  "parseAttempts as = Some ps \<Longrightarrow> map fst (filter (\<lambda>(a, t). t > cutoff) ps) = filter (startedAfter cutoff) as"
  by (induction as arbitrary: ps) (auto simp: startedAfter_def split: option.splits)

lemma keepRecent_keys: "keepRecent cutoff conds = Some conds' \<Longrightarrow> fst ` set conds' \<subseteq> fst ` set conds"
proof (induction conds arbitrary: conds')
  case (Cons p conds)
  obtain c as where p: "p = (c, as)" by fastforce
  with Cons.prems obtain r fs where "keepRecent cutoff conds = Some r" "conds' = r \<or> conds' = (c, fs) # r"
    by (auto simp: Let_def split: option.splits if_splits)
  with Cons.IH [of r] p show ?case by (auto simp: image_subset_iff)
qed simp

lemma keepRecent_lookup:
  assumes "keepRecent cutoff conds = Some conds'" and "distinct (map fst conds)"
  shows "(case lookup conds' c of None \<Rightarrow> [] | Some as \<Rightarrow> as)
    = filter (startedAfter cutoff) (case lookup conds c of None \<Rightarrow> [] | Some as \<Rightarrow> as)"
  using assms
proof (induction conds arbitrary: conds')
  case (Cons p conds)
  obtain d as where p: "p = (d, as)" by fastforce
  from Cons.prems p obtain ps r where ps: "parseAttempts as = Some ps" "keepRecent cutoff conds = Some r"
    "conds' = (if filter (startedAfter cutoff) as = [] then r else (d, filter (startedAfter cutoff) as) # r)"
    by (auto simp: Let_def parseAttempts_filter split: option.splits)
  have "lookup r d = None"
    using Cons.prems(2) p keepRecent_keys [OF ps(2)] by (auto simp: map_of_eq_None_iff)
  with Cons.IH [OF ps(2)] Cons.prems(2) p ps(3) show ?case by auto
qed simp

lemma keepRecentNodes_keys:
  "keepRecentNodes cutoff st = Some st' \<Longrightarrow> fst ` set st' \<subseteq> fst ` set st"
proof (induction st arbitrary: st')
  case (Cons p st)
  obtain m conds where p: "p = (m, conds)" by fastforce
  with Cons.prems obtain r cs where "keepRecentNodes cutoff st = Some r" "st' = r \<or> st' = (m, cs) # r"
    by (auto split: option.splits if_splits)
  with Cons.IH [of r] p show ?case by (auto simp: image_subset_iff)
qed simp

lemma keepRecent_nonempty:
  "keepRecent cutoff conds = Some conds' \<Longrightarrow> (c, as) \<in> set conds' \<Longrightarrow> as \<noteq> []"
  by (induction conds arbitrary: conds') (auto simp: Let_def split: option.splits if_splits)

text \<open>
  Cleaning the history keeps exactly the recent runs: in a history with one entry per node and
  condition, every run younger than the cutoff stays in its place and every other run is gone,
  and no node and no condition is left with an empty list.
\<close>

theorem keepRecentNodes_exact:
  assumes "keepRecentNodes cutoff st = Some st'" and "distinct (map fst st)"
    and "\<forall>(n, conds) \<in> set st. distinct (map fst conds)"
  shows "attemptsOf st' n c = filter (startedAfter cutoff) (attemptsOf st n c)
    \<and> (\<forall>(m, conds) \<in> set st'. conds \<noteq> [] \<and> (\<forall>(d, as) \<in> set conds. as \<noteq> []))"
  using assms
proof (induction st arbitrary: st')
  case Nil
  then show ?case by (simp add: attemptsOf_def)
next
  case (Cons p st)
  obtain m conds where p: "p = (m, conds)" by fastforce
  from Cons.prems p obtain cs r where cs: "keepRecent cutoff conds = Some cs" "keepRecentNodes cutoff st = Some r"
    "st' = (if cs = [] then r else (m, cs) # r)"
    by (auto split: option.splits)
  from p Cons.prems(3) have dc: "distinct (map fst conds)" by simp
  have none: "lookup r m = None"
    using Cons.prems(2) p keepRecentNodes_keys [OF cs(2)] by (auto simp: map_of_eq_None_iff)
  have ih: "attemptsOf r n c = filter (startedAfter cutoff) (attemptsOf st n c)"
    "\<forall>(m, conds) \<in> set r. conds \<noteq> [] \<and> (\<forall>(d, as) \<in> set conds. as \<noteq> [])"
    using Cons.IH [OF cs(2)] Cons.prems(2,3) by auto
  have "attemptsOf st' n c = filter (startedAfter cutoff) (attemptsOf (p # st) n c)"
    using keepRecent_lookup [OF cs(1) dc, of c] ih(1) none cs(3) p
    by (cases "n = m") (auto simp: attemptsOf_def)
  with ih(2) cs keepRecent_nonempty [OF cs(1)] show ?case by auto
qed

definition sampleHistory :: wfstatus where
  "sampleHistory = [(''node-a'', [(''c'', [\<lparr>wm_Name = ''w1'', wm_StartTime = At 10\<rparr>, \<lparr>wm_Name = ''w2'', wm_StartTime = At 90\<rparr>])])]"

theorem keepRecentNodes_exact_witness:
  "attemptsOf (the (keepRecentNodes 50000000000 sampleHistory)) ''node-a'' ''c''
   = filter (startedAfter 50000000000) (attemptsOf sampleHistory ''node-a'' ''c'')"
proof -
  have a: "keepRecentNodes 50000000000 sampleHistory = Some (the (keepRecentNodes 50000000000 sampleHistory))"
    by (simp add: sampleHistory_def Let_def)
  have b: "distinct (map fst sampleHistory)" "\<forall>(n, conds) \<in> set sampleHistory. distinct (map fst conds)"
    by (simp_all add: sampleHistory_def)
  from keepRecentNodes_exact [OF a b] show ?thesis by blast
qed

text \<open>
  a registered run is recorded under its node and condition only: the history afterwards has
  the new run, with its start time to the second, at the end of that list and is otherwise the
  same, and it is not lost by the next cleaning as long as it is within the window.
\<close>

theorem addAttempt_recorded:
  "attemptsOf (addAttempt n c a st) n' c' =
     (if n' = n \<and> c' = c then attemptsOf st n c @ [a] else attemptsOf st n' c')
   \<and> (cutoff + 1000000000 \<le> t \<longrightarrow> startedAfter cutoff \<lparr>wm_Name = w, wm_StartTime = formatTime t\<rparr>)"
proof -
  obtain u where "parseTime (formatTime t) = Some u" "t < u + 1000000000"
    using parseTime_formatTime [of t] by auto
  then have "cutoff + 1000000000 \<le> t \<longrightarrow> startedAfter cutoff \<lparr>wm_Name = w, wm_StartTime = formatTime t\<rparr>"
    by (auto simp: startedAfter_def)
  then show ?thesis by (auto simp: attemptsOf_def addAttempt_def Let_def split: option.splits)
qed

theorem addAttempt_recorded_witness:
  "startedAfter 0 \<lparr>wm_Name = ''w'', wm_StartTime = formatTime 1000000000\<rparr>"
  using addAttempt_recorded [of "''n''" "''c''" "\<lparr>wm_Name = ''w'', wm_StartTime = At 1\<rparr>" "[]" "''n''" "''c''" 0 1000000000 "''w''"]
  by simp

section \<open>The rebuilt tracker\<close>

text \<open>Keys of different nodes and conditions differ when no condition contains a dash.\<close>

lemma splitAtLast:
  "CHR ''-'' \<notin> set c \<Longrightarrow> CHR ''-'' \<notin> set c' \<Longrightarrow> n @ CHR ''-'' # c = n' @ CHR ''-'' # c' \<Longrightarrow> n = n' \<and> c = c'"
proof (induction n arbitrary: n')
  case Nil
  then show ?case by (cases n') auto
next
  case (Cons x n)
  then show ?case by (cases n') auto
qed

lemma trackerKey_inj:
  "CHR ''-'' \<notin> set c \<Longrightarrow> CHR ''-'' \<notin> set c' \<Longrightarrow>
     getRecoveryTrackerKey n c = getRecoveryTrackerKey n' c' \<longleftrightarrow> n = n' \<and> c = c'"
  using splitAtLast [of c c' n n'] by (auto simp: getRecoveryTrackerKey_def)

definition withinWindow :: "int \<Rightarrow> int \<Rightarrow> WorkflowMetadata list \<Rightarrow> int list" where
  "withinWindow now w as = filter (\<lambda>t. now - w \<le> t) (map (\<lambda>a. the (parseTime (wm_StartTime a))) as)"

lemma syncAttempts_window:
  assumes "\<forall>h. o_now api h = now" and "syncAttempts api w as s = (Some ts, s')"
  shows "ts = withinWindow now w as \<and> attemptsAt s' = attemptsAt s"
  using assms(2)
proof (induction as arbitrary: s ts)
  case (Cons a as)
  then obtain t r where t: "parseTime (wm_StartTime a) = Some t"
    "syncAttempts api w as (logCall CNow s) = (Some r, s')" "ts = (if t < now - w then r else t # r)"
    using assms(1) by (auto simp: timeNow_def split: option.splits prod.splits)
  from Cons.IH [OF t(2)] t show ?case by (auto simp: withinWindow_def)
qed (simp add: withinWindow_def)

lemma syncConditions_other:
  assumes "syncConditions api ms n conds s = (None, s')" and "\<forall>h. o_now api h = now"
    and "\<forall>(c, as) \<in> set conds. k \<noteq> getRecoveryTrackerKey n c"
  shows "attemptsAt s' k = attemptsAt s k"
  using assms(1,3)
proof (induction conds arbitrary: s)
  case (Cons p conds)
  obtain c as where p: "p = (c, as)" by fastforce
  with Cons.prems(1) obtain w ts s1 where s1: "syncAttempts api w as s = (Some ts, s1)"
    "syncConditions api ms n conds (setTracker (getRecoveryTrackerKey n c) ts s1) = (None, s')"
    by (auto split: option.splits prod.splits)
  from Cons.IH [OF s1(2)] Cons.prems(2) p syncAttempts_window [OF assms(2) s1(1)] show ?case by auto
qed simp

lemma syncConditions_at:
  assumes "syncConditions api ms n conds s = (None, s')" and "\<forall>h. o_now api h = now"
    and "distinct (map fst conds)" and "\<forall>(c, as) \<in> set conds. CHR ''-'' \<notin> set c"
    and "(c, as) \<in> set conds"
  shows "\<exists>w. parseDuration (mappingWindow ms c) = Some w
    \<and> attemptsAt s' (getRecoveryTrackerKey n c) = withinWindow now w as"
  using assms(1,3,4,5)
proof (induction conds arbitrary: s)
  case (Cons p conds)
  obtain d bs where p: "p = (d, bs)" by fastforce
  with Cons.prems(1) obtain w ts s1 where s1: "parseDuration (mappingWindow ms d) = Some w"
    "syncAttempts api w bs s = (Some ts, s1)"
    "syncConditions api ms n conds (setTracker (getRecoveryTrackerKey n d) ts s1) = (None, s')"
    by (auto split: option.splits prod.splits)
  show ?case
  proof (cases "c = d")
    case True
    with p Cons.prems(2,4) have bs: "bs = as" by (auto simp: image_iff)
    have "\<forall>(c', as) \<in> set conds. getRecoveryTrackerKey n d \<noteq> getRecoveryTrackerKey n c'"
      using Cons.prems(2) p by (auto simp: getRecoveryTrackerKey_def image_iff)
    from syncConditions_other [OF s1(3) assms(2) this] syncAttempts_window [OF assms(2) s1(2)] True bs s1(1)
    show ?thesis by auto
  next
    case False
    with Cons.IH [OF s1(3)] Cons.prems p show ?thesis by auto
  qed
qed simp

lemma syncNodes_other:
  assumes "syncNodes api ms st s = (None, s')" and "\<forall>h. o_now api h = now"
    and "\<forall>(n, conds) \<in> set st. \<forall>(c, as) \<in> set conds. k \<noteq> getRecoveryTrackerKey n c"
  shows "attemptsAt s' k = attemptsAt s k"
  using assms(1,3)
proof (induction st arbitrary: s)
  case (Cons p st)
  obtain n conds where p: "p = (n, conds)" by fastforce
  with Cons.prems(1) obtain s1 where s1: "syncConditions api ms n conds s = (None, s1)"
    "syncNodes api ms st s1 = (None, s')" by (auto split: option.splits prod.splits)
  from Cons.prems(2) p have a: "\<forall>(c, as) \<in> set conds. k \<noteq> getRecoveryTrackerKey n c"
    and b: "\<forall>(n, conds) \<in> set st. \<forall>(c, as) \<in> set conds. k \<noteq> getRecoveryTrackerKey n c" by auto
  from Cons.IH [OF s1(2) b] syncConditions_other [OF s1(1) assms(2) a] show ?case by simp
qed simp


definition historyApi :: env where
  "historyApi = sampleApi\<lparr>o_wfstatus := \<lambda>h ns. Inr (Some sampleHistory)\<rparr>"


end
