(* ===== verification/Workflow_Templates.thy ===== *)
theory Workflow_Templates
  imports Recovery_Tracker
begin

text \<open>
  The Argo objects the remediation manager makes (\<open>createDefaultWorkflowTemplate\<close>, \<open>populateWorkflow\<close>
  and their helpers in \<open>src/internal/controllers/remediation_handler.go\<close>): the notification template,
  the default template with its steps, and the workflow of one node.  The object metadata of the
  owner reference is reduced to its name; the scripts are read from files.
\<close>

section \<open>Constants\<close>

definition RemediationTaintKey :: string where "RemediationTaintKey = ''amd-gpu-unhealthy''"
definition DefaultConfigMapSuffix :: string where "DefaultConfigMapSuffix = ''default-conditional-workflow-mappings''"
definition DefaultTemplate :: string where "DefaultTemplate = ''default-template''"
definition DefaultTestRunnerImage :: string where "DefaultTestRunnerImage = ''docker.io/rocm/test-runner:v0.0.1''"
definition TestRunnerServiceAccount :: string where "TestRunnerServiceAccount = ''amd-gpu-operator-test-runner''"
definition AmdGpuRemediationRequired :: string where "AmdGpuRemediationRequired = ''amd-gpu-remediation-required''"
definition AmdGpuRemediationSucceeded :: string where "AmdGpuRemediationSucceeded = ''amd-gpu-remediation-succeeded''"
definition AmdGpuRemediationFailed :: string where "AmdGpuRemediationFailed = ''amd-gpu-remediation-failed''"
definition DefaultUtilityImage :: string where "DefaultUtilityImage = ''docker.io/rocm/gpu-operator-utils:latest''"
definition DefaultRebootTimeout :: string where "DefaultRebootTimeout = ''15m''"
definition DefaultInitContainerImage :: string where "DefaultInitContainerImage = ''busybox:1.36''"

definition instanceIDMeta :: smap where
  "instanceIDMeta = [(''workflows.argoproj.io/controller-instanceid'', ''amd-gpu-operator-remediation-workflow'')]"

section \<open>Parameters, steps and templates\<close>

definition newlineChar :: char where "newlineChar = CHR 0x0A"

definition param :: "string \<Rightarrow> string option \<Rightarrow> Parameter" where
  "param n v = \<lparr>prm_Name = n, prm_Value = v, prm_Default = None, prm_Path = []\<rparr>"

definition wfParam :: "string \<Rightarrow> Parameter" where
  "wfParam n = param n (Some (''{{workflow.parameters.'' @ n @ ''}}''))"

definition step :: "string \<Rightarrow> string \<Rightarrow> string \<Rightarrow> WorkflowStep" where
  "step n t w = \<lparr>stp_Name = n, stp_Template = t, stp_TemplateRef = None, stp_When = w,
     stp_ContinueOnFailed = False, stp_Arguments = []\<rparr>"

definition notifyStep :: "string \<Rightarrow> string \<Rightarrow> string \<Rightarrow> string \<Rightarrow> string \<Rightarrow> WorkflowStep" where
  "notifyStep n message event etype w =
     \<lparr>stp_Name = n, stp_Template = [], stp_TemplateRef = Some (''event-notify-template'', ''notify''),
      stp_When = w, stp_ContinueOnFailed = False,
      stp_Arguments =
        [param ''nodeName'' (Some ''{{workflow.parameters.node_name}}''),
         param ''notifyMessage'' (Some (''{{workflow.parameters.'' @ message @ ''}}'')),
         param ''eventName'' (Some event), param ''eventType'' (Some etype)]\<rparr>"

definition scriptTemplate :: "string \<Rightarrow> Parameter list \<Rightarrow> string \<Rightarrow> Container \<Rightarrow> Template" where
  "scriptTemplate n inputs src cont =
     emptyTemplate\<lparr>tpl_Name := n, tpl_Labels := instanceIDMeta, tpl_Inputs := inputs,
       tpl_Source := src, tpl_Container := Some cont\<rparr>"

definition ownerRef :: "DeviceConfig \<Rightarrow> OwnerReference list" where
  "ownerRef dc = [\<lparr>or_Kind = ''DeviceConfig'', or_Name = dc_Name dc, or_Controller = True\<rparr>]"

definition getWorkflowUtilityImage :: "DeviceConfig \<Rightarrow> Container" where
  "getWorkflowUtilityImage dc =
     (let uc = cc_UtilsContainer (common dc) in
      emptyContainer\<lparr>ct_Image := (if uc_Image uc \<noteq> [] then uc_Image uc else DefaultUtilityImage),
        ct_ImagePullPolicy := uc_ImagePullPolicy uc\<rparr>)"

definition utilityContainer :: "DeviceConfig \<Rightarrow> Container" where
  "utilityContainer dc = (getWorkflowUtilityImage dc)\<lparr>ct_Command := [''sh'']\<rparr>"

definition rebootContainer :: "DeviceConfig \<Rightarrow> Container" where
  "rebootContainer dc = (getWorkflowUtilityImage dc)\<lparr>ct_Command := [''sh''], ct_Privileged := Some True\<rparr>"

section \<open>The default templates\<close>

definition notifyTemplate :: "DeviceConfig \<Rightarrow> string \<Rightarrow> WorkflowTemplate" where
  "notifyTemplate dc notifySrc =
     \<lparr>wt_Name = ''event-notify-template'', wt_Namespace = dc_Namespace dc, wt_Owners = ownerRef dc,
      wt_Spec = emptyWorkflowSpec\<lparr>wsp_Entrypoint := ''notify'',
        wsp_Templates := [scriptTemplate ''notify''
          [param ''nodeName'' None, param ''notifyMessage'' None, param ''eventName'' None,
           param ''eventType'' None] notifySrc (utilityContainer dc)]\<rparr>\<rparr>"

definition testFailed :: string where "testFailed = ''{{steps.test.exitCode}} != 0''"
definition testPassed :: string where "testPassed = ''{{steps.test.exitCode}} == 0''"
definition waitPassed :: string where "waitPassed = testPassed @ '' && {{steps.wait.exitCode}} == 0''"
definition noReboot :: string where "noReboot = ''{{workflow.parameters.skipRebootStep}} == false''"
definition hasLabels :: string where "hasLabels = ''{{workflow.parameters.node_labels}} != []''"

definition inbuiltSteps :: "WorkflowStep list" where
  "inbuiltSteps =
     [step ''awaitapproval'' ''suspend'' ''{{workflow.parameters.auto_start}} == false'',
      step ''applylabels'' ''applylabels'' hasLabels,
      step ''taint'' ''taint'' [],
      step ''drain'' ''drain'' [],
      notifyStep ''notifybeforesuspend'' ''notifyMessage'' AmdGpuRemediationRequired ''Warning'' [],
      step ''suspend'' ''suspend'' [],
      (step ''reboot'' ''reboot'' noReboot)\<lparr>stp_ContinueOnFailed := True\<rparr>,
      (step ''waitfornodeready'' ''waitfornodeready'' noReboot)\<lparr>stp_Arguments :=
         [param ''node_name'' (Some ''{{workflow.parameters.node_name}}''),
          param ''old_boot_id'' (Some ''{{steps.reboot.outputs.parameters.boot_id}}''),
          param ''wait_for_reboot_duration'' (Some ''{{workflow.parameters.wait_for_reboot_duration}}'')]\<rparr>,
      (step ''test'' ''test'' [])\<lparr>stp_ContinueOnFailed := True\<rparr>,
      notifyStep ''notifygputestfailed'' ''notifyErrorMessage'' AmdGpuRemediationFailed ''Warning'' testFailed,
      step ''failurecleanup'' ''removelabels'' (testFailed @ '' && '' @ hasLabels),
      step ''failworkflow'' ''failworkflow'' testFailed,
      (step ''wait'' ''wait'' testPassed)\<lparr>stp_ContinueOnFailed := True\<rparr>,
      notifyStep ''notifywaitfailed'' ''notifyWaitFailedMessage'' AmdGpuRemediationFailed ''Warning''
        (testPassed @ '' && {{steps.wait.exitCode}} != 0''),
      step ''untaint'' ''untaint'' waitPassed,
      notifyStep ''notifyworkflowsucceeded'' ''notifySuccessMessage'' AmdGpuRemediationSucceeded ''Normal'' waitPassed,
      step ''successcleanup'' ''removelabels'' (waitPassed @ '' && '' @ hasLabels)]"

definition inbuiltTemplate :: Template where
  "inbuiltTemplate = emptyTemplate\<lparr>tpl_Name := ''inbuilt'', tpl_Labels := instanceIDMeta,
     tpl_Steps := map (\<lambda>s. [s]) inbuiltSteps\<rparr>"

definition suspendTemplate :: Template where
  "suspendTemplate = emptyTemplate\<lparr>tpl_Name := ''suspend'', tpl_Labels := instanceIDMeta, tpl_Suspend := True\<rparr>"

definition rebootPatch :: string where
  "rebootPatch = [newlineChar] @ ''hostPID: true'' @ [newlineChar] @ ''hostNetwork: true'' @ [newlineChar]
     @ ''containers:'' @ [newlineChar] @ ''- name: main'' @ [newlineChar] @ ''  stdin: true'' @ [newlineChar]
     @ ''  tty: true'' @ [newlineChar]"

definition rebootTemplate :: "DeviceConfig \<Rightarrow> string \<Rightarrow> Template" where
  "rebootTemplate dc rebootSrc =
     (scriptTemplate ''reboot'' [wfParam ''node_name''] rebootSrc (rebootContainer dc))\<lparr>
       tpl_Outputs := [\<lparr>prm_Name = ''boot_id'', prm_Value = None, prm_Default = Some [], prm_Path = ''/tmp/boot_id''\<rparr>],
       tpl_PodSpecPatch := rebootPatch\<rparr>"

definition waitForNodeReadyTemplate :: "DeviceConfig \<Rightarrow> string \<Rightarrow> Template" where
  "waitForNodeReadyTemplate dc src =
     scriptTemplate ''waitfornodeready''
       [wfParam ''node_name'',
        \<lparr>prm_Name = ''old_boot_id'', prm_Value = None, prm_Default = Some [], prm_Path = []\<rparr>,
        \<lparr>prm_Name = ''wait_for_reboot_duration'', prm_Value = None, prm_Default = Some DefaultRebootTimeout,
         prm_Path = []\<rparr>] src (utilityContainer dc)"

definition testTemplate :: "DeviceConfig \<Rightarrow> string \<Rightarrow> Template" where
  "testTemplate dc src = scriptTemplate ''test''
     (map wfParam [''node_name'', ''framework'', ''recipe'', ''iterations'', ''stopOnFailure'',
        ''timeoutSeconds'', ''testRunnerImage'', ''testRunnerServiceAccount'', ''namespace'',
        ''initContainerImage'', ''testRunnerImageSecret'']) src (utilityContainer dc)"

definition taintTemplate :: "DeviceConfig \<Rightarrow> string \<Rightarrow> Template" where
  "taintTemplate dc src =
     scriptTemplate ''taint'' (map wfParam [''node_condition'', ''node_name'', ''node_taints'']) src (utilityContainer dc)"

definition drainTemplate :: "DeviceConfig \<Rightarrow> string \<Rightarrow> Template" where
  "drainTemplate dc src = scriptTemplate ''drain'' (map wfParam [''node_name'', ''drain_policy'']) src (utilityContainer dc)"

definition waitTemplate :: "DeviceConfig \<Rightarrow> string \<Rightarrow> Template" where
  "waitTemplate dc src = scriptTemplate ''wait'' (map wfParam [''node_condition'', ''node_name'']) src (utilityContainer dc)"

definition untaintTemplate :: "DeviceConfig \<Rightarrow> string \<Rightarrow> Template" where
  "untaintTemplate dc src = scriptTemplate ''untaint'' (map wfParam [''node_name'', ''node_taints'']) src (utilityContainer dc)"

definition failworkflowTemplate :: "DeviceConfig \<Rightarrow> Template" where
  "failworkflowTemplate dc = scriptTemplate ''failworkflow'' [] ''echo \"Failing workflow\" && exit 1'' (utilityContainer dc)"

definition applylabelsTemplate :: "DeviceConfig \<Rightarrow> string \<Rightarrow> Template" where
  "applylabelsTemplate dc src =
     scriptTemplate ''applylabels'' (map wfParam [''node_name'', ''node_labels'']) src (utilityContainer dc)"

definition removelabelsTemplate :: "DeviceConfig \<Rightarrow> string \<Rightarrow> Template" where
  "removelabelsTemplate dc src =
     scriptTemplate ''removelabels'' (map wfParam [''node_name'', ''node_labels'']) src (utilityContainer dc)"

lemmas task_templates = suspendTemplate_def rebootTemplate_def waitForNodeReadyTemplate_def testTemplate_def taintTemplate_def
  drainTemplate_def waitTemplate_def untaintTemplate_def failworkflowTemplate_def applylabelsTemplate_def removelabelsTemplate_def

text \<open>The sources of the scripts, by file name.\<close>

record scripts =
  sc_taint :: string
  sc_drain :: string
  sc_test :: string
  sc_wait :: string
  sc_waitfornodeready :: string
  sc_reboot :: string
  sc_untaint :: string
  sc_applylabels :: string
  sc_removelabels :: string

definition defaultTemplate :: "DeviceConfig \<Rightarrow> scripts \<Rightarrow> WorkflowTemplate" where
  "defaultTemplate dc sc =
     \<lparr>wt_Name = ''default-template'', wt_Namespace = dc_Namespace dc, wt_Owners = ownerRef dc,
      wt_Spec = emptyWorkflowSpec\<lparr>wsp_Entrypoint := ''inbuilt'',
        wsp_Templates :=
          [inbuiltTemplate,
           taintTemplate dc (sc_taint sc),
           suspendTemplate,
           drainTemplate dc (sc_drain sc),
           rebootTemplate dc (sc_reboot sc),
           waitForNodeReadyTemplate dc (sc_waitfornodeready sc),
           testTemplate dc (sc_test sc),
           waitTemplate dc (sc_wait sc),
           untaintTemplate dc (sc_untaint sc),
           failworkflowTemplate dc,
           applylabelsTemplate dc (sc_applylabels sc),
           removelabelsTemplate dc (sc_removelabels sc)]\<rparr>\<rparr>"

definition getWorkflowTaskScriptSource ::
  "'e apiserver_scheme \<Rightarrow> string \<Rightarrow> 'a world_scheme \<Rightarrow> string res \<times> 'a world_scheme" where
  "getWorkflowTaskScriptSource api f s =
     (case readFile api (''/remediation/scripts/'' @ f) s of
        (None, s1) \<Rightarrow> (Inl (OtherErr (''failed to read script file '' @ f)), s1)
      | (Some src, s1) \<Rightarrow> (Inr src, s1))"

text \<open>The script files in the order they are read, until one is missing.\<close>

fun readScripts ::
  "'e apiserver_scheme \<Rightarrow> string list \<Rightarrow> 'a world_scheme \<Rightarrow> string list res \<times> 'a world_scheme" where
  "readScripts api [] s = (Inr [], s)"
| "readScripts api (f # fs) s =
     (case getWorkflowTaskScriptSource api f s of
        (Inl e, s1) \<Rightarrow> (Inl e, s1)
      | (Inr src, s1) \<Rightarrow>
          (case readScripts api fs s1 of
             (Inl e, s2) \<Rightarrow> (Inl e, s2)
           | (Inr srcs, s2) \<Rightarrow> (Inr (src # srcs), s2)))"

definition scriptFiles :: "string list" where
  "scriptFiles = [''taint.sh'', ''drain.sh'', ''test.sh'', ''wait.sh'', ''waitfornodeready.sh'', ''reboot.sh'',
     ''untaint.sh'', ''applylabels.sh'', ''removelabels.sh'']"

definition scriptsOf :: "string list \<Rightarrow> scripts" where
  "scriptsOf srcs = \<lparr>sc_taint = srcs ! 0, sc_drain = srcs ! 1, sc_test = srcs ! 2, sc_wait = srcs ! 3,
     sc_waitfornodeready = srcs ! 4, sc_reboot = srcs ! 5, sc_untaint = srcs ! 6,
     sc_applylabels = srcs ! 7, sc_removelabels = srcs ! 8\<rparr>"

definition createDefaultWorkflowTemplate ::
  "'e apiserver_scheme \<Rightarrow> DeviceConfig \<Rightarrow> 'a world_scheme \<Rightarrow> err \<times> 'a world_scheme" where
  "createDefaultWorkflowTemplate api dc s =
     (case getWorkflowTaskScriptSource api ''notify.sh'' s of
        (Inl e, s1) \<Rightarrow> (Some e, s1)
      | (Inr notifySrc, s1) \<Rightarrow>
          (case writeObj api (CCreate (OWorkflowTemplate (notifyTemplate dc notifySrc))) s1 of
             (Some e, s2) \<Rightarrow> (Some e, s2)
           | (None, s2) \<Rightarrow>
               (case readScripts api scriptFiles s2 of
                  (Inl e, s3) \<Rightarrow> (Some e, s3)
                | (Inr srcs, s3) \<Rightarrow>
                    writeObj api (CCreate (OWorkflowTemplate (defaultTemplate dc (scriptsOf srcs)))) s3)))"

section \<open>JSON arguments\<close>

text \<open>
  \<open>json.Marshal\<close> of strings, string slices and the drain policy.  Bytes above 127 are passed through:
  label keys and values and taint keys and effects are ASCII.
\<close>

definition hexDigit :: "nat \<Rightarrow> char" where
  "hexDigit d = (if d < 10 then char_of (48 + d) else char_of (87 + d))"

definition unicodeEscape :: "nat \<Rightarrow> string" where
  "unicodeEscape n = [CHR 0x5C] @ ''u00'' @ [hexDigit (n div 16), hexDigit (n mod 16)]"

definition jsonChar :: "char \<Rightarrow> string" where
  "jsonChar c =
     (let n = (of_char c :: nat) in
      if c = CHR 0x22 then [CHR 0x5C, CHR 0x22]
      else if c = CHR 0x5C then [CHR 0x5C, CHR 0x5C]
      else if n = 8 then [CHR 0x5C, CHR ''b'']
      else if n = 9 then [CHR 0x5C, CHR ''t'']
      else if n = 10 then [CHR 0x5C, CHR ''n'']
      else if n = 12 then [CHR 0x5C, CHR ''f'']
      else if n = 13 then [CHR 0x5C, CHR ''r'']
      else if n < 32 \<or> c = CHR ''<'' \<or> c = CHR ''>'' \<or> c = CHR ''&'' then unicodeEscape n
      else [c])"

definition jsonString :: "string \<Rightarrow> string" where
  "jsonString s = [CHR 0x22] @ concat (map jsonChar s) @ [CHR 0x22]"

definition jsonList :: "string list \<Rightarrow> string" where
  "jsonList ss = ''['' @ joinStr '','' (map jsonString ss) @ '']''"

definition boolText :: "bool \<Rightarrow> string" where
  "boolText b = (if b then ''true'' else ''false'')"

definition drainPolicyFields :: "DrainSpec \<Rightarrow> smap" where
  "drainPolicyFields d =
     (case ds_Force d of None \<Rightarrow> [] | Some b \<Rightarrow> [(''force'', boolText b)])
     @ (if ds_TimeoutSeconds d = 0 then [] else [(''timeoutSeconds'', itoa (ds_TimeoutSeconds d))])
     @ (if ds_GracePeriodSeconds d = 0 then [] else [(''gracePeriodSeconds'', itoa (ds_GracePeriodSeconds d))])
     @ (case ds_IgnoreDaemonSets d of None \<Rightarrow> [] | Some b \<Rightarrow> [(''ignoreDaemonSets'', boolText b)])
     @ (if ds_IgnoreNamespaces d = [] then [] else [(''ignoreNamespaces'', jsonList (ds_IgnoreNamespaces d))])"

definition jsonDrainPolicy :: "DrainSpec \<Rightarrow> string" where
  "jsonDrainPolicy d =
     ''{'' @ joinStr '','' (map (\<lambda>(k, v). jsonString k @ '':'' @ v) (drainPolicyFields d)) @ ''}''"

section \<open>Taints and tolerations\<close>

text \<open>The order of the labels is that in which Go visits the map.\<close>

definition getNodeLabelsFromCR :: "DeviceConfig \<Rightarrow> string list" where
  "getNodeLabelsFromCR dc = map (\<lambda>(k, v). k @ ''='' @ v) (rw_NodeRemediationLabels (remediation dc))"

definition getNodeTaintsFromCR :: "DeviceConfig \<Rightarrow> string list" where
  "getNodeTaintsFromCR dc =
     map (\<lambda>t. t_Key t @ ''='' @ t_Value t @ '':'' @ t_Effect t) (rw_NodeRemediationTaints (remediation dc))"

definition getNodeTaints :: "DeviceConfig \<Rightarrow> string \<Rightarrow> string list" where
  "getNodeTaints dc nodeCondition =
     (let ts = getNodeTaintsFromCR dc in
      if ts = [] then [RemediationTaintKey @ ''='' @ nodeCondition @ '':'' @ ''NoSchedule''] else ts)"

definition remediationTaints :: "DeviceConfig \<Rightarrow> string \<Rightarrow> Taint list" where
  "remediationTaints dc value =
     (if rw_NodeRemediationTaints (remediation dc) \<noteq> [] then rw_NodeRemediationTaints (remediation dc)
      else [\<lparr>t_Key = RemediationTaintKey, t_Value = value, t_Effect = ''NoSchedule''\<rparr>])"

definition existsToleration :: "string \<Rightarrow> string \<Rightarrow> Toleration" where
  "existsToleration key effect = \<lparr>tol_Key = key, tol_Operator = ''Exists'', tol_Value = [], tol_Effect = effect\<rparr>"

definition applyTolerationsToWorkflow :: "DeviceConfig \<Rightarrow> string \<Rightarrow> Workflow \<Rightarrow> Workflow" where
  "applyTolerationsToWorkflow dc nodeCondition w =
     (let tols = map (\<lambda>t. existsToleration (t_Key t) (t_Effect t)) (remediationTaints dc nodeCondition)
      in w\<lparr>wf_Spec := (wf_Spec w)\<lparr>wsp_Templates :=
           map (\<lambda>t. t\<lparr>tpl_Tolerations := tpl_Tolerations t @ tols\<rparr>) (wsp_Templates (wf_Spec w))\<rparr>\<rparr>)"

section \<open>The workflow of a node\<close>

definition getServiceAccountName :: "'e apiserver_scheme \<Rightarrow> DeviceConfig \<Rightarrow> rmgr \<Rightarrow> string \<times> rmgr" where
  "getServiceAccountName api dc s =
     (if serviceAccountName s = [] then
        (case listNames api KServiceAccount (dc_Namespace dc) s of
           (Inl _, s1) \<Rightarrow> (serviceAccountName s1, s1)
         | (Inr names, s1) \<Rightarrow>
             (case find (\<lambda>n. hasSuffix n ''controller-manager'') names of
                None \<Rightarrow> (serviceAccountName s1, s1)
              | Some n \<Rightarrow> (n, s1\<lparr>serviceAccountName := n\<rparr>)))
      else (serviceAccountName s, s))"

definition getRebootTimeout :: "DeviceConfig \<Rightarrow> string" where
  "getRebootTimeout dc =
     (let d = rw_RebootTimeout (remediation dc) in
      if d = [] \<or> parseDuration d = None then DefaultRebootTimeout else d)"

text \<open>
  \<open>int32(ttlDuration.Seconds())\<close>, for durations below \<open>2^31\<close> seconds: the seconds truncated
  towards zero.
\<close>

definition ttlSeconds :: "DeviceConfig \<Rightarrow> int" where
  "ttlSeconds dc =
     (let d = (case parseDuration (rw_TtlForFailedWorkflows (remediation dc)) of
                 None \<Rightarrow> 86400000000000 | Some d \<Rightarrow> d)
      in if d < 0 then - ((- d) div 1000000000) else d div 1000000000)"

definition placeTemplate :: "string \<Rightarrow> Template \<Rightarrow> Template" where
  "placeTemplate nodeName t =
     (if tpl_Name t = ''waitfornodeready'' then
        t\<lparr>tpl_NodeSelector := [], tpl_HostnameNotIn := [nodeName],
          tpl_Tolerations := tpl_Tolerations t
            @ [existsToleration ''node-role.kubernetes.io/control-plane'' ''NoSchedule'',
               existsToleration ''node-role.kubernetes.io/master'' ''NoSchedule''],
          tpl_PodSpecPatch := ''{'' @ jsonString ''nodeSelector'' @ '':null}''\<rparr>
      else t\<lparr>tpl_NodeSelector := [(''kubernetes.io/hostname'', nodeName)]\<rparr>)"

definition drainPolicyOf :: "DeviceConfig \<Rightarrow> DrainSpec" where
  "drainPolicyOf dc =
     (case rw_NodeDrainPolicy (remediation dc) of
        Some d \<Rightarrow> d
      | None \<Rightarrow> \<lparr>ds_Force = Some True, ds_TimeoutSeconds = 300, ds_GracePeriodSeconds = -1,
          ds_IgnoreDaemonSets = Some True,
          ds_IgnoreNamespaces = [''kube-system'', ''cert-manager'', dc_Namespace dc]\<rparr>)"

definition testRunnerSecrets :: "DeviceConfig \<Rightarrow> string" where
  "testRunnerSecrets dc =
     joinStr '','' ((case tr_ImageRegistrySecret (s_TestRunner (dc_Spec dc)) of None \<Rightarrow> [] | Some r \<Rightarrow> [lor_Name r])
       @ map lor_Name (cc_ImageRegistrySecrets (common dc)))"

definition orDefault :: "string \<Rightarrow> string \<Rightarrow> string" where
  "orDefault v d = (if v \<noteq> [] then v else d)"

definition workflowArguments :: "ConditionWorkflowMapping \<Rightarrow> string \<Rightarrow> DeviceConfig \<Rightarrow> bool \<Rightarrow> smap" where
  "workflowArguments m nodeName dc autoStart =
     [(''node_condition'', m_NodeCondition m),
      (''node_name'', nodeName),
      (''framework'', vt_Framework (m_ValidationTests m)),
      (''recipe'', vt_Recipe (m_ValidationTests m)),
      (''iterations'', itoa (vt_Iterations (m_ValidationTests m))),
      (''stopOnFailure'', boolText (vt_StopOnFailure (m_ValidationTests m))),
      (''timeoutSeconds'', itoa (vt_TimeoutSeconds (m_ValidationTests m))),
      (''testRunnerImage'', orDefault (rw_TesterImage (remediation dc)) DefaultTestRunnerImage),
      (''testRunnerServiceAccount'', TestRunnerServiceAccount),
      (''namespace'', dc_Namespace dc),
      (''notifyMessage'', m_NotifyRemediationMessage m),
      (''notifyErrorMessage'', ''Remediation for node condition '' @ m_NodeCondition m @ '' failed on node ''
         @ nodeName @ ''. '' @ m_NotifyTestFailureMessage m),
      (''notifySuccessMessage'', ''Remediation for node condition '' @ m_NodeCondition m
         @ '' completed successfully on node '' @ nodeName),
      (''notifyWaitFailedMessage'', ''All remediation steps executed successfully on node '' @ nodeName
         @ '', but the '' @ m_NodeCondition m @ '' condition did not return to False for 2 consecutive minutes within the 15-minute window. This indicates the underlying problem was not resolved by remediation and likely requires manual investigation.''),
      (''initContainerImage'', orDefault (cc_InitContainerImage (common dc)) DefaultInitContainerImage),
      (''node_labels'', jsonList (getNodeLabelsFromCR dc)),
      (''node_taints'', jsonList (getNodeTaints dc (m_NodeCondition m))),
      (''drain_policy'', jsonDrainPolicy (drainPolicyOf dc)),
      (''skipRebootStep'', boolText (m_SkipRebootStep m)),
      (''auto_start'', boolText autoStart),
      (''testRunnerImageSecret'', testRunnerSecrets dc),
      (''wait_for_reboot_duration'', getRebootTimeout dc)]"

text \<open>
  The code dereferences \<open>AutoStartWorkflow\<close> without a test; the API server fills in its default.
  A nil pointer is the error branch.
\<close>

definition populateWorkflow ::
  "'e apiserver_scheme \<Rightarrow> WorkflowTemplate \<Rightarrow> ConditionWorkflowMapping \<Rightarrow> string \<Rightarrow> DeviceConfig \<Rightarrow> rmgr
     \<Rightarrow> Workflow res \<times> rmgr" where
  "populateWorkflow api tmpl m nodeName dc s =
     (case getServiceAccountName api dc s of (sa, s1) \<Rightarrow>
      case rw_AutoStartWorkflow (remediation dc) of
        None \<Rightarrow> (Inl (OtherErr ''nil AutoStartWorkflow''), s1)
      | Some autoStart \<Rightarrow>
          (let base = (wt_Spec tmpl)\<lparr>wsp_ServiceAccountName := sa, wsp_TTL := Some (ttlSeconds dc),
                 wsp_NodeSelector := [], wsp_Templates := map (placeTemplate nodeName) (wsp_Templates (wt_Spec tmpl))\<rparr>;
               w0 = \<lparr>wf_Name = [], wf_GenerateName = nodeName @ ''-'' @ m_WorkflowTemplate m @ ''-'',
                 wf_Namespace = dc_Namespace dc, wf_Labels = instanceIDMeta, wf_Spec = base, wf_Phase = [], wf_Nodes = []\<rparr>;
               w1 = applyTolerationsToWorkflow dc (m_NodeCondition m) w0
           in (Inr (w1\<lparr>wf_Spec := (wf_Spec w1)\<lparr>wsp_Arguments :=
                 map (\<lambda>(k, v). param k (Some v)) (workflowArguments m nodeName dc autoStart)\<rparr>\<rparr>), s1)))"

end
