(* ===== verification/Remediation.thy ===== *)
theory Remediation
  imports Workflow_Templates Driver_Utils Upgrade_Helper
begin

text \<open>
  The remediation manager (\<open>remediationMgr\<close> of \<open>src/internal/controllers/remediation_handler.go\<close>):
  \<open>HandleRemediation\<close>, which starts a workflow on every node that reports a mapped condition, unless one is
  running, the node is tainted, its driver is being upgraded or the recovery policy forbids it;
  the handling of suspended workflows; the tolerations of the controllers; the ConfigMap made by a
  job; and \<open>HandleDelete\<close>.
\<close>

section \<open>Preconditions\<close>

definition isRemediationDisabled :: "'e apiserver_scheme \<Rightarrow> DeviceConfig \<Rightarrow> rmgr \<Rightarrow> bool res \<times> rmgr" where
  "isRemediationDisabled api dc s =
     (if \<not> isTrue (rw_Enable (remediation dc)) then (Inr True, s)
      else if onOpenShift s then (Inr False, s)
      else case listPods api (CList KPod (Some (dc_Namespace dc)) []) s of
        (Inl e, s1) \<Rightarrow> (Inl e, s1)
      | (Inr pods, s1) \<Rightarrow>
          (Inr (\<not> list_ex (\<lambda>p. hasPrefix (p_Name p) ''amd-gpu-operator-workflow-controller'') pods), s1))"

definition isWorkflowCRDPresent :: "'e apiserver_scheme \<Rightarrow> rmgr \<Rightarrow> bool res \<times> rmgr" where
  "isWorkflowCRDPresent api s =
     (let s1 = logCall CRESTMapping s in
      case o_exists api (hist s) KWorkflow [] [] of
        None \<Rightarrow> (Inr True, s1)
      | Some NoMatch \<Rightarrow> (Inr False, s1)
      | Some e \<Rightarrow> (Inl e, s1))"

definition workflowData :: "ConfigMap \<Rightarrow> string" where
  "workflowData cm = (case lookup (cfm_Data cm) ''workflow'' of None \<Rightarrow> [] | Some d \<Rightarrow> d)"

definition userConfigName :: "DeviceConfig \<Rightarrow> string" where
  "userConfigName dc = (case rw_Config (remediation dc) of None \<Rightarrow> [] | Some c \<Rightarrow> lor_Name c)"

definition checkMapping :: "ConditionWorkflowMapping \<Rightarrow> err" where
  "checkMapping m =
     (if m_NodeCondition m = [] then Some (OtherErr ''node condition cannot be empty'')
      else let p = m_RecoveryPolicy m;
               windowErr = (if rp_WindowSize p = [] then None
                            else case parseDuration (rp_WindowSize p) of
                              None \<Rightarrow> Some (OtherErr ''failed to parse window size'')
                            | Some d \<Rightarrow> if d < 0 then Some (OtherErr ''window size is negative'') else None)
           in if windowErr \<noteq> None then windowErr
              else if rp_MaxAllowedRunsPerWindow p < 0
              then Some (OtherErr ''max allowed runs per window is negative'') else None)"

fun checkMappings :: "ConditionWorkflowMapping list \<Rightarrow> err" where
  "checkMappings [] = None"
| "checkMappings (m # ms) = (case checkMapping m of Some e \<Rightarrow> Some e | None \<Rightarrow> checkMappings ms)"

definition validateUserConfigMap :: "'e apiserver_scheme \<Rightarrow> DeviceConfig \<Rightarrow> rmgr \<Rightarrow> err \<times> rmgr" where
  "validateUserConfigMap api dc s =
     (if userConfigName dc = [] then (None, s)
      else case getConfigMapObj api (dc_Namespace dc) (userConfigName dc) s of
        (Inl e, s1) \<Rightarrow> (Some e, s1)
      | (Inr cm, s1) \<Rightarrow>
          (case o_yaml api (workflowData cm) of
             None \<Rightarrow> (Some (OtherErr ''failed to parse workflows''), s1)
           | Some ms \<Rightarrow>
               if length (remdups (map m_NodeCondition ms)) \<noteq> length ms
               then (Some (OtherErr ''node conditions are not unique''), s1)
               else (checkMappings ms, s1)))"

definition isDriverUpgradeInProgress :: "DeviceConfig \<Rightarrow> Node \<Rightarrow> bool" where
  "isDriverUpgradeInProgress dc node =
     list_ex (\<lambda>(n, ms). n = n_Name node \<and>
       ms_Status ms \<in> {UpgradeStateNotStarted, UpgradeStateStarted, UpgradeStateInstallInProgress,
         UpgradeStateInProgress, UpgradeStateRebootInProgress}) (nodeModuleStatus dc)"

definition checkIfTaintExists :: "Node \<Rightarrow> DeviceConfig \<Rightarrow> bool" where
  "checkIfTaintExists node dc =
     list_ex (\<lambda>t. list_ex (\<lambda>u. t_Key t = t_Key u \<and> t_Effect t = t_Effect u) (remediationTaints dc []))
       (n_Taints node)"

fun firstCondition ::
  "ConditionWorkflowMapping gomap \<Rightarrow> NodeCondition list \<Rightarrow> ConditionWorkflowMapping option" where
  "firstCondition mappings [] = None"
| "firstCondition mappings (c # cs) =
     (if nc_Status c \<noteq> ''True'' then firstCondition mappings cs
      else case lookup mappings (nc_Type c) of
        None \<Rightarrow> firstCondition mappings cs
      | Some m \<Rightarrow> Some m)"

definition validateNodeConditions ::
  "Node \<Rightarrow> ConditionWorkflowMapping gomap \<Rightarrow> ConditionWorkflowMapping res" where
  "validateNodeConditions node mappings =
     (case firstCondition mappings (n_Conditions node) of
        None \<Rightarrow> Inl (OtherErr ''No matching condition found'') | Some m \<Rightarrow> Inr m)"

definition isWorkflowSchedulableOnNode :: "DeviceConfig \<Rightarrow> Node \<Rightarrow> ConditionWorkflowMapping \<Rightarrow> rmgr \<Rightarrow> bool" where
  "isWorkflowSchedulableOnNode dc node m s \<longleftrightarrow>
     \<not> checkIfTaintExists node dc \<and> \<not> isDriverUpgradeInProgress dc node
     \<and> \<not> isRecoveryPolicyViolated s (n_Name node) m"

section \<open>Suspended workflows\<close>

fun resumeStages :: "'e apiserver_scheme \<Rightarrow> WfStage gomap \<Rightarrow> rmgr \<Rightarrow> (bool \<times> WfStage gomap) \<times> rmgr" where
  "resumeStages api [] s = ((False, []), s)"
| "resumeStages api ((i, st) # rest) s =
     (if ws_Type st = ''Suspend'' \<and> ws_Phase st = ''Running'' then
        (case timeNow api s of (now, s1) \<Rightarrow>
         case resumeStages api rest s1 of ((_, sts), s2) \<Rightarrow>
           ((True, (i, st\<lparr>ws_Phase := ''Succeeded'', ws_FinishedAt := Some now\<rparr>) # sts), s2))
      else (case resumeStages api rest s of ((b, sts), s1) \<Rightarrow> ((b, (i, st) # sts), s1)))"

definition resumeSuspendedWorkflow :: "'e apiserver_scheme \<Rightarrow> string \<Rightarrow> string \<Rightarrow> rmgr \<Rightarrow> err \<times> rmgr" where
  "resumeSuspendedWorkflow api wfName namespace s =
     (case getWorkflow api namespace wfName s of
        (Inl e, s1) \<Rightarrow> (Some e, s1)
      | (Inr w, s1) \<Rightarrow>
          (case resumeStages api (wf_Nodes w) s1 of ((modified, stages), s2) \<Rightarrow>
             if \<not> modified then (None, s2)
             else writeObj api (CUpdate (OWorkflow (w\<lparr>wf_Nodes := stages\<rparr>))) s2))"

definition ForceResumeWorkflowLabelKey :: string where
  "ForceResumeWorkflowLabelKey = ''operator.amd.com/gpu-force-resume-workflow''"
definition AbortWorkflowLabelKey :: string where
  "AbortWorkflowLabelKey = ''operator.amd.com/gpu-abort-workflow''"

definition isNodeLabelledForForceResume :: "Node \<Rightarrow> bool" where
  "isNodeLabelledForForceResume node \<longleftrightarrow> lookup (n_Labels node) ForceResumeWorkflowLabelKey = Some ''true''"

definition isNodeLabelledForAbortWorkflow :: "Node \<Rightarrow> bool" where
  "isNodeLabelledForAbortWorkflow node \<longleftrightarrow> lookup (n_Labels node) AbortWorkflowLabelKey = Some ''true''"

definition removeForceResumeWorkflowLabelFromNode ::
  "'e apiserver_scheme \<Rightarrow> Node \<Rightarrow> rmgr \<Rightarrow> err \<times> rmgr" where
  "removeForceResumeWorkflowLabelFromNode api node s =
     (if isNodeLabelledForForceResume node then
        writeObj api (CPatch (ONode (node\<lparr>n_Labels := remove ForceResumeWorkflowLabelKey (n_Labels node)\<rparr>)) (ONode node)) s
      else (None, s))"

definition removeAbortWorkflowLabelFromNode :: "'e apiserver_scheme \<Rightarrow> Node \<Rightarrow> rmgr \<Rightarrow> err \<times> rmgr" where
  "removeAbortWorkflowLabelFromNode api node s =
     (if isNodeLabelledForAbortWorkflow node then
        writeObj api (CPatch (ONode (node\<lparr>n_Labels := remove AbortWorkflowLabelKey (n_Labels node)\<rparr>)) (ONode node)) s
      else (None, s))"

definition deleteWorkflow :: "'e apiserver_scheme \<Rightarrow> Workflow \<Rightarrow> rmgr \<Rightarrow> err \<times> rmgr" where
  "deleteWorkflow api w s = writeObj api (CDelete KWorkflow (wf_Namespace w) (wf_Name w)) s"

definition abortWorkflow :: "'e apiserver_scheme \<Rightarrow> Workflow \<Rightarrow> rmgr \<Rightarrow> err \<times> rmgr" where
  "abortWorkflow api w s = writeObj api (CDelete KWorkflow (wf_Namespace w) (wf_Name w)) s"

definition canResumeWorkflowOnNode :: "Node \<Rightarrow> ConditionWorkflowMapping \<Rightarrow> string \<Rightarrow> bool" where
  "canResumeWorkflowOnNode node m stageName =
     (if \<not> m_PhysicalActionNeeded m \<and> stageName \<noteq> ''autostart'' then True
      else isNodeLabelledForForceResume node)"

definition attemptAbortWorkflowOnNode ::
  "'e apiserver_scheme \<Rightarrow> Node \<Rightarrow> Workflow \<Rightarrow> rmgr \<Rightarrow> (bool \<times> err) \<times> rmgr" where
  "attemptAbortWorkflowOnNode api node w s =
     (if isNodeLabelledForAbortWorkflow node then
        (case abortWorkflow api w s of
           (Some e, s1) \<Rightarrow> ((True, Some e), s1)
         | (None, s1) \<Rightarrow>
             (case removeAbortWorkflowLabelFromNode api node s1 of (e, s2) \<Rightarrow> ((True, e), s2)))
      else ((False, None), s))"

definition attemptResumeWorkflowOnNode ::
  "'e apiserver_scheme \<Rightarrow> Node \<Rightarrow> ConditionWorkflowMapping \<Rightarrow> Workflow \<Rightarrow> string \<Rightarrow> rmgr \<Rightarrow> rmgr" where
  "attemptResumeWorkflowOnNode api node m w stageName s =
     (if canResumeWorkflowOnNode node m stageName then
        (case resumeSuspendedWorkflow api (wf_Name w) (wf_Namespace w) s of
           (Some _, s1) \<Rightarrow> s1
         | (None, s1) \<Rightarrow>
             if isNodeLabelledForForceResume node
             then snd (removeForceResumeWorkflowLabelFromNode api node s1) else s1)
      else s)"

definition handleSuspendedWorkflowsOnNode ::
  "'e apiserver_scheme \<Rightarrow> Node \<Rightarrow> ConditionWorkflowMapping \<Rightarrow> Workflow \<Rightarrow> rmgr \<Rightarrow> bool \<times> rmgr" where
  "handleSuspendedWorkflowsOnNode api node m w s =
     (if wf_Phase w \<noteq> ''Running'' then (False, s)
      else case find (\<lambda>(i, st). ws_Type st = ''Suspend'' \<and> ws_Phase st = ''Running'') (wf_Nodes w) of
        None \<Rightarrow> (False, s)
      | Some (i, st) \<Rightarrow>
          (case attemptAbortWorkflowOnNode api node w s of ((canAbort, e), s1) \<Rightarrow>
             if canAbort \<and> e = None then (True, s1)
             else (False, attemptResumeWorkflowOnNode api node m w (ws_DisplayName st) s1)))"

fun existingWorkflows ::
  "'e apiserver_scheme \<Rightarrow> Node \<Rightarrow> ConditionWorkflowMapping \<Rightarrow> Workflow list \<Rightarrow> rmgr \<Rightarrow> bool \<times> rmgr" where
  "existingWorkflows api node m [] s = (True, s)"
| "existingWorkflows api node m (w # ws) s =
     (if \<not> hasPrefix (wf_Name w) (n_Name node @ ''-'') then existingWorkflows api node m ws s
      else if wf_Phase w = ''Succeeded'' then
        (case deleteWorkflow api w s of
           (Some _, s1) \<Rightarrow> (False, s1)
         | (None, s1) \<Rightarrow> existingWorkflows api node m ws s1)
      else if wf_Phase w = ''Running'' then handleSuspendedWorkflowsOnNode api node m w s
      else existingWorkflows api node m ws s)"

definition getWorkflowList :: "'e apiserver_scheme \<Rightarrow> string \<Rightarrow> rmgr \<Rightarrow> Workflow list res \<times> rmgr" where
  "getWorkflowList api namespace s = listWorkflows api namespace instanceIDMeta s"

definition handleExistingWorkflowsOnNode ::
  "'e apiserver_scheme \<Rightarrow> DeviceConfig \<Rightarrow> Node \<Rightarrow> ConditionWorkflowMapping \<Rightarrow> rmgr \<Rightarrow> bool \<times> rmgr" where
  "handleExistingWorkflowsOnNode api dc node m s =
     (case getWorkflowList api (dc_Namespace dc) s of
        (Inl _, s1) \<Rightarrow> (False, s1)
      | (Inr ws, s1) \<Rightarrow> existingWorkflows api node m ws s1)"

section \<open>Default objects and parallelism\<close>

definition createDefaultObjects :: "'e apiserver_scheme \<Rightarrow> DeviceConfig \<Rightarrow> rmgr \<Rightarrow> err \<times> rmgr" where
  "createDefaultObjects api dc s =
     (case (case getWfTemplate api (dc_Namespace dc) DefaultTemplate s of
              (Inr _, s1) \<Rightarrow> (None, s1)
            | (Inl _, s1) \<Rightarrow> createDefaultWorkflowTemplate api dc s1) of
        (Some e, s2) \<Rightarrow> (Some e, s2)
      | (None, s2) \<Rightarrow>
          (case getWfStatus api (dc_Namespace dc) s2 of
             (Inr _, s3) \<Rightarrow> (None, s3)
           | (Inl _, s3) \<Rightarrow> createRemediationWorkflowStatus api (dc_Namespace dc) s3))"

definition ArgoWorkflowControllerConfigMap :: string where
  "ArgoWorkflowControllerConfigMap = ''amd-gpu-operator-workflow-controller-config''"

definition updateMaxParallelWorkflows :: "'e apiserver_scheme \<Rightarrow> DeviceConfig \<Rightarrow> rmgr \<Rightarrow> err \<times> rmgr" where
  "updateMaxParallelWorkflows api dc s =
     (let n = rw_MaxParallelWorkflows (remediation dc) in
      if maxParallelWorkflows s = n then (None, s)
      else case retryOnConflict (\<lambda>s.
          case getConfigMapObj api (dc_Namespace dc) ArgoWorkflowControllerConfigMap s of
            (Inl e, s1) \<Rightarrow> (Some e, s1)
          | (Inr acm, s1) \<Rightarrow>
              writeObj api (CUpdate (OConfigMap
                (acm\<lparr>cfm_Data := store ''namespaceParallelism'' (itoa n) (cfm_Data acm)\<rparr>))) s1) s of
        (Some e, s1) \<Rightarrow> (Some e, s1)
      | (None, s1) \<Rightarrow> (None, s1\<lparr>maxParallelWorkflows := n\<rparr>))"

section \<open>Tolerations of the controllers\<close>

definition customTaintsChanged :: "DeviceConfig \<Rightarrow> rmgr \<Rightarrow> bool" where
  "customTaintsChanged dc s =
     list_ex (\<lambda>t. tolerationsCache s (t_Key t) \<noteq> Some (t_Value t)) (rw_NodeRemediationTaints (remediation dc))"

definition getTolerations :: "DeviceConfig \<Rightarrow> bool \<Rightarrow> Toleration list" where
  "getTolerations dc controller =
     existsToleration RemediationTaintKey ''NoSchedule''
     # map (\<lambda>t. existsToleration (t_Key t) (t_Effect t)) (rw_NodeRemediationTaints (remediation dc))
     @ (if controller then
          [\<lparr>tol_Key = ''amd-gpu-driver-upgrade'', tol_Operator = ''Equal'', tol_Value = ''true'',
            tol_Effect = ''NoSchedule''\<rparr>,
           \<lparr>tol_Key = ''amd-dcm'', tol_Operator = ''Equal'', tol_Value = ''up'', tol_Effect = []\<rparr>]
        else [])"

fun updateWorkloads :: "'e apiserver_scheme \<Rightarrow> kind \<Rightarrow> Toleration list \<Rightarrow> Workload list \<Rightarrow> rmgr \<Rightarrow> err \<times> rmgr" where
  "updateWorkloads api k tols [] s = (None, s)"
| "updateWorkloads api k tols (w # ws) s =
     (case writeObj api (CUpdate (OWorkload k (w\<lparr>wl_Tolerations := tols\<rparr>))) s of
        (Some e, s1) \<Rightarrow> (Some e, s1)
      | (None, s1) \<Rightarrow> updateWorkloads api k tols ws s1)"

definition updateCustomTolerationsOn ::
  "'e apiserver_scheme \<Rightarrow> kind \<Rightarrow> DeviceConfig \<Rightarrow> smap \<Rightarrow> Toleration list \<Rightarrow> rmgr \<Rightarrow> err \<times> rmgr" where
  "updateCustomTolerationsOn api k dc sel tols s =
     retryOnConflict (\<lambda>s.
       case listWorkloads api k (dc_Namespace dc) sel s of
         (Inl e, s1) \<Rightarrow> (Some e, s1)
       | (Inr ws, s1) \<Rightarrow> updateWorkloads api k tols ws s1) s"

definition updateCustomTolerationsOnDeployment ::
  "'e apiserver_scheme \<Rightarrow> DeviceConfig \<Rightarrow> smap \<Rightarrow> Toleration list \<Rightarrow> rmgr \<Rightarrow> err \<times> rmgr" where
  "updateCustomTolerationsOnDeployment api dc sel tols s = updateCustomTolerationsOn api KDeployment dc sel tols s"

definition updateCustomTolerationsOnDaemonset ::
  "'e apiserver_scheme \<Rightarrow> DeviceConfig \<Rightarrow> smap \<Rightarrow> Toleration list \<Rightarrow> rmgr \<Rightarrow> err \<times> rmgr" where
  "updateCustomTolerationsOnDaemonset api dc sel tols s = updateCustomTolerationsOn api KDaemonSet dc sel tols s"

definition updateCustomTolerationsCache :: "DeviceConfig \<Rightarrow> rmgr \<Rightarrow> rmgr" where
  "updateCustomTolerationsCache dc s =
     s\<lparr>tolerationsCache := fold (\<lambda>t c. c(t_Key t \<mapsto> t_Effect t)) (rw_NodeRemediationTaints (remediation dc))
        [RemediationTaintKey \<mapsto> ''NoSchedule'']\<rparr>"

definition updateCustomTolerations :: "'e apiserver_scheme \<Rightarrow> DeviceConfig \<Rightarrow> rmgr \<Rightarrow> err \<times> rmgr" where
  "updateCustomTolerations api dc s =
     (let tols = getTolerations dc False; ctols = getTolerations dc True in
      case updateCustomTolerationsOnDeployment api dc [(''app'', ''amd-gpu-operator-workflow-controller'')] tols s of (e1, s1) \<Rightarrow>
      case updateCustomTolerationsOnDeployment api dc [(''control-plane'', ''controller-manager'')] ctols s1 of (e2, s2) \<Rightarrow>
      case updateCustomTolerationsOnDaemonset api dc
             [(''app.kubernetes.io/name'', ''node-feature-discovery''), (''role'', ''worker'')] tols s2 of (e3, s3) \<Rightarrow>
        (None, if e1 = None \<and> e2 = None \<and> e3 = None then updateCustomTolerationsCache dc s3 else s3))"

definition handleDeviceConfigChanges :: "'e apiserver_scheme \<Rightarrow> DeviceConfig \<Rightarrow> rmgr \<Rightarrow> rmgr" where
  "handleDeviceConfigChanges api dc s =
     (if customTaintsChanged dc s then snd (updateCustomTolerations api dc s) else s)"

section \<open>The ConfigMap made by a job\<close>

definition ConfigMapImageAnnotationKey :: string where
  "ConfigMapImageAnnotationKey = ''operator.amd.com/configmap-source-image''"

definition defaultConfigMapName :: "DeviceConfig \<Rightarrow> string" where
  "defaultConfigMapName dc = dc_Name dc @ ''-'' @ DefaultConfigMapSuffix"

definition configMapJob :: "DeviceConfig \<Rightarrow> string \<Rightarrow> string \<Rightarrow> Job" where
  "configMapJob dc img serviceAccount =
     (let cm = defaultConfigMapName dc; ns = dc_Namespace dc in
      \<lparr>job_Name = dc_Name dc @ ''-remediation-configmap-job'', job_Namespace = ns, job_Owners = ownerRef dc,
       job_BackoffLimit = 4, job_TTLSeconds = 5, job_ServiceAccountName = serviceAccount,
       job_RestartPolicy = ''OnFailure'',
       job_Containers = [emptyContainer\<lparr>ct_Name := ''configmap-applier'', ct_Image := img,
         ct_Command := [''sh'', ''-c'',
           ''sed -e '' @ [CHR 0x27] @ ''s/[$]CM_NAME[$]/'' @ cm @ ''/g'' @ [CHR 0x27] @ '' -e '' @ [CHR 0x27]
           @ ''s/[$]CM_NAMESPACE[$]/'' @ ns @ ''/g'' @ [CHR 0x27] @ '' /remediation/configmap.yaml | kubectl apply -f - && ''
           @ ''kubectl annotate configmap '' @ cm @ '' -n '' @ ns @ '' '' @ ConfigMapImageAnnotationKey @ ''='' @ img
           @ '' --overwrite'']\<rparr>],
       job_ImagePullSecrets = cc_ImageRegistrySecrets (common dc), job_Conditions = []\<rparr>)"

text \<open>The first condition of the job that says it is over: \<open>None\<close> for success.\<close>

fun jobFinished :: "(string \<times> string \<times> string) list \<Rightarrow> err option" where
  "jobFinished [] = None"
| "jobFinished ((ty, st, msg) # cs) =
     (if ty = ''Complete'' \<and> st = ''True'' then Some None
      else if ty = ''Failed'' \<and> st = ''True'' then Some (Some (OtherErr (''configMap image Job failed: '' @ msg)))
      else jobFinished cs)"

definition startConfigMapJob ::
  "'e apiserver_scheme \<Rightarrow> DeviceConfig \<Rightarrow> rmgr \<Rightarrow> (Result \<times> err) \<times> rmgr" where
  "startConfigMapJob api dc s =
     (let img = rw_ConfigMapImage (remediation dc) in
      case getJob api (dc_Namespace dc) (dc_Name dc @ ''-remediation-configmap-job'') s of
        (Inr job, s1) \<Rightarrow>
          (case jobFinished (job_Conditions job) of
             Some e \<Rightarrow> ((noRequeue, e), s1)
           | None \<Rightarrow>
               if job_Containers job \<noteq> [] \<and> ct_Image (hd (job_Containers job)) = img
               then ((requeueIn 10, None), s1)
               else (case writeObj api (CDelete KJob (job_Namespace job) (job_Name job)) s1 of
                 (Some e, s2) \<Rightarrow> ((noRequeue, Some e), s2)
               | (None, s2) \<Rightarrow> ((requeueIn 5, None), s2)))
      | (Inl _, s1) \<Rightarrow>
          (case getServiceAccountName api dc s1 of (sa, s2) \<Rightarrow>
           case writeObj api (CCreate (OJob (configMapJob dc img sa))) s2 of
             (Some e, s3) \<Rightarrow> ((noRequeue, Some e), s3)
           | (None, s3) \<Rightarrow> ((requeueIn 10, None), s3)))"

definition createConfigMapFromImage ::
  "'e apiserver_scheme \<Rightarrow> DeviceConfig \<Rightarrow> rmgr \<Rightarrow> (Result \<times> err) \<times> rmgr" where
  "createConfigMapFromImage api dc s =
     (let img = rw_ConfigMapImage (remediation dc) in
      if img = [] then ((noRequeue, None), s)
      else case getConfigMapObj api (dc_Namespace dc) (defaultConfigMapName dc) s of
        (Inl _, s1) \<Rightarrow> startConfigMapJob api dc s1
      | (Inr cm, s1) \<Rightarrow>
          if lookup (cfm_Annotations cm) ConfigMapImageAnnotationKey = Some img then ((noRequeue, None), s1)
          else (case writeObj api (CDelete KConfigMap (dc_Namespace dc) (defaultConfigMapName dc)) s1 of
            (Some e, s2) \<Rightarrow> ((noRequeue, Some e), s2)
          | (None, s2) \<Rightarrow> startConfigMapJob api dc s2))"

section \<open>A pass over the nodes\<close>

text \<open>
  What the loop body does with a node: go on, go on and remember an error, or end the pass with one.
\<close>

datatype nodeOutcome = Next | Failed kerr | Abandon kerr

definition startWorkflow ::
  "'e apiserver_scheme \<Rightarrow> DeviceConfig \<Rightarrow> Node \<Rightarrow> ConditionWorkflowMapping \<Rightarrow> Workflow \<Rightarrow> rmgr
     \<Rightarrow> nodeOutcome \<times> rmgr" where
  "startWorkflow api dc node m w s =
     (let s1 = handleDeviceConfigChanges api dc s in
      case createWf api w s1 of
        (Inl e, s2) \<Rightarrow> (Failed e, s2)
      | (Inr wfName, s2) \<Rightarrow>
          (case dropOlderRecoveryAttemptsInternal api (n_Name node) (m_NodeCondition m)
                  (getWindowSize (m_RecoveryPolicy m)) s2 of
             (Some e, s3) \<Rightarrow> (Abandon e, s3)
           | (None, s3) \<Rightarrow>
               (case registerRecoveryAttempt api (n_Name node) (m_NodeCondition m) (dc_Namespace dc) wfName s3 of
                  (Some e, s4) \<Rightarrow> (Abandon e, s4)
                | (None, s4) \<Rightarrow> (Next, s4))))"

definition remediateNode ::
  "'e apiserver_scheme \<Rightarrow> DeviceConfig \<Rightarrow> ConditionWorkflowMapping gomap \<Rightarrow> Node \<Rightarrow> rmgr \<Rightarrow> nodeOutcome \<times> rmgr" where
  "remediateNode api dc mappings node s =
     (case validateNodeConditions node mappings of
        Inl _ \<Rightarrow> (Next, s)
      | Inr m \<Rightarrow>
          (case handleExistingWorkflowsOnNode api dc node m s of (createNew, s1) \<Rightarrow>
           if \<not> createNew then (Next, s1)
           else if \<not> isWorkflowSchedulableOnNode dc node m s1 then (Next, s1)
           else case getWfTemplate api (dc_Namespace dc) (m_WorkflowTemplate m) s1 of
             (Inl e, s2) \<Rightarrow> (Failed e, s2)
           | (Inr tmpl, s2) \<Rightarrow>
               (case populateWorkflow api tmpl m (n_Name node) dc s2 of
                  (Inl e, s3) \<Rightarrow> (Abandon e, s3)
                | (Inr w, s3) \<Rightarrow> startWorkflow api dc node m w s3)))"

text \<open>An abandoned pass returns its own error only; otherwise the errors of the nodes are joined.\<close>

fun remediateNodes ::
  "'e apiserver_scheme \<Rightarrow> DeviceConfig \<Rightarrow> ConditionWorkflowMapping gomap \<Rightarrow> Node list \<Rightarrow> kerr list \<Rightarrow> rmgr
     \<Rightarrow> kerr list \<times> rmgr" where
  "remediateNodes api dc mappings [] errs s = (errs, s)"
| "remediateNodes api dc mappings (node # nodes) errs s =
     (case remediateNode api dc mappings node s of
        (Abandon e, s1) \<Rightarrow> ([e], s1)
      | (Next, s1) \<Rightarrow> remediateNodes api dc mappings nodes errs s1
      | (Failed e, s1) \<Rightarrow> remediateNodes api dc mappings nodes (errs @ [e]) s1)"

definition mappingsOf :: "ConditionWorkflowMapping list \<Rightarrow> ConditionWorkflowMapping gomap" where
  "mappingsOf ms = fold (\<lambda>m. store (m_NodeCondition m) m) ms []"

definition configMapNameOf :: "DeviceConfig \<Rightarrow> string" where
  "configMapNameOf dc =
     (case rw_Config (remediation dc) of Some c \<Rightarrow> lor_Name c | None \<Rightarrow> defaultConfigMapName dc)"

text \<open>The part of \<open>HandleRemediation\<close> from fetching the ConfigMap on.\<close>

definition runRemediation ::
  "'e apiserver_scheme \<Rightarrow> DeviceConfig \<Rightarrow> Node list \<Rightarrow> rmgr \<Rightarrow> (Result \<times> kerr list) \<times> rmgr" where
  "runRemediation api dc nodes s =
     (let res = requeueIn 20 in
      case getConfigMapObj api (dc_Namespace dc) (configMapNameOf dc) s of
        (Inl e, s1) \<Rightarrow> ((res, [e]), s1)
      | (Inr cm, s1) \<Rightarrow>
          (case updateMaxParallelWorkflows api dc s1 of (_, s2) \<Rightarrow>
           case dropOlderRecoveryAttemptsFromStatusCR api (dc_Namespace dc) s2 of
             (Some e, s3) \<Rightarrow> ((res, [e]), s3)
           | (None, s3) \<Rightarrow>
               (case o_yaml api (workflowData cm) of
                  None \<Rightarrow> ((res, [OtherErr ''failed to parse workflows from ConfigMap'']), s3)
                | Some ms \<Rightarrow>
                    (case syncInternalMapFromStatusCR api (dc_Namespace dc) (mappingsOf ms) s3 of
                       (Some e, s4) \<Rightarrow> ((res, [e]), s4)
                     | (None, s4) \<Rightarrow>
                         (case remediateNodes api dc (mappingsOf ms) nodes [] s4 of (errs, s5) \<Rightarrow> ((res, errs), s5))))))"

definition HandleRemediation ::
  "'e apiserver_scheme \<Rightarrow> DeviceConfig \<Rightarrow> Node list \<Rightarrow> rmgr \<Rightarrow> (Result \<times> kerr list) \<times> rmgr" where
  "HandleRemediation api dc nodes s =
     (let res = requeueIn 20 in
      case isRemediationDisabled api dc s of
        (Inl e, s1) \<Rightarrow> ((res, [e]), s1)
      | (Inr True, s1) \<Rightarrow> ((noRequeue, []), s1)
      | (Inr False, s1) \<Rightarrow>
          (case validateUserConfigMap api dc s1 of
             (Some e, s2) \<Rightarrow> ((res, [e]), s2)
           | (None, s2) \<Rightarrow>
               (case (if userConfigName dc = [] then createConfigMapFromImage api dc s2 else ((noRequeue, None), s2)) of
                  ((_, Some e), s3) \<Rightarrow> ((res, [e]), s3)
                | ((result, None), s3) \<Rightarrow>
                    if RequeueAfter result > 0 then ((result, []), s3)
                    else case createDefaultObjects api dc s3 of
                      (Some e, s4) \<Rightarrow> ((res, [e]), s4)
                    | (None, s4) \<Rightarrow> runRemediation api dc nodes s4)))"

section \<open>Deletion\<close>

fun deleteWorkflows :: "'e apiserver_scheme \<Rightarrow> Workflow list \<Rightarrow> rmgr \<Rightarrow> rmgr" where
  "deleteWorkflows api [] s = s"
| "deleteWorkflows api (w # ws) s = deleteWorkflows api ws (snd (deleteWorkflow api w s))"

definition deleteDefaultConfigMap :: "'e apiserver_scheme \<Rightarrow> DeviceConfig \<Rightarrow> rmgr \<Rightarrow> rmgr" where
  "deleteDefaultConfigMap api dc s =
     (if userConfigName dc = [] then
        (case getConfigMapObj api (dc_Namespace dc) (defaultConfigMapName dc) s of
           (Inr _, s1) \<Rightarrow> snd (writeObj api (CDelete KConfigMap (dc_Namespace dc) (defaultConfigMapName dc)) s1)
         | (Inl _, s1) \<Rightarrow> s1)
      else s)"

definition HandleRemediationDelete ::
  "'e apiserver_scheme \<Rightarrow> DeviceConfig \<Rightarrow> Node list \<Rightarrow> rmgr \<Rightarrow> (Result \<times> err) \<times> rmgr" where
  "HandleRemediationDelete api dc nodes s =
     (let res = requeueIn 20; s1 = deleteDefaultConfigMap api dc s in
      case isWorkflowCRDPresent api s1 of
        (Inl e, s2) \<Rightarrow> ((res, Some e), s2)
      | (Inr False, s2) \<Rightarrow> ((res, None), s2)
      | (Inr True, s2) \<Rightarrow>
          (case getWorkflowList api (dc_Namespace dc) s2 of
             (Inl e, s3) \<Rightarrow> ((noRequeue, Some e), s3)
           | (Inr ws, s3) \<Rightarrow> ((res, None), deleteWorkflows api ws s3)))"

end
