(* ===== verification/Remediation_Props.thy ===== *)
theory Remediation_Props
  imports Remediation Recovery_Props
begin

text \<open>
  Properties of the remediation manager: when a workflow is created and where it runs, the default
  template, the user's mappings, suspended workflows, and deletion.
\<close>

section \<open>The default template\<close>

definition stepTarget :: "WorkflowStep \<Rightarrow> string \<times> string" where
  "stepTarget st = (case stp_TemplateRef st of None \<Rightarrow> (''default-template'', stp_Template st) | Some r \<Rightarrow> r)"

definition templateNames :: "WorkflowTemplate \<Rightarrow> (string \<times> string) list" where
  "templateNames w = map (\<lambda>t. (wt_Name w, tpl_Name t)) (wsp_Templates (wt_Spec w))"

definition neededArguments :: "WorkflowTemplate \<Rightarrow> string list" where
  "neededArguments w = concat (map (\<lambda>t.
     map prm_Name (filter (\<lambda>p. prm_Value p = prm_Value (wfParam (prm_Name p))) (tpl_Inputs t)))
     (wsp_Templates (wt_Spec w)))"

definition indexOf :: "string \<Rightarrow> nat" where
  "indexOf n = length (takeWhile (\<lambda>st. stp_Name st \<noteq> n) inbuiltSteps)"


section \<open>Where a workflow runs\<close>

definition placedOn :: "DeviceConfig \<Rightarrow> string \<Rightarrow> string \<Rightarrow> Template \<Rightarrow> bool" where
  "placedOn dc cond node t \<longleftrightarrow>
     (if tpl_Name t = ''waitfornodeready'' then node \<in> set (tpl_HostnameNotIn t) \<and> tpl_NodeSelector t = []
      else tpl_NodeSelector t = [(''kubernetes.io/hostname'', node)])
     \<and> list_all (\<lambda>x. list_ex (\<lambda>tol. toleratesTaint tol x) (tpl_Tolerations t)) (remediationTaints dc cond)"

lemma placeTemplate_name [simp]: "tpl_Name (placeTemplate n t) = tpl_Name t"
  by (simp add: placeTemplate_def)

lemma populateWorkflow_result:
  assumes "populateWorkflow api tmpl m node dc s = (Inr w, s')"
  shows "wf_GenerateName w = node @ ''-'' @ m_WorkflowTemplate m @ ''-''"
    and "wf_Namespace w = dc_Namespace dc"
    and "list_all (placedOn dc (m_NodeCondition m) node) (wsp_Templates (wf_Spec w))"
    and "map tpl_Name (wsp_Templates (wf_Spec w)) = map tpl_Name (wsp_Templates (wt_Spec tmpl))"
    and "wsp_Entrypoint (wf_Spec w) = wsp_Entrypoint (wt_Spec tmpl)"
    and "list_ex (\<lambda>p. prm_Name p = ''node_name'' \<and> prm_Value p = Some node) (wsp_Arguments (wf_Spec w))"
proof -
  have cover: "list_all (\<lambda>x. list_ex (\<lambda>tol. toleratesTaint tol x)
      (ts @ map (\<lambda>t. existsToleration (t_Key t) (t_Effect t)) xs)) xs" for ts xs
  proof (unfold list_all_iff list_ex_iff, rule ballI)
    fix x assume "x \<in> set xs"
    then have "existsToleration (t_Key x) (t_Effect x)
        \<in> set (ts @ map (\<lambda>t. existsToleration (t_Key t) (t_Effect t)) xs)" by simp
    moreover have "toleratesTaint (existsToleration (t_Key x) (t_Effect x)) x"
      by (simp add: toleratesTaint_def existsToleration_def)
    ultimately show "\<exists>tol \<in> set (ts @ map (\<lambda>t. existsToleration (t_Key t) (t_Effect t)) xs). toleratesTaint tol x"
      by blast
  qed
  have pl: "placedOn dc c node (placeTemplate node t\<lparr>tpl_Tolerations := tpl_Tolerations (placeTemplate node t)
      @ map (\<lambda>t. existsToleration (t_Key t) (t_Effect t)) (remediationTaints dc c)\<rparr>)" for c t
    unfolding placedOn_def using cover by (simp add: placeTemplate_def)
  from assms obtain sa b where w: "w = (applyTolerationsToWorkflow dc (m_NodeCondition m)
      \<lparr>wf_Name = [], wf_GenerateName = node @ ''-'' @ m_WorkflowTemplate m @ ''-'',
       wf_Namespace = dc_Namespace dc, wf_Labels = instanceIDMeta,
       wf_Spec = (wt_Spec tmpl)\<lparr>wsp_ServiceAccountName := sa, wsp_TTL := Some (ttlSeconds dc),
         wsp_NodeSelector := [], wsp_Templates := map (placeTemplate node) (wsp_Templates (wt_Spec tmpl))\<rparr>,
       wf_Phase = [], wf_Nodes = []\<rparr>)\<lparr>wf_Spec := (wf_Spec w)\<rparr>"
    and args: "wsp_Arguments (wf_Spec w) = map (\<lambda>(k, v). param k (Some v)) (workflowArguments m node dc b)"
    and tpls: "wsp_Templates (wf_Spec w) = map (\<lambda>t. placeTemplate node t\<lparr>tpl_Tolerations :=
        tpl_Tolerations (placeTemplate node t) @ map (\<lambda>t. existsToleration (t_Key t) (t_Effect t))
          (remediationTaints dc (m_NodeCondition m))\<rparr>) (wsp_Templates (wt_Spec tmpl))"
    and ep: "wsp_Entrypoint (wf_Spec w) = wsp_Entrypoint (wt_Spec tmpl)"
    by (auto simp: populateWorkflow_def Let_def applyTolerationsToWorkflow_def split: prod.splits option.splits)
  show "wf_GenerateName w = node @ ''-'' @ m_WorkflowTemplate m @ ''-''" "wf_Namespace w = dc_Namespace dc"
    by (subst w, simp add: applyTolerationsToWorkflow_def Let_def)+
  show "list_all (placedOn dc (m_NodeCondition m) node) (wsp_Templates (wf_Spec w))"
    unfolding tpls using pl by (simp add: list_all_iff)
  show "map tpl_Name (wsp_Templates (wf_Spec w)) = map tpl_Name (wsp_Templates (wt_Spec tmpl))"
    unfolding tpls by (simp add: comp_def)
  show "wsp_Entrypoint (wf_Spec w) = wsp_Entrypoint (wt_Spec tmpl)" by (rule ep)
  show "list_ex (\<lambda>p. prm_Name p = ''node_name'' \<and> prm_Value p = Some node) (wsp_Arguments (wf_Spec w))"
    unfolding args by (simp add: workflowArguments_def param_def)
qed


definition sampleScripts :: scripts where
  "sampleScripts = scriptsOf (replicate 9 [])"


end
