(* ===== verification/Module_Calls.thy ===== *)
theory Module_Calls
  imports Traces
begin

text \<open>The calls that do not concern a \<open>Module\<close> of the kernel module management operator.\<close>

fun isModule :: "obj \<Rightarrow> bool" where
  "isModule (OModule m) = True"
| "isModule (ONamed k ns n) = (k = KModule)"
| "isModule _ = False"

fun offModule :: "call \<Rightarrow> bool" where
  "offModule (CGet k ns n) = (k \<noteq> KModule)"
| "offModule (CList k ns sel) = (k \<noteq> KModule)"
| "offModule (CListExpr k x) = (k \<noteq> KModule)"
| "offModule (CDelete k ns n) = (k \<noteq> KModule)"
| "offModule (CCreate a) = (\<not> isModule a)"
| "offModule (CPatch a b) = (\<not> isModule a)"
| "offModule (CPatchStatus a b) = (\<not> isModule a)"
| "offModule (CUpdate a) = (\<not> isModule a)"
| "offModule _ = True"

end
