(* ===== verification/Remediation_Safety.thy ===== *)
theory Remediation_Safety
  imports Remediation_Props Module_Calls
begin

text \<open>
  What a pass of the remediation manager creates, and why: the calls of every operation are traced
  through the pass, so that each workflow it creates is attributed to one node and to the conditions
  under which the code creates it.
\<close>

section \<open>Created workflows\<close>

definition createdBy :: "call \<Rightarrow> Workflow list" where
  "createdBy c = (case c of CCreate obj \<Rightarrow> (case obj of OWorkflow w \<Rightarrow> [w] | _ \<Rightarrow> []) | _ \<Rightarrow> [])"

definition created :: "call list \<Rightarrow> Workflow list" where
  "created cs = rev (concat (map createdBy cs))"

lemma createdBy_simps [simp]:
  "createdBy (CGet k ns n) = []" "createdBy (CList k so sel) = []" "createdBy (CListOnNode sel n) = []"
  "createdBy CNow = []" "createdBy (CPatch a b) = []" "createdBy (CPatchStatus a b) = []"
  "createdBy (CUpdate a) = []" "createdBy (CDelete k ns n) = []" "createdBy (CReadFile f) = []"
  "createdBy (CCreate (OWorkflow w)) = [w]" "createdBy (CCreate (OJob j)) = []" "createdBy CRESTMapping = []"
  "createdBy (CCreate (OWorkflowTemplate t)) = []" "createdBy (CCreate (OWfStatus ns st)) = []"
  by (simp_all add: createdBy_def)

lemma created_simps [simp]:
  "created [] = []" "created (cs @ ds) = created ds @ created cs" "created (c # cs) = created cs @ rev (createdBy c)"
  by (simp_all add: created_def)

text \<open>Calls that create no workflow; none of them concerns a KMM module either.\<close>

definition noWf :: "call \<Rightarrow> bool" where "noWf c \<longleftrightarrow> createdBy c = [] \<and> offModule c"

lemma noWf_simps [simp]:
  "noWf (CGet k ns n) \<longleftrightarrow> k \<noteq> KModule" "noWf (CList k so sel) \<longleftrightarrow> k \<noteq> KModule" "noWf CNow"
  "noWf (CPatch a b) \<longleftrightarrow> \<not> isModule a" "noWf (CPatchStatus a b) \<longleftrightarrow> \<not> isModule a" "noWf (CUpdate a) \<longleftrightarrow> \<not> isModule a"
  "noWf (CDelete k ns n) \<longleftrightarrow> k \<noteq> KModule" "noWf (CReadFile f)" "noWf (CCreate (OJob j))" "noWf CRESTMapping"
  "noWf (CCreate (OWorkflowTemplate t))" "noWf (CCreate (OWfStatus ns st))" "\<not> noWf (CCreate (OWorkflow w))"
  by (simp_all add: noWf_def)

abbreviation quiet :: "'a world_scheme \<Rightarrow> 'b world_scheme \<Rightarrow> bool" where
  "quiet s t \<equiv> ran noWf s t"

lemma quiet_created: "quiet s t \<Longrightarrow> \<exists>cs. hist t = cs @ hist s \<and> created cs = []"
  by (auto simp: ran_def created_def noWf_def list_all_iff)

lemma ran_fields [simp]:
  "ran P s (t\<lparr>serviceAccountName := a\<rparr>) = ran P s t"
  "ran P s (t\<lparr>maxParallelWorkflows := n\<rparr>) = ran P s t"
  "ran P s (t\<lparr>tolerationsCache := m\<rparr>) = ran P s t"
  "ran P s (t\<lparr>recoveryTracker := r\<rparr>) = ran P s t"
  "ran P s (setTracker k ts t) = ran P s t"
  by (simp_all add: ran_def setTracker_def)

lemma ran_loadOrStore [simp]: "ran P s (snd (loadOrStore k t)) = ran P s t"
  by (simp add: loadOrStore_def split: option.split)

section \<open>Operations that create no workflow\<close>

lemma quiet_resumeStages: "quiet s t \<Longrightarrow> quiet s (snd (resumeStages api sts t))"
  by (induction sts arbitrary: t) (auto simp: split_beta)

lemma quiet_handleSuspended:
  "quiet s t \<Longrightarrow> quiet s (snd (handleSuspendedWorkflowsOnNode api node m w t))"
  by (auto simp: handleSuspendedWorkflowsOnNode_def attemptAbortWorkflowOnNode_def abortWorkflow_def
      removeAbortWorkflowLabelFromNode_def attemptResumeWorkflowOnNode_def resumeSuspendedWorkflow_def
      removeForceResumeWorkflowLabelFromNode_def quiet_resumeStages split_beta
      split: option.split sum.split)

lemma quiet_existing: "quiet s t \<Longrightarrow> quiet s (snd (existingWorkflows api node m ws t))"
  by (induction ws arbitrary: t)
    (auto simp: quiet_handleSuspended deleteWorkflow_def split_beta split: option.split)

lemma quiet_handleExisting: "quiet s t \<Longrightarrow> quiet s (snd (handleExistingWorkflowsOnNode api dc node m t))"
  by (auto simp: handleExistingWorkflowsOnNode_def getWorkflowList_def quiet_existing split_beta split: sum.split)

lemma quiet_serviceAccount: "quiet s t \<Longrightarrow> quiet s (snd (getServiceAccountName api dc t))"
  by (auto simp: getServiceAccountName_def split_beta split: sum.split option.split)

lemma quiet_populate: "quiet s t \<Longrightarrow> quiet s (snd (populateWorkflow api tmpl m n dc t))"
  by (auto simp: populateWorkflow_def Let_def quiet_serviceAccount split_beta split: option.split)

lemma quiet_updateWorkloads: "quiet s t \<Longrightarrow> quiet s (snd (updateWorkloads api k tols ws t))"
  by (induction ws arbitrary: t) (auto simp: split_beta split: option.split)

lemma quiet_tolerations: "quiet s t \<Longrightarrow> quiet s (handleDeviceConfigChanges api dc t)"
proof -
  have "quiet s u \<Longrightarrow> k \<noteq> KModule \<Longrightarrow> quiet s (snd (updateCustomTolerationsOn api k dc sel tols u))" for k sel tols and u :: rmgr
    unfolding updateCustomTolerationsOn_def
    by (rule ran_retry) (auto simp: quiet_updateWorkloads split_beta split: sum.split)
  then show "quiet s t \<Longrightarrow> quiet s (handleDeviceConfigChanges api dc t)"
    by (simp add: handleDeviceConfigChanges_def updateCustomTolerations_def updateCustomTolerationsOnDeployment_def
        updateCustomTolerationsOnDaemonset_def updateCustomTolerationsCache_def Let_def split_beta)
qed

lemma quiet_drop: "quiet s t \<Longrightarrow> quiet s (snd (dropOlderRecoveryAttemptsInternal api n c w t))"
  by (simp add: dropOlderRecoveryAttemptsInternal_def Let_def split_beta split: option.split)

lemma quiet_register: "quiet s t \<Longrightarrow> quiet s (snd (registerRecoveryAttempt api n c ns wfn t))"
  by (simp add: registerRecoveryAttempt_def registerRecoveryAttemptInternal_def
      registerRecoveryAttemptToStatusCR_def Let_def split_beta split: sum.split option.split)

lemmas quiet_ops = quiet_handleExisting quiet_populate quiet_tolerations quiet_drop quiet_register

lemma quiet_configMapJob: "quiet s t \<Longrightarrow> quiet s (snd (createConfigMapFromImage api dc t))"
proof -
  have start: "quiet s u \<Longrightarrow> quiet s (snd (startConfigMapJob api dc u))" for u
    unfolding startConfigMapJob_def Let_def split_beta
    by (simp add: quiet_serviceAccount split: sum.split option.split)
  then show "quiet s t \<Longrightarrow> quiet s (snd (createConfigMapFromImage api dc t))"
    unfolding createConfigMapFromImage_def Let_def split_beta
    by (simp split: sum.split option.split)
qed

lemma quiet_readScripts: "quiet s t \<Longrightarrow> quiet s (snd (readScripts api fs t))"
  by (induction fs arbitrary: t) (auto simp: getWorkflowTaskScriptSource_def split_beta split: option.split sum.split)

lemma quiet_defaultObjects: "quiet s t \<Longrightarrow> quiet s (snd (createDefaultObjects api dc t))"
  by (auto simp: createDefaultObjects_def createDefaultWorkflowTemplate_def createRemediationWorkflowStatus_def
      getWorkflowTaskScriptSource_def quiet_readScripts split_beta split: sum.split option.split)

lemma quiet_preconditions:
  "quiet s t \<Longrightarrow> quiet s (snd (isRemediationDisabled api dc t))"
  "quiet s t \<Longrightarrow> quiet s (snd (validateUserConfigMap api dc t))"
  by (auto simp: isRemediationDisabled_def validateUserConfigMap_def split_beta split: sum.split option.split)

lemma quiet_parallel: "quiet s t \<Longrightarrow> quiet s (snd (updateMaxParallelWorkflows api dc t))"
proof -
  assume "quiet s t"
  then have "quiet s (snd (retryOnConflict (\<lambda>s. case getConfigMapObj api (dc_Namespace dc) ArgoWorkflowControllerConfigMap s of
            (Inl e, s1) \<Rightarrow> (Some e, s1)
          | (Inr acm, s1) \<Rightarrow>
              writeObj api (CUpdate (OConfigMap (acm\<lparr>cfm_Data := store ''namespaceParallelism''
                 (itoa (rw_MaxParallelWorkflows (remediation dc))) (cfm_Data acm)\<rparr>))) s1) t))"
    by (rule ran_retry [rotated]) (auto simp: split_beta split: sum.split)
  with \<open>quiet s t\<close> show ?thesis
    by (simp add: updateMaxParallelWorkflows_def Let_def split_beta split: option.split)
qed

lemma quiet_syncAttempts: "quiet s t \<Longrightarrow> quiet s (snd (syncAttempts api w as t))"
  by (induction as arbitrary: t) (auto simp: split_beta split: option.split)

lemma quiet_syncConditions: "quiet s t \<Longrightarrow> quiet s (snd (syncConditions api ms n conds t))"
proof (induction conds arbitrary: t)
  case (Cons p conds)
  then show ?case by (cases p) (simp add: quiet_syncAttempts split_beta split: option.split)
qed simp

lemma quiet_syncNodes: "quiet s t \<Longrightarrow> quiet s (snd (syncNodes api ms st t))"
proof (induction st arbitrary: t)
  case (Cons p st)
  then show ?case by (cases p) (simp add: quiet_syncConditions split_beta split: option.split)
qed simp

lemma quiet_history:
  "quiet s t \<Longrightarrow> quiet s (snd (dropOlderRecoveryAttemptsFromStatusCR api ns t))"
  "quiet s t \<Longrightarrow> quiet s (snd (syncInternalMapFromStatusCR api ns ms t))"
  by (auto simp: dropOlderRecoveryAttemptsFromStatusCR_def syncInternalMapFromStatusCR_def quiet_syncNodes
      split_beta split: sum.split option.split)

section \<open>One node\<close>

text \<open>
  \<open>justified dc mappings node w\<close>: the node reports a mapped condition, it has no remediation taint and
  no driver upgrade is under way on it, and \<open>w\<close> is the workflow of that mapping for that node.
\<close>

definition justified :: "DeviceConfig \<Rightarrow> ConditionWorkflowMapping gomap \<Rightarrow> Node \<Rightarrow> Workflow \<Rightarrow> bool" where
  "justified dc mappings node w =
     (case firstCondition mappings (n_Conditions node) of
        None \<Rightarrow> False
      | Some m \<Rightarrow> \<not> checkIfTaintExists node dc \<and> \<not> isDriverUpgradeInProgress dc node
          \<and> wf_GenerateName w = n_Name node @ ''-'' @ m_WorkflowTemplate m @ ''-''
          \<and> wf_Namespace w = dc_Namespace dc
          \<and> list_all (placedOn dc (m_NodeCondition m) (n_Name node)) (wsp_Templates (wf_Spec w)))"

lemma firstCondition_mapped:
  "firstCondition mappings cs = Some m \<Longrightarrow>
     \<exists>c \<in> set cs. nc_Status c = ''True'' \<and> lookup mappings (nc_Type c) = Some m"
  by (induction cs) (auto split: if_splits option.splits)

lemma validate_first [simp]:
  "validateNodeConditions node mappings = Inr m \<longleftrightarrow> firstCondition mappings (n_Conditions node) = Some m"
  by (simp add: validateNodeConditions_def split: option.split)

lemma tracker_calls [simp]:
  "recoveryTracker (snd (writeObj api c t)) = recoveryTracker t"
  "recoveryTracker (snd (getWorkflow api ns n t)) = recoveryTracker t"
  "recoveryTracker (snd (getWfTemplate api ns n t)) = recoveryTracker t"
  "recoveryTracker (snd (listWorkflows api ns sel t)) = recoveryTracker t"
  "recoveryTracker (snd (listNames api k ns t)) = recoveryTracker t"
  "recoveryTracker (snd (listWorkloads api k ns sel t)) = recoveryTracker t"
  "recoveryTracker (snd (timeNow api t)) = recoveryTracker t"
  "recoveryTracker (snd (createWf api w t)) = recoveryTracker t"
  by (simp_all add: call_defs logCall_def)

lemma tracker_resumeStages [simp]: "recoveryTracker (snd (resumeStages api sts t)) = recoveryTracker t"
  by (induction sts arbitrary: t) (auto simp: split_beta)

lemma tracker_handleSuspended [simp]:
  "recoveryTracker (snd (handleSuspendedWorkflowsOnNode api node m w t)) = recoveryTracker t"
  by (auto simp: handleSuspendedWorkflowsOnNode_def attemptAbortWorkflowOnNode_def abortWorkflow_def
      removeAbortWorkflowLabelFromNode_def attemptResumeWorkflowOnNode_def resumeSuspendedWorkflow_def
      removeForceResumeWorkflowLabelFromNode_def split_beta split: option.split sum.split)

lemma tracker_existing [simp]: "recoveryTracker (snd (existingWorkflows api node m ws t)) = recoveryTracker t"
  by (induction ws arbitrary: t) (auto simp: deleteWorkflow_def split_beta split: option.split)

lemma tracker_handleExisting [simp]:
  "recoveryTracker (snd (handleExistingWorkflowsOnNode api dc node m t)) = recoveryTracker t"
  by (auto simp: handleExistingWorkflowsOnNode_def getWorkflowList_def split_beta split: sum.split)

lemma tracker_populate [simp]: "recoveryTracker (snd (populateWorkflow api tmpl m n dc t)) = recoveryTracker t"
  by (auto simp: populateWorkflow_def getServiceAccountName_def Let_def split_beta split: sum.split option.split)

lemma tracker_updateWorkloads [simp]: "recoveryTracker (snd (updateWorkloads api k tols ws t)) = recoveryTracker t"
  by (induction ws arbitrary: t) (auto simp: split_beta split: option.split)

lemma tracker_tolerations [simp]: "recoveryTracker (handleDeviceConfigChanges api dc t) = recoveryTracker t"
proof -
  have "recoveryTracker (snd (updateCustomTolerationsOn api k dc sel tols u)) = recoveryTracker u" for k sel tols u
    unfolding updateCustomTolerationsOn_def
    by (rule retryOnConflict_frame) (auto simp: split_beta split: sum.split)
  then show ?thesis
    by (simp add: handleDeviceConfigChanges_def updateCustomTolerations_def updateCustomTolerationsOnDeployment_def
        updateCustomTolerationsOnDaemonset_def updateCustomTolerationsCache_def Let_def split_beta)
qed

lemma schedulable_cong:
  "recoveryTracker s = recoveryTracker t \<Longrightarrow>
     isWorkflowSchedulableOnNode dc node m s = isWorkflowSchedulableOnNode dc node m t"
  by (simp add: isWorkflowSchedulableOnNode_def isRecoveryPolicyViolated_def getRecentRecoveryCount_def)

text \<open>Either the node is left alone, or a justified workflow is started under the recovery policy.\<close>

lemma remediateNode_cases:
  "quiet s (snd (remediateNode api dc ms node s))
   \<or> (\<exists>m w t. firstCondition ms (n_Conditions node) = Some m \<and> isWorkflowSchedulableOnNode dc node m s
       \<and> justified dc ms node w \<and> quiet s t \<and> recoveryTracker t = recoveryTracker s
       \<and> remediateNode api dc ms node s = startWorkflow api dc node m w t)"
proof (cases "firstCondition ms (n_Conditions node)")
  case None
  then show ?thesis by (simp add: remediateNode_def validateNodeConditions_def)
next
  case (Some m)
  obtain b s1 where e: "handleExistingWorkflowsOnNode api dc node m s = (b, s1)" by fastforce
  obtain g s2 where g: "getWfTemplate api (dc_Namespace dc) (m_WorkflowTemplate m) s1 = (g, s2)" by fastforce
  have s1: "quiet s s1" "recoveryTracker s1 = recoveryTracker s"
    using quiet_handleExisting [of s s api dc node m] tracker_handleExisting [of api dc node m s] by (simp_all add: e)
  have s2: "quiet s s2" "recoveryTracker s2 = recoveryTracker s"
    using s1 ran_calls(8) [of noWf s s1 "dc_Namespace dc" "m_WorkflowTemplate m" api]
      tracker_calls(3) [of api "dc_Namespace dc" "m_WorkflowTemplate m" s1] by (simp_all add: g)
  have def: "remediateNode api dc ms node s =
      (if \<not> b \<or> \<not> isWorkflowSchedulableOnNode dc node m s then (Next, s1)
       else case g of Inl e \<Rightarrow> (Failed e, s2)
         | Inr tmpl \<Rightarrow> (case populateWorkflow api tmpl m (n_Name node) dc s2 of
             (Inl e, s3) \<Rightarrow> (Abandon e, s3) | (Inr w, s3) \<Rightarrow> startWorkflow api dc node m w s3))"
    using Some schedulable_cong [OF s1(2), of dc node m]
    by (simp add: remediateNode_def validateNodeConditions_def e g split: sum.split)
  show ?thesis
  proof (cases "b \<and> isWorkflowSchedulableOnNode dc node m s \<and> (\<exists>tmpl. g = Inr tmpl)")
    case False
    with s1 s2 show ?thesis by (cases g) (auto simp: def)
  next
    case True
    then obtain tmpl where tmpl: "g = Inr tmpl" by blast
    obtain r s3 where p: "populateWorkflow api tmpl m (n_Name node) dc s2 = (r, s3)" by fastforce
    have s3: "quiet s s3" "recoveryTracker s3 = recoveryTracker s"
      using quiet_populate [OF s2(1), of api tmpl m "n_Name node" dc]
        tracker_populate [of api tmpl m "n_Name node" dc s2] s2(2) by (simp_all add: p)
    show ?thesis
    proof (cases r)
      case (Inl e)
      with True tmpl p s3 show ?thesis by (simp add: def)
    next
      case (Inr w)
      with populateWorkflow_result [of api tmpl m "n_Name node" dc s2 w s3] p True Some
      have "justified dc ms node w" by (simp add: justified_def isWorkflowSchedulableOnNode_def)
      with Inr True tmpl p s3 Some show ?thesis by (auto simp: def)
    qed
  qed
qed

lemma startWorkflow_creates:
  "\<exists>t :: rmgr. quiet s t \<and> quiet (logCall (CCreate (OWorkflow w)) t) (snd (startWorkflow api dc node m w s))"
  by (rule exI [of _ "handleDeviceConfigChanges api dc s"])
    (simp add: startWorkflow_def createWf_def quiet_ops Let_def split_beta split: sum.split option.split)

lemma startWorkflow_Next:
  assumes "fst (startWorkflow api dc node m w s) = Next"
  obtains wfn s1 s2 where
    "dropOlderRecoveryAttemptsInternal api (n_Name node) (m_NodeCondition m) (getWindowSize (m_RecoveryPolicy m))
       (snd (createWf api w (handleDeviceConfigChanges api dc s))) = (None, s1)"
    "registerRecoveryAttempt api (n_Name node) (m_NodeCondition m) (dc_Namespace dc) wfn s1 = (None, s2)"
    "snd (startWorkflow api dc node m w s) = s2"
  using assms
  by (simp add: startWorkflow_def Let_def createWf_def split: sum.splits option.splits prod.splits)

lemma remediateNode_created:
  "\<exists>cs. hist (snd (remediateNode api dc ms node s)) = cs @ hist s
     \<and> (created cs = [] \<or> (\<exists>w. created cs = [w] \<and> justified dc ms node w))"
proof (rule disjE [OF remediateNode_cases [of s api dc ms node]])
  assume "quiet s (snd (remediateNode api dc ms node s))"
  from quiet_created [OF this] show ?thesis by blast
next
  assume "\<exists>m w t. firstCondition ms (n_Conditions node) = Some m \<and> isWorkflowSchedulableOnNode dc node m s
       \<and> justified dc ms node w \<and> quiet s t \<and> recoveryTracker t = recoveryTracker s
       \<and> remediateNode api dc ms node s = startWorkflow api dc node m w t"
  then obtain m w t where w: "justified dc ms node w" "quiet s t"
    "remediateNode api dc ms node s = startWorkflow api dc node m w t" by blast
  from startWorkflow_creates [of t w api dc node m] obtain u :: rmgr where u: "quiet t u"
    "quiet (logCall (CCreate (OWorkflow w)) u) (snd (startWorkflow api dc node m w t))" by blast
  from quiet_created [OF ran_trans [OF w(2) u(1)]] quiet_created [OF u(2)] w(1,3) show ?thesis by fastforce
qed

section \<open>A pass\<close>

lemma remediateNodes_created:
  "\<exists>cs ns. hist (snd (remediateNodes api dc ms nodes errs s)) = cs @ hist s
     \<and> subseq ns nodes \<and> list_all2 (justified dc ms) ns (created cs)"
proof (induction nodes arbitrary: errs s)
  case Nil
  then show ?case by simp
next
  case (Cons node nodes)
  obtain out s1 where r: "remediateNode api dc ms node s = (out, s1)" by fastforce
  from remediateNode_created [of api dc ms node s] r obtain cs where cs: "hist s1 = cs @ hist s"
    "created cs = [] \<or> (\<exists>w. created cs = [w] \<and> justified dc ms node w)" by auto
  have rest: "\<exists>cs ns. hist (snd (remediateNodes api dc ms (node # nodes) errs s)) = cs @ hist s1
     \<and> subseq ns nodes \<and> list_all2 (justified dc ms) ns (created cs)"
  proof (cases out)
    case (Abandon e)
    have "subseq [] nodes" "list_all2 (justified dc ms) [] (created [])" by simp_all
    with r Abandon show ?thesis by (intro exI [of _ "[]"]) simp
  qed (use r Cons.IH in \<open>simp_all\<close>)
  then obtain ds ns where ds: "hist (snd (remediateNodes api dc ms (node # nodes) errs s)) = ds @ hist s1"
    "subseq ns nodes" "list_all2 (justified dc ms) ns (created ds)" by blast
  from cs(2) show ?case
  proof
    assume "created cs = []"
    with cs(1) ds show ?thesis by (intro exI [of _ "ds @ cs"] exI [of _ ns]) (auto intro: list_emb_Cons)
  next
    assume "\<exists>w. created cs = [w] \<and> justified dc ms node w"
    with cs(1) ds show ?thesis by (intro exI [of _ "ds @ cs"] exI [of _ "node # ns"]) auto
  qed
qed

lemma runRemediation_created:
  "\<exists>cs. hist (snd (runRemediation api dc nodes s)) = cs @ hist s
     \<and> (created cs = [] \<or> (\<exists>h cm raw ns. o_configmap api h (dc_Namespace dc) (configMapNameOf dc) = Inr cm
           \<and> o_yaml api (workflowData cm) = Some raw \<and> subseq ns nodes
           \<and> list_all2 (justified dc (mappingsOf raw)) ns (created cs)))"
proof -
  obtain g s1 where g: "getConfigMapObj api (dc_Namespace dc) (configMapNameOf dc) s = (g, s1)" by fastforce
  obtain e2 s2 where s2: "updateMaxParallelWorkflows api dc s1 = (e2, s2)" by fastforce
  obtain e3 s3 where s3: "dropOlderRecoveryAttemptsFromStatusCR api (dc_Namespace dc) s2 = (e3, s3)" by fastforce
  have q1: "quiet s s1" using ran_calls(5) [of noWf s s "dc_Namespace dc" "configMapNameOf dc" api] g by simp
  have q2: "quiet s s2" using quiet_parallel [OF q1, of api dc] s2 by simp
  have q3: "quiet s s3" using quiet_history(1) [OF q2, of api "dc_Namespace dc"] s3 by simp
  have quietly: ?thesis if "quiet s (snd (runRemediation api dc nodes s))"
    using quiet_created [OF that] by blast
  show ?thesis
  proof (cases "\<exists>cm raw. g = Inr cm \<and> e3 = None \<and> o_yaml api (workflowData cm) = Some raw")
    case False
    with q1 q3 show ?thesis
      by (intro quietly) (auto simp: runRemediation_def Let_def g s2 s3 split: sum.split option.split)
  next
    case True
    then obtain cm raw where cm: "g = Inr cm" "e3 = None" "o_yaml api (workflowData cm) = Some raw" by blast
    obtain e4 s4 where s4: "syncInternalMapFromStatusCR api (dc_Namespace dc) (mappingsOf raw) s3 = (e4, s4)" by fastforce
    have q4: "quiet s s4" using quiet_history(2) [OF q3, of api "dc_Namespace dc" "mappingsOf raw"] s4 by simp
    have o: "o_configmap api (hist s) (dc_Namespace dc) (configMapNameOf dc) = Inr cm"
      using g cm(1) by (simp add: getConfigMapObj_def)
    show ?thesis
    proof (cases e4)
      case (Some e)
      with q4 show ?thesis by (intro quietly) (simp add: runRemediation_def Let_def g s2 s3 s4 cm)
    next
      case None
      then have r: "snd (runRemediation api dc nodes s) = snd (remediateNodes api dc (mappingsOf raw) nodes [] s4)"
        by (simp add: runRemediation_def Let_def g s2 s3 s4 cm split_beta)
      from remediateNodes_created [of api dc "mappingsOf raw" nodes "[]" s4] quiet_created [OF q4] o cm(3)
      show ?thesis unfolding r by fastforce
    qed
  qed
qed


text \<open>
  C21: a node's workflows stay within the recovery policy: a pass starts one on the node only if fewer
  attempts are remembered than the policy of the condition allows, and once the attempt is
  registered, at most the allowed number is remembered.
\<close>

theorem remediateNode_limited:
  assumes "firstCondition ms (n_Conditions node) = Some m"
    and "created (issued s (snd (remediateNode api dc ms node s))) \<noteq> []"
    and "fst (remediateNode api dc ms node s) = Next"
  shows "int (getRecentRecoveryCount s (n_Name node) (m_NodeCondition m)) < getMaxAllowedRunsPerWindow (m_RecoveryPolicy m)
    \<and> 0 < getRecentRecoveryCount (snd (remediateNode api dc ms node s)) (n_Name node) (m_NodeCondition m)
    \<and> int (getRecentRecoveryCount (snd (remediateNode api dc ms node s)) (n_Name node) (m_NodeCondition m))
        \<le> getMaxAllowedRunsPerWindow (m_RecoveryPolicy m)"
proof -
  have "\<not> quiet s (snd (remediateNode api dc ms node s))"
    using assms(2) quiet_created by (fastforce simp: issued_append)
  with remediateNode_cases [of s api dc ms node] assms(1) obtain w t where
    sch: "isWorkflowSchedulableOnNode dc node m s" and tr: "recoveryTracker t = recoveryTracker s"
    and st: "remediateNode api dc ms node s = startWorkflow api dc node m w t" by auto
  define s5 where "s5 = snd (createWf api w (handleDeviceConfigChanges api dc t))"
  have "recoveryTracker s5 = recoveryTracker s" by (simp add: s5_def tr)
  then have a5: "attemptsAt s5 = attemptsAt s" by (simp add: fun_eq_iff attemptsAt_def)
  from sch have lim: "\<not> isRecoveryPolicyViolated s (n_Name node) m" by (simp add: isWorkflowSchedulableOnNode_def)
  from assms(3) obtain s6 wfn s7 where
    d: "dropOlderRecoveryAttemptsInternal api (n_Name node) (m_NodeCondition m) (getWindowSize (m_RecoveryPolicy m)) s5 = (None, s6)"
    and r: "registerRecoveryAttempt api (n_Name node) (m_NodeCondition m) (dc_Namespace dc) wfn s6 = (None, s7)"
    and s7: "snd (remediateNode api dc ms node s) = s7"
    unfolding st s5_def using startWorkflow_Next by metis
  have lim5: "\<not> isRecoveryPolicyViolated s5 (n_Name node) m"
    using lim by (simp add: isRecoveryPolicyViolated_def getRecentRecoveryCount_attempts a5)
  from recovery_policy_bound [OF lim5 d r] lim show ?thesis
    by (simp add: s7 isRecoveryPolicyViolated_def)
qed

definition sickNode :: Node where
  "sickNode = nodeA\<lparr>n_Conditions := [\<lparr>nc_Type = ''AMDGPUUnhealthy'', nc_Status = ''True''\<rparr>]\<rparr>"

definition templateApi :: env where
  "templateApi = sampleApi\<lparr>o_wftemplate := \<lambda>h ns n. Inr (defaultTemplate sampleDC sampleScripts)\<rparr>"

lemma sickNode_started:
  "fst (remediateNode templateApi sampleDC [(''AMDGPUUnhealthy'', sampleMapping)] sickNode sampleRmgr) = Next"
  "created (issued sampleRmgr (snd (remediateNode templateApi sampleDC [(''AMDGPUUnhealthy'', sampleMapping)] sickNode sampleRmgr))) \<noteq> []"
  by (simp_all add: remediateNode_def validateNodeConditions_def sickNode_def handleExistingWorkflowsOnNode_def
      getWorkflowList_def call_defs templateApi_def sample_defs isWorkflowSchedulableOnNode_def checkIfTaintExists_def
      isDriverUpgradeInProgress_def isRecoveryPolicyViolated_def getRecentRecoveryCount_def sampleRmgr_def
      newRemediationMgrHelperHandler_def sampleMapping_def emptyMapping_def getMaxAllowedRunsPerWindow_def
      DefaultRecoveryPolicyMaxRunsPerWindow_def populateWorkflow_def getServiceAccountName_def startWorkflow_def
      handleDeviceConfigChanges_def customTaintsChanged_def dropOlderRecoveryAttemptsInternal_def loadOrStore_def
      registerRecoveryAttempt_def registerRecoveryAttemptInternal_def registerRecoveryAttemptToStatusCR_def
      getWindowSize_def DefaultRecoveryPolicyWindowSize_def issued_def logCall_def Let_def split_beta setTracker_def)

theorem remediateNode_limited_witness:
  "0 < getRecentRecoveryCount (snd (remediateNode templateApi sampleDC [(''AMDGPUUnhealthy'', sampleMapping)]
     sickNode sampleRmgr)) ''node-a'' ''AMDGPUUnhealthy''"
proof -
  have f: "firstCondition [(''AMDGPUUnhealthy'', sampleMapping)] (n_Conditions sickNode) = Some sampleMapping"
    "n_Name sickNode = ''node-a''" "m_NodeCondition sampleMapping = ''AMDGPUUnhealthy''"
    by (simp_all add: sickNode_def sample_defs sampleMapping_def)
  from remediateNode_limited [OF f(1) sickNode_started(2,1)] show ?thesis unfolding f by blast
qed

end
