(* ===== verification/Remediation_Resume.thy ===== *)
theory Remediation_Resume
  imports Remediation_Safety
begin

text \<open>
  Suspended workflows, the check of the user's mappings, and the deletion of a DeviceConfig's
  remediation objects.
\<close>

section \<open>Suspended workflows\<close>

definition suspended :: "WfStage \<Rightarrow> bool" where
  "suspended st \<longleftrightarrow> ws_Type st = ''Suspend'' \<and> ws_Phase st = ''Running''"

definition resumedStage :: "string \<times> WfStage \<Rightarrow> string \<times> WfStage \<Rightarrow> bool" where
  "resumedStage a b \<longleftrightarrow> fst b = fst a \<and>
     (if suspended (snd a) then snd b = (snd a)\<lparr>ws_Phase := ''Succeeded'', ws_FinishedAt := ws_FinishedAt (snd b)\<rparr>
        \<and> ws_FinishedAt (snd b) \<noteq> None
      else snd b = snd a)"

lemma resumeStages_result:
  "list_all2 resumedStage sts (snd (fst (resumeStages api sts s)))"
  "fst (fst (resumeStages api sts s)) \<longleftrightarrow> list_ex (suspended \<circ> snd) sts"
  "\<exists>cs. hist (snd (resumeStages api sts s)) = cs @ hist s \<and> writesOf cs = []"
proof (induction sts arbitrary: s)
  case (Cons p sts)
  obtain i st where p: "p = (i, st)" by fastforce
  {
    case 1
    from Cons.IH(1) show ?case by (auto simp: p split_beta resumedStage_def suspended_def)
  next
    case 2
    from Cons.IH(2) show ?case by (auto simp: p split_beta suspended_def)
  next
    case 3
    obtain cs where cs: "hist (snd (resumeStages api sts s)) = cs @ hist s" "writesOf cs = []"
      using Cons.IH(3) by blast
    obtain ds where ds: "hist (snd (resumeStages api sts (logCall CNow s))) = ds @ CNow # hist s" "writesOf ds = []"
      using Cons.IH(3) [of "logCall CNow s"] by auto
    from ds have "writesOf (ds @ [CNow]) = []" by (simp add: writesOf_def isWrite_def)
    with cs ds show ?case
      by (auto simp: p split_beta timeNow_def intro: exI [of _ "ds @ [CNow]"])
  }
qed (simp_all add: writesOf_def)

lemma resumedStage_not_suspended: "resumedStage a b \<Longrightarrow> \<not> suspended (snd b)"
  by (cases "suspended (snd a)") (auto simp: resumedStage_def suspended_def)

lemma resumed_none: "list_all2 resumedStage as bs \<Longrightarrow> \<not> list_ex (suspended \<circ> snd) bs"
  by (induction rule: list_all2_induct) (auto dest: resumedStage_not_suspended)

text \<open>
  C37: resuming a workflow ends exactly its suspensions: if no stage of it is suspended, nothing is
  written; otherwise the one write is an update of the workflow in which every suspended stage has
  succeeded and is finished, every other stage is as it was, and none is suspended any more.
\<close>

theorem resumeSuspendedWorkflow_exact:
  assumes "o_workflow api (hist s) ns n = Inr w"
  shows "\<exists>stages. list_all2 resumedStage (wf_Nodes w) stages \<and> \<not> list_ex (suspended \<circ> snd) stages
    \<and> writesOf (issued s (snd (resumeSuspendedWorkflow api n ns s)))
      = (if list_ex (suspended \<circ> snd) (wf_Nodes w) then [CUpdate (OWorkflow (w\<lparr>wf_Nodes := stages\<rparr>))] else [])"
proof -
  let ?s1 = "logCall (CGet KWorkflow ns n) s"
  let ?r = "resumeStages api (wf_Nodes w) ?s1"
  note r = resumeStages_result [where api = api and sts = "wf_Nodes w" and s = ?s1]
  from r(3) obtain cs where cs: "hist (snd ?r) = cs @ hist ?s1" "writesOf cs = []" by blast
  let ?u = "CUpdate (OWorkflow (w\<lparr>wf_Nodes := snd (fst ?r)\<rparr>))"
  have "hist (snd (resumeSuspendedWorkflow api n ns s)) =
      ((if list_ex (suspended \<circ> snd) (wf_Nodes w) then [?u] else []) @ cs @ [CGet KWorkflow ns n]) @ hist s"
    using assms cs(1) r(2) by (simp add: resumeSuspendedWorkflow_def getWorkflow_def writeObj_def split_beta)
  from issued_append [OF this] cs(2) have "writesOf (issued s (snd (resumeSuspendedWorkflow api n ns s)))
      = (if list_ex (suspended \<circ> snd) (wf_Nodes w) then [?u] else [])"
    by (simp add: writesOf_def isWrite_def)
  with r(1) resumed_none [OF r(1)] show ?thesis by blast
qed

definition waitingStage :: WfStage where
  "waitingStage = \<lparr>ws_Type = ''Suspend'', ws_Phase = ''Running'', ws_DisplayName = ''awaitapproval'', ws_FinishedAt = None\<rparr>"

definition waitingWorkflow :: Workflow where
  "waitingWorkflow = \<lparr>wf_Name = ''node-a-default-template-x1'', wf_GenerateName = [], wf_Namespace = ''kube-amd-gpu'',
     wf_Labels = instanceIDMeta, wf_Spec = emptyWorkflowSpec, wf_Phase = ''Running'', wf_Nodes = [(''n1'', waitingStage)]\<rparr>"

definition waitingApi :: env where
  "waitingApi = sampleApi\<lparr>o_workflow := \<lambda>h ns n. Inr waitingWorkflow\<rparr>"

lemma waiting_get: "o_workflow waitingApi h ns n = Inr waitingWorkflow"
  by (simp add: waitingApi_def)

theorem resumeSuspendedWorkflow_exact_witness:
  "\<exists>stages. \<not> list_ex (suspended \<circ> snd) stages
    \<and> writesOf (issued sampleRmgr (snd (resumeSuspendedWorkflow waitingApi ''w'' ''ns'' sampleRmgr)))
      = [CUpdate (OWorkflow (waitingWorkflow\<lparr>wf_Nodes := stages\<rparr>))]"
proof -
  have "list_ex (suspended \<circ> snd) (wf_Nodes waitingWorkflow)"
    by (simp add: waitingWorkflow_def waitingStage_def suspended_def)
  with resumeSuspendedWorkflow_exact [OF waiting_get, of sampleRmgr "''w''" "''ns''"] show ?thesis by auto
qed



section \<open>The user's mappings\<close>

definition wellFormedMapping :: "ConditionWorkflowMapping \<Rightarrow> bool" where
  "wellFormedMapping m \<longleftrightarrow> m_NodeCondition m \<noteq> []
     \<and> (rp_WindowSize (m_RecoveryPolicy m) = []
        \<or> (case parseDuration (rp_WindowSize (m_RecoveryPolicy m)) of None \<Rightarrow> False | Some d \<Rightarrow> 0 \<le> d))
     \<and> 0 \<le> rp_MaxAllowedRunsPerWindow (m_RecoveryPolicy m)"

lemma checkMapping_ok: "checkMapping m = None \<longleftrightarrow> wellFormedMapping m"
  by (auto simp: checkMapping_def wellFormedMapping_def Let_def split: option.splits)

lemma checkMappings_ok: "checkMappings ms = None \<longleftrightarrow> list_all wellFormedMapping ms"
  by (induction ms) (auto simp: checkMapping_ok [symmetric] split: option.split)

lemma lookup_mappingsOf:
  assumes "distinct (map m_NodeCondition ms)" and "m \<in> set ms"
  shows "lookup (mappingsOf ms) (m_NodeCondition m) = Some m"
proof -
  have other: "lookup (fold (\<lambda>m. store (m_NodeCondition m) m) ms acc) k = lookup acc k"
    if "k \<notin> m_NodeCondition ` set ms" for ms acc k
    using that by (induction ms arbitrary: acc) auto
  have "lookup (fold (\<lambda>m. store (m_NodeCondition m) m) ms acc) (m_NodeCondition m) = Some m" for acc
    using assms
  proof (induction ms arbitrary: acc)
    case (Cons a ms)
    then show ?case by (cases "a = m") (auto simp: other)
  qed simp
  then show ?thesis by (simp add: mappingsOf_def)
qed

lemma length_remdups_distinct: "length (remdups xs) = length xs \<longleftrightarrow> distinct xs"
  by (metis distinct_remdups_id length_remdups_card_conv distinct_card card_distinct)

text \<open>
  the user's ConfigMap is accepted exactly if it exists, parses, and its mappings are well-formed
  with a condition each; and then every mapping of the list is the one a node's condition is
  looked up with.
\<close>

theorem validateUserConfigMap_iff:
  assumes "userConfigName dc \<noteq> []"
  shows "fst (validateUserConfigMap api dc s) = None \<longleftrightarrow>
    (\<exists>cm ms. o_configmap api (hist s) (dc_Namespace dc) (userConfigName dc) = Inr cm
       \<and> o_yaml api (workflowData cm) = Some ms \<and> distinct (map m_NodeCondition ms) \<and> list_all wellFormedMapping ms
       \<and> list_all (\<lambda>m. lookup (mappingsOf ms) (m_NodeCondition m) = Some m) ms)"
  using assms lookup_mappingsOf length_remdups_distinct
  by (auto simp: validateUserConfigMap_def getConfigMapObj_def checkMappings_ok list_all_iff
      length_remdups_distinct [where xs = "map m_NodeCondition ms" for ms, simplified]
      split: sum.splits option.splits)

definition mappingsApi :: env where
  "mappingsApi = sampleApi\<lparr>o_configmap := \<lambda>h ns n. Inr \<lparr>cfm_Name = n, cfm_Namespace = ns, cfm_Annotations = [], cfm_Data = []\<rparr>,
     o_yaml := \<lambda>y. Some [sampleMapping]\<rparr>"

theorem validateUserConfigMap_iff_witness:
  "fst (validateUserConfigMap mappingsApi sampleDC sampleRmgr) = None \<and> lookup (mappingsOf [sampleMapping]) ''AMDGPUUnhealthy'' = Some sampleMapping"
proof -
  have u: "userConfigName sampleDC \<noteq> []" by (simp add: userConfigName_def sample_defs)
  have o: "o_configmap mappingsApi (hist sampleRmgr) (dc_Namespace sampleDC) (userConfigName sampleDC) = Inr \<lparr>cfm_Name = userConfigName sampleDC,
      cfm_Namespace = dc_Namespace sampleDC, cfm_Annotations = [], cfm_Data = []\<rparr>"
    "o_yaml mappingsApi y = Some [sampleMapping]" for y
    by (simp_all add: mappingsApi_def)
  have m: "wellFormedMapping sampleMapping" "m_NodeCondition sampleMapping = ''AMDGPUUnhealthy''"
    by (simp_all add: wellFormedMapping_def sampleMapping_def emptyMapping_def)
  have l: "lookup (mappingsOf [sampleMapping]) ''AMDGPUUnhealthy'' = Some sampleMapping"
    using lookup_mappingsOf [of "[sampleMapping]" sampleMapping] by (simp add: m)
  from validateUserConfigMap_iff [OF u, of mappingsApi sampleRmgr] l show ?thesis by (simp add: o m)
qed

section \<open>The toleration cache\<close>

lemma cached_effect:
  assumes "distinct (map t_Key ts)" and "t \<in> set ts"
  shows "fold (\<lambda>t c. c(t_Key t \<mapsto> t_Effect t)) ts acc (t_Key t) = Some (t_Effect t)"
proof -
  have other: "fold (\<lambda>t c. c(t_Key t \<mapsto> t_Effect t)) ts acc k = acc k" if "k \<notin> t_Key ` set ts" for ts acc k
    using that by (induction ts arbitrary: acc) auto
  show ?thesis
    using assms
  proof (induction ts arbitrary: acc)
    case (Cons a ts)
    then show ?case
    proof (cases "a = t")
      case True
      with Cons.prems(1) have "t_Key t \<notin> t_Key ` set ts" by simp
      from other [OF this] True show ?thesis by (simp del: fun_upd_apply add: fun_upd_same)
    qed auto
  qed simp
qed

text \<open>
  the cache that should record the configured taints stores their effects, while the check for
  changes compares it with their values: with custom taints of different keys, the check reports a
  change right after an update exactly if some taint's value is not the text of its effect, so that the tolerations
  of the controllers are written again in every pass that starts a workflow.
\<close>

theorem customTaints_never_settle:
  assumes "distinct (map t_Key (rw_NodeRemediationTaints (remediation dc)))"
  shows "customTaintsChanged dc (updateCustomTolerationsCache dc s) \<longleftrightarrow>
    list_ex (\<lambda>t. t_Effect t \<noteq> t_Value t) (rw_NodeRemediationTaints (remediation dc))"
  by (auto simp: customTaintsChanged_def updateCustomTolerationsCache_def list_ex_iff cached_effect [OF assms])

definition taintedDC :: DeviceConfig where
  "taintedDC = sampleDC\<lparr>dc_Spec := sampleSpec\<lparr>s_RemediationWorkflow := sampleRemediation\<lparr>rw_NodeRemediationTaints :=
     [\<lparr>t_Key = ''gpu'', t_Value = ''bad'', t_Effect = ''NoExecute''\<rparr>]\<rparr>\<rparr>\<rparr>"

theorem customTaints_never_settle_witness:
  "customTaintsChanged taintedDC (updateCustomTolerationsCache taintedDC sampleRmgr)"
proof -
  have t: "rw_NodeRemediationTaints (remediation taintedDC) = [\<lparr>t_Key = ''gpu'', t_Value = ''bad'', t_Effect = ''NoExecute''\<rparr>]"
    by (simp add: taintedDC_def)
  have d: "distinct (map t_Key (rw_NodeRemediationTaints (remediation taintedDC)))" by (simp add: t)
  from customTaints_never_settle [OF d, of sampleRmgr] show ?thesis by (simp add: t)
qed

section \<open>Deletion\<close>

lemma deleteWorkflows_hist:
  "hist (deleteWorkflows api ws s) = rev (map (\<lambda>w. CDelete KWorkflow (wf_Namespace w) (wf_Name w)) ws) @ hist s"
  by (induction ws arbitrary: s) (simp_all add: deleteWorkflow_def)

text \<open>
  deleting the DeviceConfig removes exactly its remediation objects: the default ConfigMap if the
  user gave none and it exists, then every workflow that carries the operator's instance label, in
  the order of the list, even if some deletions fail; nothing else is written.
\<close>

theorem HandleRemediationDelete_exact:
  assumes "\<forall>h. o_exists api h KWorkflow [] [] = None" and "\<forall>h. o_listWorkflows api h (dc_Namespace dc) = Inr ws"
  shows "rev (writesOf (issued s (snd (HandleRemediationDelete api dc nodes s))))
    = (if userConfigName dc = [] \<and> \<not> isl (o_configmap api (hist s) (dc_Namespace dc) (defaultConfigMapName dc))
       then [CDelete KConfigMap (dc_Namespace dc) (defaultConfigMapName dc)] else [])
      @ map (\<lambda>w. CDelete KWorkflow (wf_Namespace w) (wf_Name w)) ws
    \<and> fst (HandleRemediationDelete api dc nodes s) = (requeueIn 20, None)"
proof -
  let ?cm = "if userConfigName dc = [] \<and> \<not> isl (o_configmap api (hist s) (dc_Namespace dc) (defaultConfigMapName dc))
       then [CDelete KConfigMap (dc_Namespace dc) (defaultConfigMapName dc)] else []"
  let ?s1 = "deleteDefaultConfigMap api dc s"
  have cm: "\<exists>cs. hist ?s1 = cs @ hist s \<and> rev (writesOf cs) = ?cm"
    by (cases "userConfigName dc = []"; cases "o_configmap api (hist s) (dc_Namespace dc) (defaultConfigMapName dc)")
      (auto simp: deleteDefaultConfigMap_def call_defs writesOf_def isWrite_def split_beta)
  then obtain cs where cs: "hist ?s1 = cs @ hist s" "rev (writesOf cs) = ?cm" by blast
  let ?del = "map (\<lambda>w. CDelete KWorkflow (wf_Namespace w) (wf_Name w)) ws"
  have r: "HandleRemediationDelete api dc nodes s = ((requeueIn 20, None), deleteWorkflows api ws
      (logCall (CList KWorkflow (Some (dc_Namespace dc)) instanceIDMeta) (logCall CRESTMapping ?s1)))"
    using assms by (simp add: HandleRemediationDelete_def isWorkflowCRDPresent_def getWorkflowList_def listWorkflows_def Let_def)
  have "hist (snd (HandleRemediationDelete api dc nodes s)) = (rev ?del
      @ CList KWorkflow (Some (dc_Namespace dc)) instanceIDMeta # CRESTMapping # cs) @ hist s"
    by (simp add: r deleteWorkflows_hist cs(1))
  from issued_append [OF this]
  have "rev (writesOf (issued s (snd (HandleRemediationDelete api dc nodes s)))) = rev (writesOf cs) @ filter isWrite ?del"
    by (simp add: writesOf_def isWrite_def rev_filter)
  moreover have "filter isWrite ?del = ?del" by (rule filter_True) (auto simp: isWrite_def)
  ultimately show ?thesis unfolding cs(2) by (simp add: r)
qed

definition deleteApi :: env where
  "deleteApi = waitingApi\<lparr>o_exists := \<lambda>h k ns n. None, o_listWorkflows := \<lambda>h ns. Inr [waitingWorkflow]\<rparr>"

theorem HandleRemediationDelete_exact_witness:
  "rev (writesOf (issued sampleRmgr (snd (HandleRemediationDelete deleteApi sampleDC [] sampleRmgr))))
   = [CDelete KWorkflow ''kube-amd-gpu'' ''node-a-default-template-x1'']"
proof -
  have a: "\<forall>h. o_exists deleteApi h KWorkflow [] [] = None"
    "\<forall>h. o_listWorkflows deleteApi h (dc_Namespace sampleDC) = Inr [waitingWorkflow]"
    by (simp_all add: deleteApi_def)
  have u: "userConfigName sampleDC \<noteq> []" by (simp add: userConfigName_def sample_defs)
  from HandleRemediationDelete_exact [OF a, of sampleRmgr "[]"] u show ?thesis by (simp add: waitingWorkflow_def)
qed

end
