(* ===== verification/Operand_Base.thy ===== *)
theory Operand_Base
  imports Samples Traces Workflow_Templates
begin

text \<open>
  What the builders of the operator's objects share: \<open>SetControllerReference\<close> and \<open>CreateOrPatch\<close> of
  the vendored controller-runtime, and the idioms the builders of the DaemonSets repeat (image
  pull secrets, node selector, update strategy, pull policy, driver check of the init container).
  The contract between a builder and \<open>CreateOrPatch\<close> is the locale \<open>operand\<close>; each component
  interprets it for its builder.
\<close>

section \<open>Controller references\<close>

definition KindDeviceConfig :: string where "KindDeviceConfig = ''DeviceConfig''"

definition controllerRef :: "DeviceConfig \<Rightarrow> OwnerReference" where
  "controllerRef dc = \<lparr>or_Kind = KindDeviceConfig, or_Name = dc_Name dc, or_Controller = True\<rparr>"

definition GetControllerOf :: "OwnerReference list \<Rightarrow> OwnerReference option" where
  "GetControllerOf os = find or_Controller os"

definition referSameObject :: "OwnerReference \<Rightarrow> OwnerReference \<Rightarrow> bool" where
  "referSameObject a b \<longleftrightarrow> or_Kind a = or_Kind b \<and> or_Name a = or_Name b"

fun upsertOwnerRef :: "OwnerReference \<Rightarrow> OwnerReference list \<Rightarrow> OwnerReference list" where
  "upsertOwnerRef r [] = [r]"
| "upsertOwnerRef r (x # xs) = (if referSameObject x r then r # xs else x # upsertOwnerRef r xs)"

definition validateOwner :: "DeviceConfig \<Rightarrow> string \<Rightarrow> err" where
  "validateOwner dc objNs =
     (if dc_Namespace dc \<noteq> [] then
        (if objNs = [] then Some (OtherErr ''cluster-scoped resource must not have a namespace-scoped owner'')
         else if dc_Namespace dc \<noteq> objNs then Some (OtherErr ''cross-namespace owner references are disallowed'')
         else None)
      else None)"

definition SetControllerReference ::
  "DeviceConfig \<Rightarrow> string \<Rightarrow> OwnerReference list \<Rightarrow> OwnerReference list res" where
  "SetControllerReference dc objNs os =
     (case validateOwner dc objNs of
        Some e \<Rightarrow> Inl e
      | None \<Rightarrow>
          (case GetControllerOf os of
             Some r \<Rightarrow>
               if referSameObject r (controllerRef dc) then Inr (upsertOwnerRef (controllerRef dc) os)
               else Inl (OtherErr ''already owned by another controller'')
           | None \<Rightarrow> Inr (upsertOwnerRef (controllerRef dc) os)))"

section \<open>CreateOrPatch\<close>

text \<open>
  \<open>get\<close> reads the object into the caller's variable: the mutation starts from the server's object,
  or from the caller's own when there is none.  \<open>c\<close> is what else the mutation changes: a closure over
  the DeviceConfig may write to it.  \<open>mutate\<close> checks its result \<open>r\<close>.  The sources' mutations leave the status alone, so
  one comparison stands for the two of the vendored code.
\<close>

definition mutate :: "('o \<Rightarrow> string \<times> string) \<Rightarrow> 'o res \<Rightarrow> 'o \<Rightarrow> 'o res" where
  "mutate key r x =
     (case r of
        Inl e \<Rightarrow> Inl e
      | Inr x' \<Rightarrow> if key x' \<noteq> key x then Inl (OtherErr ''MutateFn cannot mutate object name and/or object namespace'')
                 else Inr x')"

definition CreateOrPatchC ::
  "'e apiserver_scheme \<Rightarrow> ('o \<Rightarrow> obj) \<Rightarrow> ('o \<Rightarrow> string \<times> string)
     \<Rightarrow> (string \<Rightarrow> string \<Rightarrow> 'a world_scheme \<Rightarrow> 'o res \<times> 'a world_scheme)
     \<Rightarrow> ('o \<Rightarrow> 'c \<Rightarrow> 'o res \<times> 'c) \<Rightarrow> 'o \<Rightarrow> 'c \<Rightarrow> 'a world_scheme \<Rightarrow> (err \<times> 'c) \<times> 'a world_scheme" where
  "CreateOrPatchC api wrap key get f x c s =
     (case get (fst (key x)) (snd (key x)) s of
        (Inl e, s1) \<Rightarrow>
          if e \<noteq> NotFound then ((Some e, c), s1)
          else (case f x c of (r, c1) \<Rightarrow>
                case mutate key r x of
                  Inl e' \<Rightarrow> ((Some e', c1), s1)
                | Inr x' \<Rightarrow> (case writeObj api (CCreate (wrap x')) s1 of (e', s2) \<Rightarrow> ((e', c1), s2)))
      | (Inr old, s1) \<Rightarrow>
          (case f old c of (r, c1) \<Rightarrow>
           case mutate key r old of
             Inl e' \<Rightarrow> ((Some e', c1), s1)
           | Inr new \<Rightarrow>
               if new = old then ((None, c1), s1)
               else (case writeObj api (CPatch (wrap new) (wrap old)) s1 of (e', s2) \<Rightarrow> ((e', c1), s2))))"

text \<open>A mutation with no effect but on the object.\<close>

definition CreateOrPatch ::
  "'e apiserver_scheme \<Rightarrow> ('o \<Rightarrow> obj) \<Rightarrow> ('o \<Rightarrow> string \<times> string)
     \<Rightarrow> (string \<Rightarrow> string \<Rightarrow> 'a world_scheme \<Rightarrow> 'o res \<times> 'a world_scheme)
     \<Rightarrow> ('o \<Rightarrow> 'o res) \<Rightarrow> 'o \<Rightarrow> 'a world_scheme \<Rightarrow> err \<times> 'a world_scheme" where
  "CreateOrPatch api wrap key get f x s =
     (case CreateOrPatchC api wrap key get (\<lambda>y c. (f y, c)) x () s of ((e, _), t) \<Rightarrow> (e, t))"

section \<open>Owner references, properties\<close>

lemma referSameObject_refl [simp]: "referSameObject r r"
  by (simp add: referSameObject_def)

lemma upsertOwnerRef_member: "r \<in> set (upsertOwnerRef r os)"
  by (induction os) auto

lemma GetControllerOf_upsert:
  assumes "or_Controller r" and "\<forall>x. GetControllerOf os = Some x \<longrightarrow> referSameObject x r"
  shows "GetControllerOf (upsertOwnerRef r os) = Some r"
  using assms by (induction os) (auto simp: GetControllerOf_def)

lemma upsertOwnerRef_idem: "upsertOwnerRef r (upsertOwnerRef r os) = upsertOwnerRef r os"
  by (induction os) auto

lemma SetControllerReference_Inr:
  assumes "SetControllerReference dc ns os = Inr os'"
  shows "GetControllerOf os' = Some (controllerRef dc)" and "os' = upsertOwnerRef (controllerRef dc) os"
    and "validateOwner dc ns = None"
  using assms
  by (auto simp: SetControllerReference_def controllerRef_def
      split: option.splits if_splits intro!: GetControllerOf_upsert)

lemma SetControllerReference_idem:
  assumes "SetControllerReference dc ns os = Inr os'"
  shows "SetControllerReference dc ns os' = Inr os'"
  using SetControllerReference_Inr [OF assms] upsertOwnerRef_idem
  by (simp add: SetControllerReference_def)

section \<open>The contract of a builder\<close>

text \<open>
  \<open>desired dc\<close> is the mutation a handler passes to \<open>CreateOrPatch\<close>.  It keeps the identity of the
  object, makes the DeviceConfig its controller (where the object is enabled), and applied to its own result changes nothing.
  From that follows what a handler does to the cluster: it writes only an object the DeviceConfig
  controls, under the name it was given, and once the server holds the desired object it does not
  write at all.
\<close>

locale operand =
  fixes enabled :: "DeviceConfig \<Rightarrow> bool"
    and key :: "'o \<Rightarrow> string \<times> string"
    and owners :: "'o \<Rightarrow> OwnerReference list"
    and desired :: "DeviceConfig \<Rightarrow> 'o \<Rightarrow> 'o res"
  assumes desired_key: "desired dc x = Inr y \<Longrightarrow> key y = key x"
    and desired_owned: "enabled dc \<Longrightarrow> desired dc x = Inr y \<Longrightarrow> GetControllerOf (owners y) = Some (controllerRef dc)"
    and desired_settled: "desired dc x = Inr y \<Longrightarrow> desired dc y = Inr y"
begin

lemma mutate_desired: "mutate key (desired dc x) x = desired dc x"
  by (auto simp: mutate_def desired_key split: sum.splits)

lemma CreateOrPatch_desired:
  "CreateOrPatch api wrap key get (desired dc) x s =
     (case get (fst (key x)) (snd (key x)) s of
        (Inl e, s1) \<Rightarrow>
          if e \<noteq> NotFound then (Some e, s1)
          else (case desired dc x of
                  Inl e' \<Rightarrow> (Some e', s1)
                | Inr x' \<Rightarrow> writeObj api (CCreate (wrap x')) s1)
      | (Inr old, s1) \<Rightarrow>
          (case desired dc old of
             Inl e' \<Rightarrow> (Some e', s1)
           | Inr new \<Rightarrow>
               if new = old then (None, s1) else writeObj api (CPatch (wrap new) (wrap old)) s1))"
  by (simp add: CreateOrPatch_def CreateOrPatchC_def mutate_desired writeObj_def split: prod.splits sum.splits)

lemma settled_quiet:
  assumes "get (fst (key x)) (snd (key x)) s = (Inr old, s1)" and "desired dc old = Inr old"
  shows "CreateOrPatch api wrap key get (desired dc) x s = (None, s1)"
  using assms by (simp add: CreateOrPatch_desired)

lemma after_write_quiet:
  assumes "get (fst (key x)) (snd (key x)) s = (Inr y, s1)" and "desired dc z = Inr y"
  shows "CreateOrPatch api wrap key get (desired dc) x s = (None, s1)"
  using assms by (simp add: CreateOrPatch_desired desired_settled)

lemma writes_owned:
  assumes "\<And>ns n t. snd (get ns n t) = logCall (CGet k ns n) t" and "enabled dc"
    and "CreateOrPatch api wrap key get (desired dc) x s = (e, t)"
  shows "hist t = CGet k (fst (key x)) (snd (key x)) # hist s
    \<or> (\<exists>y old. desired dc old = Inr y \<and> GetControllerOf (owners y) = Some (controllerRef dc)
        \<and> hist t = (if fst (get (fst (key x)) (snd (key x)) s) = Inr old
                    then CPatch (wrap y) (wrap old) else CCreate (wrap y))
                   # CGet k (fst (key x)) (snd (key x)) # hist s)"
proof -
  obtain r s1 where g: "get (fst (key x)) (snd (key x)) s = (r, s1)" by fastforce
  with assms(1) [of "fst (key x)" "snd (key x)" s] have h: "hist s1 = CGet k (fst (key x)) (snd (key x)) # hist s"
    by simp
  show ?thesis
  proof (cases r)
    case (Inl e')
    show ?thesis
    proof (cases "e' = NotFound \<and> (\<exists>y. desired dc x = Inr y)")
      case True
      then obtain y where "desired dc x = Inr y" by blast
      with assms(3) g h Inl True desired_owned [OF assms(2) this] show ?thesis
        by (auto simp: CreateOrPatch_desired writeObj_def)
    next
      case False
      with assms(3) g h Inl show ?thesis
        by (auto simp: CreateOrPatch_desired split: sum.splits if_splits)
    qed
  next
    case (Inr old)
    show ?thesis
    proof (cases "desired dc old")
      case (Inl a)
      with assms(3) g h Inr show ?thesis by (auto simp: CreateOrPatch_desired)
    next
      case d: (Inr y)
      with assms(3) g h Inr desired_owned [OF assms(2) d] show ?thesis
        by (auto simp: CreateOrPatch_desired writeObj_def split: if_splits)
    qed
  qed
qed

end

section \<open>Panics\<close>

text \<open>
  A builder that may panic returns an option, \<open>None\<close> being the panic.  Controller-runtime recovers a
  panic of a reconciler and reports it as the reconcile's error.
\<close>

type_synonym 'a pres = "'a res option"

definition recovered :: "'o pres \<Rightarrow> 'o res" where
  "recovered r = (case r of None \<Rightarrow> Inl (OtherErr ''panic [recovered]'') | Some x \<Rightarrow> x)"

section \<open>Idioms of the DaemonSet builders\<close>

definition defaultInitContainerImage :: string where "defaultInitContainerImage = ''busybox:1.36''"

definition initContainerImage :: "DeviceConfig \<Rightarrow> string" where
  "initContainerImage dc = orDefault (cc_InitContainerImage (common dc)) defaultInitContainerImage"

text \<open>The secrets of the common section first, then the component's own.\<close>

definition pullSecrets :: "DeviceConfig \<Rightarrow> LocalObjectReference option \<Rightarrow> LocalObjectReference list" where
  "pullSecrets dc own =
     cc_ImageRegistrySecrets (common dc) @ (case own of None \<Rightarrow> [] | Some r \<Rightarrow> [r])"

text \<open>\<open>GetKernelModuleReadyNodeLabel\<close> and \<open>GetDevicePluginNodeLabel\<close> of the vendored KMM.\<close>

definition GetKernelModuleReadyNodeLabel :: "string \<Rightarrow> string \<Rightarrow> string" where
  "GetKernelModuleReadyNodeLabel ns n = ''kmm.node.kubernetes.io/'' @ ns @ ''.'' @ n @ ''.ready''"

definition GetDevicePluginNodeLabel :: "string \<Rightarrow> string \<Rightarrow> string" where
  "GetDevicePluginNodeLabel ns n = ''kmm.node.kubernetes.io/'' @ ns @ ''.'' @ n @ ''.device-plugin-ready''"

definition copyMap :: "smap \<Rightarrow> smap" where
  "copyMap m = fold (\<lambda>(k, v) acc. store k v acc) m []"

definition withReadyLabel :: "DeviceConfig \<Rightarrow> smap \<Rightarrow> smap" where
  "withReadyLabel dc m =
     (if ShouldUseKMM (Some dc)
      then store (GetKernelModuleReadyNodeLabel (dc_Namespace dc) (dc_Name dc)) [] m else m)"

text \<open>The component's selector when it has one, else the DeviceConfig's.\<close>

definition componentSelector :: "DeviceConfig \<Rightarrow> smap option \<Rightarrow> smap" where
  "componentSelector dc own =
     withReadyLabel dc (case own of Some m \<Rightarrow> copyMap m | None \<Rightarrow> copyMap (selectorOf dc))"

definition toInt32 :: "int \<Rightarrow> int" where
  "toInt32 i = (i + 2 ^ 31) mod 2 ^ 32 - 2 ^ 31"

definition updateStrategy :: "DaemonSetUpgradeSpec option \<Rightarrow> UpdateStrategy" where
  "updateStrategy up =
     (case up of
        None \<Rightarrow> StrategyUnset
      | Some u \<Rightarrow> if du_UpgradeStrategy u = ''OnDelete'' then OnDelete
                  else RollingUpdate (toInt32 (du_MaxUnavailable u)))"

definition hostPath :: "string \<Rightarrow> string \<Rightarrow> string option \<Rightarrow> Volume" where
  "hostPath n p t = \<lparr>vol_Name = n, vol_Source = HostPathSource p t\<rparr>"

definition mount :: "string \<Rightarrow> string \<Rightarrow> VolumeMount" where
  "mount n p = \<lparr>vm_Name = n, vm_MountPath = p, vm_ReadOnly = False\<rparr>"

definition fieldEnv :: "string \<Rightarrow> string \<Rightarrow> EnvVar" where
  "fieldEnv n p = \<lparr>ev_Name = n, ev_Source = EnvFieldRef p\<rparr>"

definition valueEnv :: "string \<Rightarrow> string \<Rightarrow> EnvVar" where
  "valueEnv n v = \<lparr>ev_Name = n, ev_Source = EnvValue v\<rparr>"

definition dirType :: "string option" where "dirType = Some ''Directory''"
definition dirOrCreate :: "string option" where "dirOrCreate = Some ''DirectoryOrCreate''"

definition dq :: string where "dq = [CHR 0x22]"
definition nl :: string where "nl = [CHR 0x0A]"

text \<open>The loops the init containers wait in, with the directory the host's \<open>/sys\<close> is mounted at.\<close>

definition waitForAmdgpu :: "string \<Rightarrow> string" where
  "waitForAmdgpu sys = ''while [ ! -d '' @ sys @ ''/class/kfd ] || [ ! -d '' @ sys
     @ ''/module/amdgpu/drivers/ ]; do echo '' @ dq @ ''amdgpu driver is not loaded '' @ dq
     @ ''; sleep 2 ;done''"

definition waitForGim :: "string \<Rightarrow> string" where
  "waitForGim sys = ''while [ ! -d '' @ sys @ ''/module/gim/drivers/ ]; do echo '' @ dq
     @ ''gim driver is not loaded '' @ dq @ ''; sleep 2 ;done''"

definition unlessSimulated :: string where
  "unlessSimulated = ''if [ '' @ dq @ ''$SIM_ENABLE'' @ dq @ '' = '' @ dq @ ''true'' @ dq
     @ '' ]; then exit 0; fi; ''"

text \<open>The command of the init container by driver type.\<close>

definition driverCheck :: "DeviceConfig \<Rightarrow> string \<Rightarrow> string \<Rightarrow> string" where
  "driverCheck dc pre sys =
     (let t = d_DriverType (driver dc) in
      if t = DriverTypeVFPassthrough then pre @ waitForGim sys
      else if t = DriverTypePFPassthrough then ''true''
      else pre @ waitForAmdgpu sys)"

text \<open>The init container of the exporter, the test runner and the configuration manager.\<close>

definition simInitContainer :: "'e apiserver_scheme \<Rightarrow> DeviceConfig \<Rightarrow> ContainerSpec" where
  "simInitContainer api dc = zeroContainer\<lparr>k_Name := ''driver-init'', k_Image := initContainerImage dc,
     k_Command := [''sh'', ''-c'', driverCheck dc unlessSimulated ''/host-sys''],
     k_Security := privileged, k_VolumeMounts := [mount ''sys-volume'' ''/host-sys''],
     k_Env := [valueEnv ''SIM_ENABLE'' (case o_getenv api ''SIM_ENABLE'' of None \<Rightarrow> [] | Some v \<Rightarrow> v)]\<rparr>"

text \<open>A builder assigns the whole spec and then takes the controller reference.\<close>

definition finishDaemonSet :: "DeviceConfig \<Rightarrow> DaemonSetSpec \<Rightarrow> DaemonSet \<Rightarrow> DaemonSet res" where
  "finishDaemonSet dc sp ds =
     map_sum id (\<lambda>os. ds\<lparr>dset_Spec := sp, dset_Owners := os\<rparr>)
       (SetControllerReference dc (dset_Namespace ds) (dset_Owners ds))"

abbreviation dsKey :: "DaemonSet \<Rightarrow> string \<times> string" where
  "dsKey ds \<equiv> (dset_Namespace ds, dset_Name ds)"

text \<open>Every DaemonSet builder of this shape satisfies the contract.\<close>

lemma finishDaemonSet_Inr:
  assumes "finishDaemonSet dc sp ds = Inr ds'"
  shows "dsKey ds' = dsKey ds" and "GetControllerOf (dset_Owners ds') = Some (controllerRef dc)"
    and "dset_Spec ds' = sp" and "finishDaemonSet dc sp ds' = Inr ds'"
proof -
  from assms obtain os where os: "SetControllerReference dc (dset_Namespace ds) (dset_Owners ds) = Inr os"
    and ds': "ds' = ds\<lparr>dset_Spec := sp, dset_Owners := os\<rparr>"
    by (cases "SetControllerReference dc (dset_Namespace ds) (dset_Owners ds)")
      (auto simp: finishDaemonSet_def)
  from SetControllerReference_idem [OF os] SetControllerReference_Inr [OF os] ds'
  show "dsKey ds' = dsKey ds" and "GetControllerOf (dset_Owners ds') = Some (controllerRef dc)"
    and "dset_Spec ds' = sp" and "finishDaemonSet dc sp ds' = Inr ds'"
    by (simp_all add: finishDaemonSet_def)
qed

lemma daemonset_operand: "operand (\<lambda>_. True) dsKey dset_Owners (\<lambda>dc. finishDaemonSet dc (sp dc))"
  by unfold_locales (auto dest: finishDaemonSet_Inr)

section \<open>Properties of the idioms\<close>

lemma lookup_copyMap_gen:
  "lookup (fold (\<lambda>(k, v) acc. store k v acc) m acc) k =
     (case lookup (rev m) k of Some v \<Rightarrow> Some v | None \<Rightarrow> lookup acc k)"
  by (induction m arbitrary: acc) (auto simp: map_add_def split: option.splits)

lemma lookup_copyMap: "lookup (copyMap m) k = lookup (rev m) k"
  by (simp add: copyMap_def lookup_copyMap_gen split: option.splits)

lemma toInt32_small: "- (2 ^ 31) \<le> i \<Longrightarrow> i < 2 ^ 31 \<Longrightarrow> toInt32 i = i"
  by (simp add: toInt32_def)

lemma withReadyLabel_lookup:
  "ShouldUseKMM (Some dc) \<Longrightarrow>
     lookup (withReadyLabel dc m) (GetKernelModuleReadyNodeLabel (dc_Namespace dc) (dc_Name dc)) = Some []"
  by (simp add: withReadyLabel_def)

end
