(* ===== verification/Kmm_Module.thy ===== *)
theory Kmm_Module
  imports Operand_Base "HOL-Library.List_Lexorder" "HOL-Library.Char_ord" "HOL-Library.Multiset"
begin

text \<open>
  \<open>src/internal/kmmmodule/kmmmodule.go\<close>: the KMM \<open>Module\<close> that builds and loads the driver, the
  ConfigMaps with the Dockerfiles it builds from, and the version labels on the nodes.  The embedded
  Dockerfile templates are the argument \<open>dockerfiles\<close>; an index out of range is a panic.
\<close>

section \<open>Names of operating systems\<close>

definition ubuntuCMNameMapper :: "string \<Rightarrow> string option" where
  "ubuntuCMNameMapper s =
     (case splitChar CHR '' '' s of
        os # ver # _ \<Rightarrow>
          (case splitChar CHR ''.'' ver of
             major # minor # _ \<Rightarrow> Some (os @ ''-'' @ major @ ''.'' @ minor)
           | _ \<Rightarrow> None)
      | _ \<Rightarrow> None)"

definition rhelCMNameMapper :: "string \<Rightarrow> string option" where
  "rhelCMNameMapper s =
     (case findMatch matchMajorMinor s of
        Some (a, b) \<Rightarrow> Some (''rhel-'' @ a @ ''.'' @ b)
      | None \<Rightarrow> Some (''rhel-'' @ s))"

definition rhelCoreOSNameMapper :: "string \<Rightarrow> string option" where
  "rhelCoreOSNameMapper s =
     (case findMatch matchMajorMinor s of
        Some (a, b) \<Rightarrow> Some (''coreos-'' @ a @ ''.'' @ b)
      | None \<Rightarrow> Some (''coreos-'' @ s))"

definition slesCMNameMapper :: "string \<Rightarrow> string option" where
  "slesCMNameMapper s =
     (let lower = toLower s in
      case findMatch matchSP lower of
        Some (a, b) \<Rightarrow> Some (''sles-'' @ a @ ''.'' @ b)
      | None \<Rightarrow> (case findMatch matchMajorMinor lower of
          Some (a, b) \<Rightarrow> Some (''sles-'' @ a @ ''.'' @ b)
        | None \<Rightarrow> Some (''sles-'' @ lower)))"

type_synonym cmMapper = "string \<Rightarrow> string option"

definition cmNameMappers :: "cmMapper gomap" where
  "cmNameMappers =
     [(''ubuntu'', ubuntuCMNameMapper), (''coreos'', rhelCoreOSNameMapper), (''rhel'', rhelCMNameMapper),
      (''red hat'', rhelCMNameMapper), (''redhat'', rhelCMNameMapper), (''sles'', slesCMNameMapper),
      (''suse'', slesCMNameMapper)]"

fun firstOS :: "cmMapper gomap \<Rightarrow> string list \<Rightarrow> string \<Rightarrow> string pres" where
  "firstOS table [] s = Some (Inl (OtherErr (''OS: '' @ s @ '' not supported'')))"
| "firstOS table (os # keys) s =
     (if containsStr s os then
        (case lookup table os of Some f \<Rightarrow> map_option Inr (f s) | None \<Rightarrow> None)
      else firstOS table keys s)"

definition GetOSName :: "cmMapper gomap \<Rightarrow> Node \<Rightarrow> string pres" where
  "GetOSName table node = firstOS table (sort (map fst table)) (toLower (n_OSImage node))"

definition GetCMName :: "string \<Rightarrow> DeviceConfig \<Rightarrow> string" where
  "GetCMName osName dc = osName @ ''-'' @ dc_Name dc @ ''-'' @ dc_Namespace dc"

section \<open>RHEL versions of CoreOS images\<close>

definition isWordChar :: "char \<Rightarrow> bool" where
  "isWordChar c = (let n = (of_char c :: nat) in
     48 \<le> n \<and> n \<le> 57 \<or> 65 \<le> n \<and> n \<le> 90 \<or> 97 \<le> n \<and> n \<le> 122 \<or> n = 95)"

text \<open>
  \<open>\d+-\d+\b\<close> at the start of a string, and the two patterns of \<open>parseRHELVersion\<close> after their leading
  \<open>\b\<close>.  The digit runs are delimited by other characters, so each is taken whole.
\<close>

definition buildSuffix :: "string \<Rightarrow> bool" where
  "buildSuffix s =
     (let (d1, r1) = spanDigits s; (d2, r2) = spanDigits (drop 1 r1) in
      d1 \<noteq> [] \<and> hasPrefix r1 ''-'' \<and> d2 \<noteq> [] \<and> (case r2 of [] \<Rightarrow> True | c # _ \<Rightarrow> \<not> isWordChar c))"

definition matchLegacy :: "string \<Rightarrow> (string \<times> string) option" where
  "matchLegacy s =
     (let (d1, r1) = spanDigits s; (d2, r2) = spanDigits (drop 1 r1) in
      if hasPrefix d1 ''4'' \<and> length d1 \<ge> 2 \<and> hasPrefix r1 ''.'' \<and> length d2 \<ge> 2 \<and> hasPrefix r2 ''.''
         \<and> buildSuffix (drop 1 r2)
      then Some (take 1 d2, drop 1 d2) else None)"

definition matchModern :: "string \<Rightarrow> (string \<times> string) option" where
  "matchModern s =
     (let (d1, r1) = spanDigits s; (d2, r2) = spanDigits (drop 1 r1) in
      if d1 \<noteq> [] \<and> hasPrefix r1 ''.'' \<and> d2 \<noteq> [] \<and> hasPrefix r2 ''.'' \<and> buildSuffix (drop 1 r2)
      then Some (d1, d2) else None)"

text \<open>The leftmost match at a word boundary; \<open>w\<close> tells whether the previous character is a word character.\<close>

fun findAtBoundary :: "(string \<Rightarrow> 'a option) \<Rightarrow> bool \<Rightarrow> string \<Rightarrow> 'a option" where
  "findAtBoundary m w [] = None"
| "findAtBoundary m w (c # s) =
     (case (if w then None else m (c # s)) of
        Some r \<Rightarrow> Some r
      | None \<Rightarrow> findAtBoundary m (isWordChar c) s)"

definition nfdOSReleaseLabelKey :: string where
  "nfdOSReleaseLabelKey = ''feature.node.kubernetes.io/system-os_release.VERSION_ID''"
definition nfdOSReleaseCoreOSLabelKey :: string where
  "nfdOSReleaseCoreOSLabelKey = ''feature.node.kubernetes.io/system-os_release.RHEL_VERSION''"

definition parseRHELVersion :: "smap \<Rightarrow> string \<Rightarrow> string" where
  "parseRHELVersion labels osImage =
     (case lookup labels nfdOSReleaseCoreOSLabelKey of
        Some v \<Rightarrow> v
      | None \<Rightarrow> (case lookup labels nfdOSReleaseLabelKey of
          Some v \<Rightarrow> v
        | None \<Rightarrow> (case findAtBoundary matchLegacy False osImage of
            Some (a, b) \<Rightarrow> a @ ''.'' @ b
          | None \<Rightarrow> (case findAtBoundary matchModern False osImage of
              Some (a, b) \<Rightarrow> a @ ''.'' @ b
            | None \<Rightarrow> []))))"

section \<open>Dockerfiles\<close>

record dockerfiles =
  df_Ubuntu :: string
  df_CoreOSFromSrcImage :: string
  df_CoreOSFromRPM :: string
  df_SLES :: string
  df_DevUbuntu :: string
  df_GIMUbuntu :: string
  df_GIMCoreOS :: string

definition driverLabels :: smap where
  "driverLabels = [(''20.04'', ''focal''), (''22.04'', ''jammy''), (''24.04'', ''noble'')]"

definition coreOSTemplate :: "dockerfiles \<Rightarrow> DeviceConfig \<Rightarrow> string" where
  "coreOSTemplate df dc =
     (if d_DriverType (driver dc) = DriverTypeVFPassthrough then df_GIMCoreOS df
      else if isTrue (d_UseSourceImage (driver dc)) then df_CoreOSFromSrcImage df
      else df_CoreOSFromRPM df)"

text \<open>
  An internal build names four items in the repository URL; the first replaces the URL in the
  DeviceConfig that the caller goes on with.
\<close>

definition withRepoURL :: "string \<Rightarrow> DeviceConfig \<Rightarrow> DeviceConfig" where
  "withRepoURL u dc = dc\<lparr>dc_Spec := (dc_Spec dc)\<lparr>s_Driver := (driver dc)\<lparr>d_AMDGPUInstallerRepoURL := u\<rparr>\<rparr>\<rparr>"

definition isInternalBuild :: "'e apiserver_scheme \<Rightarrow> DeviceConfig \<Rightarrow> bool" where
  "isInternalBuild api dc =
     (case o_getenv api ''INTERNAL_ARTIFACTORY'' of
        None \<Rightarrow> False
      | Some u \<Rightarrow> containsStr (toLower (d_AMDGPUInstallerRepoURL (driver dc))) u)"

definition devTemplate :: "dockerfiles \<Rightarrow> DeviceConfig \<Rightarrow> string res \<times> DeviceConfig" where
  "devTemplate df dc =
     (case splitChar CHR '' '' (d_AMDGPUInstallerRepoURL (driver dc)) of
        url # deb # amdgpu # rocm # _ \<Rightarrow>
          (Inr (replaceAll (replaceAll (replaceAll (df_DevUbuntu df) ''$$DEV_DEB'' deb)
                  ''$$AMDGPU_BUILD'' amdgpu) ''$$ROCM_BUILD'' rocm),
           withRepoURL url dc)
      | _ \<Rightarrow> (Inl (OtherErr ''please provide internal build info, required 4 items''), dc))"

definition ubuntuTemplate ::
  "'e apiserver_scheme \<Rightarrow> dockerfiles \<Rightarrow> string \<Rightarrow> DeviceConfig \<Rightarrow> string res \<times> DeviceConfig" where
  "ubuntuTemplate api df ver dc =
     (case lookup driverLabels ver of
        None \<Rightarrow> (Inl (OtherErr ''invalid ubuntu version''), dc)
      | Some label \<Rightarrow>
          let base = (if d_DriverType (driver dc) = DriverTypeVFPassthrough then df_GIMUbuntu df else df_Ubuntu df);
              (t, dc1) = (if isInternalBuild api dc then devTemplate df dc
                          else (Inr (replaceAll base ''$$DRIVER_LABEL'' label), dc));
              ci = (\<lambda>x. case (o_getenv api ''CI_ENV'', o_getenv api ''INTERNAL_UBUNTU_BASE'') of
                      (Some _, Some b) \<Rightarrow> replaceAll x ''$$BASEIMG_REGISTRY/ubuntu:$$VERSION'' (b @ '':$$VERSION'')
                    | _ \<Rightarrow> x)
          in (map_sum id ci t, dc1))"

definition baseRegistry :: "string \<Rightarrow> DeviceConfig \<Rightarrow> string" where
  "baseRegistry osDistro dc =
     orDefault (ib_BaseImageRegistry (d_ImageBuild (driver dc)))
       (if osDistro = ''sles'' then ''registry.suse.com'' else ''docker.io'')"

definition resolveDockerfile ::
  "'e apiserver_scheme \<Rightarrow> dockerfiles \<Rightarrow> string \<Rightarrow> DeviceConfig \<Rightarrow> string pres \<times> DeviceConfig" where
  "resolveDockerfile api df cmName dc =
     (case splitChar CHR ''-'' cmName of
        osDistro # ver # _ \<Rightarrow>
          (case (if osDistro = ''ubuntu'' then ubuntuTemplate api df ver dc
                 else if osDistro = ''coreos'' then (Inr (coreOSTemplate df dc), dc)
                 else if osDistro = ''sles'' then (Inr (df_SLES df), dc)
                 else (Inl (OtherErr (''not supported OS: '' @ osDistro)), dc)) of
             (t, dc1) \<Rightarrow>
               (Some (map_sum id (\<lambda>x. replaceAll (replaceAll x ''$$BASEIMG_REGISTRY'' (baseRegistry osDistro dc1))
                                       ''$$VERSION'' ver) t), dc1))
      | _ \<Rightarrow> (None, dc))"

definition SetBuildConfigMapAsDesired ::
  "'e apiserver_scheme \<Rightarrow> dockerfiles \<Rightarrow> bool \<Rightarrow> BuildConfigMap \<Rightarrow> DeviceConfig
     \<Rightarrow> BuildConfigMap pres \<times> DeviceConfig" where
  "SetBuildConfigMapAsDesired api df openshift cm dc =
     (case (if openshift then (Some (Inr (coreOSTemplate df dc)), dc)
            else resolveDockerfile api df (bcm_Name cm) dc) of
        (None, dc1) \<Rightarrow> (None, dc1)
      | (Some (Inl e), dc1) \<Rightarrow> (Some (Inl e), dc1)
      | (Some (Inr text), dc1) \<Rightarrow>
          (Some (map_sum id (\<lambda>os. cm\<lparr>bcm_Data := store ''dockerfile'' text (bcm_Data cm), bcm_Owners := os\<rparr>)
             (SetControllerReference dc1 (bcm_Namespace cm) (bcm_Owners cm))), dc1))"

section \<open>Version labels\<close>

definition GetVersionLabelKV :: "DeviceConfig \<Rightarrow> string \<times> string" where
  "GetVersionLabelKV dc =
     (''kmm.node.kubernetes.io/version-module.'' @ dc_Namespace dc @ ''.'' @ dc_Name dc, d_Version (driver dc))"

text \<open>
  The label's value is a variable of the whole loop: once set to the default version of one node, it
  is used for the nodes after it.
\<close>

fun setVersionLabels ::
  "'e apiserver_scheme \<Rightarrow> (call list \<Rightarrow> mapper gomap) \<Rightarrow> string \<Rightarrow> string \<Rightarrow> Node list \<Rightarrow> 'a world_scheme
     \<Rightarrow> err \<times> 'a world_scheme" where
  "setVersionLabels api mappers key val [] s = (None, s)"
| "setVersionLabels api mappers key val (node # nodes) s =
     (if hasKey (n_Labels node) key then setVersionLabels api mappers key val nodes s
      else
        let val' = (if val = [] then
                      (case GetDefaultDriversVersion (mappers (hist s)) node of Inl _ \<Rightarrow> [] | Inr v \<Rightarrow> v)
                    else val)
        in case writeObj api (CPatch (ONode (node\<lparr>n_Labels := store key val' (n_Labels node)\<rparr>)) (ONode node)) s of
             (Some e, s1) \<Rightarrow> (Some e, s1)
           | (None, s1) \<Rightarrow> setVersionLabels api mappers key val' nodes s1)"

definition SetNodeVersionLabelAsDesired ::
  "'e apiserver_scheme \<Rightarrow> (call list \<Rightarrow> mapper gomap) \<Rightarrow> DeviceConfig \<Rightarrow> Node list \<Rightarrow> 'a world_scheme
     \<Rightarrow> err \<times> 'a world_scheme" where
  "SetNodeVersionLabelAsDesired api mappers dc nodes s =
     (case GetVersionLabelKV dc of (key, val) \<Rightarrow> setVersionLabels api mappers key val nodes s)"

section \<open>Kernel mappings\<close>

definition slesCSDGAKernel :: smap where
  "slesCSDGAKernel = [(''15.7'', ''6.4.0-150700.51''), (''16.0'', ''6.12.0-160000.5'')]"

definition slesPrebuiltDriverImage :: "string \<Rightarrow> string \<Rightarrow> string \<Rightarrow> string option" where
  "slesPrebuiltDriverImage codestream driverVersion customRepo =
     map_option (\<lambda>ga. orDefault customRepo ''registry.suse.com/third-party/amd/amdgpu-driver''
         @ '':sles-'' @ codestream @ ''-'' @ ga @ ''-default-'' @ driverVersion)
       (lookup slesCSDGAKernel codestream)"

definition imageTag :: "string \<Rightarrow> string \<Rightarrow> DeviceConfig \<Rightarrow> string" where
  "imageTag osName driversVersion dc =
     (let tag = osName @ ''-${KERNEL_FULL_VERSION}'' @ GetDriverTypeTag dc @ ''-'' @ driversVersion in
      if length tag > 128 then drop (length tag - 128) tag else tag)"

definition addNodeInfoSuffixToImageTag :: "string \<Rightarrow> string \<Rightarrow> string \<Rightarrow> DeviceConfig \<Rightarrow> string" where
  "addNodeInfoSuffixToImageTag imgStr osName driversVersion dc = imgStr @ '':'' @ imageTag osName driversVersion dc"

definition kmod :: "string \<Rightarrow> string \<Rightarrow> string" where
  "kmod kv path = ''/opt/lib/modules/'' @ kv @ path"

definition openShiftKmods :: "string list" where
  "openShiftKmods = [''/extra/amdgpu.ko'', ''/extra/amdkcl.ko'', ''/extra/amdxcp.ko'', ''/extra/amd-sched.ko'',
     ''/extra/amdttm.ko'', ''/extra/amddrm_buddy.ko'', ''/extra/amddrm_ttm_helper.ko'',
     ''/kernel/drivers/gpu/drm/drm_exec.ko'', ''/kernel/drivers/gpu/drm/drm_suballoc_helper.ko'',
     ''/kernel/drivers/gpu/drm/display/drm_display_helper.ko'', ''/kernel/drivers/acpi/video.ko'',
     ''/kernel/drivers/platform/x86/wmi.ko'', ''/kernel/drivers/i2c/algos/i2c-algo-bit.ko'',
     ''/kernel/drivers/media/cec/core/cec.ko'', ''/kernel/drivers/gpu/drm/drm_kms_helper.ko'',
     ''/kernel/drivers/video/fbdev/core/syscopyarea.ko'', ''/kernel/drivers/video/fbdev/core/sysfillrect.ko'',
     ''/kernel/drivers/video/fbdev/core/sysimgblt.ko'', ''/kernel/drivers/video/fbdev/core/fb_sys_fops.ko'',
     ''/kernel/drivers/gpu/drm/drm.ko'']"

definition getKmodsToSign :: "bool \<Rightarrow> string \<Rightarrow> DeviceConfig \<Rightarrow> string list" where
  "getKmodsToSign openshift kv dc =
     (let vf = (d_DriverType (driver dc) = DriverTypeVFPassthrough) in
      map (kmod kv)
        (if openshift then (if vf then [''/extra/gim.ko''] else openShiftKmods)
         else if vf then [''/updates/dkms/gim.ko'']
         else [''/updates/dkms/amdkcl.ko'', ''/updates/dkms/amdttm.ko'', ''/updates/dkms/amdgpu.ko'',
               ''/updates/dkms/amdxcp.ko'', ''/updates/dkms/amd-sched.ko'', ''/updates/dkms/amddrm_buddy.ko'',
               ''/updates/dkms/amddrm_ttm_helper.ko'']))"

definition registryTLS :: "DeviceConfig \<Rightarrow> TLSOptions option" where
  "registryTLS dc =
     (let t = d_ImageRegistryTLS (driver dc) in
      if isTrue (tls_Insecure t) \<or> isTrue (tls_InsecureSkipTLSVerify t)
      then Some \<lparr>tlso_Insecure = isTrue (tls_Insecure t),
                 tlso_InsecureSkipTLSVerify = isTrue (tls_InsecureSkipTLSVerify t)\<rparr>
      else None)"

definition kmmSign :: "bool \<Rightarrow> Node \<Rightarrow> DeviceConfig \<Rightarrow> KmmSign option" where
  "kmmSign openshift node dc =
     (case (is_KeySecret (d_ImageSign (driver dc)), is_CertSecret (d_ImageSign (driver dc))) of
        (Some k, Some c) \<Rightarrow> Some \<lparr>sg_KeySecret = k, sg_CertSecret = c,
          sg_FilesToSign = getKmodsToSign openshift (n_KernelVersion node) dc,
          sg_UnsignedImageRegistryTLS = (case registryTLS dc of
             None \<Rightarrow> \<lparr>tlso_Insecure = False, tlso_InsecureSkipTLSVerify = False\<rparr> | Some t \<Rightarrow> t)\<rparr>
      | _ \<Rightarrow> None)"

definition baseImageTLS :: "'e apiserver_scheme \<Rightarrow> DeviceConfig \<Rightarrow> TLSOptions" where
  "baseImageTLS api dc =
     (let t = ib_BaseImageRegistryTLS (d_ImageBuild (driver dc)) in
      if o_getenv api ''CI_ENV'' \<noteq> None \<or> d_DriverType (driver dc) = DriverTypeVFPassthrough
      then \<lparr>tlso_Insecure = True, tlso_InsecureSkipTLSVerify = True\<rparr>
      else \<lparr>tlso_Insecure = isTrue (tls_Insecure t),
            tlso_InsecureSkipTLSVerify = isTrue (tls_InsecureSkipTLSVerify t)\<rparr>)"

definition optArg :: "string \<Rightarrow> string \<Rightarrow> (string \<times> string) list" where
  "optArg n v = (if v \<noteq> [] then [(n, v)] else [])"

text \<open>The argument naming the prebuilt SLES image, empty for the other systems.\<close>

definition slesArgs :: "string \<Rightarrow> string \<Rightarrow> DeviceConfig \<Rightarrow> (string \<times> string) list res" where
  "slesArgs osName driversVersion dc =
     (if hasPrefix osName ''sles-'' then
        (let cs = drop (length ''sles-'') osName; reg = ib_BaseImageRegistry (d_ImageBuild (driver dc)) in
         case slesPrebuiltDriverImage cs driversVersion
                (if reg \<noteq> [] then reg @ ''/third-party/amd/amdgpu-driver'' else []) of
           None \<Rightarrow> Inl (OtherErr (''no prebuilt driver image registered for SLES codestream '' @ dq @ cs @ dq))
         | Some img \<Rightarrow> Inr [(''SUSE_PREBUILT_DRIVER_IMG'', img)])
      else Inr [])"

definition openShiftArgs :: "bool \<Rightarrow> Node \<Rightarrow> DeviceConfig \<Rightarrow> (string \<times> string) list" where
  "openShiftArgs openshift node dc =
     (if openshift then
        optArg ''RHEL_VERSION'' (parseRHELVersion (n_Labels node) (n_OSImage node))
        @ [(''SOURCE_IMAGE_REPO'',
            orDefault (ib_SourceImageRepo (d_ImageBuild (driver dc))) ''docker.io/rocm/amdgpu-driver'')]
      else [])"

text \<open>The version the mapping is built for: the DeviceConfig's, else the platform's default.\<close>

definition mappingVersion :: "mapper gomap \<Rightarrow> bool \<Rightarrow> Node \<Rightarrow> DeviceConfig \<Rightarrow> string res" where
  "mappingVersion mappers openshift node dc =
     (if d_Version (driver dc) \<noteq> [] then Inr (d_Version (driver dc))
      else if openshift then Inr defaultOcDriversVersion
      else map_sum OtherErr id (GetDefaultDriversVersion mappers node))"

definition driversImageOf :: "bool \<Rightarrow> DeviceConfig \<Rightarrow> string" where
  "driversImageOf openshift dc =
     orDefault (d_Image (driver dc))
       (if openshift then ''image-registry.openshift-image-registry.svc:5000/$MOD_NAMESPACE/amdgpu_kmod''
        else ''image-registry:5000/$MOD_NAMESPACE/amdgpu_kmod'')"

definition kmmBuild ::
  "'e apiserver_scheme \<Rightarrow> bool \<Rightarrow> Node \<Rightarrow> DeviceConfig \<Rightarrow> string \<Rightarrow> string \<Rightarrow> (string \<times> string) list \<Rightarrow> KmmBuild" where
  "kmmBuild api openshift node dc osName v sles =
     \<lparr>bd_DockerfileConfigMap = \<lparr>lor_Name = GetCMName osName dc\<rparr>,
      bd_BuildArgs =
        [(''DRIVERS_VERSION'', v),
         (''REPO_URL'', orDefault (d_AMDGPUInstallerRepoURL (driver dc)) ''https://repo.radeon.com'')]
        @ optArg ''PACKAGE_REPO_URL'' (ib_PackageRepoURL (d_ImageBuild (driver dc)))
        @ optArg ''GPG_KEY_URL'' (ib_GPGKeyURL (d_ImageBuild (driver dc)))
        @ openShiftArgs openshift node dc @ sles,
      bd_BaseImageRegistryTLS = baseImageTLS api dc\<rparr>"

definition getKM ::
  "'e apiserver_scheme \<Rightarrow> mapper gomap \<Rightarrow> DeviceConfig \<Rightarrow> Node \<Rightarrow> string \<Rightarrow> bool
     \<Rightarrow> (KernelMapping \<times> string) pres" where
  "getKM api mappers dc node inTree openshift =
     (case GetOSName cmNameMappers node of
        None \<Rightarrow> None
      | Some (Inl e) \<Rightarrow> Some (Inl e)
      | Some (Inr osName) \<Rightarrow>
          (case mappingVersion mappers openshift node dc of
             Inl e \<Rightarrow> Some (Inl e)
           | Inr v \<Rightarrow>
               (case slesArgs osName v dc of
                  Inl e \<Rightarrow> Some (Inl e)
                | Inr sles \<Rightarrow> Some (Inr
                    (\<lparr>kmp_Literal = trimSuffix (n_KernelVersion node) ''+'',
                      kmp_ContainerImage = addNodeInfoSuffixToImageTag (driversImageOf openshift dc) osName v dc,
                      kmp_InTreeModuleToRemove = inTree,
                      kmp_Build = kmmBuild api openshift node dc osName v sles,
                      kmp_Sign = kmmSign openshift node dc, kmp_RegistryTLS = registryTLS dc\<rparr>, v)))))"

text \<open>
  The loop over the nodes: a node whose mapping fails is skipped, one whose kernel is already mapped
  too; the version returned is that of the last mapping added.
\<close>

fun collectKM ::
  "'e apiserver_scheme \<Rightarrow> mapper gomap \<Rightarrow> DeviceConfig \<Rightarrow> bool \<Rightarrow> Node list \<Rightarrow> KernelMapping list \<Rightarrow> string
     \<Rightarrow> (KernelMapping list \<times> string) option" where
  "collectKM api mappers dc openshift [] kms v = Some (kms, v)"
| "collectKM api mappers dc openshift (node # nodes) kms v =
     (case getKM api mappers dc node [] openshift of
        None \<Rightarrow> None
      | Some (Inl _) \<Rightarrow> collectKM api mappers dc openshift nodes kms v
      | Some (Inr (k, w)) \<Rightarrow>
          if kmp_Literal k \<in> kmp_Literal ` set kms then collectKM api mappers dc openshift nodes kms v
          else collectKM api mappers dc openshift nodes (kms @ [k]) w)"

definition MapToLabelSelector :: "smap \<Rightarrow> string" where
  "MapToLabelSelector m = joinStr '','' (map (\<lambda>(k, v). k @ ''='' @ v) m)"

definition getKernelMappings ::
  "'e apiserver_scheme \<Rightarrow> mapper gomap \<Rightarrow> DeviceConfig \<Rightarrow> bool \<Rightarrow> Node list option
     \<Rightarrow> (KernelMapping list \<times> string) pres" where
  "getKernelMappings api mappers dc openshift nodes =
     (case nodes of
        None \<Rightarrow> Some (Inl (OtherErr (''no nodes found for the label selector '' @ MapToLabelSelector (selectorOf dc))))
      | Some ns \<Rightarrow>
          if ns = [] then
            Some (Inl (OtherErr (''no nodes found for the label selector '' @ MapToLabelSelector (selectorOf dc))))
          else (case collectKM api mappers dc openshift ns [] [] of
                  None \<Rightarrow> None
                | Some (kms, v) \<Rightarrow>
                    if kms = [] then Some (Inl (OtherErr ''failed to build kernel mapping for any selected node''))
                    else Some (Inr (kms, v))))"

section \<open>The module\<close>

definition NodeFeatureLabelAmdGpu :: string where "NodeFeatureLabelAmdGpu = ''feature.node.kubernetes.io/amd-gpu''"
definition NodeFeatureLabelAmdVGpu :: string where "NodeFeatureLabelAmdVGpu = ''feature.node.kubernetes.io/amd-vgpu''"

definition ContainerDriverModuleName :: string where "ContainerDriverModuleName = ''amdgpu''"
definition VFPassthroughDriverModuleName :: string where "VFPassthroughDriverModuleName = ''gim''"

definition getNodeSelector :: "DeviceConfig \<Rightarrow> smap" where
  "getNodeSelector dc =
     (case s_Selector (dc_Spec dc) of Some m \<Rightarrow> m | None \<Rightarrow> [(NodeFeatureLabelAmdGpu, ''true'')])"

definition getModprobeParametersFromNodeInfo :: "Node list \<Rightarrow> DeviceConfig \<Rightarrow> string list" where
  "getModprobeParametersFromNodeInfo nodes dc =
     (let ps = km_Parameters (d_KernelModuleConfig (driver dc)) in
      if ps \<noteq> [] then ps
      else if d_DriverType (driver dc) = DriverTypeContainer
              \<and> list_ex (\<lambda>n. HasNodeLabelKey n NodeFeatureLabelAmdVGpu) nodes
      then [''ip_block_mask=0x7f''] else [])"

definition getModprobeArgs :: "DeviceConfig \<Rightarrow> string list \<times> string list" where
  "getModprobeArgs dc = (km_LoadArgs (d_KernelModuleConfig (driver dc)), km_UnloadArgs (d_KernelModuleConfig (driver dc)))"

definition modprobeOf :: "bool \<Rightarrow> Node list \<Rightarrow> DeviceConfig \<Rightarrow> ModprobeSpec" where
  "modprobeOf openshift nodes dc =
     (let vf = (d_DriverType (driver dc) = DriverTypeVFPassthrough) in
      \<lparr>mp_ModuleName = (if vf then VFPassthroughDriverModuleName else ContainerDriverModuleName),
       mp_FirmwarePath = (if vf then [] else ''firmwareDir/updates''),
       mp_LoadArgs = fst (getModprobeArgs dc), mp_UnloadArgs = snd (getModprobeArgs dc),
       mp_Parameters = getModprobeParametersFromNodeInfo nodes dc,
       mp_ModulesLoadingOrder =
         (if vf \<or> openshift then [] else [ContainerDriverModuleName, ''amdttm'', ''amdkcl''])\<rparr>)"

definition equalToleration :: "string \<Rightarrow> string \<Rightarrow> string \<Rightarrow> Toleration" where
  "equalToleration k v e = \<lparr>tol_Key = k, tol_Operator = ''Equal'', tol_Value = v, tol_Effect = e\<rparr>"

definition moduleTolerations :: "DeviceConfig \<Rightarrow> Toleration list" where
  "moduleTolerations dc =
     d_Tolerations (driver dc)
     @ [equalToleration ''amd-gpu-driver-upgrade'' ''true'' ''NoSchedule'', equalToleration ''amd-dcm'' ''up'' []]
     @ (if rw_NodeRemediationTaints (remediation dc) \<noteq> []
        then map (\<lambda>t. existsToleration (t_Key t) (t_Effect t)) (rw_NodeRemediationTaints (remediation dc))
        else [existsToleration ''amd-gpu-unhealthy'' ''NoSchedule''])"

text \<open>Without a secret in the DeviceConfig the reference the module already has is kept.\<close>

definition imageRepoSecret :: "DeviceConfig \<Rightarrow> LocalObjectReference option \<Rightarrow> LocalObjectReference option" where
  "imageRepoSecret dc old =
     (case d_ImageRegistrySecret (driver dc) of
        Some r \<Rightarrow> Some r
      | None \<Rightarrow> (case cc_ImageRegistrySecrets (common dc) of r # _ \<Rightarrow> Some r | [] \<Rightarrow> old))"

definition setKMMModuleLoader ::
  "'e apiserver_scheme \<Rightarrow> mapper gomap \<Rightarrow> Module \<Rightarrow> DeviceConfig \<Rightarrow> bool \<Rightarrow> Node list option \<Rightarrow> Module pres" where
  "setKMMModuleLoader api mappers md dc openshift nodes =
     (case getKernelMappings api mappers dc openshift nodes of
        None \<Rightarrow> None
      | Some (Inl e) \<Rightarrow> Some (Inl e)
      | Some (Inr (kms, v)) \<Rightarrow> Some (Inr (md\<lparr>
          mod_Loader := \<lparr>mld_Modprobe = modprobeOf openshift (case nodes of None \<Rightarrow> [] | Some ns \<Rightarrow> ns) dc,
            mld_Version = orDefault (d_Version (driver dc)) v, mld_KernelMappings = kms,
            mld_ServiceAccountName = ''amd-gpu-operator-kmm-module-loader''\<rparr>,
          mod_ImageRepoSecret := imageRepoSecret dc (mod_ImageRepoSecret md),
          mod_Selector := getNodeSelector dc,
          mod_Tolerations := moduleTolerations dc\<rparr>)))"

definition SetKMMModuleAsDesired ::
  "'e apiserver_scheme \<Rightarrow> mapper gomap \<Rightarrow> bool \<Rightarrow> Node list option \<Rightarrow> Module \<Rightarrow> DeviceConfig \<Rightarrow> Module pres" where
  "SetKMMModuleAsDesired api mappers openshift nodes md dc =
     (case setKMMModuleLoader api mappers md dc openshift nodes of
        None \<Rightarrow> None
      | Some (Inl e) \<Rightarrow> Some (Inl e)
      | Some (Inr m1) \<Rightarrow>
          Some (map_sum id (\<lambda>os. m1\<lparr>mod_Owners := os\<rparr>)
            (SetControllerReference dc (mod_Namespace m1) (mod_Owners m1))))"

end
