(* ===== verification/Kmm_Props.thy ===== *)
theory Kmm_Props
  imports Kmm_Module
begin

text \<open>
  Properties of the KMM module: its kernel mappings cover exactly the kernels of the nodes that can be
  mapped, one each; the choice of the operating system does not depend on the order in which Go
  visits the table; version labels are only added; the module keeps running under the taints the
  operator sets; and the builders satisfy the contract \<open>operand\<close>.
\<close>

section \<open>Contracts\<close>

definition desiredModule ::
  "'e apiserver_scheme \<Rightarrow> mapper gomap \<Rightarrow> bool \<Rightarrow> Node list option \<Rightarrow> DeviceConfig \<Rightarrow> Module \<Rightarrow> Module res" where
  "desiredModule api mappers openshift nodes dc md = recovered (SetKMMModuleAsDesired api mappers openshift nodes md dc)"

definition desiredBuildCM ::
  "'e apiserver_scheme \<Rightarrow> dockerfiles \<Rightarrow> bool \<Rightarrow> DeviceConfig \<Rightarrow> BuildConfigMap \<Rightarrow> BuildConfigMap res" where
  "desiredBuildCM api df openshift dc cm = recovered (fst (SetBuildConfigMapAsDesired api df openshift cm dc))"

lemma imageRepoSecret_idem [simp]: "imageRepoSecret dc (imageRepoSecret dc old) = imageRepoSecret dc old"
  by (simp add: imageRepoSecret_def split: option.splits list.splits)

lemma desiredModule_Inr:
  assumes "desiredModule api mappers openshift nodes dc md = Inr y"
  obtains kms v os where "getKernelMappings api mappers dc openshift nodes = Some (Inr (kms, v))"
    and "SetControllerReference dc (mod_Namespace md) (mod_Owners md) = Inr os"
    and "y = md\<lparr>
      mod_Loader := \<lparr>mld_Modprobe = modprobeOf openshift (case nodes of None \<Rightarrow> [] | Some ns \<Rightarrow> ns) dc,
        mld_Version = orDefault (d_Version (driver dc)) v, mld_KernelMappings = kms,
        mld_ServiceAccountName = ''amd-gpu-operator-kmm-module-loader''\<rparr>,
      mod_ImageRepoSecret := imageRepoSecret dc (mod_ImageRepoSecret md),
      mod_Selector := getNodeSelector dc, mod_Tolerations := moduleTolerations dc, mod_Owners := os\<rparr>"
proof (cases "getKernelMappings api mappers dc openshift nodes")
  case None
  with assms show ?thesis
    by (simp add: desiredModule_def recovered_def SetKMMModuleAsDesired_def setKMMModuleLoader_def)
next
  case (Some r)
  show ?thesis
  proof (cases r)
    case (Inl e)
    with assms Some show ?thesis
      by (simp add: desiredModule_def recovered_def SetKMMModuleAsDesired_def setKMMModuleLoader_def)
  next
    case (Inr p)
    obtain kms v where p: "p = (kms, v)" by (cases p)
    show ?thesis
      using assms Some Inr p that
      by (auto simp: desiredModule_def recovered_def SetKMMModuleAsDesired_def setKMMModuleLoader_def map_sum_Inr)
  qed
qed

interpretation kmm_module: operand "\<lambda>_. True" "\<lambda>m. (mod_Namespace m, mod_Name m)" mod_Owners
  "desiredModule api mappers openshift nodes"
proof unfold_locales
  fix dc md y
  assume d: "desiredModule api mappers openshift nodes dc md = Inr y"
  then obtain kms v os where k: "getKernelMappings api mappers dc openshift nodes = Some (Inr (kms, v))"
    and os: "SetControllerReference dc (mod_Namespace md) (mod_Owners md) = Inr os"
    and y: "y = md\<lparr>
      mod_Loader := \<lparr>mld_Modprobe = modprobeOf openshift (case nodes of None \<Rightarrow> [] | Some ns \<Rightarrow> ns) dc,
        mld_Version = orDefault (d_Version (driver dc)) v, mld_KernelMappings = kms,
        mld_ServiceAccountName = ''amd-gpu-operator-kmm-module-loader''\<rparr>,
      mod_ImageRepoSecret := imageRepoSecret dc (mod_ImageRepoSecret md),
      mod_Selector := getNodeSelector dc, mod_Tolerations := moduleTolerations dc, mod_Owners := os\<rparr>"
    by (rule desiredModule_Inr)
  show "(mod_Namespace y, mod_Name y) = (mod_Namespace md, mod_Name md)" using y by simp
  show "GetControllerOf (mod_Owners y) = Some (controllerRef dc)"
    using y SetControllerReference_Inr(1) [OF os] by simp
  show "desiredModule api mappers openshift nodes dc y = Inr y"
    using y k SetControllerReference_idem [OF os]
    by (simp add: desiredModule_def recovered_def SetKMMModuleAsDesired_def setKMMModuleLoader_def)
qed

lemma controllerRef_withRepoURL [simp]: "controllerRef (withRepoURL u dc) = controllerRef dc"
  by (simp add: controllerRef_def withRepoURL_def)

lemma SetControllerReference_withRepoURL [simp]:
  "SetControllerReference (withRepoURL u dc) ns os = SetControllerReference dc ns os"
proof -
  have "validateOwner (withRepoURL u dc) ns = validateOwner dc ns"
    by (simp add: validateOwner_def withRepoURL_def)
  then show ?thesis unfolding SetControllerReference_def controllerRef_withRepoURL by simp
qed

lemma resolveDockerfile_dc:
  "SetControllerReference (snd (resolveDockerfile api df n dc)) = SetControllerReference dc
     \<and> controllerRef (snd (resolveDockerfile api df n dc)) = controllerRef dc"
  by (simp add: resolveDockerfile_def ubuntuTemplate_def devTemplate_def Let_def fun_eq_iff
      split: list.splits option.splits prod.splits)

lemma desiredBuildCM_form:
  "desiredBuildCM api df openshift dc cm =
     (case recovered (if openshift then Some (Inr (coreOSTemplate df dc))
                      else fst (resolveDockerfile api df (bcm_Name cm) dc)) of
        Inl e \<Rightarrow> Inl e
      | Inr text \<Rightarrow> map_sum id
          (\<lambda>os. cm\<lparr>bcm_Data := store ''dockerfile'' text (bcm_Data cm), bcm_Owners := os\<rparr>)
          (SetControllerReference dc (bcm_Namespace cm) (bcm_Owners cm)))"
  using resolveDockerfile_dc [of api df "bcm_Name cm" dc]
  by (auto simp: desiredBuildCM_def recovered_def SetBuildConfigMapAsDesired_def
      split: prod.splits option.splits sum.splits)

interpretation build_cm: operand "\<lambda>_. True" "\<lambda>m. (bcm_Namespace m, bcm_Name m)" bcm_Owners
  "desiredBuildCM api df openshift"
  by unfold_locales
    (auto simp: desiredBuildCM_form map_sum_Inr split: sum.splits if_splits
      dest: SetControllerReference_Inr(1) SetControllerReference_idem)

section \<open>Kernel mappings\<close>

text \<open>The mappings of the nodes for which one can be built.\<close>

definition mapped :: "'e apiserver_scheme \<Rightarrow> mapper gomap \<Rightarrow> DeviceConfig \<Rightarrow> bool \<Rightarrow> Node \<Rightarrow> KernelMapping \<Rightarrow> bool" where
  "mapped api mappers dc openshift node k \<longleftrightarrow> (\<exists>v. getKM api mappers dc node [] openshift = Some (Inr (k, v)))"

lemma mapped_literal: "mapped api mappers dc openshift node k \<Longrightarrow> kmp_Literal k = trimSuffix (n_KernelVersion node) ''+''"
  by (auto simp: mapped_def getKM_def split: option.splits sum.splits)

lemma collectKM_mappings:
  assumes "collectKM api mappers dc openshift nodes kms v = Some (kms', v')" and "distinct (map kmp_Literal kms)"
  shows "distinct (map kmp_Literal kms')
    \<and> set kms \<subseteq> set kms'
    \<and> set kms' \<subseteq> set kms \<union> {k. \<exists>node \<in> set nodes. mapped api mappers dc openshift node k}
    \<and> (\<forall>node \<in> set nodes. \<forall>k. mapped api mappers dc openshift node k \<longrightarrow> kmp_Literal k \<in> kmp_Literal ` set kms')"
  using assms
proof (induction nodes arbitrary: kms v)
  case Nil
  then show ?case by auto
next
  case (Cons node nodes)
  show ?case
  proof (cases "\<exists>k w. getKM api mappers dc node [] openshift = Some (Inr (k, w))
      \<and> kmp_Literal k \<notin> kmp_Literal ` set kms")
    case True
    then obtain k w where km: "getKM api mappers dc node [] openshift = Some (Inr (k, w))"
      and new: "kmp_Literal k \<notin> kmp_Literal ` set kms" by blast
    with Cons.prems have "collectKM api mappers dc openshift nodes (kms @ [k]) w = Some (kms', v')"
      and "distinct (map kmp_Literal (kms @ [k]))" by auto
    note IH = Cons.IH [OF this]
    have "mapped api mappers dc openshift node k" using km by (auto simp: mapped_def)
    moreover have "\<forall>j. mapped api mappers dc openshift node j \<longrightarrow> kmp_Literal j \<in> kmp_Literal ` set kms'"
      using IH km by (auto simp: mapped_def)
    ultimately show ?thesis using IH by auto
  next
    case False
    with Cons.prems have rec: "collectKM api mappers dc openshift nodes kms v = Some (kms', v')"
      by (auto split: option.splits sum.splits prod.splits if_splits)
    note IH = Cons.IH [OF rec Cons.prems(2)]
    have "\<forall>j. mapped api mappers dc openshift node j \<longrightarrow> kmp_Literal j \<in> kmp_Literal ` set kms'"
      using IH False image_mono [of "set kms" "set kms'" kmp_Literal] by (fastforce simp: mapped_def)
    with IH show ?thesis by auto
  qed
qed

section \<open>Order of the table of operating systems\<close>

lemma lookup_perm: "distinct (map fst m) \<Longrightarrow> mset m = mset m' \<Longrightarrow> lookup m k = lookup m' k"
  by (metis map_of_inject_set mset_eq_imp_distinct_iff mset_map set_mset_mset)

lemma firstOS_lookup: "(\<And>k. lookup m k = lookup m' k) \<Longrightarrow> firstOS m ks s = firstOS m' ks s"
  by (induction ks) (auto split: option.splits)

lemma keys_sorted:
  "sort (map fst cmNameMappers) = [''coreos'', ''red hat'', ''redhat'', ''rhel'', ''sles'', ''suse'', ''ubuntu'']"
  by (simp only: cmNameMappers_def list.map fst_conv) code_simp

lemma GetOSName_perm:
  assumes "mset table = mset cmNameMappers"
  shows "GetOSName table node = GetOSName cmNameMappers node"
proof -
  have "distinct (map fst cmNameMappers)" by (simp add: cmNameMappers_def)
  then have "lookup table k = lookup cmNameMappers k" for k
    using lookup_perm [of cmNameMappers table k] assms by simp
  moreover have "sort (map fst table) = sort (map fst cmNameMappers)"
    by (rule properties_for_sort) (simp_all only: mset_sort sorted_sort mset_map assms)
  ultimately show ?thesis by (simp add: GetOSName_def firstOS_lookup [of table cmNameMappers])
qed

section \<open>Version labels\<close>

definition labelPatch :: "string \<Rightarrow> string \<Rightarrow> Node \<Rightarrow> call" where
  "labelPatch key val node = CPatch (ONode (node\<lparr>n_Labels := store key val (n_Labels node)\<rparr>)) (ONode node)"

lemma setVersionLabels_calls:
  assumes "val \<noteq> []" and "\<And>h c. o_write api h c = None"
  shows "fst (setVersionLabels api mappers key val nodes s) = None
    \<and> hist (snd (setVersionLabels api mappers key val nodes s)) =
        rev (map (labelPatch key val) (filter (\<lambda>n. \<not> hasKey (n_Labels n) key) nodes)) @ hist s"
  using assms
  by (induction nodes arbitrary: s) (auto simp: writeObj_def labelPatch_def)

lemma setVersionLabels_ran:
  fixes s :: "'a world_scheme"
  shows "ran (\<lambda>c. \<exists>node \<in> set nodes. \<exists>v. \<not> hasKey (n_Labels node) key \<and> c = labelPatch key v node) s
     (snd (setVersionLabels api mappers key val nodes s))"
proof (induction nodes arbitrary: s val)
  case Nil
  then show ?case by simp
next
  case (Cons node nodes)
  let ?P = "\<lambda>c. \<exists>n \<in> set (node # nodes). \<exists>v. \<not> hasKey (n_Labels n) key \<and> c = labelPatch key v n"
  have step: "ran ?P t (snd (setVersionLabels api mappers key w nodes t))" for t :: "'a world_scheme" and w
    by (rule ran_mono [OF Cons.IH]) auto
  show ?case
  proof (cases "hasKey (n_Labels node) key")
    case True
    with step show ?thesis by simp
  next
    case False
    define w where "w = (if val = [] then
        (case GetDefaultDriversVersion (mappers (hist s)) node of Inl _ \<Rightarrow> [] | Inr v \<Rightarrow> v) else val)"
    let ?t = "logCall (labelPatch key w node) s"
    have "ran ?P s ?t" by (intro ran_logCall ran_refl) (use False in auto)
    then have "ran ?P s (snd (setVersionLabels api mappers key w nodes ?t))"
      using step ran_trans by blast
    with False \<open>ran ?P s ?t\<close> show ?thesis
      by (auto simp: writeObj_def labelPatch_def Let_def w_def split: option.splits)
  qed
qed

section \<open>Properties\<close>

text \<open>
  C23: The kernel mappings of a module: at least one, no kernel mapped twice, and the kernels mapped are
  exactly those of the nodes for which a mapping can be built; every mapping is one of a selected
  node.
\<close>

theorem getKernelMappings_exact:
  assumes "getKernelMappings api mappers dc openshift (Some nodes) = Some (Inr (kms, v))"
  shows "kms \<noteq> [] \<and> distinct (map kmp_Literal kms)
    \<and> kmp_Literal ` set kms =
        {trimSuffix (n_KernelVersion n) ''+'' | n. n \<in> set nodes \<and> (\<exists>k. mapped api mappers dc openshift n k)}
    \<and> (\<forall>k \<in> set kms. \<exists>n \<in> set nodes. mapped api mappers dc openshift n k)"
proof -
  from assms have ne: "kms \<noteq> []" and "collectKM api mappers dc openshift nodes [] [] = Some (kms, v)"
    by (auto simp: getKernelMappings_def split: if_splits option.splits prod.splits)
  from collectKM_mappings [OF this(2)] have "distinct (map kmp_Literal kms)"
    and sub: "set kms \<subseteq> {k. \<exists>n \<in> set nodes. mapped api mappers dc openshift n k}"
    and all: "\<forall>n \<in> set nodes. \<forall>k. mapped api mappers dc openshift n k \<longrightarrow> kmp_Literal k \<in> kmp_Literal ` set kms"
    by auto
  moreover have "kmp_Literal ` set kms =
      {trimSuffix (n_KernelVersion n) ''+'' | n. n \<in> set nodes \<and> (\<exists>k. mapped api mappers dc openshift n k)}"
    (is "_ = ?R")
  proof
    show "kmp_Literal ` set kms \<subseteq> ?R" using sub mapped_literal by fastforce
    show "?R \<subseteq> kmp_Literal ` set kms" using all mapped_literal by fastforce
  qed
  ultimately show ?thesis using ne by blast
qed

lemma sample_mapped:
  "(case getKernelMappings sampleApi defaultDriverversionsMappers sampleDC False (Some [nodeA, nodeB]) of
      Some (Inr (kms, v)) \<Rightarrow> map kmp_Literal kms = [''5.15''] \<and> v = ''6.3.3'' | _ \<Rightarrow> False)"
  by code_simp

theorem getKernelMappings_exact_witness:
  "\<exists>kms v. getKernelMappings sampleApi defaultDriverversionsMappers sampleDC False (Some [nodeA, nodeB])
        = Some (Inr (kms, v))
     \<and> distinct (map kmp_Literal kms) \<and> kmp_Literal ` set kms = {''5.15''}"
proof -
  obtain kms v where k: "getKernelMappings sampleApi defaultDriverversionsMappers sampleDC False (Some [nodeA, nodeB])
        = Some (Inr (kms, v))" and "map kmp_Literal kms = [''5.15'']"
    using sample_mapped by (auto split: option.splits sum.splits prod.splits)
  with getKernelMappings_exact [OF k] show ?thesis
    by (metis empty_set list.simps(15) set_map)
qed

text \<open>
  C39: The operating system of a node does not depend on the order in which Go visits the table of
  mappers, and an image that names CoreOS is taken as CoreOS even when it also names Red Hat.
\<close>

theorem GetOSName_order:
  assumes "mset table = mset cmNameMappers"
  shows "GetOSName table node = GetOSName cmNameMappers node
    \<and> (containsStr (toLower (n_OSImage node)) ''coreos'' \<longrightarrow>
        GetOSName table node = map_option Inr (rhelCoreOSNameMapper (toLower (n_OSImage node))))"
proof -
  have "GetOSName cmNameMappers node = map_option Inr (rhelCoreOSNameMapper (toLower (n_OSImage node)))"
    if "containsStr (toLower (n_OSImage node)) ''coreos''"
    using that by (simp add: GetOSName_def keys_sorted) (simp add: cmNameMappers_def)
  with GetOSName_perm [OF assms] show ?thesis by simp
qed

theorem GetOSName_order_witness:
  "GetOSName (rev cmNameMappers) (nodeA\<lparr>n_OSImage := ''Red Hat Enterprise Linux CoreOS 9.4''\<rparr>)
     = Some (Inr ''coreos-9.4'')"
proof -
  let ?n = "nodeA\<lparr>n_OSImage := ''Red Hat Enterprise Linux CoreOS 9.4''\<rparr>"
  have "containsStr (toLower (n_OSImage ?n)) ''coreos''" by code_simp
  moreover have "rhelCoreOSNameMapper (toLower (n_OSImage ?n)) = Some ''coreos-9.4''" by code_simp
  moreover have "mset (rev cmNameMappers) = mset cmNameMappers" by simp
  ultimately show ?thesis using conjunct2 [OF GetOSName_order [of "rev cmNameMappers" ?n]] by simp
qed

text \<open>
  With a version in the DeviceConfig and a server that accepts writes, exactly the nodes without the
  version label are patched, in order, each with that version; labels already there are not
  touched.
\<close>

theorem version_labels_added:
  assumes "d_Version (driver dc) \<noteq> []" and "\<And>h c. o_write api h c = None"
  shows "fst (SetNodeVersionLabelAsDesired api mappers dc nodes s) = None
    \<and> issued s (snd (SetNodeVersionLabelAsDesired api mappers dc nodes s)) =
        rev (map (labelPatch (fst (GetVersionLabelKV dc)) (d_Version (driver dc)))
          (filter (\<lambda>n. \<not> hasKey (n_Labels n) (fst (GetVersionLabelKV dc))) nodes))"
  using setVersionLabels_calls [OF assms, where mappers = mappers and key = "fst (GetVersionLabelKV dc)"
      and nodes = nodes and s = s]
  by (simp add: SetNodeVersionLabelAsDesired_def GetVersionLabelKV_def issued_append)

theorem version_labels_added_witness:
  "issued sampleMgr (snd (SetNodeVersionLabelAsDesired sampleApi (\<lambda>h. []) sampleDC
       [nodeA, nodeB\<lparr>n_Labels := []\<rparr>] sampleMgr))
     = [labelPatch ''kmm.node.kubernetes.io/version-module.kube-amd-gpu.gpu'' ''6.3.3'' (nodeB\<lparr>n_Labels := []\<rparr>)]"
proof -
  have v: "d_Version (driver sampleDC) \<noteq> []" and w: "\<And>h c. o_write sampleApi h c = None"
    by (simp_all add: sample_defs)
  show ?thesis
    using version_labels_added [OF v w, where mappers = "\<lambda>h. []" and nodes = "[nodeA, nodeB\<lparr>n_Labels := []\<rparr>]"
        and s = sampleMgr]
    by (simp add: GetVersionLabelKV_def sample_defs hasKey_def)
qed

text \<open>
  Without a version the first unlabelled node decides for all: the second node of this list runs
  Ubuntu 24.04, whose default is 6.3.3, and is labelled 6.1.3.
\<close>

lemma version_label_leaks:
  "issued sampleMgr (snd (setVersionLabels sampleApi (\<lambda>h. defaultDriverversionsMappers) ''k'' []
       [nodeA\<lparr>n_OSImage := ''Ubuntu 22.04.3 LTS''\<rparr>, nodeB\<lparr>n_OSImage := ''Ubuntu 24.04 LTS''\<rparr>] sampleMgr))
     = [labelPatch ''k'' ''6.1.3'' (nodeB\<lparr>n_OSImage := ''Ubuntu 24.04 LTS''\<rparr>),
        labelPatch ''k'' ''6.1.3'' (nodeA\<lparr>n_OSImage := ''Ubuntu 22.04.3 LTS''\<rparr>)]
   \<and> GetDefaultDriversVersion defaultDriverversionsMappers (nodeB\<lparr>n_OSImage := ''Ubuntu 24.04 LTS''\<rparr>) = Inr ''6.3.3''"
proof
  have a: "GetDefaultDriversVersion defaultDriverversionsMappers (nodeA\<lparr>n_OSImage := ''Ubuntu 22.04.3 LTS''\<rparr>) = Inr ''6.1.3''"
    by code_simp
  show "GetDefaultDriversVersion defaultDriverversionsMappers (nodeB\<lparr>n_OSImage := ''Ubuntu 24.04 LTS''\<rparr>) = Inr ''6.3.3''"
    by code_simp
  have "\<not> hasKey (n_Labels nodeA) ''k''" "\<not> hasKey (n_Labels nodeB) ''k''"
    by (simp_all add: sample_defs hasKey_def)
  moreover have "o_write sampleApi h c = None" for h c by (simp add: sample_defs)
  ultimately show "issued sampleMgr (snd (setVersionLabels sampleApi (\<lambda>h. defaultDriverversionsMappers) ''k'' []
       [nodeA\<lparr>n_OSImage := ''Ubuntu 22.04.3 LTS''\<rparr>, nodeB\<lparr>n_OSImage := ''Ubuntu 24.04 LTS''\<rparr>] sampleMgr))
     = [labelPatch ''k'' ''6.1.3'' (nodeB\<lparr>n_OSImage := ''Ubuntu 24.04 LTS''\<rparr>),
        labelPatch ''k'' ''6.1.3'' (nodeA\<lparr>n_OSImage := ''Ubuntu 22.04.3 LTS''\<rparr>)]"
    using a by (simp add: writeObj_def issued_def labelPatch_def Let_def)
qed

text \<open>
  A Red Hat node that is not CoreOS has a default driver version and a name, but no Dockerfile: off
  OpenShift its build ConfigMap cannot be made.
\<close>

theorem rhel_has_no_dockerfile:
  assumes "containsStr (toLower (n_OSImage node)) ''red hat''"
    and "\<not> containsStr (toLower (n_OSImage node)) ''coreos''"
    and "bcm_Name cm = GetCMName osName dc"
    and "GetOSName cmNameMappers node = Some (Inr osName)"
  shows "fst (SetBuildConfigMapAsDesired api df False cm dc) = Some (Inl (OtherErr ''not supported OS: rhel''))"
proof -
  have "GetOSName cmNameMappers node = map_option Inr (rhelCMNameMapper (toLower (n_OSImage node)))"
    using assms(1,2) by (simp add: GetOSName_def keys_sorted) (simp add: cmNameMappers_def)
  with assms(4) obtain rest where "osName = ''rhel'' @ CHR ''-'' # rest"
    by (auto simp: rhelCMNameMapper_def split: option.splits)
  with assms(3) have "bcm_Name cm = ''rhel'' @ CHR ''-'' # (rest @ ''-'' @ dc_Name dc @ ''-'' @ dc_Namespace dc)"
    by (simp add: GetCMName_def)
  moreover obtain v vs where "splitChar CHR ''-'' (rest @ ''-'' @ dc_Name dc @ ''-'' @ dc_Namespace dc) = v # vs"
    by (metis splitChar_not_Nil list.exhaust)
  ultimately have "splitChar CHR ''-'' (bcm_Name cm) = ''rhel'' # v # vs"
    using splitChar_append_sep [of "CHR ''-''" "''rhel''"] by simp
  then show ?thesis by (simp add: SetBuildConfigMapAsDesired_def resolveDockerfile_def)
qed

theorem rhel_has_no_dockerfile_witness:
  "fst (SetBuildConfigMapAsDesired sampleApi
      \<lparr>df_Ubuntu = [], df_CoreOSFromSrcImage = [], df_CoreOSFromRPM = [], df_SLES = [], df_DevUbuntu = [],
       df_GIMUbuntu = [], df_GIMCoreOS = []\<rparr> False
      (newBuildConfigMap ''kube-amd-gpu'' (GetCMName ''rhel-9.4'' sampleDC)) sampleDC)
     = Some (Inl (OtherErr ''not supported OS: rhel''))"
proof -
  let ?n = "nodeA\<lparr>n_OSImage := ''Red Hat Enterprise Linux 9.4''\<rparr>"
  have "containsStr (toLower (n_OSImage ?n)) ''red hat''" by code_simp
  moreover have "\<not> containsStr (toLower (n_OSImage ?n)) ''coreos''" by code_simp
  moreover have "GetOSName cmNameMappers ?n = Some (Inr ''rhel-9.4'')" by code_simp
  moreover have "bcm_Name (newBuildConfigMap ''kube-amd-gpu'' (GetCMName ''rhel-9.4'' sampleDC)) =
      GetCMName ''rhel-9.4'' sampleDC" by (simp add: newBuildConfigMap_def)
  ultimately show ?thesis using rhel_has_no_dockerfile [of ?n] by blast
qed

end
