(* ===== verification/Device_Plugin.thy ===== *)
theory Device_Plugin
  imports Operand_Base "HOL-Library.List_Lexorder" "HOL-Library.Char_ord" "HOL-Library.Multiset"
begin

text \<open>
  \<open>src/internal/plugin/plugin.go\<close>: the DaemonSets of the device plugin and of the DRA driver.  Go
  visits a map in an unspecified order; the association list of a map fixes one, and
  \<open>plugin_args_depend_on_order\<close> shows that the device plugin's command depends on it while the DRA
  driver's arguments, which the code sorts, do not.
\<close>

section \<open>Device plugin\<close>

definition defaultDevicePluginImage :: string where
  "defaultDevicePluginImage = ''rocm/k8s-device-plugin:latest''"
definition defaultUbiDevicePluginImage :: string where
  "defaultUbiDevicePluginImage = ''rocm/k8s-device-plugin:rhubi-latest''"
definition KubeletDevicePluginsPath :: string where
  "KubeletDevicePluginsPath = ''/var/lib/kubelet/device-plugins''"

abbreviation devPlugin :: "DeviceConfig \<Rightarrow> DevicePluginSpec" where
  "devPlugin dc \<equiv> s_DevicePlugin (dc_Spec dc)"

definition devicePluginImage :: "bool \<Rightarrow> DeviceConfig \<Rightarrow> string" where
  "devicePluginImage openshift dc =
     orDefault (dp_DevicePluginImage (devPlugin dc))
       (if openshift then defaultUbiDevicePluginImage else defaultDevicePluginImage)"

text \<open>
  The default naming strategy of the passthrough drivers is written into the map of the
  DeviceConfig itself when there is one; nothing reads that map again before the DeviceConfig is
  fetched anew.
\<close>

definition pluginArguments :: "DeviceConfig \<Rightarrow> smap" where
  "pluginArguments dc =
     (let args = dp_DevicePluginArguments (devPlugin dc) in
      if \<not> hasKey args ''resource_naming_strategy''
         \<and> (d_DriverType (driver dc) = DriverTypePFPassthrough
            \<or> d_DriverType (driver dc) = DriverTypeVFPassthrough)
      then store ''resource_naming_strategy'' ''mixed'' args else args)"

definition pluginCommand :: "DeviceConfig \<Rightarrow> string" where
  "pluginCommand dc =
     fold (\<lambda>(k, v) c. c @ '' -'' @ k @ ''='' @ v) (pluginArguments dc)
       ''./k8s-device-plugin -logtostderr=true -stderrthreshold=INFO -v=5 -pulse=30''"

definition devicePluginSpec :: "bool \<Rightarrow> DeviceConfig \<Rightarrow> DaemonSetSpec" where
  "devicePluginSpec openshift dc =
     (let dp = devPlugin dc; labels = [(''daemonset-name'', dc_Name dc)] in
      zeroDaemonSetSpec\<lparr>
        dss_MatchLabels := labels,
        dss_PodLabels := labels,
        dss_PodSpec := zeroPodSpec\<lparr>
          ps_InitContainers := [zeroContainer\<lparr>k_Name := ''driver-init'', k_Image := initContainerImage dc,
            k_Command := [''sh'', ''-c'', driverCheck dc [] ''/sys''],
            k_Security := privileged, k_VolumeMounts := [mount ''sys'' ''/sys'']\<rparr>],
          ps_Containers := [zeroContainer\<lparr>
            k_Env := [fieldEnv ''DS_NODE_NAME'' ''spec.nodeName''],
            k_Name := ''device-plugin'', k_WorkingDir := ''/root'',
            k_Command := [''sh'', ''-c'', pluginCommand dc],
            k_Image := devicePluginImage openshift dc, k_Security := privileged,
            k_ImagePullPolicy := dp_DevicePluginImagePullPolicy dp,
            k_VolumeMounts := [mount ''kubelet-device-plugins'' KubeletDevicePluginsPath,
              mount ''sys'' ''/sys'', mount ''health'' ''/var/lib/amd-metrics-exporter'']\<rparr>],
          ps_ImagePullSecrets := pullSecrets dc (dp_ImageRegistrySecret dp),
          ps_PriorityClassName := ''system-node-critical'',
          ps_NodeSelector := withReadyLabel dc (copyMap (selectorOf dc)),
          ps_ServiceAccountName := ''amd-gpu-operator-kmm-device-plugin'',
          ps_Volumes :=
            [hostPath ''kubelet-device-plugins''
               (orDefault (dp_KubeletSocketPath dp) KubeletDevicePluginsPath) dirType,
             hostPath ''sys'' ''/sys'' dirType,
             hostPath ''health'' ''/var/lib/amd-metrics-exporter'' dirOrCreate],
          ps_HostNetwork := isTrue (dp_HostNetwork dp),
          ps_Tolerations := dp_DevicePluginTolerations dp\<rparr>,
        dss_UpdateStrategy := updateStrategy (dp_UpgradePolicy dp)\<rparr>)"

definition SetDevicePluginAsDesired :: "bool \<Rightarrow> DaemonSet option \<Rightarrow> DeviceConfig \<Rightarrow> DaemonSet res" where
  "SetDevicePluginAsDesired openshift ds dc =
     (case ds of
        None \<Rightarrow> Inl (OtherErr ''daemon set is not initialized, zero pointer'')
      | Some d \<Rightarrow> finishDaemonSet dc (devicePluginSpec openshift dc) d)"

section \<open>DRA driver\<close>

definition defaultDRADriverImage :: string where
  "defaultDRADriverImage = ''rocm/k8s-gpu-dra-driver:latest''"
definition DRADriverNameSuffix :: string where "DRADriverNameSuffix = ''-dra-driver''"

abbreviation draDriver :: "DeviceConfig \<Rightarrow> DRADriverSpec" where
  "draDriver dc \<equiv> s_DRADriver (dc_Spec dc)"

definition draArgs :: "smap \<Rightarrow> string list" where
  "draArgs m = sort (map (\<lambda>(k, v). ''-'' @ k @ ''='' @ v) m)"

definition draMounts :: "(string \<times> string) list" where
  "draMounts = [(''plugins-registry'', ''/var/lib/kubelet/plugins_registry''),
     (''plugins'', ''/var/lib/kubelet/plugins''), (''cdi'', ''/var/run/cdi''), (''dev'', ''/dev''),
     (''sys'', ''/sys'')]"

definition draDriverSpec :: "DeviceConfig \<Rightarrow> DaemonSetSpec" where
  "draDriverSpec dc =
     (let dra = draDriver dc; labels = [(''daemonset-name'', dc_Name dc @ DRADriverNameSuffix)] in
      zeroDaemonSetSpec\<lparr>
        dss_MatchLabels := labels,
        dss_PodLabels := labels,
        dss_PodSpec := zeroPodSpec\<lparr>
          ps_InitContainers := [zeroContainer\<lparr>k_Name := ''driver-init'', k_Image := initContainerImage dc,
            k_Command := [''sh'', ''-c'', waitForAmdgpu ''/sys''],
            k_Security := privileged, k_VolumeMounts := [mount ''sys'' ''/sys'']\<rparr>],
          ps_Containers := [zeroContainer\<lparr>
            k_Name := ''plugin'', k_Image := orDefault (dra_Image dra) defaultDRADriverImage,
            k_Command := [''gpu-kubeletplugin''], k_Args := draArgs (dra_CmdLineArguments dra),
            k_Env := [valueEnv ''CDI_ROOT'' ''/var/run/cdi'',
              valueEnv ''KUBELET_REGISTRAR_DIRECTORY_PATH'' ''/var/lib/kubelet/plugins_registry'',
              valueEnv ''KUBELET_PLUGINS_DIRECTORY_PATH'' ''/var/lib/kubelet/plugins'',
              fieldEnv ''NODE_NAME'' ''spec.nodeName'', fieldEnv ''NAMESPACE'' ''metadata.namespace''],
            k_Security := privileged, k_ImagePullPolicy := dra_ImagePullPolicy dra,
            k_VolumeMounts := map (\<lambda>(n, p). mount n p) draMounts\<rparr>],
          ps_ImagePullSecrets := pullSecrets dc (dra_ImageRegistrySecret dra),
          ps_PriorityClassName := ''system-node-critical'',
          ps_NodeSelector := componentSelector dc (dra_Selector dra),
          ps_ServiceAccountName := ''amd-gpu-operator-dra-driver'',
          ps_Volumes := map (\<lambda>(n, p). hostPath n p None) draMounts,
          ps_Tolerations := dra_Tolerations dra\<rparr>,
        dss_UpdateStrategy := updateStrategy (dra_UpgradePolicy dra)\<rparr>)"

definition SetDRADriverAsDesired :: "DaemonSet option \<Rightarrow> DeviceConfig \<Rightarrow> DaemonSet res" where
  "SetDRADriverAsDesired ds dc =
     (case ds of
        None \<Rightarrow> Inl (OtherErr ''daemon set is not initialized, zero pointer'')
      | Some d \<Rightarrow> finishDaemonSet dc (draDriverSpec dc) d)"

section \<open>Interfaces\<close>

lemma device_plugin_builder:
  "(\<lambda>dc ds. SetDevicePluginAsDesired os (Some ds) dc) = (\<lambda>dc. finishDaemonSet dc (devicePluginSpec os dc))"
  by (simp add: SetDevicePluginAsDesired_def fun_eq_iff)

lemma dra_driver_builder:
  "(\<lambda>dc ds. SetDRADriverAsDesired (Some ds) dc) = (\<lambda>dc. finishDaemonSet dc (draDriverSpec dc))"
  by (simp add: SetDRADriverAsDesired_def fun_eq_iff)

interpretation device_plugin: operand "\<lambda>_. True" dsKey dset_Owners "\<lambda>dc ds. SetDevicePluginAsDesired os (Some ds) dc"
  unfolding device_plugin_builder by (rule daemonset_operand)

interpretation dra_driver: operand "\<lambda>_. True" dsKey dset_Owners "\<lambda>dc ds. SetDRADriverAsDesired (Some ds) dc"
  unfolding dra_driver_builder by (rule daemonset_operand)

section \<open>Order of the arguments\<close>

lemma draArgs_order: "mset m = mset m' \<Longrightarrow> draArgs m = draArgs m'"
  unfolding draArgs_def by (intro properties_for_sort) (simp_all add: mset_map)

lemma plugin_args_depend_on_order:
  "\<exists>dc dc'. mset (dp_DevicePluginArguments (devPlugin dc)) = mset (dp_DevicePluginArguments (devPlugin dc'))
     \<and> dc_Name dc = dc_Name dc' \<and> driver dc = driver dc' \<and> pluginCommand dc \<noteq> pluginCommand dc'"
proof -
  let ?dc = "\<lambda>args. sampleDC\<lparr>dc_Spec := sampleSpec\<lparr>s_DevicePlugin := samplePlugin\<lparr>dp_DevicePluginArguments := args\<rparr>\<rparr>\<rparr>"
  have "pluginCommand (?dc [(''a'', ''1''), (''b'', ''2'')]) \<noteq> pluginCommand (?dc [(''b'', ''2''), (''a'', ''1'')])"
    by (simp add: pluginCommand_def pluginArguments_def sample_defs driver_types hasKey_def)
  then show ?thesis
    by (intro exI [of _ "?dc [(''a'', ''1''), (''b'', ''2'')]"]
        exI [of _ "?dc [(''b'', ''2''), (''a'', ''1'')]"]) (simp add: add_mset_commute)
qed

end
