(* ===== verification/Node_Labeller.thy ===== *)
theory Node_Labeller
  imports Operand_Base
begin

text \<open>
  \<open>src/internal/nodelabeller/nodelabeller.go\<close>: the DaemonSet of the node labeller, with the image
  derived from the device plugin's and the init container that writes or removes the module
  blacklist.
\<close>

definition rocmDevicePluginRepo :: string where "rocmDevicePluginRepo = ''rocm/k8s-device-plugin''"
definition rocmUbiNodeLabellerRepo :: string where "rocmUbiNodeLabellerRepo = ''rocm/k8s-node-labeller''"
definition defaultNodeLabellerImage :: string where
  "defaultNodeLabellerImage = ''rocm/k8s-device-plugin:labeller-latest''"
definition defaultUbiNodeLabellerImage :: string where
  "defaultUbiNodeLabellerImage = ''rocm/k8s-node-labeller:rhubi-latest''"
definition containerCommandArgs :: string where
  "containerCommandArgs = ''./k8s-node-labeller -vram -cu-count -simd-count -device-id -family -product-name -driver-version''"
definition vfPassthroughCommandArgs :: string where
  "vfPassthroughCommandArgs = ''./k8s-node-labeller -device-id -driver-version''"
definition pfPassthroughCommandArgs :: string where
  "pfPassthroughCommandArgs = ''./k8s-node-labeller -device-id''"

section \<open>Image\<close>

text \<open>The text after the last occurrence of a pattern: the last part of \<open>strings.Split\<close>.\<close>

fun afterLast :: "nat \<Rightarrow> string \<Rightarrow> string \<Rightarrow> string" where
  "afterLast 0 s p = s"
| "afterLast (Suc n) s p = (case afterFirst s p of None \<Rightarrow> s | Some r \<Rightarrow> afterLast n r p)"

definition getDevicePluginVersion :: "DeviceConfig \<Rightarrow> string" where
  "getDevicePluginVersion dc =
     (let img = dp_DevicePluginImage (s_DevicePlugin (dc_Spec dc)) in
      if containsStr img rocmDevicePluginRepo
      then filter (\<lambda>c. c \<noteq> CHR '':'') (afterLast (length img) img rocmDevicePluginRepo)
      else [])"

definition getNodeLabellerImage :: "bool \<Rightarrow> DeviceConfig \<Rightarrow> string" where
  "getNodeLabellerImage openshift dc =
     (let img = dp_NodeLabellerImage (s_DevicePlugin (dc_Spec dc)); v = getDevicePluginVersion dc in
      if img \<noteq> [] then img
      else if v \<noteq> [] then
        (if openshift then rocmUbiNodeLabellerRepo @ '':'' @ v else rocmDevicePluginRepo @ '':labeller-'' @ v)
      else if openshift then defaultUbiNodeLabellerImage else defaultNodeLabellerImage)"

section \<open>Init container\<close>

definition writeBlacklist :: "string \<Rightarrow> string" where
  "writeBlacklist f = ''echo '' @ dq @ ''# added by gpu operator '' @ nl @ ''blacklist amdgpu'' @ dq
     @ '' > /host-etc/modprobe.d/'' @ f @ ''; ''"

definition removeBlacklist :: "string \<Rightarrow> string" where
  "removeBlacklist f = ''rm -f /host-etc/modprobe.d/'' @ f @ ''; ''"

definition getNodeLabellerInitContainerCommand :: "DeviceConfig \<Rightarrow> string \<Rightarrow> string list" where
  "getNodeLabellerInitContainerCommand dc f =
     [''sh'', ''-c'',
      driverCheck dc (if isTrue (d_Blacklist (driver dc)) then writeBlacklist f else removeBlacklist f)
        ''/host-sys'']"

section \<open>DaemonSet\<close>

definition labellerCommand :: "DeviceConfig \<Rightarrow> string" where
  "labellerCommand dc =
     fold (\<lambda>l c. c @ '' -'' @ l) (dp_NodeLabellerArguments (s_DevicePlugin (dc_Spec dc)))
       (if d_DriverType (driver dc) = DriverTypeVFPassthrough then vfPassthroughCommandArgs
        else if d_DriverType (driver dc) = DriverTypePFPassthrough then pfPassthroughCommandArgs
        else containerCommandArgs)"

definition nodeLabellerSpec :: "bool \<Rightarrow> DeviceConfig \<Rightarrow> DaemonSetSpec" where
  "nodeLabellerSpec openshift dc =
     (let dp = s_DevicePlugin (dc_Spec dc); labels = [(''daemonset-name'', dc_Name dc)];
          f = (if openshift then ''blacklist-amdgpu-by-operator.conf'' else ''blacklist-amdgpu.conf'') in
      zeroDaemonSetSpec\<lparr>
        dss_MatchLabels := labels,
        dss_PodLabels := labels,
        dss_PodSpec := zeroPodSpec\<lparr>
          ps_InitContainers := [zeroContainer\<lparr>k_Name := ''driver-init'', k_Image := initContainerImage dc,
            k_Command := getNodeLabellerInitContainerCommand dc f, k_Security := privileged,
            k_VolumeMounts := [mount ''sys-volume'' ''/host-sys'', mount ''etc-volume'' ''/host-etc'']\<rparr>],
          ps_Containers := [zeroContainer\<lparr>
            k_Args := [''-c'', labellerCommand dc], k_Command := [''sh''],
            k_Env := [fieldEnv ''DS_NODE_NAME'' ''spec.nodeName''],
            k_Name := ''node-labeller-container'', k_WorkingDir := ''/root'',
            k_Image := getNodeLabellerImage openshift dc, k_Security := privileged,
            k_ImagePullPolicy := dp_NodeLabellerImagePullPolicy dp,
            k_VolumeMounts := [mount ''dev-volume'' ''/dev'', mount ''sys-volume'' ''/sys'']\<rparr>],
          ps_PriorityClassName := ''system-node-critical'',
          ps_NodeSelector := selectorOf dc,
          ps_ServiceAccountName := ''amd-gpu-operator-node-labeller'',
          ps_Volumes := [hostPath ''dev-volume'' ''/dev'' dirType, hostPath ''sys-volume'' ''/sys'' dirType,
            hostPath ''etc-volume'' ''/etc'' dirType],
          ps_ImagePullSecrets := pullSecrets dc (dp_ImageRegistrySecret dp),
          ps_Tolerations := dp_NodeLabellerTolerations dp\<rparr>,
        dss_UpdateStrategy := updateStrategy (dp_UpgradePolicy dp)\<rparr>)"

definition SetNodeLabellerAsDesired :: "bool \<Rightarrow> DaemonSet option \<Rightarrow> DeviceConfig \<Rightarrow> DaemonSet res" where
  "SetNodeLabellerAsDesired openshift ds dc =
     (case ds of
        None \<Rightarrow> Inl (OtherErr ''daemon set is not initialized, zero pointer'')
      | Some d \<Rightarrow> finishDaemonSet dc (nodeLabellerSpec openshift dc) d)"

lemma node_labeller_builder:
  "(\<lambda>dc ds. SetNodeLabellerAsDesired os (Some ds) dc) = (\<lambda>dc. finishDaemonSet dc (nodeLabellerSpec os dc))"
  by (simp add: SetNodeLabellerAsDesired_def fun_eq_iff)

interpretation node_labeller: operand "\<lambda>_. True" dsKey dset_Owners "\<lambda>dc ds. SetNodeLabellerAsDesired os (Some ds) dc"
  unfolding node_labeller_builder by (rule daemonset_operand)

section \<open>The image follows the device plugin's\<close>

lemma afterFirst_prefix: "hasPrefix s p \<Longrightarrow> p \<noteq> [] \<Longrightarrow> afterFirst s p = Some (drop (length p) s)"
  by (cases s) (auto simp: hasPrefix_def)

lemma afterFirst_None: "afterFirst s p = None \<longleftrightarrow> \<not> containsStr s p"
  by (induction s p rule: afterFirst.induct) auto

text \<open>
  A device plugin image of the upstream repository with a plain tag gives the labeller image with
  the same tag.
\<close>

lemma labeller_follows_plugin:
  assumes "dp_DevicePluginImage (s_DevicePlugin (dc_Spec dc)) = rocmDevicePluginRepo @ '':'' @ tag"
    and "dp_NodeLabellerImage (s_DevicePlugin (dc_Spec dc)) = []"
    and "tag \<noteq> []" and "CHR '':'' \<notin> set tag" and "\<not> containsStr ('':'' @ tag) rocmDevicePluginRepo"
  shows "getNodeLabellerImage False dc = rocmDevicePluginRepo @ '':labeller-'' @ tag"
proof -
  let ?img = "rocmDevicePluginRepo @ '':'' @ tag"
  have one: "afterFirst ?img rocmDevicePluginRepo = Some ('':'' @ tag)"
    using afterFirst_prefix [OF hasPrefix_append, of rocmDevicePluginRepo "'':'' @ tag"]
    by (simp add: rocmDevicePluginRepo_def)
  have two: "afterLast n ('':'' @ tag) rocmDevicePluginRepo = '':'' @ tag" for n
    using assms(5) by (cases n) (simp_all add: afterFirst_None [symmetric])
  obtain n where n: "length ?img = Suc n" by (simp add: rocmDevicePluginRepo_def)
  have "containsStr ?img rocmDevicePluginRepo"
    using one by (metis afterFirst_None option.distinct(1))
  moreover have "afterLast (length ?img) ?img rocmDevicePluginRepo = '':'' @ tag"
    using one two n by simp
  moreover have "filter (\<lambda>c. c \<noteq> CHR '':'') ('':'' @ tag) = tag"
    using assms(4) by (auto simp: filter_id_conv)
  ultimately have "getDevicePluginVersion dc = tag"
    by (simp add: getDevicePluginVersion_def assms(1) Let_def)
  with assms(2,3) show ?thesis by (simp add: getNodeLabellerImage_def)
qed

end
