(* ===== verification/Metrics_Exporter.thy ===== *)
theory Metrics_Exporter
  imports Operand_Base
begin

text \<open>
  \<open>src/internal/metricsexporter/metricsexporter.go\<close>: the objects of the metrics exporter, a DaemonSet
  with an optional \<open>kube-rbac-proxy\<close> side car, the Service in front of it, the ServiceMonitor for
  Prometheus and the Secret with the proxy's static authorization.  Ports are Go's \<open>int32\<close>; the CRD
  bounds \<open>port\<close> by 1 and 65535, so no sum here leaves the type.
\<close>

definition defaultMetricsExporterImage :: string where
  "defaultMetricsExporterImage = ''docker.io/rocm/device-metrics-exporter:v0.0.1''"
definition defaultKubeRbacProxyImage :: string where
  "defaultKubeRbacProxyImage = ''quay.io/brancz/kube-rbac-proxy:v0.18.1''"
definition servicePort :: int where "servicePort = 5000"
definition ExporterName :: string where "ExporterName = ''metrics-exporter''"
definition KubeRbacName :: string where "KubeRbacName = ''kube-rbac-proxy''"
definition StaticAuthSecretName :: string where "StaticAuthSecretName = ExporterName @ ''-static-auth-config''"
definition svcLabel :: string where "svcLabel = ''app.kubernetes.io/service''"

abbreviation metrics :: "DeviceConfig \<Rightarrow> MetricsExporterSpec" where
  "metrics dc \<equiv> s_MetricsExporter (dc_Spec dc)"

abbreviation rbac :: "DeviceConfig \<Rightarrow> KubeRbacConfig" where
  "rbac dc \<equiv> me_RbacConfig (metrics dc)"

definition metricsPort :: "DeviceConfig \<Rightarrow> int" where
  "metricsPort dc = (if me_Port (metrics dc) > 0 then me_Port (metrics dc) else servicePort)"

definition internalPort :: "DeviceConfig \<Rightarrow> int" where
  "internalPort dc = (if servicePort = metricsPort dc then metricsPort dc - 1 else servicePort)"

definition exporterLabels :: "DeviceConfig \<Rightarrow> smap" where
  "exporterLabels dc = [(''daemonset-name'', dc_Name dc), (''app.kubernetes.io/name'', ExporterName)]"

section \<open>Containers and volumes\<close>

definition exporterPort :: "DeviceConfig \<Rightarrow> ContainerPort" where
  "exporterPort dc = \<lparr>cp_Name = ''exporter-port'', cp_Protocol = ''TCP'', cp_ContainerPort = metricsPort dc\<rparr>"

definition defaultResources :: ResourceRequirements where
  "defaultResources = \<lparr>rr_Limits = [(''cpu'', ''2''), (''memory'', ''4G'')],
     rr_Requests = [(''cpu'', ''500m''), (''memory'', ''512M'')]\<rparr>"

definition staticAuth :: "DeviceConfig \<Rightarrow> bool" where
  "staticAuth dc = (case rb_StaticAuthorization (rbac dc) of None \<Rightarrow> False | Some a \<Rightarrow> sa_Enable a)"

definition proxied :: "DeviceConfig \<Rightarrow> bool" where
  "proxied dc = isTrue (rb_Enable (rbac dc))"

definition disableHttps :: "DeviceConfig \<Rightarrow> bool" where
  "disableHttps dc = isTrue (rb_DisableHttps (rbac dc))"

definition exporterMounts :: "DeviceConfig \<Rightarrow> VolumeMount list" where
  "exporterMounts dc =
     [mount ''dev-volume'' ''/dev'', mount ''sys-volume'' ''/sys'',
      mount ''pod-resources'' ''/var/lib/kubelet/pod-resources'',
      mount ''health'' ''/var/lib/amd-metrics-exporter'', mount ''slurm'' ''/var/run/exporter'']
     @ (if mc_Name (me_Config (metrics dc)) \<noteq> [] then [mount ''metrics-config-volume'' ''/etc/metrics/''] else [])"

definition exporterVolumes :: "DeviceConfig \<Rightarrow> Volume list" where
  "exporterVolumes dc =
     [hostPath ''dev-volume'' ''/dev'' dirType, hostPath ''sys-volume'' ''/sys'' dirType,
      hostPath ''pod-resources''
        (orDefault (me_PodResourceAPISocketPath (metrics dc)) ''/var/lib/kubelet/pod-resources'') dirType,
      hostPath ''health'' ''/var/lib/amd-metrics-exporter'' dirOrCreate,
      hostPath ''slurm'' ''/var/run/exporter'' dirOrCreate]
     @ (if mc_Name (me_Config (metrics dc)) \<noteq> []
        then [\<lparr>vol_Name = ''metrics-config-volume'',
               vol_Source = ConfigMapSource \<lparr>lor_Name = mc_Name (me_Config (metrics dc))\<rparr>\<rparr>] else [])"

definition readOnlyMount :: "string \<Rightarrow> string \<Rightarrow> VolumeMount" where
  "readOnlyMount n p = \<lparr>vm_Name = n, vm_MountPath = p, vm_ReadOnly = True\<rparr>"

text \<open>
  The parts the proxy needs, in the order the code appends them: a volume, its mount and the
  arguments of each part.
\<close>

definition proxyParts :: "DeviceConfig \<Rightarrow> (Volume list \<times> VolumeMount list \<times> string list) list" where
  "proxyParts dc =
     [case rb_ClientCAConfigMap (rbac dc) of
        None \<Rightarrow> ([], [], [])
      | Some r \<Rightarrow> ([\<lparr>vol_Name = ''client-ca'', vol_Source = ConfigMapSource r\<rparr>],
                  [readOnlyMount ''client-ca'' ''/etc/kube-rbac-proxy/ca''],
                  [''--client-ca-file=/etc/kube-rbac-proxy/ca/ca.crt'']),
      if staticAuth dc
      then ([\<lparr>vol_Name = ''static-auth-config'',
              vol_Source = SecretSource (dc_Name dc @ ''-'' @ StaticAuthSecretName)\<rparr>],
            [readOnlyMount ''static-auth-config'' ''/etc/kube-rbac-proxy''],
            [''--config-file=/etc/kube-rbac-proxy/config.yaml''])
      else ([], [], []),
      if disableHttps dc
      then ([], [], [''--insecure-listen-address=0.0.0.0:'' @ itoa (metricsPort dc)])
      else case rb_Secret (rbac dc) of
        None \<Rightarrow> ([], [], [''--secure-listen-address=0.0.0.0:'' @ itoa (metricsPort dc)])
      | Some r \<Rightarrow> ([\<lparr>vol_Name = ''tls-certs'', vol_Source = SecretSource (lor_Name r)\<rparr>],
                  [readOnlyMount ''tls-certs'' ''/etc/tls''],
                  [''--secure-listen-address=0.0.0.0:'' @ itoa (metricsPort dc),
                   ''--tls-cert-file=/etc/tls/tls.crt'', ''--tls-private-key-file=/etc/tls/tls.key''])]"

definition proxyContainer :: "DeviceConfig \<Rightarrow> ContainerSpec" where
  "proxyContainer dc = zeroContainer\<lparr>k_Name := KubeRbacName @ ''-container'',
     k_Image := orDefault (rb_Image (rbac dc)) defaultKubeRbacProxyImage,
     k_Security := noSecurity\<lparr>sc_RunAsUser := Some 65532, sc_AllowPrivilegeEscalation := Some False\<rparr>,
     k_Args := [''--upstream=http://127.0.0.1:'' @ itoa (internalPort dc), ''--logtostderr=true'', ''--v=10'']
       @ concat (map (\<lambda>(_, _, a). a) (proxyParts dc)),
     k_VolumeMounts := concat (map (\<lambda>(_, m, _). m) (proxyParts dc)),
     k_Ports := [exporterPort dc]\<rparr>"

definition exporterContainer :: "DeviceConfig \<Rightarrow> ContainerSpec" where
  "exporterContainer dc = zeroContainer\<lparr>
     k_Env := [fieldEnv ''DS_NODE_NAME'' ''spec.nodeName'',
       valueEnv ''METRICS_EXPORTER_PORT'' (itoa (if proxied dc then internalPort dc else metricsPort dc)),
       valueEnv ''AMD_EXPORTER_RELAXED_FLAGS_PARSING'' ''true''],
     k_Name := ExporterName @ ''-container'', k_WorkingDir := ''/root'',
     k_Image := orDefault (me_Image (metrics dc)) defaultMetricsExporterImage,
     k_Security := privileged, k_VolumeMounts := exporterMounts dc,
     k_Resources := (case me_Resource (metrics dc) of None \<Rightarrow> defaultResources | Some r \<Rightarrow> r),
     k_ImagePullPolicy := me_ImagePullPolicy (metrics dc),
     k_Args := (if proxied dc then [''--bind=127.0.0.1''] else []),
     k_Ports := (if proxied dc then [] else [exporterPort dc])\<rparr>"

section \<open>DaemonSet\<close>

text \<open>The tolerations that let a pod stay on a node under remediation.\<close>

definition remediationTolerations :: "DeviceConfig \<Rightarrow> Toleration list" where
  "remediationTolerations dc =
     (if rw_NodeRemediationTaints (remediation dc) \<noteq> []
      then map (\<lambda>t. existsToleration (t_Key t) (t_Effect t)) (rw_NodeRemediationTaints (remediation dc))
      else [existsToleration ''amd-gpu-unhealthy'' ''NoSchedule''])"

definition metricsExporterSpec :: "'e apiserver_scheme \<Rightarrow> DeviceConfig \<Rightarrow> DaemonSetSpec" where
  "metricsExporterSpec api dc =
     (let me = metrics dc in
      zeroDaemonSetSpec\<lparr>
        dss_MatchLabels := exporterLabels dc,
        dss_PodLabels := exporterLabels dc,
        dss_PodAnnotations := me_PodAnnotations me,
        dss_PodSpec := zeroPodSpec\<lparr>
          ps_InitContainers := [simInitContainer api dc],
          ps_Containers := exporterContainer dc # (if proxied dc then [proxyContainer dc] else []),
          ps_PriorityClassName := ''system-node-critical'',
          ps_NodeSelector := componentSelector dc (me_Selector me),
          ps_ServiceAccountName :=
            (if proxied dc then ''amd-gpu-operator-metrics-exporter-rbac-proxy''
             else ''amd-gpu-operator-metrics-exporter''),
          ps_Volumes := exporterVolumes dc
            @ (if proxied dc then concat (map (\<lambda>(v, _, _). v) (proxyParts dc)) else []),
          ps_ImagePullSecrets := pullSecrets dc (me_ImageRegistrySecret me),
          ps_TerminationGracePeriodSeconds := Some 1,
          ps_HostNetwork := isTrue (me_HostNetwork me),
          ps_Tolerations := me_Tolerations me @ remediationTolerations dc\<rparr>,
        dss_UpdateStrategy := updateStrategy (me_UpgradePolicy me)\<rparr>)"

definition SetMetricsExporterAsDesired ::
  "'e apiserver_scheme \<Rightarrow> DaemonSet option \<Rightarrow> DeviceConfig \<Rightarrow> DaemonSet res" where
  "SetMetricsExporterAsDesired api ds dc =
     (case ds of
        None \<Rightarrow> Inl (OtherErr ''daemon set is not initialized, zero pointer'')
      | Some d \<Rightarrow> finishDaemonSet dc (metricsExporterSpec api dc) d)"

section \<open>Service\<close>

definition metricsServicePort :: "DeviceConfig \<Rightarrow> ServicePort" where
  "metricsServicePort dc = \<lparr>sp_Name = ''exporter-port'', sp_Protocol = ''TCP'', sp_Port = metricsPort dc,
     sp_TargetPort = metricsPort dc,
     sp_NodePort = (if me_SvcType (metrics dc) = ''NodePort'' then me_NodePort (metrics dc) else 0)\<rparr>"

definition SetMetricsServiceAsDesired :: "Service option \<Rightarrow> DeviceConfig \<Rightarrow> Service res" where
  "SetMetricsServiceAsDesired svc dc =
     (case svc of
        None \<Rightarrow> Inl (OtherErr ''service  is not initialized, zero pointer'')
      | Some v \<Rightarrow>
          let nodePort = (me_SvcType (metrics dc) = ''NodePort'');
              v1 = v\<lparr>svc_Labels := store svcLabel (dc_Name dc @ ''-'' @ ExporterName) (svc_Labels v),
                svc_Selector := exporterLabels dc,
                svc_Annotations := me_ServiceAnnotations (metrics dc),
                svc_InternalTrafficPolicy := Some ''Local'',
                svc_Type := (if nodePort then ''NodePort'' else ''ClusterIP''),
                svc_ExternalTrafficPolicy := (if nodePort then ''Local'' else []),
                svc_Ports := [metricsServicePort dc], svc_Unset := []\<rparr>
          in map_sum id (\<lambda>os. v1\<lparr>svc_Owners := os\<rparr>)
               (SetControllerReference dc (svc_Namespace v1) (svc_Owners v1)))"

section \<open>ServiceMonitor\<close>

definition monitorScheme :: "DeviceConfig \<Rightarrow> string" where
  "monitorScheme dc = (if proxied dc \<and> \<not> disableHttps dc then ''https'' else ''http'')"

definition monitorEndpoint :: "DeviceConfig \<Rightarrow> ServiceMonitorConfig \<Rightarrow> Endpoint" where
  "monitorEndpoint dc m = \<lparr>ep_Port = ''exporter-port'', ep_TargetPort = metricsPort dc,
     ep_RelabelConfigs = sm_Relabelings m, ep_MetricRelabelConfigs = sm_MetricRelabelings m,
     ep_Interval = sm_Interval m, ep_HonorLabels = isTrue (sm_HonorLabels m),
     ep_HonorTimestamps = sm_HonorTimestamps m, ep_Scheme = monitorScheme dc,
     ep_TLSConfig = (if proxied dc then sm_TLSConfig m else None),
     ep_BearerTokenFile = (if proxied dc then sm_BearerTokenFile m else []),
     ep_Authorization = (if proxied dc then sm_Authorization m else None)\<rparr>"

definition SetServiceMonitorAsDesired :: "ServiceMonitor option \<Rightarrow> DeviceConfig \<Rightarrow> ServiceMonitor res" where
  "SetServiceMonitorAsDesired smo dc =
     (case smo of
        None \<Rightarrow> Inl (OtherErr ''ServiceMonitor is not initialized, zero pointer'')
      | Some v \<Rightarrow>
          if \<not> IsPrometheusServiceMonitorEnable dc then Inr v
          else case me_Prometheus (metrics dc) of
            None \<Rightarrow> Inr v
          | Some p \<Rightarrow> (case pr_ServiceMonitor p of
              None \<Rightarrow> Inr v
            | Some m \<Rightarrow>
                let v1 = v\<lparr>smo_Selector := [(svcLabel, dc_Name dc @ ''-'' @ ExporterName)],
                      smo_Endpoints := [monitorEndpoint dc m], smo_MatchNames := [dc_Namespace dc],
                      smo_AttachMetadata := sm_AttachMetadata m, smo_Unset := [],
                      smo_Labels := fold (\<lambda>(k, l) acc. store k l acc) (sm_Labels m)
                        [(''app'', ''amd-device-metrics-exporter'')]\<rparr>
                in map_sum id (\<lambda>os. v1\<lparr>smo_Owners := os\<rparr>)
                     (SetControllerReference dc (smo_Namespace v1) (smo_Owners v1))))"

section \<open>Secret\<close>

text \<open>\<open>json.Marshal\<close> of the nested maps: keys in order.\<close>

definition staticAuthJSON :: "string \<Rightarrow> string" where
  "staticAuthJSON client =
     ''{'' @ jsonString ''authorization'' @ '':{'' @ jsonString ''static'' @ '':[{'' @ jsonString ''path''
     @ '':'' @ jsonString ''/metrics'' @ '','' @ jsonString ''resourceRequest'' @ '':false,''
     @ jsonString ''user'' @ '':{'' @ jsonString ''name'' @ '':'' @ jsonString client @ ''},''
     @ jsonString ''verb'' @ '':'' @ jsonString ''get'' @ ''}]}}''"

definition SetStaticAuthSecretAsDesired :: "Secret option \<Rightarrow> DeviceConfig \<Rightarrow> Secret res" where
  "SetStaticAuthSecretAsDesired sec dc =
     (case sec of
        None \<Rightarrow> Inl (OtherErr ''secret is not initialized, zero pointer'')
      | Some v \<Rightarrow>
          (case rb_StaticAuthorization (rbac dc) of
             None \<Rightarrow> Inr v
           | Some a \<Rightarrow>
               if \<not> sa_Enable a then Inr v
               else map_sum id
                 (\<lambda>os. v\<lparr>sec_StringData := [(''config.yaml'', staticAuthJSON (sa_ClientName a))], sec_Owners := os\<rparr>)
                 (SetControllerReference dc (sec_Namespace v) (sec_Owners v))))"

section \<open>Interfaces\<close>

lemma metrics_exporter_builder:
  "(\<lambda>dc ds. SetMetricsExporterAsDesired api (Some ds) dc) = (\<lambda>dc. finishDaemonSet dc (metricsExporterSpec api dc))"
  by (simp add: SetMetricsExporterAsDesired_def fun_eq_iff)

interpretation metrics_exporter: operand "\<lambda>_. True" dsKey dset_Owners
  "\<lambda>dc ds. SetMetricsExporterAsDesired api (Some ds) dc"
  unfolding metrics_exporter_builder by (rule daemonset_operand)

interpretation metrics_service: operand "\<lambda>_. True" "\<lambda>v. (svc_Namespace v, svc_Name v)" svc_Owners
  "\<lambda>dc v. SetMetricsServiceAsDesired (Some v) dc"
  by unfold_locales
    (auto simp: SetMetricsServiceAsDesired_def Let_def map_sum_Inr
      dest: SetControllerReference_Inr(1) SetControllerReference_idem)

interpretation service_monitor: operand IsPrometheusServiceMonitorEnable
  "\<lambda>v. (smo_Namespace v, smo_Name v)" smo_Owners "\<lambda>dc v. SetServiceMonitorAsDesired (Some v) dc"
  by unfold_locales
    (auto simp: SetServiceMonitorAsDesired_def IsPrometheusServiceMonitorEnable_def Let_def map_sum_Inr
      split: if_splits option.splits
      dest: SetControllerReference_Inr(1) SetControllerReference_idem)

interpretation static_auth: operand staticAuth "\<lambda>v. (sec_Namespace v, sec_Name v)" sec_Owners
  "\<lambda>dc v. SetStaticAuthSecretAsDesired (Some v) dc"
  by unfold_locales
    (auto simp: SetStaticAuthSecretAsDesired_def staticAuth_def map_sum_Inr
      split: if_splits option.splits
      dest: SetControllerReference_Inr(1) SetControllerReference_idem)

section \<open>What is exposed\<close>

lemma internalPort_differs: "internalPort dc \<noteq> metricsPort dc"
  by (auto simp: internalPort_def)

lemma ports_exposed:
  "concat (map k_Ports (ps_Containers (dss_PodSpec (metricsExporterSpec api dc)))) = [exporterPort dc]"
  by (simp add: metricsExporterSpec_def exporterContainer_def proxyContainer_def zeroContainer_def Let_def)

end
