(* ===== verification/Test_Runner.thy ===== *)
theory Test_Runner
  imports Operand_Base
begin

text \<open>
  \<open>src/internal/testrunner/testrunner.go\<close>: the DaemonSet of the test runner.  The slice of export
  secrets holds pointers, and the builder dereferences them unchecked: a nil entry is the
  result \<open>None\<close>, the panic.
\<close>

definition defaultTestRunnerImage :: string where
  "defaultTestRunnerImage = ''docker.io/rocm/test-runner:v0.0.1''"
definition TestRunnerName :: string where "TestRunnerName = ''test-runner''"
definition defaultTestRunnerDir :: string where "defaultTestRunnerDir = ''/var/log/amd-test-runner''"

abbreviation runner :: "DeviceConfig \<Rightarrow> TestRunnerSpec" where
  "runner dc \<equiv> s_TestRunner (dc_Spec dc)"

definition logsMountPath :: "DeviceConfig \<Rightarrow> string" where
  "logsMountPath dc = orDefault (ll_MountPath (tr_LogsLocation (runner dc))) defaultTestRunnerDir"

text \<open>\<open>filepath.Join\<close> drops empty elements; names of Kubernetes objects hold no slash.\<close>

definition secretMountPath :: "string \<Rightarrow> string" where
  "secretMountPath n = ''/etc/logs-export-secrets'' @ (if n = [] then [] else ''/'' @ n)"

fun exportSecrets :: "LocalObjectReference option list \<Rightarrow> LocalObjectReference list option" where
  "exportSecrets [] = Some []"
| "exportSecrets (None # rs) = None"
| "exportSecrets (Some r # rs) = map_option (\<lambda>xs. r # xs) (exportSecrets rs)"

definition runnerMounts :: "DeviceConfig \<Rightarrow> LocalObjectReference list \<Rightarrow> VolumeMount list" where
  "runnerMounts dc secrets =
     [mount ''dev-volume'' ''/dev'', mount ''sys-volume'' ''/sys'',
      mount ''test-runner-volume'' (logsMountPath dc), mount ''health'' ''/var/lib/amd-metrics-exporter/'']
     @ (case tr_Config (runner dc) of None \<Rightarrow> []
        | Some _ \<Rightarrow> [mount ''test-runner-config-volume'' ''/etc/test-runner/''])
     @ map (\<lambda>r. mount (lor_Name r) (secretMountPath (lor_Name r))) secrets"

definition runnerVolumes :: "DeviceConfig \<Rightarrow> LocalObjectReference list \<Rightarrow> Volume list" where
  "runnerVolumes dc secrets =
     [hostPath ''dev-volume'' ''/dev'' dirType, hostPath ''sys-volume'' ''/sys'' dirType,
      hostPath ''test-runner-volume''
        (orDefault (ll_HostPath (tr_LogsLocation (runner dc))) defaultTestRunnerDir) dirOrCreate,
      hostPath ''health'' ''/var/lib/amd-metrics-exporter/'' dirType]
     @ (case tr_Config (runner dc) of None \<Rightarrow> []
        | Some r \<Rightarrow> [\<lparr>vol_Name = ''test-runner-config-volume'', vol_Source = ConfigMapSource r\<rparr>])
     @ map (\<lambda>r. \<lparr>vol_Name = lor_Name r, vol_Source = SecretSource (lor_Name r)\<rparr>) secrets"

definition testRunnerSpec ::
  "'e apiserver_scheme \<Rightarrow> DeviceConfig \<Rightarrow> LocalObjectReference list \<Rightarrow> DaemonSetSpec" where
  "testRunnerSpec api dc secrets =
     (let tr = runner dc;
          labels = [(''daemonset-name'', dc_Name dc), (''app.kubernetes.io/name'', TestRunnerName)] in
      zeroDaemonSetSpec\<lparr>
        dss_MatchLabels := labels,
        dss_PodLabels := labels,
        dss_PodSpec := zeroPodSpec\<lparr>
          ps_InitContainers := [simInitContainer api dc],
          ps_Containers := [zeroContainer\<lparr>
            k_Env := [fieldEnv ''POD_NAME'' ''metadata.name'', fieldEnv ''POD_NAMESPACE'' ''metadata.namespace'',
              fieldEnv ''POD_UID'' ''metadata.uid'', fieldEnv ''NODE_NAME'' ''spec.nodeName'',
              valueEnv ''LOG_MOUNT_DIR'' (logsMountPath dc),
              valueEnv ''TEST_TRIGGER'' ''AUTO_UNHEALTHY_GPU_WATCH''],
            k_Name := TestRunnerName @ ''-container'',
            k_Image := orDefault (tr_Image tr) defaultTestRunnerImage,
            k_Security := privileged, k_VolumeMounts := runnerMounts dc secrets,
            k_ImagePullPolicy := tr_ImagePullPolicy tr\<rparr>],
          ps_PriorityClassName := ''system-node-critical'',
          ps_NodeSelector := componentSelector dc (tr_Selector tr),
          ps_ServiceAccountName := ''amd-gpu-operator-test-runner'',
          ps_Volumes := runnerVolumes dc secrets,
          ps_ImagePullSecrets := pullSecrets dc (tr_ImageRegistrySecret tr),
          ps_TerminationGracePeriodSeconds := Some 1,
          ps_Tolerations := tr_Tolerations tr\<rparr>,
        dss_UpdateStrategy := updateStrategy (tr_UpgradePolicy tr)\<rparr>)"

definition SetTestRunnerAsDesired ::
  "'e apiserver_scheme \<Rightarrow> DaemonSet option \<Rightarrow> DeviceConfig \<Rightarrow> DaemonSet pres" where
  "SetTestRunnerAsDesired api ds dc =
     (case ds of
        None \<Rightarrow> Some (Inl (OtherErr ''daemon set is not initialized, zero pointer''))
      | Some d \<Rightarrow>
          map_option (\<lambda>secrets. finishDaemonSet dc (testRunnerSpec api dc secrets) d)
            (exportSecrets (ll_LogsExportSecrets (tr_LogsLocation (runner dc)))))"

text \<open>The mutation a handler passes on.\<close>

definition desiredTestRunner :: "'e apiserver_scheme \<Rightarrow> DeviceConfig \<Rightarrow> DaemonSet \<Rightarrow> DaemonSet res" where
  "desiredTestRunner api dc ds = recovered (SetTestRunnerAsDesired api (Some ds) dc)"

lemma desiredTestRunner_Inr:
  assumes "desiredTestRunner api dc ds = Inr y"
  obtains secrets where "exportSecrets (ll_LogsExportSecrets (tr_LogsLocation (runner dc))) = Some secrets"
    and "finishDaemonSet dc (testRunnerSpec api dc secrets) ds = Inr y"
  using assms by (auto simp: desiredTestRunner_def recovered_def SetTestRunnerAsDesired_def split: option.splits)

interpretation test_runner: operand "\<lambda>_. True" dsKey dset_Owners "desiredTestRunner api"
proof unfold_locales
  fix dc ds y
  assume "desiredTestRunner api dc ds = Inr y"
  then obtain secrets where s: "exportSecrets (ll_LogsExportSecrets (tr_LogsLocation (runner dc))) = Some secrets"
    and y: "finishDaemonSet dc (testRunnerSpec api dc secrets) ds = Inr y"
    by (rule desiredTestRunner_Inr)
  from finishDaemonSet_Inr [OF y] s
  show "dsKey y = dsKey ds" and "GetControllerOf (dset_Owners y) = Some (controllerRef dc)"
    and "desiredTestRunner api dc y = Inr y"
    by (simp_all add: desiredTestRunner_def recovered_def SetTestRunnerAsDesired_def)
qed

lemma exportSecrets_Some:
  "exportSecrets rs = Some xs \<Longrightarrow> rs = map Some xs"
  by (induction rs arbitrary: xs rule: exportSecrets.induct) auto

lemma exportSecrets_panics: "exportSecrets rs = None \<longleftrightarrow> None \<in> set rs"
  by (induction rs rule: exportSecrets.induct) auto

end
