(* ===== verification/Config_Manager.thy ===== *)
theory Config_Manager
  imports Operand_Base
begin

text \<open>
  \<open>src/internal/configmanager/configmanager.go\<close>: the DaemonSet of the device config manager and the
  default ConfigMap that \<open>EnsureDefaultDCMConfigMap\<close> creates for it.  The embedded
  \<open>default_dcm_config.json\<close> is an argument.
\<close>

definition defaultConfigManagerImage :: string where
  "defaultConfigManagerImage = ''docker.io/rocm/device-config-manager:v0.0.1''"
definition ConfigManagerName :: string where "ConfigManagerName = ''device-config-manager''"
definition DefaultDCMConfigMapName :: string where "DefaultDCMConfigMapName = ''default-dcm-config''"
definition ConfigManagerConfigVolumeName :: string where
  "ConfigManagerConfigVolumeName = ''config-manager-config-volume''"
definition DefaultDCMConfigMountPath :: string where "DefaultDCMConfigMountPath = ''/etc/config-manager/''"

abbreviation cfgMgr :: "DeviceConfig \<Rightarrow> ConfigManagerSpec" where
  "cfgMgr dc \<equiv> s_ConfigManager (dc_Spec dc)"

section \<open>The default ConfigMap\<close>

text \<open>\<open>strings.TrimSpace\<close> on ASCII text.\<close>

definition isSpaceChar :: "char \<Rightarrow> bool" where
  "isSpaceChar c = (c \<in> {CHR '' '', CHR 0x09, CHR 0x0A, CHR 0x0B, CHR 0x0C, CHR 0x0D})"

definition trimSpace :: "string \<Rightarrow> string" where
  "trimSpace s = rev (dropWhile isSpaceChar (rev (dropWhile isSpaceChar s)))"

definition defaultDCMConfigMap :: "string \<Rightarrow> string \<Rightarrow> BuildConfigMap" where
  "defaultDCMConfigMap payload ns = (newBuildConfigMap ns DefaultDCMConfigMapName)\<lparr>
     bcm_Labels := [(''app.kubernetes.io/name'', ''gpu-operator''),
       (''app.kubernetes.io/component'', ''device-config-manager''),
       (''app.kubernetes.io/managed-by'', ''gpu-operator'')],
     bcm_Data := [(''config.json'', payload)]\<rparr>"

definition EnsureDefaultDCMConfigMap ::
  "'e apiserver_scheme \<Rightarrow> string \<Rightarrow> DeviceConfig option \<Rightarrow> 'a world_scheme \<Rightarrow> err \<times> 'a world_scheme" where
  "EnsureDefaultDCMConfigMap api defaultJSON dco s =
     (case dco of
        None \<Rightarrow> (None, s)
      | Some dc \<Rightarrow>
          if \<not> isTrue (cm_Enable (cfgMgr dc)) then (None, s)
          else if (case cm_Config (cfgMgr dc) of None \<Rightarrow> False | Some r \<Rightarrow> trimSpace (lor_Name r) \<noteq> [])
          then (None, s)
          else let payload = trimSpace defaultJSON in
            if payload = [] then (Some (OtherErr ''embedded default_dcm_config.json is empty''), s)
            else case getBuildCM api (dc_Namespace dc) DefaultDCMConfigMapName s of
              (Inr _, s1) \<Rightarrow> (None, s1)
            | (Inl e, s1) \<Rightarrow>
                if e \<noteq> NotFound then (Some e, s1)
                else writeObj api (CCreate (OBuildConfigMap (defaultDCMConfigMap payload (dc_Namespace dc)))) s1)"

section \<open>The DaemonSet\<close>

definition configRef :: "DeviceConfig \<Rightarrow> LocalObjectReference" where
  "configRef dc =
     (case cm_Config (cfgMgr dc) of
        Some r \<Rightarrow> if lor_Name r \<noteq> [] then \<lparr>lor_Name = lor_Name r\<rparr> else \<lparr>lor_Name = DefaultDCMConfigMapName\<rparr>
      | None \<Rightarrow> \<lparr>lor_Name = DefaultDCMConfigMapName\<rparr>)"

definition managerMounts :: "VolumeMount list" where
  "managerMounts = [mount ''dev-volume'' ''/dev'', mount ''sys-volume'' ''/sys'',
     mount ''libmodules'' ''/lib/modules'', mount ''etc-systemd'' ''/etc/systemd'',
     mount ''run-systemd'' ''/run/systemd'', mount ''usr-lib-systemd'' ''/usr/lib/systemd'',
     mount ''var-run-dbus'' ''/var/run/dbus'',
     mount ConfigManagerConfigVolumeName DefaultDCMConfigMountPath]"

definition managerVolumes :: "DeviceConfig \<Rightarrow> Volume list" where
  "managerVolumes dc = [hostPath ''dev-volume'' ''/dev'' dirType, hostPath ''sys-volume'' ''/sys'' dirType,
     hostPath ''health'' ''/var/lib/'' dirType, hostPath ''libmodules'' ''/lib/modules/'' dirType,
     hostPath ''etc-systemd'' ''/etc/systemd/'' dirType, hostPath ''run-systemd'' ''/run/systemd'' dirType,
     hostPath ''usr-lib-systemd'' ''/usr/lib/systemd'' dirType, hostPath ''var-run-dbus'' ''/var/run/dbus'' dirType,
     \<lparr>vol_Name = ConfigManagerConfigVolumeName, vol_Source = ConfigMapSource (configRef dc)\<rparr>]"

definition configManagerSpec :: "'e apiserver_scheme \<Rightarrow> DeviceConfig \<Rightarrow> DaemonSetSpec" where
  "configManagerSpec api dc =
     (let cm = cfgMgr dc;
          labels = [(''daemonset-name'', dc_Name dc), (''app.kubernetes.io/name'', ConfigManagerName)] in
      zeroDaemonSetSpec\<lparr>
        dss_MatchLabels := labels,
        dss_PodLabels := labels,
        dss_PodSpec := zeroPodSpec\<lparr>
          ps_InitContainers := [simInitContainer api dc],
          ps_Containers := [zeroContainer\<lparr>
            k_Env := [fieldEnv ''POD_NAME'' ''metadata.name'', fieldEnv ''POD_NAMESPACE'' ''metadata.namespace'',
              fieldEnv ''DS_NODE_NAME'' ''spec.nodeName'',
              valueEnv ''KMM_DRIVER_ENABLED'' (boolText (ShouldUseKMM (Some dc)))],
            k_Name := ConfigManagerName @ ''-container'',
            k_Image := orDefault (cm_Image cm) defaultConfigManagerImage,
            k_Security := privileged, k_VolumeMounts := managerMounts,
            k_ImagePullPolicy := cm_ImagePullPolicy cm\<rparr>],
          ps_PriorityClassName := ''system-node-critical'',
          ps_NodeSelector := componentSelector dc (cm_Selector cm),
          ps_ServiceAccountName := ''amd-gpu-operator-config-manager'',
          ps_Volumes := managerVolumes dc,
          ps_ImagePullSecrets := pullSecrets dc (cm_ImageRegistrySecret cm),
          ps_TerminationGracePeriodSeconds := Some 1,
          ps_Tolerations := \<lparr>tol_Key = ''amd-dcm'', tol_Operator = ''Equal'', tol_Value = ''up'',
              tol_Effect = ''NoExecute''\<rparr> # cm_ConfigManagerTolerations cm\<rparr>,
        dss_UpdateStrategy := updateStrategy (cm_UpgradePolicy cm)\<rparr>)"

definition SetConfigManagerAsDesired ::
  "'e apiserver_scheme \<Rightarrow> DaemonSet option \<Rightarrow> DeviceConfig \<Rightarrow> DaemonSet res" where
  "SetConfigManagerAsDesired api ds dc =
     (case ds of
        None \<Rightarrow> Inl (OtherErr ''daemon set is not initialized, zero pointer'')
      | Some d \<Rightarrow> finishDaemonSet dc (configManagerSpec api dc) d)"

lemma config_manager_builder:
  "(\<lambda>dc ds. SetConfigManagerAsDesired api (Some ds) dc) = (\<lambda>dc. finishDaemonSet dc (configManagerSpec api dc))"
  by (simp add: SetConfigManagerAsDesired_def fun_eq_iff)

interpretation config_manager: operand "\<lambda>_. True" dsKey dset_Owners "\<lambda>dc ds. SetConfigManagerAsDesired api (Some ds) dc"
  unfolding config_manager_builder by (rule daemonset_operand)

section \<open>The mounted ConfigMap exists\<close>

text \<open>
  When the call succeeds for an enabled manager whose reference is unset or empty, the ConfigMap the
  DaemonSet mounts was found or created.
\<close>

lemma default_config_mounted:
  assumes "isTrue (cm_Enable (cfgMgr dc))" and "\<forall>r. cm_Config (cfgMgr dc) = Some r \<longrightarrow> lor_Name r = []"
    and "EnsureDefaultDCMConfigMap api js (Some dc) s = (None, t)"
  shows "configRef dc = \<lparr>lor_Name = DefaultDCMConfigMapName\<rparr>
    \<and> ((\<exists>cm. o_buildcm api (hist s) (dc_Namespace dc) DefaultDCMConfigMapName = Inr cm)
       \<or> (o_buildcm api (hist s) (dc_Namespace dc) DefaultDCMConfigMapName = Inl NotFound
          \<and> hist t = CCreate (OBuildConfigMap (defaultDCMConfigMap (trimSpace js) (dc_Namespace dc)))
                     # CGet KConfigMap (dc_Namespace dc) DefaultDCMConfigMapName # hist s))"
proof
  show "configRef dc = \<lparr>lor_Name = DefaultDCMConfigMapName\<rparr>"
    using assms(2) by (auto simp: configRef_def split: option.splits)
  have "(case cm_Config (cfgMgr dc) of None \<Rightarrow> False | Some r \<Rightarrow> trimSpace (lor_Name r) \<noteq> []) = False"
    using assms(2) by (auto simp: trimSpace_def split: option.splits)
  with assms(1,3) show "(\<exists>cm. o_buildcm api (hist s) (dc_Namespace dc) DefaultDCMConfigMapName = Inr cm)
       \<or> (o_buildcm api (hist s) (dc_Namespace dc) DefaultDCMConfigMapName = Inl NotFound
          \<and> hist t = CCreate (OBuildConfigMap (defaultDCMConfigMap (trimSpace js) (dc_Namespace dc)))
                     # CGet KConfigMap (dc_Namespace dc) DefaultDCMConfigMapName # hist s)"
    by (auto simp: EnsureDefaultDCMConfigMap_def getBuildCM_def writeObj_def Let_def
        split: sum.splits if_splits)
qed

text \<open>
  A reference of blanks only: the ConfigMap is created under the default name, while the DaemonSet
  mounts one named by the blanks.
\<close>

lemma blank_reference_mismatch:
  assumes "cm_Config (cfgMgr dc) = Some \<lparr>lor_Name = '' ''\<rparr>"
  shows "lor_Name (configRef dc) \<noteq> DefaultDCMConfigMapName \<and> trimSpace (lor_Name (configRef dc)) = []"
  by (simp add: configRef_def assms DefaultDCMConfigMapName_def trimSpace_def isSpaceChar_def)

end
