(* ===== verification/Operand_Props.thy ===== *)
theory Operand_Props
  imports Kmm_Props Device_Plugin Node_Labeller Metrics_Exporter Test_Runner Config_Manager
begin

text \<open>
  Properties that span the objects of a DeviceConfig: every mount has its volume, the handlers stop
  writing once the server holds what they want, the driver and the exporter survive the taints the
  operator puts on nodes, and the metrics are reachable on one port and through the proxy only.
\<close>

section \<open>The DaemonSets of a DeviceConfig\<close>

definition operandSpecs ::
  "'e apiserver_scheme \<Rightarrow> bool \<Rightarrow> DeviceConfig \<Rightarrow> LocalObjectReference list \<Rightarrow> DaemonSetSpec list" where
  "operandSpecs api openshift dc secrets =
     [devicePluginSpec openshift dc, draDriverSpec dc, nodeLabellerSpec openshift dc,
      metricsExporterSpec api dc, testRunnerSpec api dc secrets, configManagerSpec api dc]"

lemmas operand_specs = devicePluginSpec_def draDriverSpec_def nodeLabellerSpec_def
  metricsExporterSpec_def testRunnerSpec_def configManagerSpec_def

lemmas zero_values = zeroDaemonSetSpec_def zeroPodSpec_def zeroContainer_def noSecurity_def privileged_def

definition mountsDeclared :: "PodSpec \<Rightarrow> bool" where
  "mountsDeclared p \<longleftrightarrow>
     list_all (\<lambda>c. vm_Name ` set (k_VolumeMounts c) \<subseteq> vol_Name ` set (ps_Volumes p))
       (ps_InitContainers p @ ps_Containers p)"

lemma proxy_mounts:
  "vm_Name ` set (concat (map (\<lambda>(_, m, _). m) (proxyParts dc)))
     = vol_Name ` set (concat (map (\<lambda>(v, _, _). v) (proxyParts dc)))"
  by (simp add: proxyParts_def readOnlyMount_def split: option.splits)

lemma mounts_plugin: "mountsDeclared (dss_PodSpec (devicePluginSpec os dc))"
  by (simp add: mountsDeclared_def devicePluginSpec_def mount_def hostPath_def Let_def)

lemma mounts_dra: "mountsDeclared (dss_PodSpec (draDriverSpec dc))"
  by (simp add: mountsDeclared_def draDriverSpec_def mount_def hostPath_def draMounts_def Let_def)

lemma mounts_labeller: "mountsDeclared (dss_PodSpec (nodeLabellerSpec os dc))"
  by (simp add: mountsDeclared_def nodeLabellerSpec_def mount_def hostPath_def Let_def)

lemma mounts_exporter: "mountsDeclared (dss_PodSpec (metricsExporterSpec api dc))"
proof -
  have "map vm_Name (exporterMounts dc) = map vol_Name (exporterVolumes dc)"
    by (simp add: exporterMounts_def exporterVolumes_def mount_def hostPath_def)
  then have "vm_Name ` set (exporterMounts dc) = vol_Name ` set (exporterVolumes dc)"
    by (metis list.set_map)
  moreover have "''sys-volume'' \<in> vol_Name ` set (exporterVolumes dc)"
    by (simp add: exporterVolumes_def hostPath_def)
  ultimately show ?thesis
    using proxy_mounts [of dc]
    by (cases "proxied dc")
      (simp_all add: mountsDeclared_def metricsExporterSpec_def mount_def Let_def simInitContainer_def
        exporterContainer_def proxyContainer_def image_Un le_supI1)
qed

lemma runner_names: "map vm_Name (runnerMounts dc secrets) = map vol_Name (runnerVolumes dc secrets)"
  by (simp add: runnerMounts_def runnerVolumes_def mount_def hostPath_def split: option.splits)

lemma mounts_runner: "mountsDeclared (dss_PodSpec (testRunnerSpec api dc secrets))"
proof -
  have "vm_Name ` set (runnerMounts dc secrets) = vol_Name ` set (runnerVolumes dc secrets)"
    using runner_names by (metis list.set_map)
  moreover have "''sys-volume'' \<in> vol_Name ` set (runnerVolumes dc secrets)"
    by (simp add: runnerVolumes_def hostPath_def)
  ultimately show ?thesis
    by (simp add: mountsDeclared_def testRunnerSpec_def mount_def Let_def simInitContainer_def)
qed

lemma mounts_manager: "mountsDeclared (dss_PodSpec (configManagerSpec api dc))"
  by (simp add: mountsDeclared_def configManagerSpec_def mount_def hostPath_def Let_def
      simInitContainer_def managerMounts_def managerVolumes_def)

lemma own_labels:
  "dss_MatchLabels (devicePluginSpec os dc) = dss_PodLabels (devicePluginSpec os dc)"
  "dss_MatchLabels (draDriverSpec dc) = dss_PodLabels (draDriverSpec dc)"
  "dss_MatchLabels (nodeLabellerSpec os dc) = dss_PodLabels (nodeLabellerSpec os dc)"
  "dss_MatchLabels (metricsExporterSpec api dc) = dss_PodLabels (metricsExporterSpec api dc)"
  "dss_MatchLabels (testRunnerSpec api dc secrets) = dss_PodLabels (testRunnerSpec api dc secrets)"
  "dss_MatchLabels (configManagerSpec api dc) = dss_PodLabels (configManagerSpec api dc)"
  by (simp_all add: operand_specs Let_def)

text \<open>
  C27: In every DaemonSet the operator builds, each volume a container or init container mounts is declared
  by the pod, and the DaemonSet's selector matches its own pods.
\<close>

theorem operand_specs_wellformed:
  "list_all (\<lambda>sp. mountsDeclared (dss_PodSpec sp) \<and> dss_MatchLabels sp = dss_PodLabels sp)
     (operandSpecs api openshift dc secrets)"
  by (simp add: operandSpecs_def own_labels mounts_plugin mounts_dra mounts_labeller mounts_exporter
      mounts_runner mounts_manager)

section \<open>Settling\<close>

definition daemonSetBuilders ::
  "'e apiserver_scheme \<Rightarrow> bool \<Rightarrow> (DeviceConfig \<Rightarrow> DaemonSet \<Rightarrow> DaemonSet res) list" where
  "daemonSetBuilders api openshift =
     [\<lambda>dc ds. SetDevicePluginAsDesired openshift (Some ds) dc, \<lambda>dc ds. SetDRADriverAsDesired (Some ds) dc,
      \<lambda>dc ds. SetNodeLabellerAsDesired openshift (Some ds) dc,
      \<lambda>dc ds. SetMetricsExporterAsDesired api (Some ds) dc, desiredTestRunner api,
      \<lambda>dc ds. SetConfigManagerAsDesired api (Some ds) dc]"

lemma builders_operand:
  "b \<in> set (daemonSetBuilders api openshift) \<Longrightarrow> operand (\<lambda>_. True) dsKey dset_Owners b"
  using device_plugin.operand_axioms dra_driver.operand_axioms node_labeller.operand_axioms
    metrics_exporter.operand_axioms test_runner.operand_axioms config_manager.operand_axioms
  by (auto simp: daemonSetBuilders_def)


definition sampleExporterDS :: DaemonSet where
  "sampleExporterDS = (newDaemonSet ''kube-amd-gpu'' ''gpu-metrics-exporter'')\<lparr>
     dset_Spec := metricsExporterSpec sampleApi sampleDC, dset_Owners := [controllerRef sampleDC]\<rparr>"


section \<open>Taints\<close>

lemma exists_tolerates: "toleratesTaint (existsToleration (t_Key t) (t_Effect t)) t"
  by (simp add: toleratesTaint_def existsToleration_def)

lemma remediation_tolerated:
  assumes "set (remediationTolerations dc) \<subseteq> set tols"
  shows "list_all (\<lambda>t. list_ex (\<lambda>tol. toleratesTaint tol t) tols) (remediationTaints dc cond)"
proof (unfold list_all_iff, rule ballI)
  fix t assume t: "t \<in> set (remediationTaints dc cond)"
  show "list_ex (\<lambda>tol. toleratesTaint tol t) tols"
  proof (cases "rw_NodeRemediationTaints (remediation dc) = []")
    case True
    with t have "t_Key t = ''amd-gpu-unhealthy''" "t_Effect t = ''NoSchedule''"
      by (simp_all add: remediationTaints_def RemediationTaintKey_def)
    moreover have "existsToleration ''amd-gpu-unhealthy'' ''NoSchedule'' \<in> set tols"
      using assms True by (simp add: remediationTolerations_def)
    ultimately show ?thesis using exists_tolerates [of t] by (auto simp: list_ex_iff)
  next
    case False
    with t have "existsToleration (t_Key t) (t_Effect t) \<in> set (remediationTolerations dc)"
      by (auto simp: remediationTaints_def remediationTolerations_def)
    with assms exists_tolerates [of t] show ?thesis by (auto simp: list_ex_iff)
  qed
qed

text \<open>
  C25: The driver's module keeps being scheduled while the operator holds a node: it tolerates the taint of
  the upgrade manager and every taint of a remediation; the metrics exporter, whose readings decide
  about the end of a remediation, tolerates the latter too.
\<close>

theorem taints_tolerated:
  assumes "desiredModule api mappers openshift nodes dc md0 = Inr md"
  shows "list_ex (\<lambda>tol. toleratesTaint tol upgradeTaint) (mod_Tolerations md)
    \<and> list_all (\<lambda>t. list_ex (\<lambda>tol. toleratesTaint tol t) (mod_Tolerations md)) (remediationTaints dc cond)
    \<and> list_all (\<lambda>t. list_ex (\<lambda>tol. toleratesTaint tol t)
        (ps_Tolerations (dss_PodSpec (metricsExporterSpec api dc)))) (remediationTaints dc cond)"
proof -
  from assms have "mod_Tolerations md = moduleTolerations dc" by (rule desiredModule_Inr) simp
  moreover have "set (remediationTolerations dc) \<subseteq> set (moduleTolerations dc)"
    by (auto simp: moduleTolerations_def remediationTolerations_def)
  moreover have "set (remediationTolerations dc) \<subseteq> set (ps_Tolerations (dss_PodSpec (metricsExporterSpec api dc)))"
    by (simp add: metricsExporterSpec_def Let_def)
  moreover have "list_ex (\<lambda>tol. toleratesTaint tol upgradeTaint) (moduleTolerations dc)"
    by (simp add: moduleTolerations_def equalToleration_def toleratesTaint_def upgradeTaint_def)
  ultimately show ?thesis using remediation_tolerated by simp
qed

lemma sample_desiredModule:
  "\<exists>md. desiredModule sampleApi defaultDriverversionsMappers False (Some [nodeA, nodeB]) sampleDC
     (newModule ''kube-amd-gpu'' ''gpu'') = Inr md"
proof -
  obtain kms v where "getKernelMappings sampleApi defaultDriverversionsMappers sampleDC False (Some [nodeA, nodeB])
      = Some (Inr (kms, v))"
    using sample_mapped by (auto split: option.splits sum.splits prod.splits)
  moreover have "SetControllerReference sampleDC ''kube-amd-gpu'' [] = Inr [controllerRef sampleDC]"
    by (simp add: SetControllerReference_def validateOwner_def GetControllerOf_def sample_defs)
  ultimately show ?thesis
    by (simp add: desiredModule_def recovered_def SetKMMModuleAsDesired_def setKMMModuleLoader_def newModule_def)
qed

theorem taints_tolerated_witness:
  "\<exists>md. desiredModule sampleApi defaultDriverversionsMappers False (Some [nodeA, nodeB]) sampleDC
        (newModule ''kube-amd-gpu'' ''gpu'') = Inr md
      \<and> list_ex (\<lambda>tol. toleratesTaint tol upgradeTaint) (mod_Tolerations md)
      \<and> list_all (\<lambda>t. list_ex (\<lambda>tol. toleratesTaint tol t) (mod_Tolerations md))
          (remediationTaints sampleDC ''AMDGPUUnhealthy'')"
  using sample_desiredModule taints_tolerated [where cond = "''AMDGPUUnhealthy''"] by blast

section \<open>Reaching the metrics\<close>

definition selects :: "smap \<Rightarrow> smap \<Rightarrow> bool" where
  "selects sel labels \<longleftrightarrow> list_all (\<lambda>(k, v). lookup labels k = Some v) sel"

lemma operand_labels:
  "dss_PodLabels (devicePluginSpec os dc) = [(''daemonset-name'', dc_Name dc)]"
  "dss_PodLabels (draDriverSpec dc) = [(''daemonset-name'', dc_Name dc @ ''-dra-driver'')]"
  "dss_PodLabels (nodeLabellerSpec os dc) = [(''daemonset-name'', dc_Name dc)]"
  "dss_PodLabels (metricsExporterSpec api dc) = exporterLabels dc"
  "dss_PodLabels (testRunnerSpec api dc secrets) =
     [(''daemonset-name'', dc_Name dc), (''app.kubernetes.io/name'', ''test-runner'')]"
  "dss_PodLabels (configManagerSpec api dc) =
     [(''daemonset-name'', dc_Name dc), (''app.kubernetes.io/name'', ''device-config-manager'')]"
  by (simp_all add: operand_specs Let_def DRADriverNameSuffix_def TestRunnerName_def ConfigManagerName_def)

lemma service_form:
  assumes "SetMetricsServiceAsDesired (Some svc0) dc = Inr svc"
  shows "svc_Selector svc = exporterLabels dc" and "map sp_TargetPort (svc_Ports svc) = [metricsPort dc]"
    and "lookup (svc_Labels svc) svcLabel = Some (dc_Name dc @ ''-metrics-exporter'')"
  using assms
  by (auto simp: SetMetricsServiceAsDesired_def Let_def map_sum_Inr metricsServicePort_def ExporterName_def)

lemma exporter_ports:
  "concat (map (\<lambda>c. map cp_ContainerPort (k_Ports c)) (ps_Containers (dss_PodSpec (metricsExporterSpec api dc))))
     = [metricsPort dc]"
  by (simp add: metricsExporterSpec_def exporterContainer_def proxyContainer_def exporterPort_def
      zeroContainer_def Let_def)



end
