(* ===== verification/Worker_Mgr.thy ===== *)
theory Worker_Mgr
  imports Operand_Base
begin

text \<open>
  \<open>src/internal/controllers/workermgr/workermgr.go\<close>: the worker pods that bind the GPUs of a node to the
  VFIO driver and unbind them, and the node label that records a completed binding.  The embedded
  scripts are the argument \<open>vfioScripts\<close>.
\<close>

record vfioScripts =
  vs_Bind :: string
  vs_Unbind :: string

definition LoadVFIOAction :: string where "LoadVFIOAction = ''loadVFIO''"
definition UnloadVFIOAction :: string where "UnloadVFIOAction = ''unloadVFIO''"
definition WorkerActionLabelKey :: string where "WorkerActionLabelKey = ''gpu.operator.amd.com/worker-action''"
definition DefaultUtilsImage :: string where "DefaultUtilsImage = ''docker.io/rocm/gpu-operator-utils:latest''"

definition DefaultVFDeviceIDs :: "string list" where
  "DefaultVFDeviceIDs = [''7410'', ''74b5'', ''74b9'', ''7461'', ''73ae'']"

definition DefaultPFDeviceIDs :: "string list" where
  "DefaultPFDeviceIDs = [''74a5'', ''74a2'', ''74b6'', ''74a8'', ''74a0'', ''74a1'', ''74a9'', ''74bd'', ''740f'',
     ''7408'', ''740c'']"

section \<open>The worker pod\<close>

definition getPodName :: "DeviceConfig \<Rightarrow> string \<Rightarrow> string" where
  "getPodName dc nodeName = ''worker-'' @ dc_Name dc @ ''-'' @ nodeName"

definition getVFIOCommand :: "string \<Rightarrow> DeviceConfig \<Rightarrow> string" where
  "getVFIOCommand cmd dc =
     (let ids = vfio_DeviceIDs (d_VFIOConfig (driver dc)); t = d_DriverType (driver dc) in
      if t = DriverTypeVFPassthrough then
        replaceAll cmd ''$$PCI_DEVICE_ID_LIST'' (joinStr '' '' (if ids \<noteq> [] then ids else DefaultVFDeviceIDs))
      else if t = DriverTypePFPassthrough then
        replaceAll cmd ''$$PCI_DEVICE_ID_LIST'' (joinStr '' '' (if ids \<noteq> [] then ids else DefaultPFDeviceIDs))
      else ''true'')"

definition detectVFCommand :: string where
  "detectVFCommand = ''while ! lspci -nn | grep -q '' @ joinStr '' '' (map (\<lambda>d. ''-e '' @ d) DefaultVFDeviceIDs)
     @ ''; do echo '' @ dq @ ''PCI device not found'' @ dq @ ''; sleep 2; done''"

definition rootPrivileged :: SecurityContext where
  "rootPrivileged = privileged\<lparr>sc_RunAsUser := Some 0\<rparr>"

definition workerMounts :: "VolumeMount list" where
  "workerMounts = [mount ''lib'' ''/lib/modules'', mount ''sys'' ''/sys'', mount ''dev'' ''/dev'']"

definition utilsImage :: "DeviceConfig \<Rightarrow> string" where
  "utilsImage dc = orDefault (uc_Image (cc_UtilsContainer (common dc))) DefaultUtilsImage"

definition workerCommand :: "vfioScripts \<Rightarrow> DeviceConfig \<Rightarrow> string \<Rightarrow> string list" where
  "workerCommand vs dc action =
     (if action = LoadVFIOAction then [''/bin/bash'', ''-c'', getVFIOCommand (vs_Bind vs) dc]
      else if action = UnloadVFIOAction then [''/bin/bash'', ''-c'', getVFIOCommand (vs_Unbind vs) dc]
      else [])"

definition getPodDef :: "vfioScripts \<Rightarrow> DeviceConfig \<Rightarrow> string \<Rightarrow> string \<Rightarrow> WorkerPod" where
  "getPodDef vs dc nodeName action =
     (let uc = cc_UtilsContainer (common dc);
          cont = (\<lambda>n cmd. zeroContainer\<lparr>k_Name := n, k_Image := utilsImage dc, k_Command := cmd,
                    k_Security := rootPrivileged, k_VolumeMounts := workerMounts,
                    k_ImagePullPolicy := uc_ImagePullPolicy uc\<rparr>)
      in \<lparr>wp_Name = getPodName dc nodeName, wp_Namespace = dc_Namespace dc,
          wp_Labels = [(WorkerActionLabelKey, action)], wp_Owners = [],
          wp_Spec = zeroPodSpec\<lparr>ps_NodeName := nodeName,
            ps_InitContainers :=
              (if action = LoadVFIOAction \<and> d_DriverType (driver dc) = DriverTypeVFPassthrough
               then [cont ''pci-device-detector'' [''sh'', ''-c'', detectVFCommand]] else []),
            ps_Containers := [cont ''worker'' (workerCommand vs dc action)],
            ps_RestartPolicy := ''OnFailure'',
            ps_Volumes := [hostPath ''sys'' ''/sys'' dirType, hostPath ''lib'' ''/lib/modules'' dirType,
              hostPath ''dev'' ''/dev'' dirType],
            ps_ImagePullSecrets := (case uc_ImageRegistrySecret uc of None \<Rightarrow> [] | Some r \<Rightarrow> [r])\<rparr>\<rparr>)"

section \<open>Work and clean-up\<close>

definition isPassthrough :: "DeviceConfig \<Rightarrow> bool" where
  "isPassthrough dc \<longleftrightarrow> d_DriverType (driver dc) = DriverTypeVFPassthrough
     \<or> d_DriverType (driver dc) = DriverTypePFPassthrough"

definition ownWorker :: "DeviceConfig \<Rightarrow> WorkerPod \<Rightarrow> WorkerPod res" where
  "ownWorker dc p =
     map_sum id (\<lambda>os. p\<lparr>wp_Owners := os\<rparr>) (SetControllerReference dc (wp_Namespace p) (wp_Owners p))"

abbreviation wpKey :: "WorkerPod \<Rightarrow> string \<times> string" where
  "wpKey p \<equiv> (wp_Namespace p, wp_Name p)"

definition runWorker ::
  "'e apiserver_scheme \<Rightarrow> vfioScripts \<Rightarrow> string \<Rightarrow> DeviceConfig \<Rightarrow> Node \<Rightarrow> 'a world_scheme \<Rightarrow> err \<times> 'a world_scheme" where
  "runWorker api vs action dc node s =
     (if \<not> isPassthrough dc then (None, s)
      else CreateOrPatch api OWorkerPod wpKey (getWorker api) (ownWorker dc)
             (getPodDef vs dc (n_Name node) action) s)"

definition Work ::
  "'e apiserver_scheme \<Rightarrow> vfioScripts \<Rightarrow> DeviceConfig \<Rightarrow> Node \<Rightarrow> 'a world_scheme \<Rightarrow> err \<times> 'a world_scheme" where
  "Work api vs dc node s = runWorker api vs LoadVFIOAction dc node s"

definition Cleanup ::
  "'e apiserver_scheme \<Rightarrow> vfioScripts \<Rightarrow> DeviceConfig \<Rightarrow> Node \<Rightarrow> 'a world_scheme \<Rightarrow> err \<times> 'a world_scheme" where
  "Cleanup api vs dc node s = runWorker api vs UnloadVFIOAction dc node s"

definition GetWorkerPod ::
  "'e apiserver_scheme \<Rightarrow> DeviceConfig \<Rightarrow> Node \<Rightarrow> 'a world_scheme \<Rightarrow> WorkerPod res \<times> 'a world_scheme" where
  "GetWorkerPod api dc node s = getWorker api (dc_Namespace dc) (getPodName dc (n_Name node)) s"

section \<open>The ready label\<close>

definition GetWorkReadyLabel :: "NamespacedName \<Rightarrow> string" where
  "GetWorkReadyLabel nsn = applyTemplate VFIOMountReadyLabelTemplate (nsn_Namespace nsn) (nsn_Name nsn)"

definition patchNode :: "'e apiserver_scheme \<Rightarrow> Node \<Rightarrow> Node \<Rightarrow> 'a world_scheme \<Rightarrow> 'a world_scheme" where
  "patchNode api new node s = snd (writeObj api (CPatch (ONode new) (ONode node)) s)"

definition AddWorkReadyLabel ::
  "'e apiserver_scheme \<Rightarrow> NamespacedName \<Rightarrow> string \<Rightarrow> 'a world_scheme \<Rightarrow> 'a world_scheme" where
  "AddWorkReadyLabel api nsn nodeName s =
     (case getNode api nodeName s of
        (Inl _, s1) \<Rightarrow> s1
      | (Inr node, s1) \<Rightarrow> patchNode api
          (node\<lparr>n_Labels := store (GetWorkReadyLabel nsn) [] (n_Labels node)\<rparr>) node s1)"

definition RemoveWorkReadyLabel ::
  "'e apiserver_scheme \<Rightarrow> NamespacedName \<Rightarrow> string \<Rightarrow> 'a world_scheme \<Rightarrow> 'a world_scheme" where
  "RemoveWorkReadyLabel api nsn nodeName s =
     (case getNode api nodeName s of
        (Inl _, s1) \<Rightarrow> s1
      | (Inr node, s1) \<Rightarrow> patchNode api
          (node\<lparr>n_Labels := remove (GetWorkReadyLabel nsn) (n_Labels node)\<rparr>) node s1)"

section \<open>Contract\<close>

interpretation worker: operand "\<lambda>_. True" wpKey wp_Owners ownWorker
  by unfold_locales
    (auto simp: ownWorker_def map_sum_Inr dest: SetControllerReference_Inr(1) SetControllerReference_idem)

text \<open>
  Both kinds of worker of a node have one name, and a worker that is already there is kept as it is, up to its
  owner: devices are not bound while the pod that unbinds them exists, nor the other way round.
\<close>

theorem worker_kept:
  assumes "o_workerpod api (hist s) (dc_Namespace dc) (getPodName dc (n_Name node)) = Inr old"
    and "c \<in> set (issued s (snd (runWorker api vs action dc node s)))" and "isWrite c"
  shows "\<exists>os. c = CPatch (OWorkerPod (old\<lparr>wp_Owners := os\<rparr>)) (OWorkerPod old)"
proof (cases "isPassthrough dc")
  case False
  with assms(2) show ?thesis by (simp add: runWorker_def)
next
  case True
  have key: "wpKey (getPodDef vs dc (n_Name node) action) = (dc_Namespace dc, getPodName dc (n_Name node))"
    by (simp add: getPodDef_def Let_def)
  from True assms(1) key have
    "runWorker api vs action dc node s =
      (let s1 = logCall (CGet KPod (dc_Namespace dc) (getPodName dc (n_Name node))) s in
       case ownWorker dc old of Inl e \<Rightarrow> (Some e, s1)
       | Inr new \<Rightarrow> if new = old then (None, s1) else writeObj api (CPatch (OWorkerPod new) (OWorkerPod old)) s1)"
    by (simp add: runWorker_def worker.CreateOrPatch_desired getWorker_def Let_def)
  with assms(2,3) show ?thesis
    by (auto simp: Let_def issued_def writeObj_def isWrite_def ownWorker_def map_sum_Inr
        split: sum.splits if_splits)
qed

definition sampleWorker :: WorkerPod where
  "sampleWorker = \<lparr>wp_Name = ''worker-gpu-node-a'', wp_Namespace = ''kube-amd-gpu'',
     wp_Labels = [(WorkerActionLabelKey, UnloadVFIOAction)], wp_Owners = [], wp_Spec = zeroPodSpec\<rparr>"

definition passthroughDC :: DeviceConfig where
  "passthroughDC = sampleDC\<lparr>dc_Spec := sampleSpec\<lparr>s_Driver := sampleDriver\<lparr>d_DriverType := ''vf-passthrough''\<rparr>\<rparr>\<rparr>"

theorem worker_kept_witness:
  "let api = sampleApi\<lparr>o_workerpod := \<lambda>h ns n. Inr sampleWorker\<rparr>;
       t = snd (runWorker api \<lparr>vs_Bind = ''bind'', vs_Unbind = ''unbind''\<rparr> LoadVFIOAction passthroughDC nodeA sampleMgr)
   in writesOf (hist t) \<noteq> [] \<and> (\<forall>c \<in> set (writesOf (hist t)).
        \<exists>os. c = CPatch (OWorkerPod (sampleWorker\<lparr>wp_Owners := os\<rparr>)) (OWorkerPod sampleWorker))"
proof -
  let ?api = "sampleApi\<lparr>o_workerpod := \<lambda>h ns n. Inr sampleWorker\<rparr>"
  let ?t = "snd (runWorker ?api \<lparr>vs_Bind = ''bind'', vs_Unbind = ''unbind''\<rparr> LoadVFIOAction passthroughDC nodeA sampleMgr)"
  have w: "writesOf (hist ?t) \<noteq> []" by code_simp
  have i: "issued sampleMgr ?t = hist ?t" by (simp add: issued_def sampleMgr_def newUpgradeMgrHelperHandler_def)
  have "\<exists>os. c = CPatch (OWorkerPod (sampleWorker\<lparr>wp_Owners := os\<rparr>)) (OWorkerPod sampleWorker)"
    if "c \<in> set (writesOf (hist ?t))" for c
    by (rule worker_kept [of ?api sampleMgr passthroughDC nodeA _ c "\<lparr>vs_Bind = ''bind'', vs_Unbind = ''unbind''\<rparr>"
          LoadVFIOAction]) (use that i in \<open>simp_all add: writesOf_def\<close>)
  with w show ?thesis by (simp add: Let_def)
qed

end
