(* ===== verification/Watchers.thy ===== *)
theory Watchers
  imports Worker_Mgr Kmm_Module
begin

text \<open>
  \<open>src/internal/controllers/watchers\<close>: the event handlers of the controller for DaemonSets, Nodes and
  Pods, and their predicates.  A handler returns the requests it puts on the work queue, in order; an event
  that a predicate does not look at passes it, as with the embedded \<open>predicate.Funcs\<close>.
\<close>

datatype 'o event = Created 'o | Updated 'o 'o | Deleted 'o | Generic 'o

abbreviation request :: "string \<Rightarrow> string \<Rightarrow> NamespacedName" where
  "request ns n \<equiv> \<lparr>nsn_Namespace = ns, nsn_Name = n\<rparr>"

section \<open>DeviceConfigs and Services\<close>

fun SpecChangedOrDeletionPredicate :: "(bool \<times> int) event \<Rightarrow> bool" where
  "SpecChangedOrDeletionPredicate (Updated (delOld, genOld) (delNew, genNew)) \<longleftrightarrow> delOld \<noteq> delNew \<or> genOld \<noteq> genNew"
| "SpecChangedOrDeletionPredicate _ \<longleftrightarrow> True"

section \<open>DaemonSets\<close>

definition ownedByDeviceConfig :: "OwnerReference list \<Rightarrow> bool" where
  "ownedByDeviceConfig os = list_ex (\<lambda>r. or_Kind r = KindDeviceConfig) os"

fun DaemonsetPredicate :: "DaemonSet event \<Rightarrow> bool" where
  "DaemonsetPredicate (Created ds) = True"
| "DaemonsetPredicate (Updated old new) = ownedByDeviceConfig (dset_Owners new)"
| "DaemonsetPredicate (Deleted ds) = ownedByDeviceConfig (dset_Owners ds)"
| "DaemonsetPredicate (Generic ds) = ownedByDeviceConfig (dset_Owners ds)"

definition fetchOwnerDeviceConfigName :: "OwnerReference list \<Rightarrow> string" where
  "fetchOwnerDeviceConfigName os =
     (case find (\<lambda>r. or_Kind r = KindDeviceConfig) os of Some r \<Rightarrow> or_Name r | None \<Rightarrow> [])"

definition daemonSetCounts :: "DaemonSet \<Rightarrow> DeploymentStatus" where
  "daemonSetCounts ds = \<lparr>dst_NodesMatchingSelectorNumber = dset_NumberAvailable ds,
     dst_DesiredNumber = dset_DesiredNumberScheduled ds, dst_AvailableNumber = dset_NumberAvailable ds\<rparr>"

definition handleMetricsExporterStatus :: "DaemonSet \<Rightarrow> DeviceConfig \<Rightarrow> DeviceConfig" where
  "handleMetricsExporterStatus ds dc =
     dc\<lparr>dc_Status := (dc_Status dc)\<lparr>st_MetricsExporter := daemonSetCounts ds\<rparr>\<rparr>"

definition handleDevicePluginStatus :: "DaemonSet \<Rightarrow> DeviceConfig \<Rightarrow> DeviceConfig" where
  "handleDevicePluginStatus ds dc =
     dc\<lparr>dc_Status := (dc_Status dc)\<lparr>st_DevicePlugin := daemonSetCounts ds\<rparr>\<rparr>"

definition daemonSetStatus :: "DaemonSet \<Rightarrow> DeviceConfig \<Rightarrow> DeviceConfig" where
  "daemonSetStatus ds dc =
     (if hasSuffix (dset_Name ds) ''-metrics-exporter'' then handleMetricsExporterStatus ds dc
      else if hasSuffix (dset_Name ds) ''-device-plugin'' then handleDevicePluginStatus ds dc
      else dc)"

text \<open>
  The body of the retried function.  \<open>blank\<close> is the zero DeviceConfig: when the owner is not found the
  function goes on with it and patches the status of an object without a name.
\<close>

definition patchStatusOnce ::
  "'e apiserver_scheme \<Rightarrow> DeviceConfig \<Rightarrow> DaemonSet \<Rightarrow> string \<Rightarrow> 'a world_scheme \<Rightarrow> err \<times> 'a world_scheme" where
  "patchStatusOnce api blank ds devConfigName s =
     (case getDC api (dset_Namespace ds) devConfigName s of
        (Inl e, s1) \<Rightarrow>
          if e \<noteq> NotFound then (Some e, s1)
          else writeObj api (CPatchStatus (ODeviceConfig (daemonSetStatus ds blank)) (ODeviceConfig blank)) s1
      | (Inr dc, s1) \<Rightarrow>
          writeObj api (CPatchStatus (ODeviceConfig (daemonSetStatus ds dc)) (ODeviceConfig dc)) s1)"

definition patchDeviceConfigNodeStatus ::
  "'e apiserver_scheme \<Rightarrow> DeviceConfig \<Rightarrow> DaemonSet \<Rightarrow> string \<Rightarrow> 'a world_scheme \<Rightarrow> 'a world_scheme" where
  "patchDeviceConfigNodeStatus api blank ds devConfigName s =
     snd (retryOnConflict (patchStatusOnce api blank ds devConfigName) s)"

definition daemonSetObserved ::
  "'e apiserver_scheme \<Rightarrow> DeviceConfig \<Rightarrow> DaemonSet \<Rightarrow> 'a world_scheme \<Rightarrow> 'a world_scheme" where
  "daemonSetObserved api blank ds s =
     (let n = fetchOwnerDeviceConfigName (dset_Owners ds) in
      if n = [] then s else patchDeviceConfigNodeStatus api blank ds n s)"

fun DaemonsetEventHandler ::
  "'e apiserver_scheme \<Rightarrow> DeviceConfig \<Rightarrow> DaemonSet event \<Rightarrow> 'a world_scheme \<Rightarrow> NamespacedName list \<times> 'a world_scheme" where
  "DaemonsetEventHandler api blank (Updated old new) s =
     (let n = fetchOwnerDeviceConfigName (dset_Owners new) in
      if n = [] then ([], s)
      else (if dset_Generation old \<noteq> dset_Generation new \<or> dset_Deleting old \<noteq> dset_Deleting new
            then [request (dset_Namespace new) n] else [],
            daemonSetObserved api blank new s))"
| "DaemonsetEventHandler api blank (Created ds) s = ([], daemonSetObserved api blank ds s)"
| "DaemonsetEventHandler api blank (Deleted ds) s = ([], daemonSetObserved api blank ds s)"
| "DaemonsetEventHandler api blank (Generic ds) s = ([], daemonSetObserved api blank ds s)"

section \<open>Nodes\<close>

definition nodeChanged :: "Node \<Rightarrow> Node \<Rightarrow> bool" where
  "nodeChanged old new \<longleftrightarrow> n_KernelVersion old \<noteq> n_KernelVersion new \<or> n_Generation old \<noteq> n_Generation new
     \<or> n_BootID old \<noteq> n_BootID new \<or> lookup (n_Labels old) \<noteq> lookup (n_Labels new)"

fun NodePredicate :: "Node event \<Rightarrow> bool" where
  "NodePredicate (Updated old new) = nodeChanged old new"
| "NodePredicate _ = True"

definition reconcileAllDeviceConfigs ::
  "'e apiserver_scheme \<Rightarrow> 'a world_scheme \<Rightarrow> NamespacedName list \<times> 'a world_scheme" where
  "reconcileAllDeviceConfigs api s =
     (case listDCs api s of
        (Inl _, s1) \<Rightarrow> ([], s1)
      | (Inr dcs, s1) \<Rightarrow> (map (\<lambda>dc. request (dc_Namespace dc) (dc_Name dc)) dcs, s1))"

definition isDriverModule :: "NMCModule \<Rightarrow> bool" where
  "isDriverModule m \<longleftrightarrow> nm_ModuleName m = ContainerDriverModuleName \<or> nm_ModuleName m = VFPassthroughDriverModuleName"

definition reconcileRelatedDeviceConfig ::
  "'e apiserver_scheme \<Rightarrow> string \<Rightarrow> 'a world_scheme \<Rightarrow> NamespacedName list \<times> 'a world_scheme" where
  "reconcileRelatedDeviceConfig api nodeName s =
     (case getNMC api [] nodeName s of
        (Inl _, s1) \<Rightarrow> ([], s1)
      | (Inr nmc, s1) \<Rightarrow>
          (case find isDriverModule (nmc_SpecModules nmc) of
             None \<Rightarrow> ([], s1)
           | Some m \<Rightarrow> ([request (nm_Namespace m) (nm_Name m)], s1)))"

definition handlePostProcess ::
  "'e apiserver_scheme \<Rightarrow> vfioScripts \<Rightarrow> Node \<Rightarrow> Node \<Rightarrow> 'a world_scheme \<Rightarrow> 'a world_scheme" where
  "handlePostProcess api vs oldNode node s =
     (case HasNodeLabelTemplateMatch (n_Labels node) VFIOMountReadyLabelTemplate of (hasVFIO, _, vns, vn) \<Rightarrow>
      case HasNodeLabelTemplateMatch (n_Labels node) DriverTypeNodeLabelTemplate of (hasDriver, _, dns, dn) \<Rightarrow>
      if hasDriver \<and> \<not> hasVFIO then
        (case getDC api dns dn s of
           (Inl _, s1) \<Rightarrow> s1
         | (Inr dc, s1) \<Rightarrow> if isPassthrough dc then snd (Work api vs dc node s1) else s1)
      else if \<not> hasDriver \<and> hasVFIO then
        (case getDC api vns vn s of
           (Inl _, s1) \<Rightarrow> s1
         | (Inr dc, s1) \<Rightarrow> snd (Cleanup api vs dc node s1))
      else if n_BootID oldNode \<noteq> n_BootID node then
        RemoveWorkReadyLabel api (request vns vn) (n_Name node) s
      else s)"

fun NodeEventHandler ::
  "'e apiserver_scheme \<Rightarrow> vfioScripts \<Rightarrow> Node event \<Rightarrow> 'a world_scheme \<Rightarrow> NamespacedName list \<times> 'a world_scheme" where
  "NodeEventHandler api vs (Created n) s = reconcileAllDeviceConfigs api s"
| "NodeEventHandler api vs (Generic n) s = reconcileRelatedDeviceConfig api (n_Name n) s"
| "NodeEventHandler api vs (Deleted n) s = reconcileRelatedDeviceConfig api (n_Name n) s"
| "NodeEventHandler api vs (Updated old new) s =
     (case (if nodeChanged old new then reconcileAllDeviceConfigs api s else ([], s)) of (reqs, s1) \<Rightarrow>
        (reqs, handlePostProcess api vs old new s1))"

section \<open>Pods\<close>

definition isKMMBuildOrSignPod :: "smap \<Rightarrow> bool" where
  "isKMMBuildOrSignPod labels \<longleftrightarrow>
     lookup labels ''kmm.node.kubernetes.io/pod-type'' = Some ''build''
     \<or> lookup labels ''kmm.node.kubernetes.io/pod-type'' = Some ''sign''"

definition hasExpectedPodLabel :: "smap \<Rightarrow> bool" where
  "hasExpectedPodLabel labels \<longleftrightarrow> isKMMBuildOrSignPod labels \<or> hasKey labels WorkerActionLabelKey"

fun PodLabelPredicate :: "Pod event \<Rightarrow> bool" where
  "PodLabelPredicate (Updated old new) = hasExpectedPodLabel (p_Labels new)"
| "PodLabelPredicate _ = True"

definition nodeIsReady :: "Node \<Rightarrow> bool" where
  "nodeIsReady node = list_ex (\<lambda>c. nc_Type c = ''Ready'' \<and> nc_Status c = ''True'') (n_Conditions node)"

definition cleanupUnknownPod ::
  "'e apiserver_scheme \<Rightarrow> Pod \<Rightarrow> 'a world_scheme \<Rightarrow> 'a world_scheme" where
  "cleanupUnknownPod api pod s =
     (if isKMMBuildOrSignPod (p_Labels pod)
         \<and> list_ex (\<lambda>r. r = Some ''ContainerStatusUnknown'') (p_WaitingReasons pod)
      then (case getNode api (p_NodeName pod) s of
              (Inl _, s1) \<Rightarrow> s1
            | (Inr node, s1) \<Rightarrow>
                if nodeIsReady node then snd (writeObj api (CDelete KPod (p_Namespace pod) (p_Name pod)) s1)
                else s1)
      else s)"

text \<open>The last owner of the kind decides.\<close>

definition workerOwner :: "Pod \<Rightarrow> NamespacedName option" where
  "workerOwner pod =
     map_option (\<lambda>(k, n). request (p_Namespace pod) n) (find (\<lambda>(k, n). k = KindDeviceConfig) (rev (p_Owners pod)))"

definition handleWorkerMgrPodEvt ::
  "'e apiserver_scheme \<Rightarrow> Pod \<Rightarrow> string \<Rightarrow> 'a world_scheme \<Rightarrow> 'a world_scheme" where
  "handleWorkerMgrPodEvt api pod action s =
     (let del = (\<lambda>s. snd (writeObj api (CDelete KPod (p_Namespace pod) (p_Name pod)) s)) in
      case workerOwner pod of
        None \<Rightarrow> s
      | Some nsn \<Rightarrow>
          if p_Phase pod = ''Succeeded'' then
            del (if action = LoadVFIOAction then AddWorkReadyLabel api nsn (p_NodeName pod) s
                 else if action = UnloadVFIOAction then RemoveWorkReadyLabel api nsn (p_NodeName pod) s
                 else s)
          else if p_Phase pod = ''Failed'' \<or> p_Phase pod = ''Unknown'' then del s
          else s)"

fun PodEventHandler :: "'e apiserver_scheme \<Rightarrow> Pod event \<Rightarrow> 'a world_scheme \<Rightarrow> 'a world_scheme" where
  "PodEventHandler api (Updated old pod) s =
     (let s1 = cleanupUnknownPod api pod s in
      case lookup (p_Labels pod) WorkerActionLabelKey of
        None \<Rightarrow> s1
      | Some action \<Rightarrow> handleWorkerMgrPodEvt api pod action s1)"
| "PodEventHandler api _ s = s"

section \<open>Calls of the pod handler\<close>

text \<open>The writes a change of a pod may lead to.\<close>

definition podDeletable :: "'e apiserver_scheme \<Rightarrow> Pod \<Rightarrow> bool" where
  "podDeletable api pod \<longleftrightarrow>
     isKMMBuildOrSignPod (p_Labels pod) \<and> Some ''ContainerStatusUnknown'' \<in> set (p_WaitingReasons pod)
       \<and> (\<exists>h node. o_node api h (p_NodeName pod) = Inr node \<and> nodeIsReady node)
     \<or> hasKey (p_Labels pod) WorkerActionLabelKey \<and> workerOwner pod \<noteq> None
       \<and> p_Phase pod \<in> {''Succeeded'', ''Failed'', ''Unknown''}"

definition podWrite :: "'e apiserver_scheme \<Rightarrow> Pod \<Rightarrow> call \<Rightarrow> bool" where
  "podWrite api pod c \<longleftrightarrow>
     c = CDelete KPod (p_Namespace pod) (p_Name pod) \<and> podDeletable api pod
     \<or> (\<exists>nsn h node. workerOwner pod = Some nsn \<and> p_Phase pod = ''Succeeded''
          \<and> o_node api h (p_NodeName pod) = Inr node
          \<and> (lookup (p_Labels pod) WorkerActionLabelKey = Some LoadVFIOAction
               \<and> c = CPatch (ONode (node\<lparr>n_Labels := store (GetWorkReadyLabel nsn) [] (n_Labels node)\<rparr>)) (ONode node)
             \<or> lookup (p_Labels pod) WorkerActionLabelKey = Some UnloadVFIOAction
               \<and> c = CPatch (ONode (node\<lparr>n_Labels := remove (GetWorkReadyLabel nsn) (n_Labels node)\<rparr>)) (ONode node)))"

lemma ran_cleanup: "ran (\<lambda>c. isWrite c \<longrightarrow> podWrite api pod c) s (cleanupUnknownPod api pod s)"
  by (auto simp: cleanupUnknownPod_def getNode_def writeObj_def isWrite_def podWrite_def podDeletable_def list_ex_iff
      split: sum.splits intro!: ran_logCall)

lemma ran_readyLabels:
  fixes s :: "'a world_scheme"
  assumes "workerOwner pod = Some nsn" and "p_Phase pod = ''Succeeded''"
  shows "lookup (p_Labels pod) WorkerActionLabelKey = Some LoadVFIOAction \<Longrightarrow>
      ran (\<lambda>c. isWrite c \<longrightarrow> podWrite api pod c) s (AddWorkReadyLabel api nsn (p_NodeName pod) s)"
    and "lookup (p_Labels pod) WorkerActionLabelKey = Some UnloadVFIOAction \<Longrightarrow>
      ran (\<lambda>c. isWrite c \<longrightarrow> podWrite api pod c) s (RemoveWorkReadyLabel api nsn (p_NodeName pod) s)"
  using assms
  by (auto simp: AddWorkReadyLabel_def RemoveWorkReadyLabel_def patchNode_def getNode_def writeObj_def isWrite_def podWrite_def
      split: sum.splits intro!: ran_logCall)

lemma ran_workerEvt:
  fixes s :: "'a world_scheme"
  assumes "lookup (p_Labels pod) WorkerActionLabelKey = Some action"
  shows "ran (\<lambda>c. isWrite c \<longrightarrow> podWrite api pod c) s (handleWorkerMgrPodEvt api pod action s)"
proof (cases "workerOwner pod")
  case None
  then show ?thesis by (simp add: handleWorkerMgrPodEvt_def)
next
  case (Some nsn)
  have d: "podWrite api pod (CDelete KPod (p_Namespace pod) (p_Name pod))"
    if "p_Phase pod \<in> {''Succeeded'', ''Failed'', ''Unknown''}"
    using that assms Some by (simp add: podWrite_def podDeletable_def hasKey_def)
  show ?thesis
    using assms Some d ran_readyLabels [OF Some, of api s]
    by (auto simp: handleWorkerMgrPodEvt_def Let_def writeObj_def intro!: ran_logCall)
qed

text \<open>
  C28: The writes of the pod handler, exactly bounded.  It deletes the changed pod only, and only if that is a KMM
  build or sign pod with a container of unknown status on a node that is Ready, or a worker of a DeviceConfig that
  has ended; it sets the ready label of a DeviceConfig on a node only for a succeeded worker of that DeviceConfig
  that bound the node's devices, and removes it only for a succeeded worker that unbound them.
\<close>

theorem pod_handler_writes:
  assumes "c \<in> set (issued s (PodEventHandler api (Updated old pod) s))" and "isWrite c"
  shows "podWrite api pod c"
proof -
  have "ran (\<lambda>c. isWrite c \<longrightarrow> podWrite api pod c) s (PodEventHandler api (Updated old pod) s)"
    using ran_cleanup [of api pod s] ran_trans [OF ran_cleanup ran_workerEvt, of pod _ api s]
    by (auto simp: Let_def split: option.splits)
  from ran_member [OF this assms(1)] assms(2) show ?thesis by blast
qed

definition samplePod :: Pod where
  "samplePod = emptyPod\<lparr>p_Name := ''worker-gpu-node-a'', p_Namespace := ''kube-amd-gpu'', p_NodeName := ''node-a'',
     p_Owners := [(''DeviceConfig'', ''gpu'')], p_Phase := ''Succeeded'',
     p_Labels := [(WorkerActionLabelKey, LoadVFIOAction)]\<rparr>"

theorem pod_handler_writes_witness:
  "podWrite sampleApi samplePod (CDelete KPod ''kube-amd-gpu'' ''worker-gpu-node-a'')"
proof -
  have "CDelete KPod ''kube-amd-gpu'' ''worker-gpu-node-a''
      \<in> set (issued sampleMgr (PodEventHandler sampleApi (Updated samplePod samplePod) sampleMgr))"
    by code_simp
  then show ?thesis by (rule pod_handler_writes) (simp add: isWrite_def)
qed

end
