(* ===== verification/Reconciler_State.thy ===== *)
theory Reconciler_State
  imports Upgrade_Mgr Remediation Validator Conditions Worker_Mgr Kmm_Module Device_Plugin Node_Labeller Metrics_Exporter Test_Runner Config_Manager
begin

text \<open>
  The state of \<open>DeviceConfigReconciler\<close> and of its helper
  (\<open>src/internal/controllers/device_config_reconciler.go\<close>), and the operations that read or keep that
  state: which DeviceConfigs an event concerns, which DeviceConfig a node is assigned to, the conditions
  and the status.  The managers the helper holds are fields of its state; a call of a manager runs on
  the manager's own state, continued from the reconciler's log of calls.
\<close>

section \<open>Environment and state\<close>

text \<open>
  The server, with what else the sources read: the orders in which Go visits the tables of default
  versions and of validators, HTTP and custom resource definitions (\<open>venv\<close>), the embedded Dockerfiles
  and default configuration, whether a discovery client can be built, and the rendering of failed
  validations by \<open>fmt\<close>.
\<close>

record renv = apiserver +
  e_mappers :: "call list \<Rightarrow> mapper gomap"
  e_specOrder :: "call list \<Rightarrow> string list"
  e_http :: "call list \<Rightarrow> string \<Rightarrow> string \<Rightarrow> string \<Rightarrow> httpReply"
  e_crd :: "call list \<Rightarrow> string \<Rightarrow> (string \<times> (string \<times> bool) list) res"
  e_dockerfiles :: dockerfiles
  e_defaultDCM :: string
  e_discovery :: bool
  e_render :: "(string \<times> verr) list \<Rightarrow> string"

definition upgradeEnv :: "renv \<Rightarrow> env" where
  "upgradeEnv e = apiserver.extend (apiserver.truncate e) (env.fields (e_mappers e))"

definition validatorEnv :: "renv \<Rightarrow> venv" where
  "validatorEnv e = apiserver.extend (apiserver.truncate e) (venv.fields (e_http e) (e_crd e))"

record reconciler = world +
  onceDone :: bool
  initErr :: err
  kmmWatchEnabled :: bool
  onOCP :: bool
  operatorNamespace :: string
  nodeAssignments :: "string \<rightharpoonup> string"
  upgradeMgrHandler :: umgr
  remediationMgrHandler :: rmgr
  validatorState :: vstate

definition newDeviceConfigReconciler :: "renv \<Rightarrow> bool \<Rightarrow> bool \<Rightarrow> reconciler" where
  "newDeviceConfigReconciler e openshift kmmWatch =
     \<lparr>hist = [], onceDone = False, initErr = None, kmmWatchEnabled = kmmWatch, onOCP = openshift,
      operatorNamespace = (case o_getenv e ''OPERATOR_NAMESPACE'' of Some v \<Rightarrow> v | None \<Rightarrow> []),
      nodeAssignments = Map.empty, upgradeMgrHandler = newUpgradeMgrHelperHandler openshift,
      remediationMgrHandler = newRemediationMgrHelperHandler openshift,
      validatorState = \<lparr>hist = [], slesVersionCache = Map.empty\<rparr>\<rparr>"

definition withUpgrade :: "(umgr \<Rightarrow> 'r \<times> umgr) \<Rightarrow> reconciler \<Rightarrow> 'r \<times> reconciler" where
  "withUpgrade f s =
     (case f ((upgradeMgrHandler s)\<lparr>hist := hist s\<rparr>) of
        (r, m) \<Rightarrow> (r, s\<lparr>hist := hist m, upgradeMgrHandler := m\<rparr>))"

definition withRemediation :: "(rmgr \<Rightarrow> 'r \<times> rmgr) \<Rightarrow> reconciler \<Rightarrow> 'r \<times> reconciler" where
  "withRemediation f s =
     (case f ((remediationMgrHandler s)\<lparr>hist := hist s\<rparr>) of
        (r, m) \<Rightarrow> (r, s\<lparr>hist := hist m, remediationMgrHandler := m\<rparr>))"

definition withValidator :: "(vstate \<Rightarrow> 'r \<times> vstate) \<Rightarrow> reconciler \<Rightarrow> 'r \<times> reconciler" where
  "withValidator f s =
     (case f ((validatorState s)\<lparr>hist := hist s\<rparr>) of
        (r, m) \<Rightarrow> (r, s\<lparr>hist := hist m, validatorState := m\<rparr>))"

section \<open>Texts of errors\<close>

text \<open>
  The text of an error, up to the name of the resource, which contains no space.  \<open>wrapped\<close> is
  \<open>fmt.Errorf\<close> with the verb \<open>%v\<close>: what is left of the error is its text.
\<close>

definition errText :: "kerr \<Rightarrow> string" where
  "errText e = (case e of NotFound \<Rightarrow> ''not found'' | NoMatch \<Rightarrow> ''no matches for kind''
     | Conflict \<Rightarrow> ''Operation cannot be fulfilled: the object has been modified''
     | AlreadyExists \<Rightarrow> ''already exists'' | OtherErr t \<Rightarrow> t)"

definition wrapped :: "string \<Rightarrow> kerr \<Rightarrow> kerr" where
  "wrapped msg e = OtherErr (msg @ '': '' @ errText e)"

definition panicErr :: kerr where "panicErr = OtherErr ''panic [recovered]''"

definition isMissing :: "kerr \<Rightarrow> bool" where
  "isMissing e \<longleftrightarrow> e = NotFound \<or> e = NoMatch"

definition nsnOf :: "DeviceConfig \<Rightarrow> NamespacedName" where
  "nsnOf dc = \<lparr>nsn_Namespace = dc_Namespace dc, nsn_Name = dc_Name dc\<rparr>"

definition nsnText :: "NamespacedName \<Rightarrow> string" where
  "nsnText r = nsn_Namespace r @ ''/'' @ nsn_Name r"

section \<open>Reading DeviceConfigs\<close>

definition shouldUseKMMOperatorLevel :: "DeviceConfig \<Rightarrow> reconciler \<Rightarrow> bool" where
  "shouldUseKMMOperatorLevel dc s \<longleftrightarrow> kmmWatchEnabled s \<and> ShouldUseKMM (Some dc)"

definition shouldReconcile :: "Result \<Rightarrow> Result \<Rightarrow> Result" where
  "shouldReconcile up rem =
     (if RequeueAfter up > 0 \<and> RequeueAfter rem > 0 then
        (if RequeueAfter up < RequeueAfter rem then up else rem)
      else if RequeueAfter up > 0 then up
      else if RequeueAfter rem > 0 then rem
      else noRequeue)"

definition listDeviceConfigs :: "renv \<Rightarrow> reconciler \<Rightarrow> DeviceConfig list res \<times> reconciler" where
  "listDeviceConfigs e s =
     (case listDCs e s of
        (Inl x, s1) \<Rightarrow> (Inl (wrapped ''failed to list DeviceConfigs'' x), s1)
      | (Inr dcs, s1) \<Rightarrow> (Inr dcs, s1))"

definition getRequestedDeviceConfig :: "renv \<Rightarrow> NamespacedName \<Rightarrow> reconciler \<Rightarrow> DeviceConfig res \<times> reconciler" where
  "getRequestedDeviceConfig e r s =
     (case getDC e (nsn_Namespace r) (nsn_Name r) s of
        (Inl x, s1) \<Rightarrow> (Inl (wrapped ''failed to get DeviceConfig'' x), s1)
      | (Inr dc, s1) \<Rightarrow> (Inr dc, s1))"

section \<open>Which DeviceConfigs an event concerns\<close>

definition refersTo :: "string \<Rightarrow> LocalObjectReference option \<Rightarrow> bool" where
  "refersTo n r = (case r of None \<Rightarrow> False | Some x \<Rightarrow> lor_Name x = n)"

definition hasSecretReference :: "string \<Rightarrow> DeviceConfig \<Rightarrow> bool" where
  "hasSecretReference n dc =
     (let sp = dc_Spec dc in
      list_ex (\<lambda>r. lor_Name r = n) (cc_ImageRegistrySecrets (s_CommonConfig sp))
      \<or> refersTo n (uc_ImageRegistrySecret (cc_UtilsContainer (s_CommonConfig sp)))
      \<or> refersTo n (d_ImageRegistrySecret (s_Driver sp))
      \<or> refersTo n (is_KeySecret (d_ImageSign (s_Driver sp)))
      \<or> refersTo n (is_CertSecret (d_ImageSign (s_Driver sp)))
      \<or> refersTo n (dp_ImageRegistrySecret (s_DevicePlugin sp))
      \<or> refersTo n (me_ImageRegistrySecret (s_MetricsExporter sp))
      \<or> refersTo n (rb_Secret (me_RbacConfig (s_MetricsExporter sp)))
      \<or> refersTo n (tr_ImageRegistrySecret (s_TestRunner sp))
      \<or> list_ex (refersTo n) (ll_LogsExportSecrets (tr_LogsLocation (s_TestRunner sp)))
      \<or> refersTo n (cm_ImageRegistrySecret (s_ConfigManager sp))
      \<or> refersTo n (dra_ImageRegistrySecret (s_DRADriver sp)))"

definition findDeviceConfigsForSecret ::
  "renv \<Rightarrow> string \<Rightarrow> string \<Rightarrow> reconciler \<Rightarrow> NamespacedName list \<times> reconciler" where
  "findDeviceConfigsForSecret e ns n s =
     (if ns \<noteq> operatorNamespace s then ([], s)
      else case listDeviceConfigs e s of
        (Inl _, s1) \<Rightarrow> ([], s1)
      | (Inr dcs, s1) \<Rightarrow>
          (map nsnOf (filter (\<lambda>dc. dc_Namespace dc = operatorNamespace s \<and> hasSecretReference n dc) dcs), s1))"

definition isGpuModule :: "NMCModule \<Rightarrow> bool" where
  "isGpuModule m \<longleftrightarrow>
     nm_ModuleName m = ContainerDriverModuleName \<or> nm_ModuleName m = VFPassthroughDriverModuleName"

definition findDeviceConfigsForNMC :: "NMC \<Rightarrow> reconciler \<Rightarrow> NamespacedName list" where
  "findDeviceConfigsForNMC nmc s =
     (if \<not> kmmWatchEnabled s then []
      else map (\<lambda>m. \<lparr>nsn_Namespace = nm_Namespace m, nsn_Name = nm_Name m\<rparr>)
             (filter isGpuModule (nmc_SpecModules nmc @ nmc_StatusModules nmc)))"

section \<open>Status\<close>

definition updateStatusOnce :: "renv \<Rightarrow> DeviceConfig \<Rightarrow> reconciler \<Rightarrow> err \<times> reconciler" where
  "updateStatusOnce e dc s =
     (case getRequestedDeviceConfig e (nsnOf dc) s of
        (Inl x, s1) \<Rightarrow> (Some x, s1)
      | (Inr latest, s1) \<Rightarrow>
          writeObj e (CPatchStatus (ODeviceConfig (latest\<lparr>dc_Status := dc_Status dc\<rparr>)) (ODeviceConfig latest)) s1)"

definition updateDeviceConfigStatus :: "renv \<Rightarrow> DeviceConfig \<Rightarrow> reconciler \<Rightarrow> err \<times> reconciler" where
  "updateDeviceConfigStatus e dc s = retryOnConflict (updateStatusOnce e dc) s"

definition getDeviceConfigOwnedKMMModule :: "renv \<Rightarrow> DeviceConfig \<Rightarrow> reconciler \<Rightarrow> Module option res \<times> reconciler" where
  "getDeviceConfigOwnedKMMModule e dc s =
     (if \<not> kmmWatchEnabled s then (Inr None, s)
      else case getModule e (dc_Namespace dc) (dc_Name dc) s of
        (Inl x, s1) \<Rightarrow> (if isMissing x then Inr None else Inl (wrapped ''failed to get KMM Module'' x), s1)
      | (Inr m, s1) \<Rightarrow> (Inr (Some m), s1))"

text \<open>The status of the node in the manager's memory, else what the previous status recorded.\<close>

definition keptStart :: "ModuleStatus gomap \<Rightarrow> umgr \<Rightarrow> string \<Rightarrow> timestamp" where
  "keptStart prev m n =
     (case GetNodeUpgradeStartTime m n of
        NoTime \<Rightarrow> (case lookup prev n of None \<Rightarrow> NoTime | Some ms \<Rightarrow> ms_UpgradeStartTime ms)
      | t \<Rightarrow> t)"

definition keptBootId :: "ModuleStatus gomap \<Rightarrow> umgr \<Rightarrow> string \<Rightarrow> string" where
  "keptBootId prev m n =
     (if GetNodeBootId m n = [] then (case lookup prev n of None \<Rightarrow> [] | Some ms \<Rightarrow> ms_BootId ms)
      else GetNodeBootId m n)"

definition plainStatus :: "ModuleStatus gomap \<Rightarrow> umgr \<Rightarrow> string \<Rightarrow> ModuleStatus" where
  "plainStatus prev m n =
     \<lparr>ms_ContainerImage = [], ms_KernelVersion = [], ms_LastTransitionTime = [],
      ms_Status = GetNodeStatus m n, ms_UpgradeStartTime = keptStart prev m n, ms_BootId = keptBootId prev m n\<rparr>"

definition moduleStatus ::
  "DeviceConfig \<Rightarrow> bool \<Rightarrow> ModuleStatus gomap \<Rightarrow> umgr \<Rightarrow> string \<Rightarrow> NMCModule \<Rightarrow> ModuleStatus" where
  "moduleStatus dc useKMM prev m n x =
     (plainStatus prev m n)\<lparr>ms_ContainerImage := nm_ContainerImage x, ms_KernelVersion := nm_KernelVersion x,
        ms_LastTransitionTime := nm_LastTransitionTime x,
        ms_Status := (if useKMM then GetNodeStatus m n else UpgradeStateEmpty)\<rparr>"

text \<open>The last module of the DeviceConfig in the node's list decides.\<close>

definition nodeEntry ::
  "DeviceConfig \<Rightarrow> bool \<Rightarrow> ModuleStatus gomap \<Rightarrow> umgr \<Rightarrow> string \<Rightarrow> NMC res \<Rightarrow> ModuleStatus" where
  "nodeEntry dc useKMM prev m n r =
     (case r of
        Inl _ \<Rightarrow> plainStatus prev m n
      | Inr nmc \<Rightarrow>
          (case find (\<lambda>x. nm_Namespace x = dc_Namespace dc \<and> nm_Name x = dc_Name dc) (rev (nmc_StatusModules nmc)) of
             None \<Rightarrow> plainStatus prev m n
           | Some x \<Rightarrow> moduleStatus dc useKMM prev m n x))"

fun nodeStatuses ::
  "renv \<Rightarrow> DeviceConfig \<Rightarrow> ModuleStatus gomap \<Rightarrow> Node list \<Rightarrow> ModuleStatus gomap \<Rightarrow> reconciler
     \<Rightarrow> ModuleStatus gomap \<times> reconciler" where
  "nodeStatuses e dc prev [] acc s = (acc, s)"
| "nodeStatuses e dc prev (node # nodes) acc s =
     (let n = n_Name node; m = upgradeMgrHandler s in
      if \<not> kmmWatchEnabled s then nodeStatuses e dc prev nodes (store n (plainStatus prev m n) acc) s
      else case getNMC e [] n s of (r, s1) \<Rightarrow>
        nodeStatuses e dc prev nodes (store n (nodeEntry dc (shouldUseKMMOperatorLevel dc s) prev m n r) acc) s1)"

definition withNodeStatus :: "ModuleStatus gomap \<Rightarrow> DeviceConfig \<Rightarrow> DeviceConfig" where
  "withNodeStatus m dc = dc\<lparr>dc_Status := (dc_Status dc)\<lparr>st_NodeModuleStatus := m\<rparr>\<rparr>"

definition buildDeviceConfigNodeStatus :: "renv \<Rightarrow> DeviceConfig \<Rightarrow> Node list \<Rightarrow> reconciler \<Rightarrow> DeviceConfig \<times> reconciler" where
  "buildDeviceConfigNodeStatus e dc nodes s =
     (case nodeStatuses e dc (nodeModuleStatus dc) nodes [] s of (m, s1) \<Rightarrow> (withNodeStatus m dc, s1))"

definition buildDeviceConfigStatus ::
  "renv \<Rightarrow> DeviceConfig \<Rightarrow> Node list \<Rightarrow> reconciler \<Rightarrow> (err \<times> DeviceConfig) \<times> reconciler" where
  "buildDeviceConfigStatus e dc nodes s =
     (case (if shouldUseKMMOperatorLevel dc s then getDeviceConfigOwnedKMMModule e dc s else (Inr None, s)) of
        (Inl x, s1) \<Rightarrow> ((Some (wrapped ''failed to fetch owned kmm module for DeviceConfig'' x), dc), s1)
      | (Inr mo, s1) \<Rightarrow>
          let dc1 = (case mo of None \<Rightarrow> dc
                     | Some m \<Rightarrow> dc\<lparr>dc_Status := (dc_Status dc)\<lparr>st_Drivers := mod_Status m\<rparr>\<rparr>)
          in case buildDeviceConfigNodeStatus e dc1 nodes s1 of (dc2, s2) \<Rightarrow>
             let dc3 = DeleteErrorCondition
                         (dc2\<lparr>dc_Status := (dc_Status dc2)\<lparr>st_ObservedGeneration := dc_Generation dc2\<rparr>\<rparr>)
             in case SetReadyCondition e ''True'' ReadyStatus [] dc3 s2 of (dc4, s3) \<Rightarrow> ((None, dc4), s3))"

section \<open>Conditions\<close>

definition rcSetCondition ::
  "renv \<Rightarrow> string \<Rightarrow> DeviceConfig \<Rightarrow> string \<Rightarrow> string \<Rightarrow> string \<Rightarrow> reconciler \<Rightarrow> (err \<times> DeviceConfig) \<times> reconciler" where
  "rcSetCondition e cond dc status reason message s =
     (if cond = ConditionTypeReady then
        (case SetReadyCondition e status reason message dc s of (dc1, s1) \<Rightarrow>
         case updateDeviceConfigStatus e dc1 s1 of (x, s2) \<Rightarrow> ((x, dc1), s2))
      else if cond = ConditionTypeError then
        (case SetErrorCondition e status reason message dc s of (dc1, s1) \<Rightarrow>
         case updateDeviceConfigStatus e dc1 s1 of (x, s2) \<Rightarrow> ((x, dc1), s2))
      else ((Some (OtherErr (''Condition '' @ cond @ '' not supported'')), dc), s))"

definition rcDeleteCondition ::
  "renv \<Rightarrow> string \<Rightarrow> DeviceConfig \<Rightarrow> reconciler \<Rightarrow> (err \<times> DeviceConfig) \<times> reconciler" where
  "rcDeleteCondition e cond dc s =
     (if cond = ConditionTypeReady then
        (case updateDeviceConfigStatus e (DeleteReadyCondition dc) s of (x, s1) \<Rightarrow> ((x, DeleteReadyCondition dc), s1))
      else if cond = ConditionTypeError then
        (case updateDeviceConfigStatus e (DeleteErrorCondition dc) s of (x, s1) \<Rightarrow> ((x, DeleteErrorCondition dc), s1))
      else ((Some (OtherErr (''Condition '' @ cond @ '' not supported'')), dc), s))"

text \<open>The table of validators in the order Go visits it.\<close>

definition visitIn :: "string list \<Rightarrow> 'v gomap \<Rightarrow> 'v gomap" where
  "visitIn ks m = List.map_filter (\<lambda>k. map_option (Pair k) (lookup m k)) ks"

definition validateDeviceConfig ::
  "renv \<Rightarrow> DeviceConfig \<Rightarrow> reconciler \<Rightarrow> ((string \<times> verr) list \<times> DeviceConfig) \<times> reconciler" where
  "validateDeviceConfig e dc s =
     (if dc_Generation dc \<noteq> st_ObservedGeneration (dc_Status dc)
      then withValidator
             (ValidateDeviceConfigAll (visitIn (e_specOrder e (hist s)) (NewValidator (validatorEnv e))) dc) s
      else (([], dc), s))"

section \<open>Node assignments\<close>

fun validateNodeAssignments :: "(string \<rightharpoonup> string) \<Rightarrow> string \<Rightarrow> string list \<Rightarrow> err" where
  "validateNodeAssignments na nsn [] = None"
| "validateNodeAssignments na nsn (n # ns) =
     (case na n of
        Some val \<Rightarrow>
          if val \<noteq> nsn then Some (OtherErr (''node '' @ n @ '' already assigned to DeviceConfig '' @ val
                                            @ '', cannot re-assign to '' @ nsn))
          else validateNodeAssignments na nsn ns
      | None \<Rightarrow> validateNodeAssignments na nsn ns)"

definition assignNodes :: "string \<Rightarrow> string list \<Rightarrow> (string \<rightharpoonup> string) \<Rightarrow> string \<rightharpoonup> string" where
  "assignNodes nsn ns na = fold (\<lambda>n m. m(n \<mapsto> nsn)) ns na"

definition updateNodeAssignments ::
  "string \<Rightarrow> string list option \<Rightarrow> bool \<Rightarrow> (string \<rightharpoonup> string) \<Rightarrow> string \<rightharpoonup> string" where
  "updateNodeAssignments nsn nodes isFinalizer na =
     (if isFinalizer then
        (case nodes of
           Some ns \<Rightarrow> (\<lambda>n. if n \<in> set ns then None else na n)
         | None \<Rightarrow> (\<lambda>n. if na n = Some nsn then None else na n))
      else (case nodes of Some ns \<Rightarrow> assignNodes nsn ns na | None \<Rightarrow> na))"

definition isReady :: "DeviceConfig \<Rightarrow> bool" where
  "isReady dc = (case GetReadyCondition dc of None \<Rightarrow> False | Some c \<Rightarrow> c_Status c = ''True'')"

fun buildNodeAssignments :: "DeviceConfig list \<Rightarrow> (string \<rightharpoonup> string) \<Rightarrow> string \<rightharpoonup> string" where
  "buildNodeAssignments [] na = na"
| "buildNodeAssignments (dc # dcs) na =
     (let nsn = nsnText (nsnOf dc); ns = map fst (nodeModuleStatus dc) in
      buildNodeAssignments dcs
        (if isReady dc \<and> validateNodeAssignments na nsn ns = None then assignNodes nsn ns na else na))"

definition initReconciler :: "renv \<Rightarrow> reconciler \<Rightarrow> reconciler" where
  "initReconciler e s =
     (case listDeviceConfigs e s of
        (Inl x, s1) \<Rightarrow> s1\<lparr>initErr := Some x\<rparr>
      | (Inr dcs, s1) \<Rightarrow> s1\<lparr>nodeAssignments := buildNodeAssignments dcs (nodeAssignments s1), initErr := None\<rparr>)"

end
