(* ===== verification/Reconciler_Handlers.thy ===== *)
theory Reconciler_Handlers
  imports Reconciler_State Kmm_Props
begin

text \<open>
  The handlers of \<open>deviceConfigReconcilerHelper\<close> in
  \<open>src/internal/controllers/device_config_reconciler.go\<close>: one per operand, each of which creates,
  patches or deletes the operand's objects, and the finalizer that takes them down.
\<close>

section \<open>Sequencing\<close>

text \<open>\<open>orElse\<close> is the early return: the rest runs only when there was no error.\<close>

definition orElse :: "err \<times> 's \<Rightarrow> ('s \<Rightarrow> err \<times> 's) \<Rightarrow> err \<times> 's" where
  "orElse r f = (case r of (Some x, s) \<Rightarrow> (Some x, s) | (None, s) \<Rightarrow> f s)"

definition wrapErr :: "string \<Rightarrow> err \<times> 's \<Rightarrow> err \<times> 's" where
  "wrapErr msg r = (map_option (wrapped msg) (fst r), snd r)"

definition joinErrs :: "kerr list \<Rightarrow> err" where
  "joinErrs es = (if es = [] then None else Some (OtherErr (joinStr nl (map errText es))))"

text \<open>Get the object and delete it; an error of the Get that \<open>absent\<close> accepts means there is nothing to delete.\<close>

definition deleteIfFound ::
  "renv \<Rightarrow> (kerr \<Rightarrow> bool) \<Rightarrow> string \<Rightarrow> call \<Rightarrow> 'x res \<times> reconciler \<Rightarrow> err \<times> reconciler" where
  "deleteIfFound e absent what c r =
     (case r of
        (Inl x, s) \<Rightarrow> (if absent x then None else Some (wrapped (''failed to get '' @ what) x), s)
      | (Inr _, s) \<Rightarrow> wrapErr (''failed to delete '' @ what) (writeObj e c s))"

definition removeDaemonSet :: "renv \<Rightarrow> string \<Rightarrow> DeviceConfig \<Rightarrow> string \<Rightarrow> reconciler \<Rightarrow> err \<times> reconciler" where
  "removeDaemonSet e what dc sfx s =
     deleteIfFound e (\<lambda>x. x = NotFound) what (CDelete KDaemonSet (dc_Namespace dc) (dc_Name dc @ sfx))
       (getDaemonSet e (dc_Namespace dc) (dc_Name dc @ sfx) s)"

definition reconcileDaemonSet ::
  "renv \<Rightarrow> (DaemonSet \<Rightarrow> DaemonSet res) \<Rightarrow> DeviceConfig \<Rightarrow> string \<Rightarrow> reconciler \<Rightarrow> err \<times> reconciler" where
  "reconcileDaemonSet e f dc sfx s =
     CreateOrPatch e ODaemonSet dsKey (getDaemonSet e) f (newDaemonSet (dc_Namespace dc) (dc_Name dc @ sfx)) s"

section \<open>Node labels\<close>

definition deviceConfigFinalizer :: string where
  "deviceConfigFinalizer = ''amd.node.kubernetes.io/deviceconfig-finalizer''"

definition testRunnerNodeLabelPrefix :: string where
  "testRunnerNodeLabelPrefix = ''testrunner.amd.com''"

text \<open>
  One attempt at changing the labels of a node: get it, compute the new labels, patch when the
  computation says so.
\<close>

definition relabelOnce :: "renv \<Rightarrow> (Node \<Rightarrow> bool \<times> Node) \<Rightarrow> string \<Rightarrow> reconciler \<Rightarrow> err \<times> reconciler" where
  "relabelOnce e f n s =
     (case getNode e n s of
        (Inl x, s1) \<Rightarrow> (Some x, s1)
      | (Inr node, s1) \<Rightarrow>
          (case f node of (updated, node') \<Rightarrow>
             if updated then writeObj e (CPatch (ONode node') (ONode node)) s1 else (None, s1)))"

fun relabelNodes :: "renv \<Rightarrow> (Node \<Rightarrow> bool \<times> Node) \<Rightarrow> Node list \<Rightarrow> reconciler \<Rightarrow> reconciler" where
  "relabelNodes e f [] s = s"
| "relabelNodes e f (node # nodes) s =
     relabelNodes e f nodes (snd (retryOnConflict (relabelOnce e f (n_Name node)) s))"

definition dropTestLabels :: "Node \<Rightarrow> bool \<times> Node" where
  "dropTestLabels node =
     (list_ex (\<lambda>(k, v). hasPrefix k testRunnerNodeLabelPrefix) (n_Labels node),
      node\<lparr>n_Labels := filter (\<lambda>(k, v). \<not> hasPrefix k testRunnerNodeLabelPrefix) (n_Labels node)\<rparr>)"

definition dropOperatorLabels :: "DeviceConfig \<Rightarrow> bool \<Rightarrow> Node \<Rightarrow> bool \<times> Node" where
  "dropOperatorLabels dc isFinalizer node =
     (let key = fst (GetVersionLabelKV dc);
          had = isFinalizer \<and> hasKey (n_Labels node) key;
          node1 = (if had then node\<lparr>n_Labels := remove key (n_Labels node)\<rparr> else node)
      in case RemoveOldNodeLabels node1 of (u, node2) \<Rightarrow> (had \<or> u, node2))"

definition updateNodeLabels :: "renv \<Rightarrow> DeviceConfig \<Rightarrow> Node list \<Rightarrow> bool \<Rightarrow> reconciler \<Rightarrow> reconciler" where
  "updateNodeLabels e dc nodes isFinalizer s = relabelNodes e (dropOperatorLabels dc isFinalizer) nodes s"

section \<open>Finalizers of the operands\<close>

definition setFinalizer :: "renv \<Rightarrow> DeviceConfig \<Rightarrow> reconciler \<Rightarrow> (err \<times> DeviceConfig) \<times> reconciler" where
  "setFinalizer e dc s =
     (if deviceConfigFinalizer \<in> set (dc_Finalizers dc) then ((None, dc), s)
      else let dc1 = dc\<lparr>dc_Finalizers := dc_Finalizers dc @ [deviceConfigFinalizer]\<rparr>
           in case writeObj e (CPatch (ODeviceConfig dc1) (ODeviceConfig dc)) s of (x, s1) \<Rightarrow> ((x, dc1), s1))"

definition removeFinalizer :: "renv \<Rightarrow> DeviceConfig \<Rightarrow> reconciler \<Rightarrow> err \<times> reconciler" where
  "removeFinalizer e dc s =
     writeObj e (CPatch
       (ODeviceConfig (dc\<lparr>dc_Finalizers := filter (\<lambda>f. f \<noteq> deviceConfigFinalizer) (dc_Finalizers dc)\<rparr>))
       (ODeviceConfig dc)) s"

definition finalizeMetricsExporter :: "renv \<Rightarrow> DeviceConfig \<Rightarrow> reconciler \<Rightarrow> err \<times> reconciler" where
  "finalizeMetricsExporter e dc s =
     (let ns = dc_Namespace dc; n = dc_Name dc @ ''-'' @ ExporterName in
      orElse (deleteIfFound e isMissing ''ServiceMonitor'' (CDelete KServiceMonitor ns n) (getServiceMonitor e ns n s))
        (\<lambda>s1. orElse (deleteIfFound e (\<lambda>x. x = NotFound) ''metrics exporter service'' (CDelete KService ns n)
                        (getService e ns n s1))
          (\<lambda>s2. orElse (removeDaemonSet e ''metrics exporter daemonset'' dc (''-'' @ ExporterName) s2)
            (\<lambda>s3. deleteIfFound e (\<lambda>x. x = NotFound) ''metrics exporter secret'' (CDelete KSecret ns n)
                     (getSecret e ns n s3)))))"

definition finalizeTestRunner :: "renv \<Rightarrow> DeviceConfig \<Rightarrow> Node list \<Rightarrow> reconciler \<Rightarrow> err \<times> reconciler" where
  "finalizeTestRunner e dc nodes s =
     orElse (removeDaemonSet e ''test runner daemonset'' dc (''-'' @ TestRunnerName) s)
       (\<lambda>s1. (None, relabelNodes e dropTestLabels nodes s1))"

definition finalizeConfigManager :: "renv \<Rightarrow> DeviceConfig \<Rightarrow> reconciler \<Rightarrow> err \<times> reconciler" where
  "finalizeConfigManager e dc s = removeDaemonSet e ''config manager daemonset'' dc (''-'' @ ConfigManagerName) s"

section \<open>Finalizing the DeviceConfig\<close>

fun checkPostProcessFinalizeCondition ::
  "renv \<Rightarrow> DeviceConfig \<Rightarrow> Node list \<Rightarrow> bool \<Rightarrow> reconciler \<Rightarrow> bool \<times> reconciler" where
  "checkPostProcessFinalizeCondition e dc [] forceCleanup s = (True, s)"
| "checkPostProcessFinalizeCondition e dc (node # nodes) forceCleanup s =
     (let key = GetWorkReadyLabel (nsnOf dc) in
      if hasKey (n_Labels node) key then
        (False,
         if forceCleanup
         then snd (writeObj e (CPatch (ONode (node\<lparr>n_Labels := remove key (n_Labels node)\<rparr>)) (ONode node)) s)
         else s)
      else case GetWorkerPod e dc node s of
        (Inr pod, s1) \<Rightarrow>
          (False,
           if forceCleanup then snd (writeObj e (CDelete KPod (wp_Namespace pod) (wp_Name pod)) s1) else s1)
      | (Inl x, s1) \<Rightarrow>
          if x = NotFound then checkPostProcessFinalizeCondition e dc nodes forceCleanup s1 else (False, s1))"

text \<open>
  What is left once the KMM module is gone: the post-processing of passthrough drivers, or the labels of a
  DeviceConfig that had no module.
\<close>

definition finalizeWithoutModule :: "renv \<Rightarrow> DeviceConfig \<Rightarrow> Node list \<Rightarrow> reconciler \<Rightarrow> err \<times> reconciler" where
  "finalizeWithoutModule e dc nodes s =
     (let waiting = OtherErr ''waiting for post-process finalize condition'' in
      if shouldUseKMMOperatorLevel dc s then
        (if d_DriverType (driver dc) = DriverTypeVFPassthrough then
           (case checkPostProcessFinalizeCondition e dc nodes True s of
              (True, s1) \<Rightarrow> removeFinalizer e dc s1
            | (False, s1) \<Rightarrow> (Some waiting, s1))
         else removeFinalizer e dc s)
      else if isTrue (d_Enable (driver dc)) \<and> d_DriverType (driver dc) = DriverTypePFPassthrough then
        (case checkPostProcessFinalizeCondition e dc nodes False s of
           (True, s1) \<Rightarrow> removeFinalizer e dc s1
         | (False, s1) \<Rightarrow> (Some waiting, s1))
      else removeFinalizer e dc (updateNodeLabels e dc nodes True s))"

definition finalizeModule :: "renv \<Rightarrow> DeviceConfig \<Rightarrow> Node list \<Rightarrow> reconciler \<Rightarrow> err \<times> reconciler" where
  "finalizeModule e dc nodes s =
     (if \<not> kmmWatchEnabled s then removeFinalizer e dc s
      else case getModule e (dc_Namespace dc) (dc_Name dc) s of
        (Inl x, s1) \<Rightarrow>
          if isMissing x then finalizeWithoutModule e dc nodes s1
          else (Some (wrapped ''failed to get the requested Module'' x), s1)
      | (Inr md, s1) \<Rightarrow>
          orElse (wrapErr ''failed to delete the requested Module''
                    (writeObj e (CDelete KModule (mod_Namespace md) (mod_Name md)) s1))
            (\<lambda>s2. (None, updateNodeLabels e dc nodes True s2)))"

definition finalizeDriver :: "renv \<Rightarrow> DeviceConfig \<Rightarrow> Node list \<Rightarrow> reconciler \<Rightarrow> err \<times> reconciler" where
  "finalizeDriver e dc nodes s =
     (case UpdateDriverTypeNodeLabel e (Some dc) (Some nodes) True s of ((es, nodes1), s1) \<Rightarrow>
        orElse (wrapErr ''failed to remove driver type node label'' (joinErrs es, s1))
          (finalizeModule e dc nodes1))"

definition finalizeDeviceConfig :: "renv \<Rightarrow> DeviceConfig \<Rightarrow> Node list \<Rightarrow> reconciler \<Rightarrow> err \<times> reconciler" where
  "finalizeDeviceConfig e dc nodes s =
     orElse (finalizeConfigManager e dc s)
      (\<lambda>s1. orElse (finalizeTestRunner e dc nodes s1)
      (\<lambda>s2. orElse (finalizeMetricsExporter e dc s2)
      (\<lambda>s3. orElse (removeDaemonSet e ''device-plugin daemonset'' dc ''-device-plugin'' s3)
      (\<lambda>s4. orElse (removeDaemonSet e ''dra-driver daemonset'' dc DRADriverNameSuffix s4)
      (\<lambda>s5. orElse (removeDaemonSet e ''nodelabeller daemonset'' dc ''-node-labeller'' s5)
      (\<lambda>s6. finalizeDriver e dc nodes s6))))))"

section \<open>The driver\<close>

abbreviation bcmKey :: "BuildConfigMap \<Rightarrow> string \<times> string" where
  "bcmKey cm \<equiv> (bcm_Namespace cm, bcm_Name cm)"

abbreviation modKey :: "Module \<Rightarrow> string \<times> string" where
  "modKey m \<equiv> (mod_Namespace m, mod_Name m)"

text \<open>
  The mutation of a Dockerfile's ConfigMap; it also changes the DeviceConfig, and the flag records a panic,
  which ends the whole reconcile.
\<close>

definition mutateBuildCM ::
  "renv \<Rightarrow> bool \<Rightarrow> BuildConfigMap \<Rightarrow> DeviceConfig \<times> bool \<Rightarrow> BuildConfigMap res \<times> (DeviceConfig \<times> bool)" where
  "mutateBuildCM e openshift cm c =
     (case SetBuildConfigMapAsDesired e (e_dockerfiles e) openshift cm (fst c) of
        (r, dc1) \<Rightarrow> (recovered r, (dc1, r = None)))"

fun buildConfigMaps ::
  "renv \<Rightarrow> DeviceConfig \<Rightarrow> string list \<Rightarrow> bool \<Rightarrow> Node list \<Rightarrow> reconciler \<Rightarrow> (err \<times> DeviceConfig) \<times> reconciler" where
  "buildConfigMaps e dc saved buildOK [] s =
     ((if buildOK then None else Some (OtherErr ''error reconciling KMM build dockerfile ConfigMap''), dc), s)"
| "buildConfigMaps e dc saved buildOK (node # nodes) s =
     (case GetOSName cmNameMappers node of
        None \<Rightarrow> ((Some panicErr, dc), s)
      | Some (Inl x) \<Rightarrow> ((Some (wrapped (''invalid node '' @ n_Name node) x), dc), s)
      | Some (Inr os) \<Rightarrow>
          (let cmName = GetCMName os dc in
           if cmName \<in> set saved then buildConfigMaps e dc saved buildOK nodes s
           else case CreateOrPatchC e OBuildConfigMap bcmKey (getBuildCM e) (mutateBuildCM e (onOCP s))
                       (newBuildConfigMap (dc_Namespace dc) cmName) (dc, False) s of
             ((x, (dc1, panicked)), s1) \<Rightarrow>
               if panicked then ((Some panicErr, dc1), s1)
               else buildConfigMaps e dc1 (cmName # saved) (buildOK \<and> x = None) nodes s1))"

definition handleBuildConfigMap ::
  "renv \<Rightarrow> DeviceConfig \<Rightarrow> Node list \<Rightarrow> reconciler \<Rightarrow> (err \<times> DeviceConfig) \<times> reconciler" where
  "handleBuildConfigMap e dc nodes s =
     (if \<not> shouldUseKMMOperatorLevel dc s then ((None, dc), s)
      else if nodes = [] then
        ((Some (OtherErr (''no nodes found for the label selector '' @ MapToLabelSelector (selectorOf dc))), dc), s)
      else buildConfigMaps e dc [] True nodes s)"

definition handleKMMModule ::
  "renv \<Rightarrow> DeviceConfig \<Rightarrow> Node list \<Rightarrow> reconciler \<Rightarrow> (err \<times> Node list) \<times> reconciler" where
  "handleKMMModule e dc nodes s =
     (case UpdateDriverTypeNodeLabel e (Some dc) (Some nodes) False s of ((es, nodes1), s1) \<Rightarrow>
        if es \<noteq> [] then ((joinErrs es, nodes1), s1)
        else if shouldUseKMMOperatorLevel dc s1 then
          (case CreateOrPatch e OModule modKey (getModule e)
                  (desiredModule e (e_mappers e (hist s1)) (onOCP s1) (Some nodes1) dc)
                  (newModule (dc_Namespace dc) (dc_Name dc)) s1 of (x, s2) \<Rightarrow> ((x, nodes1), s2))
        else ((None, nodes1), s1))"

definition handleKMMVersionLabel :: "renv \<Rightarrow> DeviceConfig \<Rightarrow> Node list \<Rightarrow> reconciler \<Rightarrow> err \<times> reconciler" where
  "handleKMMVersionLabel e dc nodes s =
     (if shouldUseKMMOperatorLevel dc s
      then wrapErr ''failed to update node version label''
             (SetNodeVersionLabelAsDesired e (e_mappers e) dc nodes s)
      else (None, s))"

definition handleModuleUpgrade ::
  "renv \<Rightarrow> DeviceConfig \<Rightarrow> Node list \<Rightarrow> bool \<Rightarrow> reconciler \<Rightarrow> Result \<times> reconciler" where
  "handleModuleUpgrade e dc nodes del s =
     withUpgrade (if del then HandleDelete (upgradeEnv e) dc nodes else HandleUpgrade (upgradeEnv e) dc nodes) s"

section \<open>Device plugin, DRA driver and node labeller\<close>

text \<open>An operand that is turned off is deleted without looking for it first.\<close>

definition deleteDaemonSet :: "renv \<Rightarrow> string \<Rightarrow> DeviceConfig \<Rightarrow> string \<Rightarrow> reconciler \<Rightarrow> err \<times> reconciler" where
  "deleteDaemonSet e msg dc sfx s =
     (case writeObj e (CDelete KDaemonSet (dc_Namespace dc) (dc_Name dc @ sfx)) s of
        (Some x, s1) \<Rightarrow> (if x = NotFound then None else Some (wrapped msg x), s1)
      | (None, s1) \<Rightarrow> (None, s1))"

definition handleDevicePlugin :: "renv \<Rightarrow> DeviceConfig \<Rightarrow> reconciler \<Rightarrow> err \<times> reconciler" where
  "handleDevicePlugin e dc s =
     (if \<not> dp_IsEnabled (s_DevicePlugin (dc_Spec dc))
      then deleteDaemonSet e ''failed to delete device-plugin daemonset'' dc ''-device-plugin'' s
      else reconcileDaemonSet e (\<lambda>ds. SetDevicePluginAsDesired (onOCP s) (Some ds) dc) dc ''-device-plugin'' s)"

definition handleDRADriver :: "renv \<Rightarrow> DeviceConfig \<Rightarrow> reconciler \<Rightarrow> err \<times> reconciler" where
  "handleDRADriver e dc s =
     (if \<not> dra_IsEnabled (s_DRADriver (dc_Spec dc))
      then deleteDaemonSet e ''failed to delete dra-driver daemonset'' dc DRADriverNameSuffix s
      else reconcileDaemonSet e (\<lambda>ds. SetDRADriverAsDesired (Some ds) dc) dc DRADriverNameSuffix s)"

definition draAPIVersionPriority :: "string list" where
  "draAPIVersionPriority = [''v1'', ''v1beta2'', ''v1beta1'']"

fun firstServed :: "renv \<Rightarrow> string list \<Rightarrow> reconciler \<Rightarrow> string \<times> reconciler" where
  "firstServed e [] s = (hd draAPIVersionPriority, s)"
| "firstServed e (v # vs) s =
     (case discover e (''resource.k8s.io/'' @ v) s of
        (None, s1) \<Rightarrow> (v, s1)
      | (Some _, s1) \<Rightarrow> firstServed e vs s1)"

definition discoverDRAAPIVersion :: "renv \<Rightarrow> reconciler \<Rightarrow> string \<times> reconciler" where
  "discoverDRAAPIVersion e s =
     (if \<not> e_discovery e then (hd draAPIVersionPriority, s) else firstServed e draAPIVersionPriority s)"

definition handleDeviceClass :: "renv \<Rightarrow> DeviceConfig \<Rightarrow> reconciler \<Rightarrow> err \<times> reconciler" where
  "handleDeviceClass e dc s =
     (if \<not> onOCP s \<or> \<not> dra_IsEnabled (s_DRADriver (dc_Spec dc)) then (None, s)
      else case discoverDRAAPIVersion e s of (v, s1) \<Rightarrow>
        case writeObj e (CCreate (ODeviceClass v)) s1 of
          (Some x, s2) \<Rightarrow>
            (if x = AlreadyExists then None else Some (wrapped ''failed to create DeviceClass gpu.amd.com'' x), s2)
        | (None, s2) \<Rightarrow> (None, s2))"

definition unlabelledSelector :: "DeviceConfig \<Rightarrow> string" where
  "unlabelledSelector dc =
     joinStr '',''
       ([''! '' @ NodeFeatureLabelAmdGpu, ''! '' @ NodeFeatureLabelAmdVGpu]
        @ (if isTrue (d_Enable (driver dc))
           then [''! '' @ GetKernelModuleReadyNodeLabel (dc_Namespace dc) (dc_Name dc),
                 ''! '' @ GetDevicePluginNodeLabel (dc_Namespace dc) (dc_Name dc)] else [])
        @ map (\<lambda>(k, v). k @ ''='' @ v)
            (filter (\<lambda>(k, v). k \<noteq> NodeFeatureLabelAmdGpu \<and> k \<noteq> NodeFeatureLabelAmdVGpu) (selectorOf dc)))"

definition handleNodeLabeller :: "renv \<Rightarrow> DeviceConfig \<Rightarrow> Node list \<Rightarrow> reconciler \<Rightarrow> err \<times> reconciler" where
  "handleNodeLabeller e dc nodes s =
     (if \<not> isTrue (dp_EnableNodeLabeller (s_DevicePlugin (dc_Spec dc))) then
        orElse (deleteIfFound e (\<lambda>x. True) ''existing node labeller daemonset''
                  (CDelete KDaemonSet (dc_Namespace dc) (dc_Name dc @ ''-node-labeller''))
                  (getDaemonSet e (dc_Namespace dc) (dc_Name dc @ ''-node-labeller'') s))
          (\<lambda>s1. (None, updateNodeLabels e dc nodes False s1))
      else
        orElse (reconcileDaemonSet e (\<lambda>ds. SetNodeLabellerAsDesired (onOCP s) (Some ds) dc) dc ''-node-labeller'' s)
          (\<lambda>s1. if \<not> o_parseSelector e (unlabelledSelector dc)
                then (Some (OtherErr ''unable to parse requirement''), s1)
                else case listNodesExpr e (unlabelledSelector dc) s1 of
                  (Inl _, s2) \<Rightarrow> (None, s2)
                | (Inr its, s2) \<Rightarrow> (None, updateNodeLabels e dc its False s2)))"

section \<open>Metrics exporter, test runner, config manager, remediation\<close>

definition handleServiceMonitor :: "renv \<Rightarrow> DeviceConfig \<Rightarrow> reconciler \<Rightarrow> err \<times> reconciler" where
  "handleServiceMonitor e dc s =
     (let ns = dc_Namespace dc; n = dc_Name dc @ ''-'' @ ExporterName in
      if IsPrometheusServiceMonitorEnable dc then
        CreateOrPatch e OServiceMonitor (\<lambda>v. (smo_Namespace v, smo_Name v)) (getServiceMonitor e)
          (\<lambda>v. SetServiceMonitorAsDesired (Some v) dc) (newServiceMonitor ns n) s
      else case getServiceMonitor e ns n s of
        (Inr _, s1) \<Rightarrow>
          (case writeObj e (CDelete KServiceMonitor ns n) s1 of
             (Some x, s2) \<Rightarrow> (if x = NotFound then None else Some (wrapped ''failed to delete ServiceMonitor'' x), s2)
           | (None, s2) \<Rightarrow> (None, s2))
      | (Inl x, s1) \<Rightarrow> (if isMissing x then None else Some (wrapped ''failed to get ServiceMonitor'' x), s1))"

definition handleMetricsExporter :: "renv \<Rightarrow> DeviceConfig \<Rightarrow> reconciler \<Rightarrow> err \<times> reconciler" where
  "handleMetricsExporter e dc s =
     (let ns = dc_Namespace dc in
      if \<not> isTrue (me_Enable (s_MetricsExporter (dc_Spec dc))) then finalizeMetricsExporter e dc s
      else
        orElse (if staticAuth dc
                then CreateOrPatch e OSecret (\<lambda>v. (sec_Namespace v, sec_Name v)) (getSecret e)
                       (\<lambda>v. SetStaticAuthSecretAsDesired (Some v) dc)
                       (newSecret ns (dc_Name dc @ ''-'' @ StaticAuthSecretName)) s
                else (None, s))
          (\<lambda>s1. orElse (reconcileDaemonSet e (\<lambda>ds. SetMetricsExporterAsDesired e (Some ds) dc) dc
                         (''-'' @ ExporterName) s1)
            (\<lambda>s2. orElse (CreateOrPatch e OService (\<lambda>v. (svc_Namespace v, svc_Name v)) (getService e)
                            (\<lambda>v. SetMetricsServiceAsDesired (Some v) dc)
                            (newService ns (dc_Name dc @ ''-'' @ ExporterName)) s2)
              (handleServiceMonitor e dc))))"

definition handleTestRunner :: "renv \<Rightarrow> DeviceConfig \<Rightarrow> Node list \<Rightarrow> reconciler \<Rightarrow> err \<times> reconciler" where
  "handleTestRunner e dc nodes s =
     (if \<not> isTrue (tr_Enable (s_TestRunner (dc_Spec dc))) \<or> \<not> isTrue (me_Enable (s_MetricsExporter (dc_Spec dc)))
      then finalizeTestRunner e dc nodes s
      else reconcileDaemonSet e (desiredTestRunner e dc) dc (''-'' @ TestRunnerName) s)"

definition handleConfigManager :: "renv \<Rightarrow> DeviceConfig \<Rightarrow> reconciler \<Rightarrow> err \<times> reconciler" where
  "handleConfigManager e dc s =
     (if \<not> isTrue (cm_Enable (s_ConfigManager (dc_Spec dc))) then finalizeConfigManager e dc s
      else orElse (wrapErr ''ensure default DCM ConfigMap'' (EnsureDefaultDCMConfigMap e (e_defaultDCM e) (Some dc) s))
             (reconcileDaemonSet e (\<lambda>ds. SetConfigManagerAsDesired e (Some ds) dc) dc (''-'' @ ConfigManagerName)))"

definition handleRemediationWorkflow ::
  "renv \<Rightarrow> DeviceConfig \<Rightarrow> Node list \<Rightarrow> bool \<Rightarrow> reconciler \<Rightarrow> (Result \<times> err) \<times> reconciler" where
  "handleRemediationWorkflow e dc nodes del s =
     withRemediation
       (if del then HandleRemediationDelete e dc nodes
        else (\<lambda>m. case HandleRemediation e dc nodes m of ((res, es), m1) \<Rightarrow> ((res, joinErrs es), m1))) s"

end
