(* ===== verification/Reconciler.thy ===== *)
theory Reconciler
  imports Reconciler_Handlers Watchers
begin

text \<open>
  \<open>Reconcile\<close> of \<open>src/internal/controllers/device_config_reconciler.go\<close>, and the controller around it: a
  transition system whose steps are reconciles, the goroutines of the upgrade manager, the event handlers of
  the watches and restarts of the operator.
\<close>

section \<open>Reconcile\<close>

text \<open>The Error condition is set, then Ready becomes False; failures to do so are only logged.\<close>

definition reject ::
  "renv \<Rightarrow> DeviceConfig \<Rightarrow> string \<Rightarrow> string \<Rightarrow> string \<Rightarrow> string \<Rightarrow> reconciler \<Rightarrow> reconciler" where
  "reject e dc reason msg readyReason readyMsg s =
     (case rcSetCondition e ConditionTypeError dc ''True'' reason msg s of ((_, dc1), s1) \<Rightarrow>
        snd (rcSetCondition e ConditionTypeReady dc1 ''False'' readyReason readyMsg s1))"

definition labelSetText :: "smap \<Rightarrow> string" where
  "labelSetText m = joinStr '','' (sort (map (\<lambda>(k, v). k @ ''='' @ v) m))"

definition noNodesMessage :: "DeviceConfig \<Rightarrow> string" where
  "noNodesMessage dc = ''no nodes found matching selector '' @ labelSetText (selectorOf dc)
     @ ''; verify node labels or check that NFD has labeled the GPU nodes''"

definition reconcileDeletion :: "renv \<Rightarrow> DeviceConfig \<Rightarrow> Node list \<Rightarrow> reconciler \<Rightarrow> (Result \<times> err) \<times> reconciler" where
  "reconcileDeletion e dc nodes s =
     (let s1 = snd (handleModuleUpgrade e dc nodes True s);
          s2 = snd (handleRemediationWorkflow e dc nodes True s1)
      in case wrapErr ''failed to finalize DeviceConfig'' (finalizeDeviceConfig e dc nodes s2) of
           (x, s3) \<Rightarrow> ((noRequeue, x), s3))"

text \<open>The handlers between the KMM module and the remediation, in order.\<close>

definition handleOperands :: "renv \<Rightarrow> DeviceConfig \<Rightarrow> Node list \<Rightarrow> reconciler \<Rightarrow> err \<times> reconciler" where
  "handleOperands e dc nodes s =
     orElse (wrapErr ''failed to handle device-plugin'' (handleDevicePlugin e dc s))
      (\<lambda>s1. orElse (wrapErr ''failed to handle DeviceClass'' (handleDeviceClass e dc s1))
      (\<lambda>s2. orElse (wrapErr ''failed to handle dra-driver'' (handleDRADriver e dc s2))
      (\<lambda>s3. orElse (wrapErr ''failed to handle kmm mod version label'' (handleKMMVersionLabel e dc nodes s3))
      (\<lambda>s4. orElse (wrapErr ''failed to handle node labeller'' (handleNodeLabeller e dc nodes s4))
      (\<lambda>s5. orElse (wrapErr ''failed to handle metrics exporter'' (handleMetricsExporter e dc s5))
      (\<lambda>s6. orElse (wrapErr ''failed to handle test runner'' (handleTestRunner e dc nodes s6))
      (\<lambda>s7. wrapErr ''failed to handle config manager'' (handleConfigManager e dc s7))))))))"

definition finishReconcile ::
  "renv \<Rightarrow> NamespacedName \<Rightarrow> DeviceConfig \<Rightarrow> Node list \<Rightarrow> reconciler \<Rightarrow> err \<times> reconciler" where
  "finishReconcile e req dc nodes s =
     (case buildDeviceConfigStatus e dc nodes s of
        ((Some x, _), s1) \<Rightarrow> (Some (wrapped ''failed to build status'' x), s1)
      | ((None, dc1), s1) \<Rightarrow>
          orElse (wrapErr ''failed to update status'' (updateDeviceConfigStatus e dc1 s1))
            (\<lambda>s2. (None, s2\<lparr>nodeAssignments :=
                     updateNodeAssignments (nsnText req) (Some (map n_Name nodes)) False (nodeAssignments s2)\<rparr>)))"

definition reconcileRemediation ::
  "renv \<Rightarrow> NamespacedName \<Rightarrow> DeviceConfig \<Rightarrow> Node list \<Rightarrow> Result \<Rightarrow> reconciler \<Rightarrow> (Result \<times> err) \<times> reconciler" where
  "reconcileRemediation e req dc nodes res s =
     (case handleRemediationWorkflow e dc nodes False s of ((remRes, x), s1) \<Rightarrow>
        let final = shouldReconcile res remRes in
        case x of
          Some y \<Rightarrow> ((final, Some (wrapped ''failed to handle remediation workflow'' y)), s1)
        | None \<Rightarrow> (case finishReconcile e req dc nodes s1 of (y, s2) \<Rightarrow> ((final, y), s2)))"

definition reconcileAccepted ::
  "renv \<Rightarrow> NamespacedName \<Rightarrow> DeviceConfig \<Rightarrow> Node list \<Rightarrow> reconciler \<Rightarrow> (Result \<times> err) \<times> reconciler" where
  "reconcileAccepted e req dc nodes s =
     (case setFinalizer e dc s of
        ((Some x, _), s1) \<Rightarrow> ((noRequeue, Some (wrapped ''failed to set finalizer'' x)), s1)
      | ((None, dc1), s1) \<Rightarrow>
     (case handleBuildConfigMap e dc1 nodes s1 of
        ((Some x, _), s2) \<Rightarrow> ((noRequeue, Some (wrapped ''failed to handle build ConfigMap'' x)), s2)
      | ((None, dc2), s2) \<Rightarrow>
     (case handleModuleUpgrade e dc2 nodes False s2 of (res, s3) \<Rightarrow>
     (case handleKMMModule e dc2 nodes s3 of
        ((Some x, _), s4) \<Rightarrow> ((res, Some (wrapped ''failed to handle KMM module'' x)), s4)
      | ((None, nodes1), s4) \<Rightarrow>
     (case handleOperands e dc2 nodes1 s4 of
        (Some x, s5) \<Rightarrow> ((res, Some x), s5)
      | (None, s5) \<Rightarrow> reconcileRemediation e req dc2 nodes1 res s5)))))"

definition reconcilePresent ::
  "renv \<Rightarrow> NamespacedName \<Rightarrow> DeviceConfig \<Rightarrow> Node list \<Rightarrow> reconciler \<Rightarrow> (Result \<times> err) \<times> reconciler" where
  "reconcilePresent e req dc nodes s =
     (case validateNodeAssignments (nodeAssignments s) (nsnText req) (map n_Name nodes) of
        Some x \<Rightarrow>
          ((noRequeue, Some x),
           reject e dc ValidationError (''Validation failed: '' @ errText x) ReadyStatus [] s)
      | None \<Rightarrow>
     (case validateDeviceConfig e dc s of ((errs, dc1), s1) \<Rightarrow>
        if errs \<noteq> [] then
          ((noRequeue, Some (OtherErr (''validation failed for DeviceConfig: '' @ e_render e errs))),
           reject e dc1 ValidationError (''Validation failed: '' @ e_render e errs) ReadyStatus [] s1)
        else if nodes = [] then
          ((noRequeue, None),
           reject e dc1 NoMatchingNodes (noNodesMessage dc1) NoMatchingNodes (noNodesMessage dc1) s1)
        else reconcileAccepted e req dc1 nodes s1))"

definition runInit :: "renv \<Rightarrow> reconciler \<Rightarrow> reconciler" where
  "runInit e s = (if onceDone s then s else (initReconciler e s)\<lparr>onceDone := True\<rparr>)"

text \<open>The error of the Get is wrapped with \<open>%v\<close>, so that \<open>IsNotFound\<close> does not hold of it and its text decides.\<close>

definition crGone :: "DeviceConfig res \<Rightarrow> bool" where
  "crGone r = (case r of Inl x \<Rightarrow> x = NotFound \<or> containsStr (errText x) ''not found'' | Inr _ \<Rightarrow> False)"

definition Reconcile :: "renv \<Rightarrow> NamespacedName \<Rightarrow> reconciler \<Rightarrow> (Result \<times> err) \<times> reconciler" where
  "Reconcile e req s =
     (let s0 = runInit e s in
      case initErr s0 of
        Some x \<Rightarrow> ((noRequeue, Some x), s0)
      | None \<Rightarrow>
     (case getRequestedDeviceConfig e req s0 of (r, s1) \<Rightarrow>
      if crGone r then
        ((noRequeue, None),
         s1\<lparr>nodeAssignments := updateNodeAssignments (nsnText req) None True (nodeAssignments s1)\<rparr>)
      else case r of
        Inl x \<Rightarrow> ((noRequeue, Some (wrapped ''failed to get the requested CR'' x)), s1)
      | Inr dc \<Rightarrow>
     (case listNodes e (selectorOf dc) s1 of
        (Inl x, s2) \<Rightarrow> ((noRequeue, Some (wrapped ''failed to list Node for DeviceConfig'' x)), s2)
      | (Inr nodes, s2) \<Rightarrow>
          if dc_Deleting dc then reconcileDeletion e dc nodes s2
          else reconcilePresent e req dc nodes s2)))"

section \<open>The controller\<close>

text \<open>
  \<open>LReconcile req gone\<close>: a reconcile of \<open>req\<close>, and whether it saw the resource gone.  Reconciles do not
  overlap, since the controller has one worker; a goroutine of the upgrade manager runs between two of them.
  A restarted operator continues the log of calls with empty memory.
\<close>

datatype label =
    LReconcile NamespacedName bool | LTask task | LDaemonSet "DaemonSet event" | LNode "Node event"
  | LPod "Pod event" | LSecret string string | LRestart

definition sawGone :: "renv \<Rightarrow> NamespacedName \<Rightarrow> reconciler \<Rightarrow> bool" where
  "sawGone e req s =
     (let s0 = runInit e s in initErr s0 = None \<and> crGone (fst (getRequestedDeviceConfig e req s0)))"

definition restarted :: "renv \<Rightarrow> reconciler \<Rightarrow> reconciler" where
  "restarted e s = (newDeviceConfigReconciler e (onOCP s) (kmmWatchEnabled s))\<lparr>hist := hist s\<rparr>"

definition runGoroutine :: "renv \<Rightarrow> task \<Rightarrow> reconciler \<Rightarrow> reconciler" where
  "runGoroutine e t s = snd (withUpgrade (\<lambda>m. ((), runTask (upgradeEnv e) t (m\<lparr>spawned := remove1 t (spawned m)\<rparr>))) s)"

inductive cstep :: "renv \<Rightarrow> vfioScripts \<Rightarrow> DeviceConfig \<Rightarrow> reconciler \<Rightarrow> label \<Rightarrow> reconciler \<Rightarrow> bool"
  for e :: renv and vs :: vfioScripts and blank :: DeviceConfig where
  reconcile: "cstep e vs blank s (LReconcile req (sawGone e req s)) (snd (Reconcile e req s))"
| goroutine: "t \<in> set (spawned (upgradeMgrHandler s)) \<Longrightarrow> cstep e vs blank s (LTask t) (runGoroutine e t s)"
| daemonset: "DaemonsetPredicate ev \<Longrightarrow> cstep e vs blank s (LDaemonSet ev) (snd (DaemonsetEventHandler e blank ev s))"
| node: "NodePredicate ev \<Longrightarrow> cstep e vs blank s (LNode ev) (snd (NodeEventHandler e vs ev s))"
| pod: "PodLabelPredicate ev \<Longrightarrow> cstep e vs blank s (LPod ev) (PodEventHandler e ev s)"
| secret: "cstep e vs blank s (LSecret ns n) (snd (findDeviceConfigsForSecret e ns n s))"
| restart: "cstep e vs blank s LRestart (restarted e s)"

inductive crun :: "renv \<Rightarrow> vfioScripts \<Rightarrow> DeviceConfig \<Rightarrow> reconciler \<Rightarrow> label list \<Rightarrow> reconciler \<Rightarrow> bool"
  for e :: renv and vs :: vfioScripts and blank :: DeviceConfig where
  none: "crun e vs blank s [] s"
| more: "crun e vs blank s ls t \<Longrightarrow> cstep e vs blank t l u \<Longrightarrow> crun e vs blank s (ls @ [l]) u"

end
