(* ===== verification/Reconciler_Facts.thy ===== *)
theory Reconciler_Facts
  imports Reconciler Module_Calls
begin

text \<open>
  What the operations of the reconciler leave alone and which calls they make.  \<open>only P s t\<close>: from \<open>s\<close> to
  \<open>t\<close> only the log of calls changed, by calls satisfying \<open>P\<close>.
\<close>

definition only :: "(call \<Rightarrow> bool) \<Rightarrow> 'a world_scheme \<Rightarrow> 'a world_scheme \<Rightarrow> bool" where
  "only P s t \<longleftrightarrow> ran P s t \<and> world.more t = world.more s"

lemma only_refl [simp]: "only P s s"
  by (simp add: only_def)

lemma only_trans: "only P s t \<Longrightarrow> only P t u \<Longrightarrow> only P s u"
  by (auto simp: only_def intro: ran_trans)

lemma only_mono: "only P s t \<Longrightarrow> (\<And>c. P c \<Longrightarrow> Q c) \<Longrightarrow> only Q s t"
  by (auto simp: only_def intro: ran_mono)

lemma more_logCall_world [simp]: "world.more (logCall c s) = world.more s"
  by (simp add: logCall_def)

lemma only_logCall [simp]: "only P s t \<Longrightarrow> P c \<Longrightarrow> only P s (logCall c t)"
  by (simp add: only_def)

lemma only_call_then: "P c \<Longrightarrow> only P (logCall c s) t \<Longrightarrow> only P s t"
  by (rule only_trans [OF only_logCall [OF only_refl]])

lemma only_ran: "only P s t \<Longrightarrow> ran P s t"
  by (simp add: only_def)

lemma only_extends: "only P s t \<Longrightarrow> suffix (hist s) (hist t)"
  by (auto simp: only_def ran_def suffix_def)

lemma only_retry:
  assumes "\<And>u. only P u (snd (fn u))"
  shows "only P s (snd (retryOnConflict fn s))"
  by (rule retryOnConflict_keeps [where P = "only P s"]) (blast intro: only_trans assms, simp)

lemma only_then:
  assumes "only P s (snd r)" and "\<And>t. only P t (snd (f t))"
  shows "only P s (snd (orElse r f))"
  using assms by (auto simp: orElse_def split: prod.splits option.splits intro: only_trans)

lemma orElse_pair: "orElse (x, s) f = (if x \<noteq> None then (x, s) else f s)"
  by (cases x) (simp_all add: orElse_def)

lemma snd_wrapErr [simp]: "snd (wrapErr m r) = snd r"
  by (simp add: wrapErr_def)

text \<open>\<open>CreateOrPatch\<close> reads one object, then creates or patches it.\<close>

definition copCall :: "('o \<Rightarrow> obj) \<Rightarrow> kind \<Rightarrow> string \<times> string \<Rightarrow> call \<Rightarrow> bool" where
  "copCall wrap k key c \<longleftrightarrow>
     c = CGet k (fst key) (snd key) \<or> (\<exists>y. c = CCreate (wrap y)) \<or> (\<exists>y z. c = CPatch (wrap y) (wrap z))"

lemma copCall_simps [simp]:
  "copCall wrap k key (CGet k (fst key) (snd key))" "copCall wrap k key (CCreate (wrap y))"
  "copCall wrap k key (CPatch (wrap y) (wrap z))"
  by (auto simp: copCall_def)

lemma only_CreateOrPatchC:
  assumes "\<And>ns n t. snd (get ns n t) = logCall (CGet k ns n) t"
  shows "only (copCall wrap k (key x)) s (snd (CreateOrPatchC api wrap key get f x c s))"
proof -
  obtain r s1 where g: "get (fst (key x)) (snd (key x)) s = (r, s1)" by fastforce
  with assms [of "fst (key x)" "snd (key x)" s] have "s1 = logCall (CGet k (fst (key x)) (snd (key x))) s" by simp
  with g show ?thesis
    by (simp add: CreateOrPatchC_def writeObj_def split: prod.splits sum.splits)
qed

lemma only_CreateOrPatch:
  assumes "\<And>ns n t. snd (get ns n t) = logCall (CGet k ns n) t"
  shows "only (copCall wrap k (key x)) s (snd (CreateOrPatch api wrap key get f x s))"
  using only_CreateOrPatchC [OF assms, of wrap key x s api "\<lambda>y c. (f y, c)" "()"]
  by (auto simp: CreateOrPatch_def split: prod.splits)

lemma get_calls:
  "snd (getDaemonSet e ns n s) = logCall (CGet KDaemonSet ns n) s"
  "snd (getService e ns n s) = logCall (CGet KService ns n) s"
  "snd (getServiceMonitor e ns n s) = logCall (CGet KServiceMonitor ns n) s"
  "snd (getSecret e ns n s) = logCall (CGet KSecret ns n) s"
  "snd (getBuildCM e ns n s) = logCall (CGet KConfigMap ns n) s"
  "snd (getModule e ns n s) = logCall (CGet KModule ns n) s"
  "snd (getWorker e ns n s) = logCall (CGet KPod ns n) s"
  by (simp_all add: call_defs)

section \<open>Calls of the handlers\<close>

text \<open>
  The handlers never write the DeviceConfig itself: \<open>setFinalizer\<close>, \<open>removeFinalizer\<close> and the status are the
  only places that do.
\<close>

definition offDC :: "call \<Rightarrow> bool" where
  "offDC c \<longleftrightarrow> (case c of CPatch (ODeviceConfig _) _ \<Rightarrow> False | CPatchStatus (ODeviceConfig _) _ \<Rightarrow> False
     | CUpdate (ODeviceConfig _) \<Rightarrow> False | CDelete k _ _ \<Rightarrow> k \<noteq> KDeviceConfig | _ \<Rightarrow> True)"

abbreviation quiet :: "'a world_scheme \<Rightarrow> 'a world_scheme \<Rightarrow> bool" where
  "quiet \<equiv> only offDC"

lemma offDC_simps [simp]:
  "offDC (CGet k ns n)" "offDC (CList k nso sel)" "offDC (CListExpr k x)" "offDC (CCreate ob)" "offDC (CDiscover v)"
  "offDC CNow" "offDC (CPatch (ONode a) b)" "offDC (CPatch (ODaemonSet d) b)" "offDC (CPatch (OService sv) b)"
  "offDC (CPatch (OServiceMonitor m) b)" "offDC (CPatch (OSecret sc) b)" "offDC (CPatch (OBuildConfigMap bc) b)"
  "offDC (CPatch (OModule md) b)" "offDC (CPatch (OWorkerPod wp) b)"
  "offDC (CDelete k ns n) \<longleftrightarrow> k \<noteq> KDeviceConfig" "\<not> offDC (CPatch (ODeviceConfig dc) b)"
  "\<not> offDC (CPatchStatus (ODeviceConfig dc) b)"
  by (simp_all add: offDC_def)

lemma only_fields:
  fixes s t :: reconciler
  assumes "only P s t"
  shows "nodeAssignments t = nodeAssignments s" and "kmmWatchEnabled t = kmmWatchEnabled s"
    and "onOCP t = onOCP s" and "initErr t = initErr s" and "upgradeMgrHandler t = upgradeMgrHandler s"
  using assms by (cases s; cases t; simp add: only_def)+

text \<open>
  What the handlers rely on when their calls are bounded by \<open>P\<close>: the calls on the objects of the operands and on
  nodes are allowed.  Calls on the KMM module are left to the handler that makes them.
\<close>

locale handler_calls =
  fixes P :: "call \<Rightarrow> bool"
  assumes gets: "k \<noteq> KModule \<Longrightarrow> P (CGet k ns n)"
    and reads: "P (CListExpr KNode x)" "P (CDiscover v)"
    and creates: "P (CCreate (ODaemonSet ds))" "P (CCreate (OService sv))" "P (CCreate (OServiceMonitor m))"
      "P (CCreate (OSecret sc))" "P (CCreate (OBuildConfigMap bc))" "P (CCreate (ODeviceClass v))"
    and patches: "P (CPatch (ONode a) b)" "P (CPatch (ODaemonSet ds) b)" "P (CPatch (OService sv) b)"
      "P (CPatch (OServiceMonitor m) b)" "P (CPatch (OSecret sc) b)" "P (CPatch (OBuildConfigMap bc) b)"
    and deletes: "k \<noteq> KDeviceConfig \<Longrightarrow> k \<noteq> KModule \<Longrightarrow> P (CDelete k ns n)"
begin

lemmas allowed [simp] = gets reads creates patches deletes

lemma calls_CreateOrPatchC:
  assumes "\<And>ns n t. snd (get ns n t) = logCall (CGet k ns n) t" and "k \<noteq> KModule"
    and "\<And>y. P (CCreate (wrap y))" and "\<And>y z. P (CPatch (wrap y) (wrap z))"
  shows "only P s (snd (CreateOrPatchC api wrap key get f x c s))"
  by (rule only_mono [OF only_CreateOrPatchC [OF assms(1)]]) (use assms(2-4) in \<open>auto simp: copCall_def\<close>)

lemma calls_CreateOrPatch:
  assumes "\<And>ns n t. snd (get ns n t) = logCall (CGet k ns n) t" and "k \<noteq> KModule"
    and "\<And>y. P (CCreate (wrap y))" and "\<And>y z. P (CPatch (wrap y) (wrap z))"
  shows "only P s (snd (CreateOrPatch api wrap key get f x s))"
  by (rule only_mono [OF only_CreateOrPatch [OF assms(1)]]) (use assms(2-4) in \<open>auto simp: copCall_def\<close>)

lemma calls_deleteIfFound:
  assumes "only P s (snd r)" and "P c"
  shows "only P s (snd (deleteIfFound e absent what c r))"
  using assms by (auto simp: deleteIfFound_def writeObj_def split: prod.splits sum.splits)

lemma calls_removeDaemonSet: "only P s (snd (removeDaemonSet e what dc sfx s))"
  unfolding removeDaemonSet_def by (rule calls_deleteIfFound) (simp_all add: get_calls)

lemma calls_reconcileDaemonSet: "only P s (snd (reconcileDaemonSet e f dc sfx s))"
  unfolding reconcileDaemonSet_def by (rule calls_CreateOrPatch [OF get_calls(1)]) simp_all

lemma calls_deleteDaemonSet: "only P s (snd (deleteDaemonSet e msg dc sfx s))"
  by (auto simp: deleteDaemonSet_def writeObj_def split: prod.splits option.splits)

lemma calls_relabelNodes: "only P s (relabelNodes e f nodes s)"
proof (induction nodes arbitrary: s)
  case Nil
  then show ?case by simp
next
  case (Cons node nodes)
  have "only P s (snd (retryOnConflict (relabelOnce e f (n_Name node)) s))"
    by (rule only_retry) (auto simp: relabelOnce_def getNode_def writeObj_def split: prod.splits sum.splits)
  with Cons show ?case by (auto intro: only_trans)
qed

lemma calls_updateNodeLabels: "only P s (updateNodeLabels e dc nodes fin s)"
  unfolding updateNodeLabels_def by (rule calls_relabelNodes)

lemma calls_updateDriverTypeLabels:
  fixes s :: "'a world_scheme"
  shows "only P s (snd (updateDriverTypeLabels e dc cl nodes s))"
proof (induction nodes arbitrary: s)
  case Nil
  then show ?case by simp
next
  case (Cons node nodes)
  show ?case
    using Cons [of s] only_call_then [OF _ Cons]
    by (simp add: Let_def writeObj_def case_prod_beta)
qed

lemma calls_UpdateDriverTypeNodeLabel:
  "only P s (snd (UpdateDriverTypeNodeLabel e (Some dc) (Some nodes) cl s))"
  by (simp add: UpdateDriverTypeNodeLabel_def calls_updateDriverTypeLabels)

lemmas calls_cop = calls_CreateOrPatch [OF get_calls(1)] calls_CreateOrPatch [OF get_calls(2)]
  calls_CreateOrPatch [OF get_calls(3)] calls_CreateOrPatch [OF get_calls(4)]
  calls_CreateOrPatch [OF get_calls(5)]

lemmas calls_basics = calls_removeDaemonSet calls_reconcileDaemonSet calls_deleteDaemonSet calls_relabelNodes
  calls_updateNodeLabels

lemma calls_finalizeMetricsExporter: "only P s (snd (finalizeMetricsExporter e dc s))"
  unfolding finalizeMetricsExporter_def Let_def
  by (intro only_then calls_deleteIfFound calls_removeDaemonSet) (simp_all add: get_calls)

lemma calls_finalizeTestRunner: "only P s (snd (finalizeTestRunner e dc nodes s))"
  unfolding finalizeTestRunner_def by (intro only_then calls_removeDaemonSet) (simp add: calls_relabelNodes)

lemma calls_finalizeConfigManager: "only P s (snd (finalizeConfigManager e dc s))"
  unfolding finalizeConfigManager_def by (rule calls_removeDaemonSet)

lemma calls_buildConfigMaps: "only P s (snd (buildConfigMaps e dc saved ok nodes s))"
proof (induction nodes arbitrary: dc saved ok s)
  case Nil
  then show ?case by simp
next
  case (Cons node nodes)
  show ?case
  proof (cases "\<exists>os. GetOSName cmNameMappers node = Some (Inr os)")
    case False
    then show ?thesis by (auto split: option.splits sum.splits)
  next
    case True
    then obtain os where os: "GetOSName cmNameMappers node = Some (Inr os)" by blast
    let ?r = "CreateOrPatchC e OBuildConfigMap bcmKey (getBuildCM e) (mutateBuildCM e (onOCP s))
      (newBuildConfigMap (dc_Namespace dc) (GetCMName os dc)) (dc, False) s"
    have "only P s (snd ?r)" by (rule calls_CreateOrPatchC [OF get_calls(5)]) simp_all
    then have "only P s (snd (buildConfigMaps e dc1 saved1 ok1 nodes (snd ?r)))" for dc1 saved1 ok1
      by (rule only_trans) (rule Cons)
    with os \<open>only P s (snd ?r)\<close> Cons show ?thesis by (simp add: Let_def case_prod_beta)
  qed
qed

lemma calls_handleBuildConfigMap: "only P s (snd (handleBuildConfigMap e dc nodes s))"
  by (simp add: handleBuildConfigMap_def calls_buildConfigMaps)

lemma calls_handleKMMModule:
  assumes "kmmWatchEnabled s \<Longrightarrow> P (CGet KModule (dc_Namespace dc) (dc_Name dc)) \<and> (\<forall>y z. P (CCreate (OModule y)) \<and> P (CPatch (OModule y) (OModule z)))"
  shows "only P s (snd (handleKMMModule e dc nodes s))"
proof -
  obtain es nodes1 s1 where u: "UpdateDriverTypeNodeLabel e (Some dc) (Some nodes) False s = ((es, nodes1), s1)"
    by (metis prod.exhaust)
  with calls_UpdateDriverTypeNodeLabel [of s e dc nodes False] have o: "only P s s1" by simp
  have "only P s1 (snd (CreateOrPatch e OModule modKey (getModule e) f (newModule (dc_Namespace dc) (dc_Name dc)) s1))"
    if "kmmWatchEnabled s" for f
    by (rule only_mono [OF only_CreateOrPatch [OF get_calls(6)]])
      (use assms [OF that] in \<open>auto simp: copCall_def newModule_def\<close>)
  with o have "only P s (snd (CreateOrPatch e OModule modKey (getModule e) f (newModule (dc_Namespace dc) (dc_Name dc)) s1))"
    if "kmmWatchEnabled s" for f
    using that only_trans by blast
  with u o only_fields(2) [OF o] show ?thesis
    by (auto simp: handleKMMModule_def shouldUseKMMOperatorLevel_def case_prod_beta)
qed

lemma calls_setVersionLabels:
  fixes s :: "'a world_scheme"
  shows "only P s (snd (setVersionLabels e mp key val nodes s))"
proof (induction nodes arbitrary: val s)
  case Nil
  then show ?case by simp
next
  case (Cons node nodes)
  have "only P s (snd (setVersionLabels e mp key v nodes (logCall c s)))" if "P c" for c v
    using that by (rule only_call_then) (rule Cons)
  with Cons show ?case by (simp add: Let_def writeObj_def split: option.splits)
qed

lemma calls_handleKMMVersionLabel: "only P s (snd (handleKMMVersionLabel e dc nodes s))"
  by (simp add: handleKMMVersionLabel_def SetNodeVersionLabelAsDesired_def calls_setVersionLabels split: prod.splits)

lemma calls_handleDevicePlugin: "only P s (snd (handleDevicePlugin e dc s))"
  by (simp add: handleDevicePlugin_def calls_basics)

lemma calls_handleDRADriver: "only P s (snd (handleDRADriver e dc s))"
  by (simp add: handleDRADriver_def calls_basics)

lemma calls_firstServed: "only P s (snd (firstServed e vs s))"
proof (induction vs arbitrary: s)
  case Nil
  then show ?case by simp
next
  case (Cons v vs)
  have "only P s (snd (firstServed e vs (logCall c s)))" if "P c" for c
    using that by (rule only_call_then) (rule Cons)
  then show ?case by (simp add: discover_def split: option.splits)
qed

lemma calls_handleDeviceClass: "only P s (snd (handleDeviceClass e dc s))"
proof -
  obtain v s1 where d: "discoverDRAAPIVersion e s = (v, s1)" by fastforce
  with calls_firstServed [of s e draAPIVersionPriority] have "only P s s1"
    by (auto simp: discoverDRAAPIVersion_def split: if_splits)
  with d show ?thesis by (auto simp: handleDeviceClass_def writeObj_def split: option.splits)
qed

lemma calls_handleNodeLabeller: "only P s (snd (handleNodeLabeller e dc nodes s))"
proof -
  have "only P t (snd (case listNodesExpr e x t of (Inl _, s2) \<Rightarrow> (None, s2)
      | (Inr its, s2) \<Rightarrow> (None, updateNodeLabels e dc its False s2)))" for t x
    by (auto simp: listNodesExpr_def split: sum.splits
        intro: only_call_then [OF _ calls_updateNodeLabels])
  then show ?thesis
    unfolding handleNodeLabeller_def
    by (auto intro!: only_then calls_deleteIfFound simp: calls_basics get_calls)
qed

lemma calls_handleServiceMonitor: "only P s (snd (handleServiceMonitor e dc s))"
proof (cases "IsPrometheusServiceMonitorEnable dc")
  case True
  then show ?thesis by (simp add: handleServiceMonitor_def Let_def calls_cop)
next
  case False
  then show ?thesis
    by (simp add: handleServiceMonitor_def Let_def getServiceMonitor_def writeObj_def split: sum.splits option.splits)
qed

lemma calls_handleMetricsExporter: "only P s (snd (handleMetricsExporter e dc s))"
proof -
  have "only P t (snd (if staticAuth dc then CreateOrPatch e OSecret key (getSecret e) f x t else (None, t)))" for t key f x
    by (simp add: calls_cop)
  moreover have "only P t (snd (CreateOrPatch e OService key (getService e) f x t))" for t key f x
    by (simp add: calls_cop)
  ultimately show ?thesis
    unfolding handleMetricsExporter_def Let_def
    by (simp only: calls_finalizeMetricsExporter split: if_split)
      (intro conjI impI only_then calls_handleServiceMonitor calls_reconcileDaemonSet; simp)
qed

lemma calls_handleTestRunner: "only P s (snd (handleTestRunner e dc nodes s))"
  by (simp add: handleTestRunner_def calls_finalizeTestRunner calls_reconcileDaemonSet)

lemma calls_EnsureDefault:
  "only P s (snd (EnsureDefaultDCMConfigMap e js (Some dc) s))"
  by (simp add: EnsureDefaultDCMConfigMap_def Let_def getBuildCM_def writeObj_def split: sum.splits option.splits)

lemma calls_handleConfigManager: "only P s (snd (handleConfigManager e dc s))"
  unfolding handleConfigManager_def
  by (auto intro!: only_then simp: calls_finalizeConfigManager calls_reconcileDaemonSet calls_EnsureDefault)

lemma calls_handleOperands: "only P s (snd (handleOperands e dc nodes s))"
  unfolding handleOperands_def
  by (intro only_then)
    (simp_all add: calls_handleDevicePlugin calls_handleDeviceClass calls_handleDRADriver calls_handleKMMVersionLabel
      calls_handleNodeLabeller calls_handleMetricsExporter calls_handleTestRunner calls_handleConfigManager)

lemma calls_checkPostProcess: "only P s (snd (checkPostProcessFinalizeCondition e dc nodes force s))"
proof (induction nodes arbitrary: s)
  case Nil
  then show ?case by simp
next
  case (Cons node nodes)
  have "only P s (snd (checkPostProcessFinalizeCondition e dc nodes force (logCall c s)))" if "P c" for c
    using that by (rule only_call_then) (rule Cons)
  then show ?case
    by (simp add: Let_def GetWorkerPod_def getWorker_def writeObj_def split: sum.splits)
qed

end

interpretation offdc: handler_calls offDC
  by unfold_locales simp_all

lemmas quiet_basics = offdc.calls_basics

lemmas quiet_deleteIfFound = offdc.calls_deleteIfFound
lemmas quiet_removeDaemonSet = offdc.calls_removeDaemonSet
lemmas quiet_reconcileDaemonSet = offdc.calls_reconcileDaemonSet
lemmas quiet_deleteDaemonSet = offdc.calls_deleteDaemonSet
lemmas quiet_relabelNodes = offdc.calls_relabelNodes
lemmas quiet_updateNodeLabels = offdc.calls_updateNodeLabels
lemmas quiet_updateDriverTypeLabels = offdc.calls_updateDriverTypeLabels
lemmas quiet_UpdateDriverTypeNodeLabel = offdc.calls_UpdateDriverTypeNodeLabel
lemmas quiet_finalizeMetricsExporter = offdc.calls_finalizeMetricsExporter
lemmas quiet_finalizeTestRunner = offdc.calls_finalizeTestRunner
lemmas quiet_finalizeConfigManager = offdc.calls_finalizeConfigManager
lemmas quiet_buildConfigMaps = offdc.calls_buildConfigMaps
lemmas quiet_handleBuildConfigMap = offdc.calls_handleBuildConfigMap
lemma quiet_handleKMMModule: "quiet s (snd (handleKMMModule e dc nodes s))"
  by (rule offdc.calls_handleKMMModule) simp

lemmas quiet_setVersionLabels = offdc.calls_setVersionLabels
lemmas quiet_handleKMMVersionLabel = offdc.calls_handleKMMVersionLabel
lemmas quiet_handleDevicePlugin = offdc.calls_handleDevicePlugin
lemmas quiet_handleDRADriver = offdc.calls_handleDRADriver
lemmas quiet_firstServed = offdc.calls_firstServed
lemmas quiet_handleDeviceClass = offdc.calls_handleDeviceClass
lemmas quiet_handleNodeLabeller = offdc.calls_handleNodeLabeller
lemmas quiet_handleServiceMonitor = offdc.calls_handleServiceMonitor
lemmas quiet_handleMetricsExporter = offdc.calls_handleMetricsExporter
lemmas quiet_handleTestRunner = offdc.calls_handleTestRunner
lemmas quiet_EnsureDefault = offdc.calls_EnsureDefault
lemmas quiet_handleConfigManager = offdc.calls_handleConfigManager
lemmas quiet_handleOperands = offdc.calls_handleOperands
lemmas quiet_checkPostProcess = offdc.calls_checkPostProcess

section \<open>Calls of the finalizer\<close>

text \<open>The patch that takes the finalizer away.\<close>

definition finalizerPatch :: "DeviceConfig \<Rightarrow> call" where
  "finalizerPatch dc = CPatch
     (ODeviceConfig (dc\<lparr>dc_Finalizers := filter (\<lambda>f. f \<noteq> deviceConfigFinalizer) (dc_Finalizers dc)\<rparr>))
     (ODeviceConfig dc)"

lemma removeFinalizer_call: "removeFinalizer e dc s = writeObj e (finalizerPatch dc) s"
  by (simp add: removeFinalizer_def finalizerPatch_def)

lemma finalizerPatch_offDC [simp]: "\<not> offDC (finalizerPatch dc)"
  by (simp add: finalizerPatch_def)

lemma snd_removeFinalizer [simp]: "snd (removeFinalizer e dc s) = logCall (finalizerPatch dc) s"
  by (simp add: removeFinalizer_call writeObj_def)

text \<open>
  The last phase either does not write the DeviceConfig at all, or its very last call takes the finalizer away
  and everything before is quiet; then the module was found to be absent, unless KMM is not watched.
\<close>

definition endsWithPatch :: "DeviceConfig \<Rightarrow> reconciler \<Rightarrow> reconciler \<Rightarrow> bool" where
  "endsWithPatch dc s t \<longleftrightarrow> (\<exists>u. quiet s u \<and> t = logCall (finalizerPatch dc) u)"

lemma endsWithPatch_trans: "quiet s t \<Longrightarrow> endsWithPatch dc t u \<Longrightarrow> endsWithPatch dc s u"
  by (auto simp: endsWithPatch_def intro: only_trans)

lemma endsWithPatch_only: "endsWithPatch dc s t \<Longrightarrow> only (\<lambda>_. True) s t"
  by (auto simp: endsWithPatch_def intro!: only_logCall elim: only_mono)

lemma quiet_ends: "quiet s u \<Longrightarrow> endsWithPatch dc s (logCall (finalizerPatch dc) u)"
  by (auto simp: endsWithPatch_def)

lemma finalizeWithoutModule_ends:
  "quiet s (snd (finalizeWithoutModule e dc nodes s)) \<or> endsWithPatch dc s (snd (finalizeWithoutModule e dc nodes s))"
proof -
  have "quiet s (snd (case checkPostProcessFinalizeCondition e dc nodes f s of
          (True, s1) \<Rightarrow> removeFinalizer e dc s1 | (False, s1) \<Rightarrow> (Some w, s1)))
      \<or> endsWithPatch dc s (snd (case checkPostProcessFinalizeCondition e dc nodes f s of
          (True, s1) \<Rightarrow> removeFinalizer e dc s1 | (False, s1) \<Rightarrow> (Some w, s1)))" for f w
    using quiet_checkPostProcess [of s e dc nodes f]
    by (cases "checkPostProcessFinalizeCondition e dc nodes f s") (auto intro: quiet_ends split: bool.splits)
  then show ?thesis
    using quiet_ends [OF quiet_updateNodeLabels] quiet_ends [OF only_refl]
    by (simp add: finalizeWithoutModule_def Let_def)
qed

lemma finalizeModule_ends:
  "quiet s (snd (finalizeModule e dc nodes s)) \<or> endsWithPatch dc s (snd (finalizeModule e dc nodes s))"
proof (cases "kmmWatchEnabled s")
  case False
  then show ?thesis using quiet_ends [OF only_refl] by (simp add: finalizeModule_def)
next
  case True
  show ?thesis
  proof (cases "o_module e (hist s) (dc_Namespace dc) (dc_Name dc)")
    case (Inl x)
    have q: "quiet s (logCall (CGet KModule (dc_Namespace dc) (dc_Name dc)) s)" by simp
    with True Inl finalizeWithoutModule_ends [of "logCall (CGet KModule (dc_Namespace dc) (dc_Name dc)) s" e dc nodes]
    show ?thesis
      by (auto simp: finalizeModule_def getModule_def intro: only_trans [OF q] endsWithPatch_trans [OF q])
  next
    case (Inr md)
    have "quiet s (updateNodeLabels e dc nodes True (logCall (CDelete KModule ns n) (logCall (CGet k ns' n') s)))"
      for k ns n ns' n'
      by (rule only_trans [OF _ quiet_updateNodeLabels]) simp
    with True Inr show ?thesis
      by (simp add: finalizeModule_def getModule_def writeObj_def orElse_def wrapErr_def split: option.splits)
  qed
qed

lemma finalizeDriver_ends:
  "quiet s (snd (finalizeDriver e dc nodes s)) \<or> endsWithPatch dc s (snd (finalizeDriver e dc nodes s))"
proof -
  obtain es nodes1 s1 where u: "UpdateDriverTypeNodeLabel e (Some dc) (Some nodes) True s = ((es, nodes1), s1)"
    by (metis surj_pair)
  with quiet_UpdateDriverTypeNodeLabel [of s e dc nodes True] have q: "quiet s s1" by simp
  with u finalizeModule_ends [of s1 e dc nodes1] show ?thesis
    by (auto simp: finalizeDriver_def orElse_def wrapErr_def split: option.splits
        intro: only_trans [OF q] endsWithPatch_trans [OF q])
qed

text \<open>Either the finalizer stops early, quietly, or every stage succeeds and the last one runs.\<close>

lemma finalizeDeviceConfig_stages:
  assumes "finalizeDeviceConfig e dc nodes s = (x, t)"
  shows "quiet s t \<or> (\<exists>s1 s2 s3 s4 s5 s6.
    finalizeConfigManager e dc s = (None, s1) \<and> finalizeTestRunner e dc nodes s1 = (None, s2)
    \<and> finalizeMetricsExporter e dc s2 = (None, s3)
    \<and> removeDaemonSet e ''device-plugin daemonset'' dc ''-device-plugin'' s3 = (None, s4)
    \<and> removeDaemonSet e ''dra-driver daemonset'' dc DRADriverNameSuffix s4 = (None, s5)
    \<and> removeDaemonSet e ''nodelabeller daemonset'' dc ''-node-labeller'' s5 = (None, s6)
    \<and> finalizeDriver e dc nodes s6 = (x, t) \<and> quiet s s6)"
proof -
  obtain x1 s1 where 1: "finalizeConfigManager e dc s = (x1, s1)" by fastforce
  with quiet_finalizeConfigManager [of s e dc] have q1: "quiet s s1" by simp
  obtain x2 s2 where 2: "finalizeTestRunner e dc nodes s1 = (x2, s2)" by fastforce
  with quiet_finalizeTestRunner [of s1 e dc nodes] have "quiet s1 s2" by simp
  with q1 have q2: "quiet s s2" by (rule only_trans)
  obtain x3 s3 where 3: "finalizeMetricsExporter e dc s2 = (x3, s3)" by fastforce
  with quiet_finalizeMetricsExporter [of s2 e dc] have "quiet s2 s3" by simp
  with q2 have q3: "quiet s s3" by (rule only_trans)
  obtain x4 s4 where 4: "removeDaemonSet e ''device-plugin daemonset'' dc ''-device-plugin'' s3 = (x4, s4)" by fastforce
  with quiet_removeDaemonSet [of s3 e _ dc] have "quiet s3 s4" by (metis snd_conv)
  with q3 have q4: "quiet s s4" by (rule only_trans)
  obtain x5 s5 where 5: "removeDaemonSet e ''dra-driver daemonset'' dc DRADriverNameSuffix s4 = (x5, s5)" by fastforce
  with quiet_removeDaemonSet [of s4 e _ dc] have "quiet s4 s5" by (metis snd_conv)
  with q4 have q5: "quiet s s5" by (rule only_trans)
  obtain x6 s6 where 6: "removeDaemonSet e ''nodelabeller daemonset'' dc ''-node-labeller'' s5 = (x6, s6)" by fastforce
  with quiet_removeDaemonSet [of s5 e _ dc] have "quiet s5 s6" by (metis snd_conv)
  with q5 have q6: "quiet s s6" by (rule only_trans)
  have "finalizeDeviceConfig e dc nodes s =
    (if x1 \<noteq> None then (x1, s1) else if x2 \<noteq> None then (x2, s2) else if x3 \<noteq> None then (x3, s3)
     else if x4 \<noteq> None then (x4, s4) else if x5 \<noteq> None then (x5, s5) else if x6 \<noteq> None then (x6, s6)
     else finalizeDriver e dc nodes s6)"
    unfolding finalizeDeviceConfig_def 1 orElse_pair 2 3 4 5 6 by (rule refl)
  with assms q1 q2 q3 q4 q5 q6 1 2 3 4 5 6 show ?thesis by (simp split: if_splits)
qed

end
