(* ===== verification/Reconciler_Props.thy ===== *)
theory Reconciler_Props
  imports Reconciler_Facts
begin

text \<open>
  Which DeviceConfig a node belongs to: no reconcile takes a node from another DeviceConfig, and only the
  reconcile that sees the owner gone gives it up.
\<close>

section \<open>A concrete controller\<close>

definition sampleRenv :: renv where
  "sampleRenv = apiserver.extend (apiserver.truncate sampleApi)
     (renv.fields (\<lambda>h. defaultDriverversionsMappers) (\<lambda>h. [''driver'', ''commonConfig'']) (\<lambda>h m u t. Unreachable)
       (\<lambda>h n. Inl NotFound)
       \<lparr>df_Ubuntu = ''FROM $$BASEIMG_REGISTRY/ubuntu:$$VERSION'', df_CoreOSFromSrcImage = [],
        df_CoreOSFromRPM = [], df_SLES = [], df_DevUbuntu = [], df_GIMUbuntu = [], df_GIMCoreOS = []\<rparr>
       ''{}'' True (\<lambda>es. ''invalid''))"

definition sampleReq :: NamespacedName where
  "sampleReq = \<lparr>nsn_Namespace = ''kube-amd-gpu'', nsn_Name = ''gpu''\<rparr>"

definition sampleReconciler :: reconciler where
  "sampleReconciler = (newDeviceConfigReconciler sampleRenv False True)\<lparr>onceDone := True,
     nodeAssignments := [''node-a'' \<mapsto> ''other/gpu'']\<rparr>"

lemmas sample_rc_defs = sampleRenv_def apiserver.defs sampleReq_def sampleReconciler_def
  newDeviceConfigReconciler_def

section \<open>Frames\<close>

lemma with_fields [simp]:
  "nodeAssignments (snd (withUpgrade f s)) = nodeAssignments s"
  "nodeAssignments (snd (withRemediation g s)) = nodeAssignments s"
  "nodeAssignments (snd (withValidator h s)) = nodeAssignments s"
  "kmmWatchEnabled (snd (withUpgrade f s)) = kmmWatchEnabled s"
  "kmmWatchEnabled (snd (withRemediation g s)) = kmmWatchEnabled s"
  "kmmWatchEnabled (snd (withValidator h s)) = kmmWatchEnabled s"
  by (simp_all add: withUpgrade_def withRemediation_def withValidator_def split: prod.splits)

lemma with_hist:
  "hist (snd (withUpgrade f s)) = hist (snd (f ((upgradeMgrHandler s)\<lparr>hist := hist s\<rparr>)))"
  "hist (snd (withRemediation g s)) = hist (snd (g ((remediationMgrHandler s)\<lparr>hist := hist s\<rparr>)))"
  "hist (snd (withValidator h s)) = hist (snd (h ((validatorState s)\<lparr>hist := hist s\<rparr>)))"
  "fst (withValidator h s) = fst (h ((validatorState s)\<lparr>hist := hist s\<rparr>))"
  by (cases s; simp add: withUpgrade_def withRemediation_def withValidator_def case_prod_beta)+

text \<open>The calls of the status: the DeviceConfig is read, the status of what was read is patched, and the time is
  taken for its conditions.\<close>

definition statusCall :: "renv \<Rightarrow> DeviceConfig \<Rightarrow> call \<Rightarrow> bool" where
  "statusCall e dc c \<longleftrightarrow> c = CNow \<or> c = CGet KDeviceConfig (dc_Namespace dc) (dc_Name dc)
     \<or> (\<exists>h latest st. o_dc e h (dc_Namespace dc) (dc_Name dc) = Inr latest
         \<and> c = CPatchStatus (ODeviceConfig (latest\<lparr>dc_Status := st\<rparr>)) (ODeviceConfig latest))"

lemma statusCall_simps [simp]:
  "statusCall e dc CNow" "statusCall e dc (CGet KDeviceConfig (dc_Namespace dc) (dc_Name dc))"
  "o_dc e h (dc_Namespace dc) (dc_Name dc) = Inr latest \<Longrightarrow>
    statusCall e dc (CPatchStatus (ODeviceConfig (latest\<lparr>dc_Status := st\<rparr>)) (ODeviceConfig latest))"
  by (auto simp: statusCall_def)

lemma statusCall_same: "nsnOf dc1 = nsnOf dc \<Longrightarrow> statusCall e dc1 = statusCall e dc"
  by (simp add: statusCall_def nsnOf_def fun_eq_iff)

lemma only_updateStatus: "only (statusCall e dc) s (snd (updateDeviceConfigStatus e dc s))"
  unfolding updateDeviceConfigStatus_def
  by (rule only_retry)
    (simp add: updateStatusOnce_def getRequestedDeviceConfig_def getDC_def writeObj_def nsnOf_def split: sum.splits)

lemma nsnOf_withConditions [simp]: "nsnOf (withConditions f dc) = nsnOf dc"
  by (simp add: nsnOf_def withConditions_def)

lemma only_rcSetCondition:
  "only (statusCall e dc) s (snd (rcSetCondition e cond dc status reason msg s))"
  "nsnOf (snd (fst (rcSetCondition e cond dc status reason msg s))) = nsnOf dc"
proof -
  have u: "only (statusCall e dc) s (snd (updateDeviceConfigStatus e (withConditions f dc) (logCall CNow s)))" for f
  proof (rule only_call_then)
    show "statusCall e dc CNow" by (rule statusCall_simps)
    show "only (statusCall e dc) (logCall CNow s) (snd (updateDeviceConfigStatus e (withConditions f dc) (logCall CNow s)))"
      using only_updateStatus [of e "withConditions f dc"] statusCall_same [of "withConditions f dc" dc e] by simp
  qed
  then show "only (statusCall e dc) s (snd (rcSetCondition e cond dc status reason msg s))"
    by (simp add: rcSetCondition_def SetReadyCondition_def SetErrorCondition_def timeNow_def case_prod_beta)
  show "nsnOf (snd (fst (rcSetCondition e cond dc status reason msg s))) = nsnOf dc"
    by (simp add: rcSetCondition_def SetReadyCondition_def SetErrorCondition_def timeNow_def case_prod_beta)
qed

lemma only_reject: "only (statusCall e dc) s (reject e dc reason msg rr rm s)"
proof -
  obtain x dc1 s1 where r: "rcSetCondition e ConditionTypeError dc ''True'' reason msg s = ((x, dc1), s1)"
    by (metis surj_pair)
  with only_rcSetCondition(1) [of e dc s ConditionTypeError "''True''" reason msg]
    only_rcSetCondition(2) [of e ConditionTypeError dc "''True''" reason msg s]
  have "only (statusCall e dc) s s1" and "statusCall e dc1 = statusCall e dc"
    by (auto intro: statusCall_same)
  with r only_rcSetCondition(1) [of e dc1 s1 ConditionTypeReady "''False''" rr rm] show ?thesis
    by (auto simp: reject_def intro: only_trans)
qed

section \<open>Node assignments\<close>

lemma validateNodeAssignments_None:
  "validateNodeAssignments na nsn ns = None \<longleftrightarrow> (\<forall>n \<in> set ns. na n = None \<or> na n = Some nsn)"
  by (induction ns) (auto split: option.splits)

lemma assignNodes_apply: "assignNodes nsn ns na n = (if n \<in> set ns then Some nsn else na n)"
  unfolding assignNodes_def by (induction ns arbitrary: na) auto

lemma buildNodeAssignments_keeps: "na n = Some a \<Longrightarrow> buildNodeAssignments dcs na n = Some a"
proof (induction dcs arbitrary: na)
  case Nil
  then show ?case by simp
next
  case (Cons dc dcs)
  show ?case
    unfolding buildNodeAssignments.simps Let_def
    by (rule Cons.IH) (use Cons.prems in \<open>auto simp: validateNodeAssignments_None assignNodes_apply\<close>)
qed

lemma runInit_keeps: "nodeAssignments s n = Some a \<Longrightarrow> nodeAssignments (runInit e s) n = Some a"
  by (auto simp: runInit_def initReconciler_def listDeviceConfigs_def listDCs_def logCall_def
      buildNodeAssignments_keeps split: sum.splits)

lemma updateDriverTypeLabels_names:
  "map n_Name (snd (fst (updateDriverTypeLabels e dc cl nodes s))) = map n_Name nodes"
  by (induction nodes arbitrary: s) (simp_all add: Let_def case_prod_beta)

lemma handleKMMModule_names:
  assumes "handleKMMModule e dc nodes s = ((x, nodes1), t)"
  shows "map n_Name nodes1 = map n_Name nodes"
proof -
  have "map n_Name (snd (fst (UpdateDriverTypeNodeLabel e (Some dc) (Some nodes) False s))) = map n_Name nodes"
    by (simp add: UpdateDriverTypeNodeLabel_def updateDriverTypeLabels_names)
  with assms show ?thesis
    by (auto simp: handleKMMModule_def split: prod.splits if_splits)
qed

lemma buildStatus_nodeAssignments:
  "nodeAssignments (snd (buildDeviceConfigStatus e dc nodes s)) = nodeAssignments s"
proof -
  have ns: "nodeAssignments (snd (nodeStatuses e d prev ns acc t)) = nodeAssignments t" for d prev ns acc t
    by (induction ns arbitrary: acc t) (simp_all add: Let_def getNMC_def logCall_def)
  show ?thesis
    by (simp add: buildDeviceConfigStatus_def getDeviceConfigOwnedKMMModule_def buildDeviceConfigNodeStatus_def
        SetReadyCondition_def timeNow_def getModule_def logCall_def ns Let_def case_prod_beta split: sum.splits)
qed

text \<open>A reconcile that accepts the DeviceConfig assigns its nodes at the very end, or nothing.\<close>

lemma finishReconcile_nodeAssignments:
  assumes "finishReconcile e req dc nodes s = (x, t)"
  shows "nodeAssignments t = (if x = None then assignNodes (nsnText req) (map n_Name nodes) (nodeAssignments s)
                              else nodeAssignments s)"
proof -
  obtain y dc1 s1 where b: "buildDeviceConfigStatus e dc nodes s = ((y, dc1), s1)" by (metis surj_pair)
  with buildStatus_nodeAssignments [of e dc nodes s] have 1: "nodeAssignments s1 = nodeAssignments s" by simp
  obtain z s2 where u: "updateDeviceConfigStatus e dc1 s1 = (z, s2)" by fastforce
  with only_fields(1) [OF only_updateStatus [of e dc1 s1]] have "nodeAssignments s2 = nodeAssignments s1" by simp
  with assms b u 1 show ?thesis
    by (cases y; cases z) (auto simp: finishReconcile_def orElse_def wrapErr_def updateNodeAssignments_def)
qed

lemma reconcileRemediation_nodeAssignments:
  "nodeAssignments (snd (reconcileRemediation e req dc nodes res s))
     \<in> {nodeAssignments s, assignNodes (nsnText req) (map n_Name nodes) (nodeAssignments s)}"
proof -
  obtain rr x s1 where r: "handleRemediationWorkflow e dc nodes False s = ((rr, x), s1)" by (metis surj_pair)
  then have "nodeAssignments s1 = nodeAssignments s"
    using with_fields(2) by (metis handleRemediationWorkflow_def snd_conv)
  with r show ?thesis
    using finishReconcile_nodeAssignments [of e req dc nodes s1]
    by (auto simp: reconcileRemediation_def Let_def split: option.splits prod.splits)
qed

lemma reconcileAccepted_nodeAssignments:
  "nodeAssignments (snd (reconcileAccepted e req dc nodes s))
     \<in> {nodeAssignments s, assignNodes (nsnText req) (map n_Name nodes) (nodeAssignments s)}"
proof -
  obtain x1 dc1 s1 where f: "setFinalizer e dc s = ((x1, dc1), s1)" by (metis surj_pair)
  then have n1: "nodeAssignments s1 = nodeAssignments s"
    by (auto simp: setFinalizer_def writeObj_def logCall_def Let_def split: if_splits)
  obtain x2 dc2 s2 where b: "handleBuildConfigMap e dc1 nodes s1 = ((x2, dc2), s2)" by (metis surj_pair)
  with only_fields(1) [OF quiet_handleBuildConfigMap [of s1 e dc1 nodes]] n1
  have n2: "nodeAssignments s2 = nodeAssignments s" by simp
  obtain res s3 where u: "handleModuleUpgrade e dc2 nodes False s2 = (res, s3)" by fastforce
  then have n3: "nodeAssignments s3 = nodeAssignments s"
    using n2 with_fields(1) by (metis handleModuleUpgrade_def snd_conv)
  obtain x4 nodes1 s4 where k: "handleKMMModule e dc2 nodes s3 = ((x4, nodes1), s4)" by (metis surj_pair)
  with only_fields(1) [OF quiet_handleKMMModule [of s3 e dc2 nodes]] n3
  have n4: "nodeAssignments s4 = nodeAssignments s" by simp
  obtain x5 s5 where o: "handleOperands e dc2 nodes1 s4 = (x5, s5)" by fastforce
  with only_fields(1) [OF quiet_handleOperands [of s4 e dc2 nodes1]] n4
  have n5: "nodeAssignments s5 = nodeAssignments s" by simp
  show ?thesis
    using f b u k o n1 n2 n4 n5 reconcileRemediation_nodeAssignments [of e req dc2 nodes1 res s5]
      handleKMMModule_names [OF k]
    by (cases x1; cases x2; cases x4; cases x5) (simp_all add: reconcileAccepted_def)
qed

lemma validateDeviceConfig_nodeAssignments:
  "nodeAssignments (snd (validateDeviceConfig e dc s)) = nodeAssignments s"
  by (simp add: validateDeviceConfig_def)

lemma reconcilePresent_nodeAssignments:
  "nodeAssignments (snd (reconcilePresent e req dc nodes s)) = nodeAssignments s
   \<or> validateNodeAssignments (nodeAssignments s) (nsnText req) (map n_Name nodes) = None
     \<and> nodeAssignments (snd (reconcilePresent e req dc nodes s))
         = assignNodes (nsnText req) (map n_Name nodes) (nodeAssignments s)"
proof -
  obtain errs dc1 s1 where v: "validateDeviceConfig e dc s = ((errs, dc1), s1)" by (metis surj_pair)
  with validateDeviceConfig_nodeAssignments [of e dc s] have n: "nodeAssignments s1 = nodeAssignments s" by simp
  have "nodeAssignments (reject e d a b c f t) = nodeAssignments t" for d a b c f t
    by (rule only_fields(1) [OF only_reject])
  with v n reconcileAccepted_nodeAssignments [of e req dc1 nodes s1] show ?thesis
    by (auto simp: reconcilePresent_def split: option.splits)
qed

lemma reconcileDeletion_nodeAssignments:
  "nodeAssignments (snd (reconcileDeletion e dc nodes s)) = nodeAssignments s"
proof -
  let ?u = "snd (handleRemediationWorkflow e dc nodes True (snd (handleModuleUpgrade e dc nodes True s)))"
  obtain x t where f: "finalizeDeviceConfig e dc nodes ?u = (x, t)" by fastforce
  have "only (\<lambda>_. True) ?u t"
    using finalizeDeviceConfig_stages [OF f] finalizeDriver_ends [of _ e dc nodes]
    by (metis endsWithPatch_only endsWithPatch_trans only_mono only_trans snd_conv)
  then have "nodeAssignments t = nodeAssignments ?u" by (rule only_fields(1))
  with f show ?thesis
    by (simp add: reconcileDeletion_def Let_def wrapErr_def handleRemediationWorkflow_def handleModuleUpgrade_def)
qed

lemma Reconcile_nodeAssignments:
  fixes s :: reconciler and e :: renv
  defines "na \<equiv> nodeAssignments (runInit e s)"
  shows "nodeAssignments (snd (Reconcile e req s)) = na
    \<or> sawGone e req s
      \<and> nodeAssignments (snd (Reconcile e req s)) = (\<lambda>n. if na n = Some (nsnText req) then None else na n)
    \<or> (\<exists>ns. validateNodeAssignments na (nsnText req) ns = None
        \<and> nodeAssignments (snd (Reconcile e req s)) = assignNodes (nsnText req) ns na)"
proof -
  let ?s0 = "runInit e s"
  obtain r s1 where g: "getRequestedDeviceConfig e req ?s0 = (r, s1)" by fastforce
  then have n1: "nodeAssignments s1 = na"
    by (auto simp: na_def getRequestedDeviceConfig_def getDC_def logCall_def split: sum.splits)
  show ?thesis
  proof (cases "initErr ?s0 = None \<and> (\<exists>dc. r = Inr dc)")
    case False
    with g n1 show ?thesis
      by (cases r)
        (auto simp: Reconcile_def na_def sawGone_def updateNodeAssignments_def Let_def split: option.splits)
  next
    case True
    then obtain dc where i: "initErr ?s0 = None" and dc: "r = Inr dc" by blast
    obtain l s2 where li: "listNodes e (selectorOf dc) s1 = (l, s2)" by fastforce
    then have n2: "nodeAssignments s2 = na" using n1 by (auto simp: listNodes_def logCall_def)
    show ?thesis
      using i dc g li n2 reconcileDeletion_nodeAssignments [of e dc _ s2]
        reconcilePresent_nodeAssignments [of e req dc _ s2]
      by (cases l) (auto simp: Reconcile_def crGone_def)
  qed
qed

lemma Reconcile_keeps_owner:
  assumes "nodeAssignments s n = Some a" and "sawGone e req s \<Longrightarrow> nsnText req \<noteq> a"
  shows "nodeAssignments (snd (Reconcile e req s)) n = Some a"
  using Reconcile_nodeAssignments [where e = e and s = s and req = req] runInit_keeps [OF assms(1), of e] assms(2)
  by (auto simp: validateNodeAssignments_None assignNodes_apply)
    (metis option.distinct(1) option.inject)

section \<open>Along a run of the controller\<close>

text \<open>The event handlers touch nothing but the cluster, and there no KMM module.\<close>

abbreviation framed :: "'a world_scheme \<Rightarrow> 'a world_scheme \<Rightarrow> bool" where
  "framed \<equiv> only offModule"

lemma framed_patchStatus: "framed s (daemonSetObserved e blank ds s)"
proof -
  have "framed s (patchDeviceConfigNodeStatus e blank ds n s)" for n
    unfolding patchDeviceConfigNodeStatus_def
    by (rule only_retry) (simp add: patchStatusOnce_def getDC_def writeObj_def split: sum.splits)
  then show ?thesis by (simp add: daemonSetObserved_def Let_def)
qed

lemma framed_DaemonsetEventHandler: "framed s (snd (DaemonsetEventHandler e blank ev s))"
  by (cases ev) (simp_all add: framed_patchStatus Let_def)

lemma framed_runWorker: "framed s (snd (runWorker e vs act dc node s))"
proof -
  have "framed s (snd (CreateOrPatch e OWorkerPod wpKey (getWorker e) f x s))" for f x
    by (rule only_mono [OF only_CreateOrPatch [OF get_calls(7)]]) (auto simp: copCall_def)
  then show ?thesis by (simp add: runWorker_def)
qed

lemma framed_labels:
  "framed s (AddWorkReadyLabel e nsn n s)" "framed s (RemoveWorkReadyLabel e nsn n s)"
  by (simp_all add: AddWorkReadyLabel_def RemoveWorkReadyLabel_def patchNode_def getNode_def writeObj_def split: sum.splits)

lemma framed_handlePostProcess: "framed s (handlePostProcess e vs old new s)"
proof -
  have "framed s (snd (runWorker e vs act dc node (logCall (CGet KDeviceConfig ns n) s)))" for act dc node ns n
    by (rule only_call_then [OF _ framed_runWorker]) simp
  then show ?thesis
    by (simp add: handlePostProcess_def getDC_def Work_def Cleanup_def framed_labels split: prod.splits sum.splits)
qed

lemma framed_requests:
  "framed s (snd (reconcileAllDeviceConfigs e s))" "framed s (snd (reconcileRelatedDeviceConfig e n s))"
  by (simp_all add: reconcileAllDeviceConfigs_def reconcileRelatedDeviceConfig_def listDCs_def getNMC_def
      split: sum.splits option.splits)

lemma framed_NodeEventHandler: "framed s (snd (NodeEventHandler e vs ev s))"
proof (cases ev)
  case (Updated old new)
  have "framed s (snd (if nodeChanged old new then reconcileAllDeviceConfigs e s else ([], s)))"
    by (simp add: framed_requests)
  with Updated show ?thesis
    by (simp only: NodeEventHandler.simps case_prod_beta snd_conv) (erule only_trans, rule framed_handlePostProcess)
qed (simp_all add: framed_requests)

lemma framed_PodEventHandler: "framed s (PodEventHandler e ev s)"
proof (cases ev)
  case (Updated old pod)
  have 1: "framed s (cleanupUnknownPod e pod s)"
    by (simp add: cleanupUnknownPod_def getNode_def writeObj_def split: sum.splits)
  have 2: "framed t (handleWorkerMgrPodEvt e pod act t)" for act t
    by (simp add: handleWorkerMgrPodEvt_def Let_def writeObj_def framed_labels split: option.splits)
  from Updated only_trans [OF 1 2] 1 show ?thesis by (simp add: Let_def split: option.splits)
qed simp_all

lemma framed_secret: "framed s (snd (findDeviceConfigsForSecret e ns n s))"
  by (simp add: findDeviceConfigsForSecret_def listDeviceConfigs_def listDCs_def split: sum.splits)

lemma cstep_keeps_owner:
  assumes "cstep e vs blank s l t" and "nodeAssignments s n = Some a" and "l \<noteq> LRestart"
    and "\<And>req. l = LReconcile req True \<Longrightarrow> nsnText req \<noteq> a"
  shows "nodeAssignments t n = Some a"
  using assms(1)
proof (cases rule: cstep.cases)
  case (reconcile req)
  with assms show ?thesis by (simp add: Reconcile_keeps_owner)
next
  case (goroutine tk)
  with assms show ?thesis by (simp add: runGoroutine_def)
next
  case (daemonset ev)
  with assms only_fields(1) [OF framed_DaemonsetEventHandler [of s e blank ev]] show ?thesis by simp
next
  case (node ev)
  with assms only_fields(1) [OF framed_NodeEventHandler [of s e vs ev]] show ?thesis by simp
next
  case (pod ev)
  with assms only_fields(1) [OF framed_PodEventHandler [of s e ev]] show ?thesis by simp
next
  case (secret ns m)
  with assms only_fields(1) [OF framed_secret [of s e ns m]] show ?thesis by simp
next
  case restart
  with assms show ?thesis by simp
qed

text \<open>
  C3: Along every run of the controller, of reconciles, goroutines and events in any order and against any
  server, a node stays assigned to the DeviceConfig it was assigned to, until the operator restarts or a
  reconcile of that DeviceConfig sees it gone.
\<close>

theorem nodeAssignments_stable:
  assumes "crun e vs blank s ls t" and "nodeAssignments s n = Some a" and "LRestart \<notin> set ls"
    and "\<And>req. LReconcile req True \<in> set ls \<Longrightarrow> nsnText req \<noteq> a"
  shows "nodeAssignments t n = Some a"
  using assms
proof (induction rule: crun.induct)
  case (none s)
  then show ?case by simp
next
  case (more s ls t l u)
  show ?case
    by (rule cstep_keeps_owner [OF more.hyps(2)]) (use more in auto)
qed

theorem nodeAssignments_stable_witness:
  "nodeAssignments (snd (Reconcile sampleRenv sampleReq sampleReconciler)) ''node-a'' = Some ''other/gpu''"
proof -
  have g: "\<not> sawGone sampleRenv sampleReq sampleReconciler"
    by (simp add: sawGone_def runInit_def getRequestedDeviceConfig_def getDC_def crGone_def
        sampleRenv_def apiserver.defs sampleApi_def sampleReconciler_def Let_def)
  have "crun sampleRenv vs sampleDC sampleReconciler [LReconcile sampleReq False]
      (snd (Reconcile sampleRenv sampleReq sampleReconciler))" for vs
    using crun.more [OF crun.none cstep.reconcile, of sampleRenv vs sampleDC sampleReconciler sampleReq] g by simp
  then show ?thesis
    by (rule nodeAssignments_stable) (simp_all add: sampleReconciler_def)
qed

text \<open>
  Any failed Get whose text mentions ``not found'' passes for a deletion, though the DeviceConfig may be there: its
  nodes are given up and can then be assigned to another.
\<close>

lemma lookalike_releases:
  assumes "onceDone s" and "initErr s = None"
    and "o_dc e (hist s) (nsn_Namespace req) (nsn_Name req) = Inl (OtherErr (a @ ''not found'' @ b))"
  shows "fst (Reconcile e req s) = (noRequeue, None)
    \<and> nodeAssignments (snd (Reconcile e req s)) n \<noteq> Some (nsnText req)"
proof -
  let ?s1 = "logCall (CGet KDeviceConfig (nsn_Namespace req) (nsn_Name req)) s"
  have g: "getRequestedDeviceConfig e req s =
      (Inl (OtherErr (''failed to get DeviceConfig'' @ '': '' @ a @ ''not found'' @ b)), ?s1)"
    using assms(3) by (simp add: getRequestedDeviceConfig_def getDC_def wrapped_def errText_def)
  have "containsStr (''failed to get DeviceConfig'' @ '': '' @ a @ ''not found'' @ b) ''not found''"
    unfolding containsStr_iff by (metis append_assoc sublist_appendI)
  then have "Reconcile e req s = ((noRequeue, None),
      ?s1\<lparr>nodeAssignments := updateNodeAssignments (nsnText req) None True (nodeAssignments ?s1)\<rparr>)"
    using assms(1,2) g by (simp add: Reconcile_def runInit_def crGone_def errText_def)
  then show ?thesis by (simp add: updateNodeAssignments_def)
qed

end
