(* ===== verification/Reconciler_Reject.thy ===== *)
theory Reconciler_Reject
  imports Reconciler_Props Validator_Props
begin

text \<open>
  What a DeviceConfig that is not accepted leads to: the validator only reads, and a reconcile of a
  DeviceConfig that conflicts with another, fails validation or selects no node writes nothing but its status.
\<close>

section \<open>The validator only reads\<close>

text \<open>It reads no KMM module.\<close>

abbreviation reading :: "'a world_scheme \<Rightarrow> 'b world_scheme \<Rightarrow> bool" where
  "reading \<equiv> ran (\<lambda>c. \<not> isWrite c \<and> offModule c)"

lemma isWrite_reads [simp]:
  "\<not> isWrite (CGet k ns n)" "\<not> isWrite (CList k nso sel)" "\<not> isWrite (CHTTP m u)" "\<not> isWrite CNow"
  by (simp_all add: isWrite_def)

lemma reading_update [simp]: "ran P s (t\<lparr>slesVersionCache := c\<rparr>) = ran P s t"
  by (simp add: ran_def)

lemma reading_validateSecret: "reading s (snd (validateSecret env r ns s))"
  by (auto simp: validateSecret_def existsObj_def split: option.splits kerr.splits)

lemma reading_optSecret: "reading s (snd (optSecret env f r ns s))"
  by (simp add: optSecret_def inField_def reading_validateSecret split: option.splits)

lemma reading_validateConfigMap: "reading s (snd (validateConfigMap env n ns s))"
  by (auto simp: validateConfigMap_def getConfigMapObj_def split: sum.splits kerr.splits)

lemma reading_validateServiceMonitorCRD: "reading s (snd (validateServiceMonitorCRD env s))"
  by (auto simp: validateServiceMonitorCRD_def Let_def split: sum.splits)

lemma reading_ValidateSLES: "reading s (snd (ValidateSLESDriverVersion env os v s))"
proof -
  have a: "reading t (snd (askRegistry env cs v t))" for cs t
    by (auto simp: askRegistry_def http_def timeNow_def split: httpReply.splits option.splits)
  obtain r s1 where c: "cacheHit env (slesCodestream os @ ''@'' @ v) s = (r, s1)" by fastforce
  then have "reading s s1"
    by (auto simp: cacheHit_def timeNow_def split: option.splits if_splits prod.splits)
  with c a show ?thesis
    by (auto simp: ValidateSLESDriverVersion_def Let_def split: option.splits intro: ran_trans)
qed

lemma reading_checkSlesNodes: "reading s (snd (checkSlesNodes env v nodes seen s))"
proof (induction nodes arbitrary: seen s)
  case Nil
  then show ?case by simp
next
  case (Cons node nodes)
  obtain r s1 where c: "ValidateSLESDriverVersion env (n_OSImage node) v s = (r, s1)" by fastforce
  with reading_ValidateSLES [of s env "n_OSImage node" v] have "reading s s1" by simp
  with c Cons show ?case by (auto split: option.splits intro: ran_trans)
qed

lemma reading_validateSLES: "reading s (snd (validateSLESDriverVersion env dc v s))"
proof -
  have "reading s (snd (checkSlesNodes env v nodes [] (logCall (CList KNode None sel) s)))" for nodes sel
    by (rule ran_trans [OF _ reading_checkSlesNodes]) simp
  then show ?thesis by (simp add: validateSLESDriverVersion_def listNodes_def split: sum.splits)
qed

lemma reading_firstError:
  assumes "\<And>f t. f \<in> set fs \<Longrightarrow> reading t (snd (f t))"
  shows "reading s (snd (firstError fs s))"
  using assms
proof (induction fs arbitrary: s)
  case Nil
  then show ?case by simp
next
  case (Cons f fs)
  obtain r s1 where c: "f s = (r, s1)" by fastforce
  with Cons.prems [of f s] have "reading s s1" by simp
  moreover have "reading s1 (snd (firstError fs s1))" by (rule Cons.IH) (use Cons.prems in simp)
  ultimately show ?case using c by (auto split: option.splits intro: ran_trans)
qed

lemma reading_checkSecrets: "reading s (snd (checkSecrets env ns i rs s))"
proof (induction rs arbitrary: i s)
  case Nil
  then show ?case by simp
next
  case (Cons r rs)
  obtain x s1 where c: "validateSecret env r ns s = (x, s1)" by fastforce
  with reading_validateSecret [of s env r ns] have "reading s s1" by simp
  with c Cons show ?case by (auto split: option.splits intro: ran_trans)
qed

lemma reading_validators:
  assumes "(k, v) \<in> set (NewValidator env)"
  shows "reading s (snd (v dc s)) \<and> nsnOf (snd (fst (v dc s))) = nsnOf dc"
proof -
  have "reading t (snd (ValidateDriverSpec env dc t))" for t
    by (auto simp: ValidateDriverSpec_def Let_def reading_optSecret reading_validateSLES intro!: reading_firstError simp del: firstError.simps)
  moreover have "reading t (snd (ValidateMetricsExporterSpec env dc t))" for t
    by (auto simp: ValidateMetricsExporterSpec_def Let_def reading_optSecret inField_def reading_validateConfigMap
        reading_validateServiceMonitorCRD intro!: reading_firstError simp del: firstError.simps)
  moreover have "reading t (snd (ValidateDevicePluginSpec env dc t))" for t
    by (auto simp: ValidateDevicePluginSpec_def Let_def reading_optSecret intro!: reading_firstError simp del: firstError.simps)
  moreover have "reading t (snd (ValidateDRADriverSpec env dc t))" for t
    by (simp add: ValidateDRADriverSpec_def Let_def reading_optSecret)
  moreover have "reading t (snd (ValidateRemediationWorkflowSpec env dc t))" for t
    by (auto simp: ValidateRemediationWorkflowSpec_def Let_def inField_def reading_validateConfigMap
        intro!: reading_firstError simp del: firstError.simps)
  moreover have "reading t (snd (ValidateCommonConfigSpec env dc t))" for t
    by (simp add: ValidateCommonConfigSpec_def reading_checkSecrets)
  moreover have "nsnOf (snd (fst (ValidateDriverSpec env dc t))) = nsnOf dc" for t
    by (simp add: ValidateDriverSpec_def Let_def defaultDriverType_def nsnOf_def)
  ultimately show ?thesis
    using assms by (auto simp: NewValidator_def readOnly_def)
qed

lemma reading_ValidateAll:
  assumes "set fs \<subseteq> set (NewValidator env)"
  shows "reading s (snd (ValidateDeviceConfigAll fs dc s))
    \<and> nsnOf (snd (fst (ValidateDeviceConfigAll fs dc s))) = nsnOf dc"
  using assms
proof (induction fs dc s rule: ValidateDeviceConfigAll.induct)
  case (1 dc s)
  then show ?case by simp
next
  case (2 k v fs dc s)
  obtain x dc1 s1 where c: "v dc s = ((x, dc1), s1)" by (metis surj_pair)
  with reading_validators [of k v env s dc] 2(2) have "reading s s1" "nsnOf dc1 = nsnOf dc" by auto
  with c 2 show ?case by (auto split: prod.splits intro: ran_trans)
qed

lemma visitIn_subset: "set (visitIn ks m) \<subseteq> set m"
  by (auto simp: visitIn_def List.map_filter_def split: option.splits dest: map_of_SomeD)

lemma reading_validateDeviceConfig:
  "reading s (snd (validateDeviceConfig e dc s)) \<and> nsnOf (snd (fst (validateDeviceConfig e dc s))) = nsnOf dc"
proof -
  let ?fs = "visitIn (e_specOrder e (hist s)) (NewValidator (validatorEnv e))"
  let ?v = "ValidateDeviceConfigAll ?fs dc ((validatorState s)\<lparr>hist := hist s\<rparr>)"
  have "reading ((validatorState s)\<lparr>hist := hist s\<rparr>) (snd ?v) \<and> nsnOf (snd (fst ?v)) = nsnOf dc"
    by (rule reading_ValidateAll [OF visitIn_subset])
  then show ?thesis
    by (simp add: validateDeviceConfig_def ran_def with_hist)
qed

section \<open>Rejected DeviceConfigs\<close>

text \<open>Calls that do not change the cluster, and patches of a DeviceConfig's status.\<close>

definition harmless :: "renv \<Rightarrow> DeviceConfig \<Rightarrow> call \<Rightarrow> bool" where
  "harmless e dc c \<longleftrightarrow> \<not> isWrite c \<or> statusCall e dc c"

lemma reject_harmless:
  assumes "nsnOf dc1 = nsnOf dc"
  shows "ran (harmless e dc) s (reject e dc1 a b c d s)"
proof -
  have "ran (statusCall e dc1) s (reject e dc1 a b c d s)" by (rule only_ran [OF only_reject])
  then show ?thesis
    unfolding statusCall_same [OF assms] by (rule ran_mono) (simp add: harmless_def)
qed

lemma reading_harmless: "reading s t \<Longrightarrow> ran (harmless e dc) s t"
  by (erule ran_mono) (simp add: harmless_def)

lemma ran_only_hist: "hist t = hist u \<Longrightarrow> ran P s t = ran P s u"
  by (simp add: ran_def)

lemma reconcilePresent_rejected:
  assumes "validateNodeAssignments (nodeAssignments s) (nsnText req) (map n_Name nodes) \<noteq> None
    \<or> fst (fst (validateDeviceConfig e dc s)) \<noteq> [] \<or> nodes = []"
  shows "ran (harmless e dc) s (snd (reconcilePresent e req dc nodes s))"
proof (cases "validateNodeAssignments (nodeAssignments s) (nsnText req) (map n_Name nodes)")
  case (Some x)
  then show ?thesis by (simp add: reconcilePresent_def reject_harmless)
next
  case None
  obtain errs dc1 s1 where v: "validateDeviceConfig e dc s = ((errs, dc1), s1)" by (metis surj_pair)
  with reading_validateDeviceConfig [of s e dc] have "ran (harmless e dc) s s1" and "nsnOf dc1 = nsnOf dc"
    by (auto intro: reading_harmless)
  then have "ran (harmless e dc) s (reject e dc1 a b c d s1)" for a b c d
    by (blast intro: ran_trans reject_harmless)
  with None v assms show ?thesis by (auto simp: reconcilePresent_def)
qed

text \<open>
  C10: When a DeviceConfig that is not being deleted selects a node of another DeviceConfig, fails validation or
  selects no node, \<open>Reconcile\<close> changes nothing in the cluster but the status of DeviceConfigs: no operand, node
  or finalizer is touched.  In the first two cases it returns an error, so that the request is tried again.
\<close>

theorem Reconcile_rejects:
  assumes "onceDone s" and "initErr s = None"
    and "o_dc e (hist s) (nsn_Namespace req) (nsn_Name req) = Inr dc" and "\<not> dc_Deleting dc"
    and "u = logCall (CList KNode None (selectorOf dc)) (logCall (CGet KDeviceConfig (nsn_Namespace req) (nsn_Name req)) s)"
    and "o_listNodes e (hist (logCall (CGet KDeviceConfig (nsn_Namespace req) (nsn_Name req)) s)) (selectorOf dc) = Inr nodes"
    and "(\<exists>node a. node \<in> set nodes \<and> nodeAssignments s (n_Name node) = Some a \<and> a \<noteq> nsnText req)
       \<or> fst (fst (validateDeviceConfig e dc u)) \<noteq> [] \<or> nodes = []"
  shows "(\<forall>c \<in> set (issued s (snd (Reconcile e req s))). isWrite c \<longrightarrow> statusCall e dc c)
    \<and> (nodes \<noteq> [] \<longrightarrow> snd (fst (Reconcile e req s)) \<noteq> None)"
proof -
  have na: "nodeAssignments u = nodeAssignments s" using assms(5) by (simp add: logCall_def)
  have r: "Reconcile e req s = reconcilePresent e req dc nodes u"
    using assms(1-6)
    by (simp add: Reconcile_def runInit_def getRequestedDeviceConfig_def getDC_def listNodes_def crGone_def)
  have bad: "validateNodeAssignments (nodeAssignments u) (nsnText req) (map n_Name nodes) \<noteq> None
      \<or> fst (fst (validateDeviceConfig e dc u)) \<noteq> [] \<or> nodes = []"
    using assms(7) na by (fastforce simp: validateNodeAssignments_None)
  have "ran (harmless e dc) s u" using assms(5) by (simp add: harmless_def)
  with reconcilePresent_rejected [OF bad] r have "ran (harmless e dc) s (snd (Reconcile e req s))"
    by (metis ran_trans)
  then have "\<forall>c \<in> set (issued s (snd (Reconcile e req s))). isWrite c \<longrightarrow> statusCall e dc c"
    using ran_member harmless_def by blast
  moreover have "snd (fst (Reconcile e req s)) \<noteq> None" if "nodes \<noteq> []"
    using bad r that by (auto simp: reconcilePresent_def split: option.splits prod.splits)
  ultimately show ?thesis by blast
qed

theorem Reconcile_rejects_witness:
  "let e = sampleRenv\<lparr>o_listNodes := \<lambda>h sel. Inr [nodeA]\<rparr>; r = Reconcile e sampleReq sampleReconciler in
   (\<forall>c \<in> set (issued sampleReconciler (snd r)). isWrite c \<longrightarrow> statusCall e sampleDC c) \<and> snd (fst r) \<noteq> None"
proof -
  let ?e = "sampleRenv\<lparr>o_listNodes := \<lambda>h sel. Inr [nodeA]\<rparr>"
  have "\<exists>node a. node \<in> set [nodeA] \<and> nodeAssignments sampleReconciler (n_Name node) = Some a \<and> a \<noteq> nsnText sampleReq"
    by (simp add: sampleReconciler_def nodeA_def sampleNode_def nsnText_def sampleReq_def)
  moreover have "o_dc ?e h ns n = Inr sampleDC" for h ns n
    by (simp add: sampleRenv_def apiserver.defs sampleApi_def)
  moreover have "o_listNodes ?e h sel = Inr [nodeA]" for h sel by simp
  moreover have "onceDone sampleReconciler" "initErr sampleReconciler = None" "\<not> dc_Deleting sampleDC"
    by (simp_all add: sampleReconciler_def newDeviceConfigReconciler_def sampleDC_def)
  ultimately show ?thesis
    using Reconcile_rejects [of sampleReconciler ?e sampleReq sampleDC _ "[nodeA]"] by (simp add: Let_def)
qed

end
