(* ===== verification/Reconciler_Final.thy ===== *)
theory Reconciler_Final
  imports Reconciler_Props
begin

text \<open>
  The deletion of a DeviceConfig: its finalizer goes last, after every operand was found gone, and it does go
  once the cluster holds nothing more of it.
\<close>

section \<open>Traces of the finalizer\<close>

text \<open>
  Between \<open>s\<close> and \<open>t\<close> the DaemonSet was found to be absent, or was deleted with the server's consent.
\<close>

definition dsGone :: "renv \<Rightarrow> string \<Rightarrow> string \<Rightarrow> reconciler \<Rightarrow> reconciler \<Rightarrow> bool" where
  "dsGone e ns n s t \<longleftrightarrow>
     (\<exists>h. suffix (hist s) h \<and> suffix (CGet KDaemonSet ns n # h) (hist t)
       \<and> (o_daemonset e h ns n = Inl NotFound
          \<or> suffix (CDelete KDaemonSet ns n # CGet KDaemonSet ns n # h) (hist t)
            \<and> o_write e (CGet KDaemonSet ns n # h) (CDelete KDaemonSet ns n) = None))"

lemma dsGone_mono:
  assumes "dsGone e ns n s t" and "suffix (hist s0) (hist s)" and "suffix (hist t) (hist t1)"
  shows "dsGone e ns n s0 t1"
  using assms unfolding dsGone_def by (meson suffix_order.order_trans)

lemma removeDaemonSet_gone:
  assumes "removeDaemonSet e what dc sfx s = (None, t)"
  shows "dsGone e (dc_Namespace dc) (dc_Name dc @ sfx) s t"
proof -
  let ?n = "dc_Name dc @ sfx"
  show ?thesis
  proof (cases "o_daemonset e (hist s) (dc_Namespace dc) ?n")
    case (Inl x)
    with assms show ?thesis
      by (auto simp: removeDaemonSet_def deleteIfFound_def getDaemonSet_def dsGone_def split: if_splits)
  next
    case (Inr d)
    with assms have "o_write e (CGet KDaemonSet (dc_Namespace dc) ?n # hist s) (CDelete KDaemonSet (dc_Namespace dc) ?n) = None"
      and "hist t = CDelete KDaemonSet (dc_Namespace dc) ?n # CGet KDaemonSet (dc_Namespace dc) ?n # hist s"
      by (auto simp: removeDaemonSet_def deleteIfFound_def getDaemonSet_def writeObj_def wrapErr_def)
    then show ?thesis
      unfolding dsGone_def by (intro exI [of _ "hist s"]) (simp add: suffix_Cons)
  qed
qed

lemma finalizeTestRunner_gone:
  assumes "finalizeTestRunner e dc nodes s = (None, t)"
  shows "dsGone e (dc_Namespace dc) (dc_Name dc @ ''-'' @ TestRunnerName) s t"
proof -
  obtain x u where r: "removeDaemonSet e ''test runner daemonset'' dc (''-'' @ TestRunnerName) s = (x, u)" by fastforce
  with assms have "x = None" and t: "t = relabelNodes e dropTestLabels nodes u"
    by (auto simp: finalizeTestRunner_def orElse_pair split: if_splits)
  with r have "dsGone e (dc_Namespace dc) (dc_Name dc @ ''-'' @ TestRunnerName) s u"
    using removeDaemonSet_gone by blast
  then show ?thesis
    by (rule dsGone_mono) (use only_extends [OF quiet_relabelNodes] t in simp_all)
qed

lemma finalizeMetricsExporter_gone:
  assumes "finalizeMetricsExporter e dc s = (None, t)"
  shows "dsGone e (dc_Namespace dc) (dc_Name dc @ ''-'' @ ExporterName) s t"
proof -
  let ?ns = "dc_Namespace dc" and ?n = "dc_Name dc @ ''-'' @ ExporterName"
  obtain x1 s1 where 1: "deleteIfFound e isMissing ''ServiceMonitor'' (CDelete KServiceMonitor ?ns ?n)
      (getServiceMonitor e ?ns ?n s) = (x1, s1)" by fastforce
  obtain x2 s2 where 2: "deleteIfFound e (\<lambda>x. x = NotFound) ''metrics exporter service'' (CDelete KService ?ns ?n)
      (getService e ?ns ?n s1) = (x2, s2)" by fastforce
  obtain x3 s3 where 3: "removeDaemonSet e ''metrics exporter daemonset'' dc (''-'' @ ExporterName) s2 = (x3, s3)"
    by fastforce
  let ?last = "deleteIfFound e (\<lambda>x. x = NotFound) ''metrics exporter secret'' (CDelete KSecret ?ns ?n)
      (getSecret e ?ns ?n s3)"
  have q1: "quiet s s1" using quiet_deleteIfFound [of s "getServiceMonitor e ?ns ?n s"] 1
    by (metis get_calls(3) offDC_simps(1,15) kind.distinct only_logCall only_refl snd_conv)
  have q2: "quiet s1 s2" using quiet_deleteIfFound [of s1 "getService e ?ns ?n s1"] 2
    by (metis get_calls(2) offDC_simps(1,15) kind.distinct only_logCall only_refl snd_conv)
  have q4: "quiet s3 (snd ?last)"
    by (rule quiet_deleteIfFound) (simp_all add: get_calls)
  from assms 1 2 3 have "x3 = None" and t: "t = snd ?last"
    by (auto simp: finalizeMetricsExporter_def Let_def orElse_pair split: if_splits)
  with 3 have "dsGone e ?ns ?n s2 s3" using removeDaemonSet_gone by blast
  then show ?thesis
    by (rule dsGone_mono) (use only_extends [OF only_trans [OF q1 q2]] only_extends [OF q4] t in simp_all)
qed

section \<open>Post-processing\<close>

lemma checkPostProcess_True:
  assumes "checkPostProcessFinalizeCondition e dc nodes force s = (True, t)" and "node \<in> set nodes"
  shows "\<not> hasKey (n_Labels node) (GetWorkReadyLabel (nsnOf dc))
    \<and> (\<exists>h. suffix (hist s) h \<and> o_workerpod e h (dc_Namespace dc) (getPodName dc (n_Name node)) = Inl NotFound)"
  using assms
proof (induction nodes arbitrary: s)
  case Nil
  then show ?case by simp
next
  case (Cons m nodes)
  let ?g = "CGet KPod (dc_Namespace dc) (getPodName dc (n_Name m))"
  from Cons.prems(1) have l: "\<not> hasKey (n_Labels m) (GetWorkReadyLabel (nsnOf dc))"
    and w: "o_workerpod e (hist s) (dc_Namespace dc) (getPodName dc (n_Name m)) = Inl NotFound"
    and r: "checkPostProcessFinalizeCondition e dc nodes force (logCall ?g s) = (True, t)"
    by (auto simp: Let_def GetWorkerPod_def getWorker_def split: if_splits sum.splits)
  show ?case
  proof (cases "node = m")
    case True
    with l w show ?thesis by blast
  next
    case False
    with Cons.prems(2) Cons.IH [OF r] show ?thesis by (auto dest: suffix_ConsD)
  qed
qed

lemma ready_label_not_driver: "GetWorkReadyLabel (nsnOf dc) \<noteq> GetDriverTypeNodeLabel dc"
proof
  assume "GetWorkReadyLabel (nsnOf dc) = GetDriverTypeNodeLabel dc"
  then have "last (GetWorkReadyLabel (nsnOf dc)) = last (GetDriverTypeNodeLabel dc)" by simp
  then show False
    by (simp add: GetWorkReadyLabel_def GetDriverTypeNodeLabel_def applyTemplate_def VFIOMountReadyLabelTemplate_def
        DriverTypeNodeLabelTemplate_def)
qed

lemma updateDriverTypeLabels_others:
  assumes "k \<noteq> GetDriverTypeNodeLabel dc"
  shows "map (\<lambda>n. (n_Name n, hasKey (n_Labels n) k)) (snd (fst (updateDriverTypeLabels e dc cl nodes s)))
    = map (\<lambda>n. (n_Name n, hasKey (n_Labels n) k)) nodes"
  using assms by (induction nodes arbitrary: s) (simp_all add: Let_def case_prod_beta)

lemma UpdateDriverTypeNodeLabel_others:
  assumes "UpdateDriverTypeNodeLabel e (Some dc) (Some nodes) cl s = ((es, nodes1), t)" and "node \<in> set nodes"
    and "k \<noteq> GetDriverTypeNodeLabel dc"
  shows "\<exists>node1 \<in> set nodes1. n_Name node1 = n_Name node \<and> hasKey (n_Labels node1) k = hasKey (n_Labels node) k"
proof -
  let ?f = "\<lambda>n. (n_Name n, hasKey (n_Labels n) k)"
  have "map ?f (snd (fst (UpdateDriverTypeNodeLabel e (Some dc) (Some nodes) cl s))) = map ?f nodes"
    by (simp add: UpdateDriverTypeNodeLabel_def updateDriverTypeLabels_others [OF assms(3)])
  with assms(1) have "map ?f nodes1 = map ?f nodes" by simp
  from arg_cong [OF this, of set] assms(2) have "?f node \<in> ?f ` set nodes1" by simp
  then obtain node1 where "node1 \<in> set nodes1" and "?f node = ?f node1" by (rule imageE)
  then show ?thesis by (intro bexI [of _ node1]) simp_all
qed

section \<open>The finalizer goes last\<close>

text \<open>When the last phase took the finalizer away, no module was left, and no passthrough device was bound.\<close>

definition moduleGone :: "renv \<Rightarrow> DeviceConfig \<Rightarrow> reconciler \<Rightarrow> reconciler \<Rightarrow> bool" where
  "moduleGone e dc s t \<longleftrightarrow>
     (\<exists>h x. suffix (hist s) h \<and> suffix (CGet KModule (dc_Namespace dc) (dc_Name dc) # h) (hist t)
       \<and> o_module e h (dc_Namespace dc) (dc_Name dc) = Inl x \<and> isMissing x)"

definition unbound :: "renv \<Rightarrow> DeviceConfig \<Rightarrow> Node list \<Rightarrow> reconciler \<Rightarrow> bool" where
  "unbound e dc nodes s \<longleftrightarrow>
     (\<forall>node \<in> set nodes. \<not> hasKey (n_Labels node) (GetWorkReadyLabel (nsnOf dc))
        \<and> (\<exists>h. suffix (hist s) h
             \<and> o_workerpod e h (dc_Namespace dc) (getPodName dc (n_Name node)) = Inl NotFound))"

definition bindsDevices :: "DeviceConfig \<Rightarrow> bool" where
  "bindsDevices dc \<longleftrightarrow> isTrue (d_Enable (driver dc)) \<and> isPassthrough dc"

lemma finalizeWithoutModule_unbound:
  assumes "endsWithPatch dc s (snd (finalizeWithoutModule e dc nodes s))" and "kmmWatchEnabled s" and "bindsDevices dc"
  shows "unbound e dc nodes s"
proof -
  have nq: "\<not> quiet s (snd (finalizeWithoutModule e dc nodes s))"
    using assms(1) by (auto simp: endsWithPatch_def only_def ran_def dest!: arg_cong [of _ _ hist])
  obtain f where c: "finalizeWithoutModule e dc nodes s =
      (case checkPostProcessFinalizeCondition e dc nodes f s of
         (True, s1) \<Rightarrow> removeFinalizer e dc s1
       | (False, s1) \<Rightarrow> (Some (OtherErr ''waiting for post-process finalize condition''), s1))"
    using assms(2,3)
    by (auto simp: finalizeWithoutModule_def Let_def shouldUseKMMOperatorLevel_def ShouldUseKMM_def bindsDevices_def
        isPassthrough_def driver_types)
  obtain b s1 where p: "checkPostProcessFinalizeCondition e dc nodes f s = (b, s1)" by fastforce
  with quiet_checkPostProcess [of s e dc nodes f] have "quiet s s1" by simp
  with nq c p have "b" by (cases b) auto
  with p checkPostProcess_True [of e dc nodes f s s1] show ?thesis by (simp add: unbound_def)
qed

lemma quiet_no_patch:
  assumes "quiet s t"
  shows "finalizerPatch dc \<notin> set (issued s t)"
  using ran_member [OF only_ran [OF assms]] finalizerPatch_offDC by blast

lemma finalizeModule_removed:
  assumes "endsWithPatch dc s (snd (finalizeModule e dc nodes s))" and "kmmWatchEnabled s"
  shows "moduleGone e dc s (snd (finalizeModule e dc nodes s)) \<and> (bindsDevices dc \<longrightarrow> unbound e dc nodes s)"
proof -
  let ?g = "CGet KModule (dc_Namespace dc) (dc_Name dc)"
  have np: "\<not> quiet s (snd (finalizeModule e dc nodes s))"
    using assms(1) by (auto simp: endsWithPatch_def only_def ran_def dest!: arg_cong [of _ _ hist])
  have nm: "quiet s (updateNodeLabels e dc nodes True (logCall (CDelete KModule a b) (logCall ?g s)))" for a b
    by (rule only_trans [OF _ quiet_updateNodeLabels]) simp
  from np assms(2) nm obtain x where x: "o_module e (hist s) (dc_Namespace dc) (dc_Name dc) = Inl x" "isMissing x"
    by (cases "o_module e (hist s) (dc_Namespace dc) (dc_Name dc)")
      (auto simp: finalizeModule_def getModule_def writeObj_def orElse_def wrapErr_def split: option.splits if_splits)
  with assms(2) have m: "finalizeModule e dc nodes s = finalizeWithoutModule e dc nodes (logCall ?g s)"
    by (simp add: finalizeModule_def getModule_def)
  have q: "quiet s (logCall ?g s)" by simp
  with np m finalizeWithoutModule_ends [of "logCall ?g s" e dc nodes]
  have en: "endsWithPatch dc (logCall ?g s) (snd (finalizeWithoutModule e dc nodes (logCall ?g s)))"
    using only_trans [OF q] by auto
  then have "suffix (?g # hist s) (hist (snd (finalizeModule e dc nodes s)))"
    unfolding m by (metis endsWithPatch_only hist_logCall only_extends)
  with x have "moduleGone e dc s (snd (finalizeModule e dc nodes s))" by (auto simp: moduleGone_def)
  moreover have "unbound e dc nodes s" if "bindsDevices dc"
    using finalizeWithoutModule_unbound [OF en _ that] assms(2) only_fields(2) [OF q]
    by (auto simp: unbound_def dest: suffix_ConsD)
  ultimately show ?thesis by blast
qed

lemma finalizeDriver_removed:
  assumes "endsWithPatch dc s (snd (finalizeDriver e dc nodes s))" and "kmmWatchEnabled s"
  shows "moduleGone e dc s (snd (finalizeDriver e dc nodes s)) \<and> (bindsDevices dc \<longrightarrow> unbound e dc nodes s)"
proof -
  obtain es nodes1 s1 where u: "UpdateDriverTypeNodeLabel e (Some dc) (Some nodes) True s = ((es, nodes1), s1)"
    by (metis surj_pair)
  with quiet_UpdateDriverTypeNodeLabel [of s e dc nodes True] have q: "quiet s s1" by simp
  have np: "\<not> quiet s (snd (finalizeDriver e dc nodes s))"
    using assms(1) by (auto simp: endsWithPatch_def only_def ran_def dest!: arg_cong [of _ _ hist])
  with u q have d: "finalizeDriver e dc nodes s = finalizeModule e dc nodes1 s1"
    by (auto simp: finalizeDriver_def wrapErr_def orElse_pair split: if_splits)
  with np q finalizeModule_ends [of s1 e dc nodes1] have "endsWithPatch dc s1 (snd (finalizeModule e dc nodes1 s1))"
    by (auto intro: only_trans)
  from finalizeModule_removed [OF this] assms(2) only_fields(2) [OF q]
  have m: "moduleGone e dc s1 (snd (finalizeModule e dc nodes1 s1))" "bindsDevices dc \<longrightarrow> unbound e dc nodes1 s1"
    by simp_all
  have "moduleGone e dc s (snd (finalizeDriver e dc nodes s))"
    using m(1) only_extends [OF q] d unfolding moduleGone_def by (metis suffix_order.order_trans)
  moreover have "unbound e dc nodes s" if "bindsDevices dc"
    unfolding unbound_def
  proof
    fix node assume "node \<in> set nodes"
    from UpdateDriverTypeNodeLabel_others [OF u this ready_label_not_driver] obtain node1 where
      "node1 \<in> set nodes1" "n_Name node1 = n_Name node"
      "hasKey (n_Labels node1) (GetWorkReadyLabel (nsnOf dc)) = hasKey (n_Labels node) (GetWorkReadyLabel (nsnOf dc))"
      by blast
    with m(2) that only_extends [OF q]
    show "\<not> hasKey (n_Labels node) (GetWorkReadyLabel (nsnOf dc))
        \<and> (\<exists>h. suffix (hist s) h \<and> o_workerpod e h (dc_Namespace dc) (getPodName dc (n_Name node)) = Inl NotFound)"
      unfolding unbound_def by (metis suffix_order.order_trans)
  qed
  ultimately show ?thesis by blast
qed

definition operandDaemonSets :: "string list" where
  "operandDaemonSets = [''-'' @ ConfigManagerName, ''-'' @ TestRunnerName, ''-'' @ ExporterName, ''-device-plugin'',
     DRADriverNameSuffix, ''-node-labeller'']"

lemma stages_gone:
  assumes "finalizeConfigManager e dc s = (None, s1)" and "finalizeTestRunner e dc nodes s1 = (None, s2)"
    and "finalizeMetricsExporter e dc s2 = (None, s3)"
    and "removeDaemonSet e a dc ''-device-plugin'' s3 = (None, s4)"
    and "removeDaemonSet e b dc DRADriverNameSuffix s4 = (None, s5)"
    and "removeDaemonSet e c dc ''-node-labeller'' s5 = (None, s6)"
    and "sfx \<in> set operandDaemonSets"
  shows "dsGone e (dc_Namespace dc) (dc_Name dc @ sfx) s s6"
proof -
  let ?gone = "\<lambda>x. dsGone e (dc_Namespace dc) (dc_Name dc @ x)"
  have x1: "suffix (hist s) (hist s1)" using only_extends [OF quiet_finalizeConfigManager [of s e dc]] assms(1) by simp
  have "suffix (hist s1) (hist s2)" using only_extends [OF quiet_finalizeTestRunner [of s1 e dc nodes]] assms(2) by simp
  with x1 have x2: "suffix (hist s) (hist s2)" by (rule suffix_order.trans)
  have "suffix (hist s2) (hist s3)" using only_extends [OF quiet_finalizeMetricsExporter [of s2 e dc]] assms(3) by simp
  with x2 have x3: "suffix (hist s) (hist s3)" by (rule suffix_order.trans)
  have y5: "suffix (hist s5) (hist s6)" using only_extends [OF quiet_removeDaemonSet [of s5 e c dc]] assms(6) by (metis snd_conv)
  have z4: "suffix (hist s4) (hist s5)" using only_extends [OF quiet_removeDaemonSet [of s4 e b dc]] assms(5) by (metis snd_conv)
  then have y4: "suffix (hist s4) (hist s6)" using y5 by (rule suffix_order.trans)
  have z3: "suffix (hist s3) (hist s4)" using only_extends [OF quiet_removeDaemonSet [of s3 e a dc]] assms(4) by (metis snd_conv)
  then have y3: "suffix (hist s3) (hist s6)" using y4 by (rule suffix_order.trans)
  with \<open>suffix (hist s2) (hist s3)\<close> have y2: "suffix (hist s2) (hist s6)" by (rule suffix_order.trans)
  with \<open>suffix (hist s1) (hist s2)\<close> have y1: "suffix (hist s1) (hist s6)" by (rule suffix_order.trans)
  from x3 z3 have x4: "suffix (hist s) (hist s4)" by (rule suffix_order.trans)
  then have x5: "suffix (hist s) (hist s5)" using z4 by (rule suffix_order.trans)
  have "?gone (''-'' @ ConfigManagerName) s s6"
    using dsGone_mono [OF removeDaemonSet_gone suffix_order.refl y1] assms(1) by (simp add: finalizeConfigManager_def)
  moreover have "?gone (''-'' @ TestRunnerName) s s6" by (rule dsGone_mono [OF finalizeTestRunner_gone [OF assms(2)] x1 y2])
  moreover have "?gone (''-'' @ ExporterName) s s6" by (rule dsGone_mono [OF finalizeMetricsExporter_gone [OF assms(3)] x2 y3])
  moreover have "?gone ''-device-plugin'' s s6" by (rule dsGone_mono [OF removeDaemonSet_gone [OF assms(4)] x3 y4])
  moreover have "?gone DRADriverNameSuffix s s6" by (rule dsGone_mono [OF removeDaemonSet_gone [OF assms(5)] x4 y5])
  moreover have "?gone ''-node-labeller'' s s6"
    by (rule dsGone_mono [OF removeDaemonSet_gone [OF assms(6)] x5 suffix_order.refl])
  moreover have "sfx = ''-'' @ ConfigManagerName \<or> sfx = ''-'' @ TestRunnerName \<or> sfx = ''-'' @ ExporterName
      \<or> sfx = ''-device-plugin'' \<or> sfx = DRADriverNameSuffix \<or> sfx = ''-node-labeller''"
    using assms(7) by (simp add: operandDaemonSets_def)
  ultimately show ?thesis by blast
qed


section \<open>The finalizer does go\<close>

text \<open>A server that holds nothing of the DeviceConfig any more and accepts writes.\<close>

definition emptied :: "renv \<Rightarrow> DeviceConfig \<Rightarrow> bool" where
  "emptied e dc \<longleftrightarrow>
     (\<forall>h n. o_daemonset e h (dc_Namespace dc) n = Inl NotFound \<and> o_service e h (dc_Namespace dc) n = Inl NotFound
        \<and> o_servicemonitor e h (dc_Namespace dc) n = Inl NotFound \<and> o_secret e h (dc_Namespace dc) n = Inl NotFound
        \<and> o_module e h (dc_Namespace dc) n = Inl NotFound \<and> o_workerpod e h (dc_Namespace dc) n = Inl NotFound)
     \<and> (\<forall>h c. o_write e h c = None)"

lemma emptied_removeDaemonSet: "emptied e dc \<Longrightarrow> \<exists>t. removeDaemonSet e what dc sfx s = (None, t)"
  by (simp add: emptied_def removeDaemonSet_def deleteIfFound_def getDaemonSet_def)

lemma emptied_checkPostProcess:
  assumes "emptied e dc" and "\<forall>node \<in> set nodes. \<not> hasKey (n_Labels node) (GetWorkReadyLabel (nsnOf dc))"
  shows "fst (checkPostProcessFinalizeCondition e dc nodes force s)"
  using assms by (induction nodes arbitrary: s) (simp_all add: emptied_def GetWorkerPod_def getWorker_def Let_def)

lemma emptied_updateDriverTypeLabels:
  "emptied e dc \<Longrightarrow> fst (fst (updateDriverTypeLabels e dc cl nodes s)) = []"
  by (induction nodes arbitrary: s) (simp_all add: emptied_def Let_def case_prod_beta writeObj_def)

lemma emptied_finalizeWithoutModule:
  assumes "emptied e dc" and "\<forall>node \<in> set nodes. \<not> hasKey (n_Labels node) (GetWorkReadyLabel (nsnOf dc))"
  shows "\<exists>u. finalizeWithoutModule e dc nodes s = (None, logCall (finalizerPatch dc) u)"
proof -
  have r: "removeFinalizer e dc u = (None, logCall (finalizerPatch dc) u)" for u
    using assms(1) by (simp add: removeFinalizer_call writeObj_def emptied_def)
  have "\<exists>s1. checkPostProcessFinalizeCondition e dc nodes f s = (True, s1)" for f
    using emptied_checkPostProcess [OF assms, of f s] by (cases "checkPostProcessFinalizeCondition e dc nodes f s") simp
  then obtain a b where "checkPostProcessFinalizeCondition e dc nodes True s = (True, a)"
    and "checkPostProcessFinalizeCondition e dc nodes False s = (True, b)" by blast
  with r show ?thesis by (auto simp: finalizeWithoutModule_def Let_def)
qed

lemma emptied_finalizeDriver:
  assumes "emptied e dc" and "\<forall>node \<in> set nodes. \<not> hasKey (n_Labels node) (GetWorkReadyLabel (nsnOf dc))"
  shows "\<exists>u. finalizeDriver e dc nodes s = (None, logCall (finalizerPatch dc) u)"
proof -
  let ?k = "GetWorkReadyLabel (nsnOf dc)"
  obtain es nodes1 s1 where u: "UpdateDriverTypeNodeLabel e (Some dc) (Some nodes) True s = ((es, nodes1), s1)"
    by (metis surj_pair)
  have "fst (fst (UpdateDriverTypeNodeLabel e (Some dc) (Some nodes) True s)) = []"
    by (simp add: UpdateDriverTypeNodeLabel_def emptied_updateDriverTypeLabels [OF assms(1)])
  with u have es: "es = []" by simp
  have "map (\<lambda>n. (n_Name n, hasKey (n_Labels n) ?k)) nodes1 = map (\<lambda>n. (n_Name n, hasKey (n_Labels n) ?k)) nodes"
    using u updateDriverTypeLabels_others [OF ready_label_not_driver, of dc e True nodes s]
    by (simp add: UpdateDriverTypeNodeLabel_def split: if_splits)
  from arg_cong [OF this, of "\<lambda>l. True \<in> snd ` set l"] assms(2)
  have "\<forall>node \<in> set nodes1. \<not> hasKey (n_Labels node) ?k" by (auto simp: image_iff)
  from emptied_finalizeWithoutModule [OF assms(1) this]
  have "\<exists>u. finalizeModule e dc nodes1 s1 = (None, logCall (finalizerPatch dc) u)"
    using assms(1)
    by (auto simp: finalizeModule_def getModule_def emptied_def isMissing_def removeFinalizer_call writeObj_def)
  with u es show ?thesis by (simp add: finalizeDriver_def joinErrs_def wrapErr_def orElse_pair)
qed

lemma emptied_finalizes:
  assumes "emptied e dc" and "\<forall>node \<in> set nodes. \<not> hasKey (n_Labels node) (GetWorkReadyLabel (nsnOf dc))"
  shows "\<exists>u. finalizeDeviceConfig e dc nodes s = (None, logCall (finalizerPatch dc) u)"
proof -
  note r = emptied_removeDaemonSet [OF assms(1)]
  from r obtain s1 where 1: "finalizeConfigManager e dc s = (None, s1)"
    unfolding finalizeConfigManager_def by blast
  obtain s2 where 2: "finalizeTestRunner e dc nodes s1 = (None, s2)"
    using r [of "''test runner daemonset''" "''-'' @ TestRunnerName" s1] by (auto simp: finalizeTestRunner_def orElse_pair)
  let ?g = "\<lambda>k. CGet k (dc_Namespace dc) (dc_Name dc @ ''-'' @ ExporterName)"
  obtain m where "removeDaemonSet e ''metrics exporter daemonset'' dc (''-'' @ ExporterName)
      (logCall (?g KService) (logCall (?g KServiceMonitor) s2)) = (None, m)" using r by blast
  with assms(1) obtain s3 where 3: "finalizeMetricsExporter e dc s2 = (None, s3)"
    by (simp add: finalizeMetricsExporter_def orElse_pair Let_def deleteIfFound_def getServiceMonitor_def getService_def
        getSecret_def emptied_def isMissing_def)
  obtain s4 where 4: "removeDaemonSet e ''device-plugin daemonset'' dc ''-device-plugin'' s3 = (None, s4)" using r by blast
  obtain s5 where 5: "removeDaemonSet e ''dra-driver daemonset'' dc DRADriverNameSuffix s4 = (None, s5)" using r by blast
  obtain s6 where 6: "removeDaemonSet e ''nodelabeller daemonset'' dc ''-node-labeller'' s5 = (None, s6)" using r by blast
  have "finalizeDeviceConfig e dc nodes s = finalizeDriver e dc nodes s6"
    unfolding finalizeDeviceConfig_def 1 orElse_pair 2 3 4 5 6 by simp
  with emptied_finalizeDriver [OF assms, of s6] show ?thesis by simp
qed

text \<open>
  C19: A DeviceConfig that is being deleted does lose its finalizer: once the server holds none of its DaemonSets,
  services, monitors, secrets, modules or worker pods, accepts writes, and no selected node carries its ready
  label, one call of \<open>finalizeDeviceConfig\<close> succeeds and ends with the patch that removes the finalizer.
\<close>

theorem finalizer_completes:
  assumes "emptied e dc" and "\<forall>node \<in> set nodes. \<not> hasKey (n_Labels node) (GetWorkReadyLabel (nsnOf dc))"
  shows "\<exists>u. finalizeDeviceConfig e dc nodes s = (None, logCall (finalizerPatch dc) u)"
  using assms by (rule emptied_finalizes)

lemma sample_emptied: "emptied sampleRenv sampleDC"
  by (simp add: emptied_def sampleRenv_def apiserver.defs sampleApi_def)

lemma sample_unlabelled: "\<not> hasKey (n_Labels nodeA) (GetWorkReadyLabel (nsnOf sampleDC))"
  by (simp add: hasKey_def nodeA_def sampleNode_def GetWorkReadyLabel_def nsnOf_def sampleDC_def applyTemplate_def
      VFIOMountReadyLabelTemplate_def)

theorem finalizer_completes_witness:
  "\<exists>u. finalizeDeviceConfig sampleRenv sampleDC [nodeA] sampleReconciler = (None, logCall (finalizerPatch sampleDC) u)"
  using finalizer_completes [OF sample_emptied, of "[nodeA]"] sample_unlabelled by simp


end
