(* ===== verification/Reconciler_Operands.thy ===== *)
theory Reconciler_Operands
  imports Reconciler_Props Operand_Props
begin

text \<open>
  The reconciler and the objects it builds: a change of any secret that a pod of the DeviceConfig pulls with or
  mounts leads to a reconcile, and the Dockerfiles a module refers to are ones the reconciler has written.
\<close>

section \<open>Secrets\<close>

definition secretVolumes :: "Volume list \<Rightarrow> string set" where
  "secretVolumes vs = {n. \<exists>v \<in> set vs. vol_Source v = SecretSource n}"

lemma secretVolumes_simps [simp]:
  "secretVolumes [] = {}" "secretVolumes (hostPath a b c # vs) = secretVolumes vs"
  "secretVolumes (\<lparr>vol_Name = a, vol_Source = ConfigMapSource r\<rparr> # vs) = secretVolumes vs"
  "secretVolumes (\<lparr>vol_Name = a, vol_Source = SecretSource n\<rparr> # vs) = insert n (secretVolumes vs)"
  "secretVolumes (us @ vs) = secretVolumes us \<union> secretVolumes vs"
  by (auto simp: secretVolumes_def hostPath_def)

definition podSecrets :: "PodSpec \<Rightarrow> string set" where
  "podSecrets p = lor_Name ` set (ps_ImagePullSecrets p) \<union> secretVolumes (ps_Volumes p)"

definition moduleSecrets :: "bool \<Rightarrow> Node \<Rightarrow> DeviceConfig \<Rightarrow> string list" where
  "moduleSecrets openshift node dc =
     (case imageRepoSecret dc None of None \<Rightarrow> [] | Some r \<Rightarrow> [lor_Name r])
     @ (case kmmSign openshift node dc of None \<Rightarrow> []
        | Some g \<Rightarrow> [lor_Name (sg_KeySecret g), lor_Name (sg_CertSecret g)])"

lemma common_watched: "r \<in> set (cc_ImageRegistrySecrets (common dc)) \<Longrightarrow> hasSecretReference (lor_Name r) dc"
  unfolding hasSecretReference_def Let_def list_ex_iff by blast

lemma pullSecrets_watched:
  assumes "\<And>n. refersTo n own \<Longrightarrow> hasSecretReference n dc" and "r \<in> set (pullSecrets dc own)"
  shows "hasSecretReference (lor_Name r) dc"
proof (cases "r \<in> set (cc_ImageRegistrySecrets (common dc))")
  case True
  then show ?thesis by (rule common_watched)
next
  case False
  with assms(2) have "own = Some r" by (auto simp: pullSecrets_def split: option.splits)
  with assms(1) [of "lor_Name r"] show ?thesis by (simp add: refersTo_def)
qed

lemma refers_watched:
  "refersTo n (dp_ImageRegistrySecret (s_DevicePlugin (dc_Spec dc))) \<Longrightarrow> hasSecretReference n dc"
  "refersTo n (dra_ImageRegistrySecret (s_DRADriver (dc_Spec dc))) \<Longrightarrow> hasSecretReference n dc"
  "refersTo n (me_ImageRegistrySecret (s_MetricsExporter (dc_Spec dc))) \<Longrightarrow> hasSecretReference n dc"
  "refersTo n (rb_Secret (me_RbacConfig (s_MetricsExporter (dc_Spec dc)))) \<Longrightarrow> hasSecretReference n dc"
  "refersTo n (tr_ImageRegistrySecret (s_TestRunner (dc_Spec dc))) \<Longrightarrow> hasSecretReference n dc"
  "refersTo n (cm_ImageRegistrySecret (s_ConfigManager (dc_Spec dc))) \<Longrightarrow> hasSecretReference n dc"
  "refersTo n (uc_ImageRegistrySecret (cc_UtilsContainer (s_CommonConfig (dc_Spec dc)))) \<Longrightarrow> hasSecretReference n dc"
  by (simp_all add: hasSecretReference_def Let_def)

lemma exportSecrets_watched:
  assumes "exportSecrets rs = Some secrets" and "r \<in> set secrets"
  shows "list_ex (refersTo (lor_Name r)) rs"
  using assms by (induction rs arbitrary: secrets) (auto simp: refersTo_def split: option.splits)

lemma pull_parts:
  "ps_ImagePullSecrets (dss_PodSpec (devicePluginSpec os dc)) = pullSecrets dc (dp_ImageRegistrySecret (s_DevicePlugin (dc_Spec dc)))"
  "ps_ImagePullSecrets (dss_PodSpec (draDriverSpec dc)) = pullSecrets dc (dra_ImageRegistrySecret (s_DRADriver (dc_Spec dc)))"
  "ps_ImagePullSecrets (dss_PodSpec (nodeLabellerSpec os dc)) = pullSecrets dc (dp_ImageRegistrySecret (s_DevicePlugin (dc_Spec dc)))"
  "ps_ImagePullSecrets (dss_PodSpec (metricsExporterSpec api dc)) = pullSecrets dc (me_ImageRegistrySecret (s_MetricsExporter (dc_Spec dc)))"
  "ps_ImagePullSecrets (dss_PodSpec (testRunnerSpec api dc ss)) = pullSecrets dc (tr_ImageRegistrySecret (s_TestRunner (dc_Spec dc)))"
  "ps_ImagePullSecrets (dss_PodSpec (configManagerSpec api dc)) = pullSecrets dc (cm_ImageRegistrySecret (s_ConfigManager (dc_Spec dc)))"
  by (simp_all add: operand_specs Let_def)

lemma volume_parts:
  "secretVolumes (ps_Volumes (dss_PodSpec (devicePluginSpec os dc))) = {}"
  "secretVolumes (ps_Volumes (dss_PodSpec (draDriverSpec dc))) = {}"
  "secretVolumes (ps_Volumes (dss_PodSpec (nodeLabellerSpec os dc))) = {}"
  "secretVolumes (ps_Volumes (dss_PodSpec (configManagerSpec api dc))) = {}"
  "secretVolumes (ps_Volumes (dss_PodSpec (testRunnerSpec api dc ss))) = lor_Name ` set ss"
  by (simp_all add: operand_specs Let_def draMounts_def managerVolumes_def runnerVolumes_def split: option.splits)
    (auto simp: secretVolumes_def)

lemma exporter_volumes:
  "secretVolumes (ps_Volumes (dss_PodSpec (metricsExporterSpec api dc)))
     \<subseteq> {n. refersTo n (rb_Secret (me_RbacConfig (s_MetricsExporter (dc_Spec dc))))} \<union> {dc_Name dc @ ''-'' @ StaticAuthSecretName}"
  by (simp add: metricsExporterSpec_def Let_def exporterVolumes_def proxyParts_def refersTo_def split: option.splits)

lemma specs_watched:
  assumes "exportSecrets (ll_LogsExportSecrets (tr_LogsLocation (s_TestRunner (dc_Spec dc)))) = Some secrets"
    and "sp \<in> set (operandSpecs api openshift dc secrets)" and "n \<in> podSecrets (dss_PodSpec sp)"
  shows "hasSecretReference n dc \<or> n = dc_Name dc @ ''-'' @ StaticAuthSecretName"
proof -
  have ex: "hasSecretReference (lor_Name r) dc" if "r \<in> set secrets" for r
    using exportSecrets_watched [OF assms(1) that] by (simp add: hasSecretReference_def Let_def)
  note pulls = pullSecrets_watched [OF refers_watched(1)] pullSecrets_watched [OF refers_watched(2)]
    pullSecrets_watched [OF refers_watched(3)] pullSecrets_watched [OF refers_watched(5)]
    pullSecrets_watched [OF refers_watched(6)]
  show ?thesis
    using assms(2,3) ex exporter_volumes [of api dc] refers_watched(4) [of n dc] pulls
    unfolding operandSpecs_def
    by (auto simp: podSecrets_def pull_parts volume_parts)
qed

lemma worker_watched:
  assumes "n \<in> podSecrets (wp_Spec (getPodDef vs dc nodeName action))"
  shows "hasSecretReference n dc"
proof -
  have "refersTo n (uc_ImageRegistrySecret (cc_UtilsContainer (common dc)))"
    using assms
    by (cases "uc_ImageRegistrySecret (cc_UtilsContainer (common dc))")
      (auto simp: podSecrets_def getPodDef_def Let_def refersTo_def)
  then show ?thesis by (rule refers_watched(7))
qed

lemma module_watched:
  assumes "n \<in> set (moduleSecrets openshift node dc)"
  shows "hasSecretReference n dc"
proof -
  have "refersTo n (d_ImageRegistrySecret (driver dc)) \<or> (\<exists>r \<in> set (cc_ImageRegistrySecrets (common dc)). n = lor_Name r)
      \<or> refersTo n (is_KeySecret (d_ImageSign (driver dc))) \<or> refersTo n (is_CertSecret (d_ImageSign (driver dc)))"
    using assms by (auto simp: moduleSecrets_def imageRepoSecret_def kmmSign_def refersTo_def split: option.splits list.splits)
  then show ?thesis
    unfolding hasSecretReference_def Let_def list_ex_iff by blast
qed

text \<open>
  The operator notices every secret it depends on.  When a secret changes in the operator's namespace, the
  DeviceConfigs there for which some pod pulls images with it or mounts it, or whose module is pulled or signed
  with it, are reconciled; the only exception is the secret the operator writes itself.
\<close>

theorem secrets_watched:
  assumes "exportSecrets (ll_LogsExportSecrets (tr_LogsLocation (s_TestRunner (dc_Spec dc)))) = Some secrets"
    and "n \<in> (\<Union>sp \<in> set (operandSpecs e openshift dc secrets). podSecrets (dss_PodSpec sp))
           \<union> podSecrets (wp_Spec (getPodDef vs dc nodeName action)) \<union> set (moduleSecrets openshift node dc)"
    and "n \<noteq> dc_Name dc @ ''-'' @ StaticAuthSecretName"
    and "o_listDCs e (hist s) = Inr dcs" and "dc \<in> set dcs" and "dc_Namespace dc = operatorNamespace s"
  shows "nsnOf dc \<in> set (fst (findDeviceConfigsForSecret e (operatorNamespace s) n s))"
proof -
  have "hasSecretReference n dc"
    using assms(2,3) specs_watched [OF assms(1)] worker_watched module_watched by blast
  with assms(4-6) show ?thesis
    by (simp add: findDeviceConfigsForSecret_def listDeviceConfigs_def listDCs_def)
qed

theorem secrets_watched_witness:
  "let dc = sampleDC\<lparr>dc_Spec := sampleSpec\<lparr>s_Driver := sampleDriver\<lparr>d_ImageRegistrySecret := Some \<lparr>lor_Name = ''pull''\<rparr>\<rparr>\<rparr>\<rparr>;
       e = sampleRenv\<lparr>o_listDCs := \<lambda>h. Inr [dc]\<rparr>; s = sampleReconciler\<lparr>operatorNamespace := ''kube-amd-gpu''\<rparr>
   in nsnOf dc \<in> set (fst (findDeviceConfigsForSecret e ''kube-amd-gpu'' ''pull'' s))"
proof -
  let ?dc = "sampleDC\<lparr>dc_Spec := sampleSpec\<lparr>s_Driver := sampleDriver\<lparr>d_ImageRegistrySecret := Some \<lparr>lor_Name = ''pull''\<rparr>\<rparr>\<rparr>\<rparr>"
  let ?e = "sampleRenv\<lparr>o_listDCs := \<lambda>h. Inr [?dc]\<rparr>" and ?s = "sampleReconciler\<lparr>operatorNamespace := ''kube-amd-gpu''\<rparr>"
  have x: "exportSecrets (ll_LogsExportSecrets (tr_LogsLocation (s_TestRunner (dc_Spec ?dc)))) = Some []"
    by (simp add: sampleSpec_def)
  have "''pull'' \<in> set (moduleSecrets False nodeA ?dc)" by (simp add: moduleSecrets_def imageRepoSecret_def)
  then have m: "''pull'' \<in> (\<Union>sp \<in> set (operandSpecs ?e False ?dc []). podSecrets (dss_PodSpec sp))
           \<union> podSecrets (wp_Spec (getPodDef vs ?dc nodeName action)) \<union> set (moduleSecrets False nodeA ?dc)"
    for vs nodeName action by blast
  have ne: "''pull'' \<noteq> dc_Name ?dc @ ''-'' @ StaticAuthSecretName" by (simp add: sampleDC_def)
  have "nsnOf ?dc \<in> set (fst (findDeviceConfigsForSecret ?e (operatorNamespace ?s) ''pull'' ?s))"
    by (rule secrets_watched [OF x m ne, of _ "[?dc]"]) (simp_all add: sampleDC_def)
  then show ?thesis by (simp add: Let_def)
qed

section \<open>Dockerfiles\<close>

text \<open>Resolving a Dockerfile changes at most the repository URL of the DeviceConfig.\<close>

definition sameButURL :: "DeviceConfig \<Rightarrow> DeviceConfig \<Rightarrow> bool" where
  "sameButURL dc dc1 \<longleftrightarrow> dc1 = dc \<or> (\<exists>u. dc1 = withRepoURL u dc)"

lemma sameButURL_refl [simp]: "sameButURL dc dc"
  by (simp add: sameButURL_def)

lemma sameButURL_trans: "sameButURL a b \<Longrightarrow> sameButURL b c \<Longrightarrow> sameButURL a c"
  by (auto simp: sameButURL_def withRepoURL_def)

lemma sameButURL_keeps:
  assumes "sameButURL dc dc1"
  shows "dc_Name dc1 = dc_Name dc" and "dc_Namespace dc1 = dc_Namespace dc" and "dc_Generation dc1 = dc_Generation dc"
    and "dc_Status dc1 = dc_Status dc" and "GetCMName os dc1 = GetCMName os dc"
  using assms by (auto simp: sameButURL_def withRepoURL_def GetCMName_def)

lemma devTemplate_url: "sameButURL dc (snd (devTemplate df dc))"
  by (auto simp: devTemplate_def sameButURL_def split: list.splits)

lemma ubuntuTemplate_url: "sameButURL dc (snd (ubuntuTemplate api df v dc))"
  using devTemplate_url [of dc df] by (auto simp: ubuntuTemplate_def Let_def case_prod_beta split: option.splits)

lemma resolveDockerfile_url: "sameButURL dc (snd (resolveDockerfile api df n dc))"
  using ubuntuTemplate_url [of dc api df]
  by (auto simp: resolveDockerfile_def case_prod_beta split: list.splits)

lemma SetBuildConfigMap_url: "sameButURL dc (snd (SetBuildConfigMapAsDesired api df os cm dc))"
proof -
  let ?r = "if os then (Some (Inr (coreOSTemplate df dc)), dc) else resolveDockerfile api df (bcm_Name cm) dc"
  obtain x dc1 where r: "?r = (x, dc1)" by fastforce
  with resolveDockerfile_url [of dc api df "bcm_Name cm"] have "sameButURL dc dc1" by (auto split: if_splits)
  with r show ?thesis
    by (auto simp: SetBuildConfigMapAsDesired_def split: option.splits sum.splits)
qed

lemma mutateBuildCM_url: "sameButURL (fst c) (fst (snd (mutateBuildCM e os cm c)))"
  using SetBuildConfigMap_url [of "fst c" e "e_dockerfiles e" os cm] by (simp add: mutateBuildCM_def case_prod_beta)

lemma CreateOrPatchC_keeps:
  assumes "\<And>y c. R c (snd (f y c))" and "\<And>c. R c c"
  shows "R c (snd (fst (CreateOrPatchC api wrap key get f x c s)))"
proof -
  obtain g s1 where gs: "get (fst (key x)) (snd (key x)) s = (g, s1)" by fastforce
  have "R c (snd (fst (case f y c of (r, c1) \<Rightarrow> (case mutate key r y of Inl e' \<Rightarrow> ((Some e', c1), t) | Inr z \<Rightarrow> ((h z, c1), k z)))))"
    for y h k t
    using assms(1) [of c y] by (auto simp: case_prod_beta split: sum.splits)
  show ?thesis
    using assms(1) [of c x] assms(1) [of c] assms(2) gs
    by (cases g) (simp_all add: CreateOrPatchC_def case_prod_beta split: sum.splits)
qed

definition buildCM :: "renv \<Rightarrow> DeviceConfig \<Rightarrow> string \<Rightarrow> reconciler \<Rightarrow> (err \<times> (DeviceConfig \<times> bool)) \<times> reconciler" where
  "buildCM e dc n s = CreateOrPatchC e OBuildConfigMap bcmKey (getBuildCM e) (mutateBuildCM e (onOCP s))
     (newBuildConfigMap (dc_Namespace dc) n) (dc, False) s"

lemma buildCM_url: "buildCM e dc n s = ((x, (dc1, p)), t) \<Longrightarrow> sameButURL dc dc1"
  using CreateOrPatchC_keeps [of "\<lambda>a b. sameButURL (fst a) (fst b)" "mutateBuildCM e (onOCP s)" "(dc, False)"
      e OBuildConfigMap bcmKey "getBuildCM e" "newBuildConfigMap (dc_Namespace dc) n" s] mutateBuildCM_url
  by (simp add: buildCM_def)

lemma buildCM_extends:
  assumes "buildCM e dc n s = (r, t)"
  shows "suffix (hist s) (hist t)"
proof -
  have "quiet s (snd (buildCM e dc n s))"
    unfolding buildCM_def by (rule offdc.calls_CreateOrPatchC [OF get_calls(5)]) simp_all
  with assms show ?thesis using only_extends by simp
qed

text \<open>Between \<open>s\<close> and \<open>t\<close> the ConfigMap was created, patched or found as desired, without an error.\<close>

definition cmReconciled :: "renv \<Rightarrow> DeviceConfig \<Rightarrow> string \<Rightarrow> reconciler \<Rightarrow> reconciler \<Rightarrow> bool" where
  "cmReconciled e dc n s t \<longleftrightarrow>
     (\<exists>dc0 dc1 u v. sameButURL dc dc0 \<and> buildCM e dc0 n u = ((None, (dc1, False)), v)
        \<and> suffix (hist s) (hist u) \<and> suffix (hist v) (hist t))"

lemma cmReconciled_mono:
  "cmReconciled e dc1 n s1 t \<Longrightarrow> sameButURL dc dc1 \<Longrightarrow> suffix (hist s) (hist s1) \<Longrightarrow> cmReconciled e dc n s t"
  unfolding cmReconciled_def by (meson sameButURL_trans suffix_order.order_trans)

lemma buildConfigMaps_all:
  assumes "buildConfigMaps e dc saved ok nodes s = ((None, dc'), t)"
  shows "ok \<and> sameButURL dc dc' \<and> suffix (hist s) (hist t)
    \<and> (\<forall>node \<in> set nodes. \<exists>os. GetOSName cmNameMappers node = Some (Inr os)
         \<and> (GetCMName os dc \<in> set saved \<or> cmReconciled e dc (GetCMName os dc) s t))"
  using assms
proof (induction nodes arbitrary: dc saved ok s)
  case Nil
  then show ?case by (simp split: if_splits)
next
  case (Cons node nodes)
  then obtain os where os: "GetOSName cmNameMappers node = Some (Inr os)"
    by (auto split: option.splits sum.splits)
  show ?case
  proof (cases "GetCMName os dc \<in> set saved")
    case True
    with Cons.prems os have "buildConfigMaps e dc saved ok nodes s = ((None, dc'), t)" by simp
    from Cons.IH [OF this] True os show ?thesis by auto
  next
    case False
    obtain x dc1 p s1 where b: "buildCM e dc (GetCMName os dc) s = ((x, (dc1, p)), s1)" by (metis surj_pair)
    with Cons.prems os False have p: "\<not> p"
      and rec: "buildConfigMaps e dc1 (GetCMName os dc # saved) (ok \<and> x = None) nodes s1 = ((None, dc'), t)"
      by (auto simp: Let_def buildCM_def split: if_splits)
    note IH = Cons.IH [OF rec]
    note u = buildCM_url [OF b]
    have e1: "suffix (hist s) (hist s1)" by (rule buildCM_extends [OF b])
    have "cmReconciled e dc (GetCMName os dc) s t"
      unfolding cmReconciled_def using b p IH
      by (intro exI [of _ dc] exI [of _ dc1] exI [of _ s] exI [of _ s1]) simp
    moreover have "GetCMName o' dc \<in> set saved \<or> cmReconciled e dc (GetCMName o' dc) s t"
      if "GetCMName o' dc1 \<in> set (GetCMName os dc # saved) \<or> cmReconciled e dc1 (GetCMName o' dc1) s1 t" for o'
      using that cmReconciled_mono [OF _ u e1, of e "GetCMName o' dc" t] calculation
      by (auto simp: sameButURL_keeps(5) [OF u])
    ultimately show ?thesis
      using IH os sameButURL_trans [OF u] suffix_order.trans [OF e1] by fastforce
  qed
qed

lemma handleBuildConfigMap_all:
  assumes "handleBuildConfigMap e dc nodes s = ((None, dc1), t)"
  shows "sameButURL dc dc1 \<and> (shouldUseKMMOperatorLevel dc s \<longrightarrow>
    (\<forall>node \<in> set nodes. \<exists>os. GetOSName cmNameMappers node = Some (Inr os) \<and> cmReconciled e dc (GetCMName os dc) s t))"
proof (cases "shouldUseKMMOperatorLevel dc s")
  case True
  with assms have "buildConfigMaps e dc [] True nodes s = ((None, dc1), t)"
    by (auto simp: handleBuildConfigMap_def split: if_splits)
  from buildConfigMaps_all [OF this] show ?thesis by auto
next
  case False
  with assms show ?thesis by (simp add: handleBuildConfigMap_def)
qed

text \<open>
  C22: A module refers only to Dockerfiles that exist: when \<open>handleBuildConfigMap\<close> succeeds for a DeviceConfig whose
  driver KMM manages, then for every kernel mapping that is built from the DeviceConfig it hands on, the ConfigMap
  the mapping's build names was created, patched or found as desired, in the DeviceConfig's namespace.
\<close>

theorem dockerfiles_reconciled:
  assumes "handleBuildConfigMap e dc nodes s = ((None, dc1), t)" and "shouldUseKMMOperatorLevel dc s"
    and "getKernelMappings e mappers dc1 openshift (Some nodes) = Some (Inr (kms, v))" and "k \<in> set kms"
  shows "cmReconciled e dc (lor_Name (bd_DockerfileConfigMap (kmp_Build k))) s t"
proof -
  from assms(3) have "collectKM e mappers dc1 openshift nodes [] [] = Some (kms, v)"
    by (auto simp: getKernelMappings_def split: if_splits option.splits prod.splits)
  from collectKM_mappings [OF this] assms(4) obtain node where n: "node \<in> set nodes"
    and m: "mapped e mappers dc1 openshift node k" by auto
  from handleBuildConfigMap_all [OF assms(1)] assms(2) n obtain os where u: "sameButURL dc dc1"
    and os: "GetOSName cmNameMappers node = Some (Inr os)" and c: "cmReconciled e dc (GetCMName os dc) s t" by blast
  from m os have "bd_DockerfileConfigMap (kmp_Build k) = \<lparr>lor_Name = GetCMName os dc1\<rparr>"
    by (auto simp: mapped_def getKM_def kmmBuild_def split: sum.splits)
  with c show ?thesis by (simp add: sameButURL_keeps(5) [OF u])
qed

text \<open>Concretely, on a node with Ubuntu and a server without the ConfigMap.\<close>

lemma sample_build:
  "fst (fst (handleBuildConfigMap sampleRenv sampleDC [nodeA] sampleReconciler)) = None
   \<and> snd (fst (handleBuildConfigMap sampleRenv sampleDC [nodeA] sampleReconciler)) = sampleDC
   \<and> shouldUseKMMOperatorLevel sampleDC sampleReconciler"
  by code_simp

theorem dockerfiles_reconciled_witness:
  "\<exists>kms v t. getKernelMappings sampleRenv defaultDriverversionsMappers sampleDC False (Some [nodeA]) = Some (Inr (kms, v))
     \<and> kms \<noteq> [] \<and> (\<forall>k \<in> set kms.
       cmReconciled sampleRenv sampleDC (lor_Name (bd_DockerfileConfigMap (kmp_Build k))) sampleReconciler t)"
proof -
  have "(case getKernelMappings sampleRenv defaultDriverversionsMappers sampleDC False (Some [nodeA]) of
      Some (Inr (kms, v)) \<Rightarrow> kms \<noteq> [] | _ \<Rightarrow> False)"
    by code_simp
  then obtain kms v where k: "getKernelMappings sampleRenv defaultDriverversionsMappers sampleDC False (Some [nodeA])
      = Some (Inr (kms, v))" "kms \<noteq> []"
    by (auto split: option.splits sum.splits prod.splits)
  obtain t where "handleBuildConfigMap sampleRenv sampleDC [nodeA] sampleReconciler = ((None, sampleDC), t)"
    using sample_build by (metis prod.collapse)
  from dockerfiles_reconciled [OF this _ k(1)] k sample_build show ?thesis by blast
qed

end
