(* ===== verification/Reconciler_Status.thy ===== *)
theory Reconciler_Status
  imports Reconciler_Reject Reconciler_Operands Reconciler_Final
begin

text \<open>
  What a successful reconcile leaves behind: the status of the DeviceConfig and the assignment of its nodes.
\<close>

section \<open>Requeueing\<close>

text \<open>The reconcile is repeated when either manager asks for it, at the earlier of the two times.\<close>

lemma shouldReconcile_earliest:
  "RequeueAfter (shouldReconcile a b) > 0 \<longleftrightarrow> RequeueAfter a > 0 \<or> RequeueAfter b > 0"
  "r \<in> {a, b} \<Longrightarrow> RequeueAfter r > 0 \<Longrightarrow> RequeueAfter (shouldReconcile a b) \<le> RequeueAfter r"
  by (auto simp: shouldReconcile_def noRequeue_def)

section \<open>Status of the nodes\<close>

lemma nodeStatuses_spec:
  assumes "nodeStatuses e dc prev nodes acc s = (m, t)"
  shows "only (\<lambda>c. \<exists>node \<in> set nodes. c = CGet KNMC [] (n_Name node)) s t
    \<and> (\<forall>n. n \<notin> n_Name ` set nodes \<longrightarrow> lookup m n = lookup acc n)
    \<and> (\<forall>n \<in> n_Name ` set nodes. \<exists>r. lookup m n =
          Some (nodeEntry dc (shouldUseKMMOperatorLevel dc s) prev (upgradeMgrHandler s) n r))"
  using assms
proof (induction nodes arbitrary: acc s)
  case Nil
  then show ?case by simp
next
  case (Cons node nodes)
  let ?n = "n_Name node" and ?u = "if kmmWatchEnabled s then logCall (CGet KNMC [] (n_Name node)) s else s"
  obtain r where rec: "nodeStatuses e dc prev nodes
      (store ?n (nodeEntry dc (shouldUseKMMOperatorLevel dc s) prev (upgradeMgrHandler s) ?n r) acc) ?u = (m, t)"
  proof (cases "kmmWatchEnabled s")
    case True
    with Cons.prems that show ?thesis by (auto simp: Let_def getNMC_def)
  next
    case False
    with Cons.prems that [of "Inl NotFound"] show ?thesis by (auto simp: Let_def nodeEntry_def)
  qed
  have "only (\<lambda>_. True) s ?u" by simp
  note f = only_fields(2) [OF this] only_fields(5) [OF this]
  then have k: "shouldUseKMMOperatorLevel dc ?u = shouldUseKMMOperatorLevel dc s"
    by (simp add: shouldUseKMMOperatorLevel_def)
  note IH = Cons.IH [OF rec, unfolded f k]
  have "only (\<lambda>c. \<exists>n \<in> set (node # nodes). c = CGet KNMC [] (n_Name n)) s ?u" by simp
  moreover have "only (\<lambda>c. \<exists>n \<in> set (node # nodes). c = CGet KNMC [] (n_Name n)) ?u t"
    by (rule only_mono [OF conjunct1 [OF IH]]) auto
  ultimately have "only (\<lambda>c. \<exists>n \<in> set (node # nodes). c = CGet KNMC [] (n_Name n)) s t" by (rule only_trans)
  with IH show ?case by (cases "?n \<in> n_Name ` set nodes") auto
qed

lemma nodeEntry_fields:
  "ms_UpgradeStartTime (nodeEntry dc k prev m n r) = keptStart prev m n"
  "ms_BootId (nodeEntry dc k prev m n r) = keptBootId prev m n"
  "ms_Status (nodeEntry dc k prev m n r) = GetNodeStatus m n
     \<or> \<not> k \<and> ms_Status (nodeEntry dc k prev m n r) = UpgradeStateEmpty"
  by (simp_all add: nodeEntry_def moduleStatus_def plainStatus_def split: sum.splits option.splits)

text \<open>
  C20: The node status a reconcile reports covers exactly the selected nodes.  For each it carries the manager's
  upgrade start time and boot id, or, when the manager knows none (as after a restart of the operator), those of
  the previous status; and the manager's state of the node, except that a driver KMM does not manage may be
  reported with the empty state.
\<close>

theorem node_status_exact:
  assumes "buildDeviceConfigNodeStatus e dc nodes s = (dc', t)"
  shows "(\<forall>n. lookup (nodeModuleStatus dc') n = None \<longleftrightarrow> n \<notin> n_Name ` set nodes)
    \<and> (\<forall>n ms. lookup (nodeModuleStatus dc') n = Some ms \<longrightarrow>
         ms_UpgradeStartTime ms =
           (if GetNodeUpgradeStartTime (upgradeMgrHandler s) n \<noteq> NoTime then GetNodeUpgradeStartTime (upgradeMgrHandler s) n
            else case lookup (nodeModuleStatus dc) n of None \<Rightarrow> NoTime | Some p \<Rightarrow> ms_UpgradeStartTime p)
       \<and> ms_BootId ms =
           (if GetNodeBootId (upgradeMgrHandler s) n \<noteq> [] then GetNodeBootId (upgradeMgrHandler s) n
            else case lookup (nodeModuleStatus dc) n of None \<Rightarrow> [] | Some p \<Rightarrow> ms_BootId p)
       \<and> (ms_Status ms = GetNodeStatus (upgradeMgrHandler s) n
          \<or> \<not> shouldUseKMMOperatorLevel dc s \<and> ms_Status ms = UpgradeStateEmpty))"
proof -
  obtain m where m: "nodeStatuses e dc (nodeModuleStatus dc) nodes [] s = (m, t)" and dc': "dc' = withNodeStatus m dc"
    using assms by (auto simp: buildDeviceConfigNodeStatus_def split: prod.splits)
  then have nm: "nodeModuleStatus dc' = m" by (simp add: withNodeStatus_def)
  note sp = nodeStatuses_spec [OF m]
  have keys: "lookup m n = None \<longleftrightarrow> n \<notin> n_Name ` set nodes" for n
    using sp by (metis map_of_eq_None_iff image_empty list.set(1) empty_iff option.distinct(1) list.simps(8))
  show ?thesis
  proof (intro conjI allI impI)
    fix n ms assume l: "lookup (nodeModuleStatus dc') n = Some ms"
    with keys nm have "n \<in> n_Name ` set nodes" by (metis option.distinct(1))
    with sp l nm obtain r where ms: "ms = nodeEntry dc (shouldUseKMMOperatorLevel dc s) (nodeModuleStatus dc) (upgradeMgrHandler s) n r"
      by force
    show "ms_UpgradeStartTime ms =
        (if GetNodeUpgradeStartTime (upgradeMgrHandler s) n \<noteq> NoTime then GetNodeUpgradeStartTime (upgradeMgrHandler s) n
         else case lookup (nodeModuleStatus dc) n of None \<Rightarrow> NoTime | Some p \<Rightarrow> ms_UpgradeStartTime p)"
      unfolding ms nodeEntry_fields keptStart_def by (simp split: timestamp.splits)
    show "ms_BootId ms =
        (if GetNodeBootId (upgradeMgrHandler s) n \<noteq> [] then GetNodeBootId (upgradeMgrHandler s) n
         else case lookup (nodeModuleStatus dc) n of None \<Rightarrow> [] | Some p \<Rightarrow> ms_BootId p)"
      unfolding ms nodeEntry_fields keptBootId_def by simp
    show "ms_Status ms = GetNodeStatus (upgradeMgrHandler s) n
        \<or> \<not> shouldUseKMMOperatorLevel dc s \<and> ms_Status ms = UpgradeStateEmpty"
      unfolding ms by (rule nodeEntry_fields(3))
  qed (simp add: nm keys)
qed

theorem node_status_exact_witness:
  "let dc' = fst (buildDeviceConfigNodeStatus sampleRenv sampleDC [nodeA] sampleReconciler) in
   lookup (nodeModuleStatus dc') ''node-b'' = None
   \<and> (\<exists>ms. lookup (nodeModuleStatus dc') ''node-a'' = Some ms \<and> ms_BootId ms = ''boot-1'')"
proof -
  let ?r = "buildDeviceConfigNodeStatus sampleRenv sampleDC [nodeA] sampleReconciler"
  have "?r = (fst ?r, snd ?r)" by simp
  note th = node_status_exact [OF this]
  have b: "GetNodeBootId (upgradeMgrHandler sampleReconciler) ''node-a'' = []" by code_simp
  have p: "lookup (nodeModuleStatus sampleDC) ''node-a'' = Some (sampleModuleStatus UpgradeStateComplete)" by code_simp
  have n: "n_Name ` set [nodeA] = {''node-a''}" by (simp add: nodeA_def sampleNode_def)
  from th n obtain ms where ms: "lookup (nodeModuleStatus (fst ?r)) ''node-a'' = Some ms" by auto
  with th b p have "ms_BootId ms = ''boot-1''" by (simp add: sampleModuleStatus_def)
  with th n ms show ?thesis by (simp add: Let_def)
qed

section \<open>A successful reconcile\<close>

text \<open>A status that reports success for the nodes at the given generation.\<close>

definition reportsReady :: "DeviceConfigStatus \<Rightarrow> int \<Rightarrow> string set \<Rightarrow> bool" where
  "reportsReady st gen names \<longleftrightarrow>
     st_ObservedGeneration st = gen
     \<and> (\<exists>c. findCondition (st_Conditions st) ConditionTypeReady = Some c \<and> c_Status c = ''True'')
     \<and> findCondition (st_Conditions st) ConditionTypeError = None
     \<and> (\<forall>n. lookup (st_NodeModuleStatus st) n = None \<longleftrightarrow> n \<notin> names)"

lemma nodeStatuses_keys:
  "nodeStatuses e dc prev nodes [] s = (m, t) \<Longrightarrow> lookup m n = None \<longleftrightarrow> n \<notin> n_Name ` set nodes"
  using nodeStatuses_spec [of e dc prev nodes "[]" s m t]
  by (metis map_of_eq_None_iff image_empty list.set(1) empty_iff option.distinct(1) list.simps(8))

lemma buildDeviceConfigStatus_ready:
  assumes "buildDeviceConfigStatus e dc nodes s = ((None, dc'), t)"
  shows "reportsReady (dc_Status dc') (dc_Generation dc) (n_Name ` set nodes)"
proof -
  obtain mo s1 where o: "(if shouldUseKMMOperatorLevel dc s then getDeviceConfigOwnedKMMModule e dc s else (Inr None, s)) = (mo, s1)"
    by fastforce
  obtain md where mo: "mo = Inr md" using assms o by (cases mo) (auto simp: buildDeviceConfigStatus_def)
  let ?dc1 = "case md of None \<Rightarrow> dc | Some m \<Rightarrow> dc\<lparr>dc_Status := (dc_Status dc)\<lparr>st_Drivers := mod_Status m\<rparr>\<rparr>"
  obtain m s2 where n: "nodeStatuses e ?dc1 (nodeModuleStatus ?dc1) nodes [] s1 = (m, s2)" by fastforce
  let ?dc3 = "DeleteErrorCondition ((withNodeStatus m ?dc1)\<lparr>dc_Status := (dc_Status (withNodeStatus m ?dc1))\<lparr>
    st_ObservedGeneration := dc_Generation (withNodeStatus m ?dc1)\<rparr>\<rparr>)"
  have g: "dc_Generation ?dc1 = dc_Generation dc" by (simp split: option.splits)
  have "buildDeviceConfigStatus e dc nodes s =
    (case SetReadyCondition e ''True'' ReadyStatus [] ?dc3 s2 of (dc4, s3) \<Rightarrow> ((None, dc4), s3))"
    unfolding buildDeviceConfigStatus_def o mo prod.case sum.case Let_def buildDeviceConfigNodeStatus_def n by (rule refl)
  with assms have "dc' = fst (SetReadyCondition e ''True'' ReadyStatus [] ?dc3 s2)" by (simp add: case_prod_beta)
  then have dc': "dc_Status dc' = (dc_Status ?dc3)\<lparr>st_Conditions :=
      setCondition (mkCondition ConditionTypeReady ''True'' ReadyStatus [] (o_now e (hist s2))) (conditions ?dc3)\<rparr>"
    by (simp add: SetReadyCondition_def timeNow_def withConditions_def)
  have "findCondition (conditions ?dc3) ConditionTypeError = None"
    by (simp add: DeleteErrorCondition_def withConditions_def find_deleteCondition)
  then show ?thesis
    unfolding reportsReady_def dc'
    using g nodeStatuses_keys [OF n]
    by (simp add: find_setCondition mkCondition_def ConditionTypeReady_def ConditionTypeError_def
        DeleteErrorCondition_def withConditions_def withNodeStatus_def split: option.splits)
qed

lemma updateDeviceConfigStatus_last:
  assumes "updateDeviceConfigStatus e dc s = (None, t)"
  shows "\<exists>latest. hd (hist t) = CPatchStatus (ODeviceConfig (latest\<lparr>dc_Status := dc_Status dc\<rparr>)) (ODeviceConfig latest)"
proof -
  from retryOnConflict_success [OF assms [unfolded updateDeviceConfigStatus_def]]
  obtain u where "updateStatusOnce e dc u = (None, t)" by (rule exE)
  then show ?thesis
    by (auto simp: updateStatusOnce_def getRequestedDeviceConfig_def getDC_def writeObj_def split: sum.splits)
qed

definition finished :: "NamespacedName \<Rightarrow> int \<Rightarrow> Node list \<Rightarrow> reconciler \<Rightarrow> bool" where
  "finished req gen nodes t \<longleftrightarrow>
     (\<exists>latest st. hd (hist t) = CPatchStatus (ODeviceConfig (latest\<lparr>dc_Status := st\<rparr>)) (ODeviceConfig latest)
        \<and> reportsReady st gen (n_Name ` set nodes))
     \<and> (\<forall>node \<in> set nodes. nodeAssignments t (n_Name node) = Some (nsnText req))"

lemma finishReconcile_finished:
  assumes "finishReconcile e req dc nodes s = (None, t)"
  shows "finished req (dc_Generation dc) nodes t"
proof -
  obtain x dc1 s1 where b: "buildDeviceConfigStatus e dc nodes s = ((x, dc1), s1)" by (metis surj_pair)
  with assms have x: "x = None" by (cases x) (auto simp: finishReconcile_def)
  obtain y s2 where u: "updateDeviceConfigStatus e dc1 s1 = (y, s2)" by fastforce
  with assms b x have y: "y = None" and h: "hist t = hist s2"
    by (auto simp: finishReconcile_def orElse_pair wrapErr_def split: if_splits)
  have "\<forall>node \<in> set nodes. nodeAssignments t (n_Name node) = Some (nsnText req)"
    using finishReconcile_nodeAssignments [OF assms] by (simp add: assignNodes_apply)
  moreover obtain latest where
    "hd (hist s2) = CPatchStatus (ODeviceConfig (latest\<lparr>dc_Status := dc_Status dc1\<rparr>)) (ODeviceConfig latest)"
    using updateDeviceConfigStatus_last u y by blast
  ultimately show ?thesis
    using buildDeviceConfigStatus_ready b x h unfolding finished_def by metis
qed

lemma finished_names: "map n_Name nodes1 = map n_Name nodes \<Longrightarrow> finished req gen nodes1 t \<Longrightarrow> finished req gen nodes t"
proof -
  assume m: "map n_Name nodes1 = map n_Name nodes" and f: "finished req gen nodes1 t"
  from arg_cong [OF m, of set] have "n_Name ` set nodes1 = n_Name ` set nodes" by simp
  with f show ?thesis unfolding finished_def by (metis imageE imageI)
qed

lemma reconcileAccepted_finished:
  assumes "reconcileAccepted e req dc nodes s = ((res, None), t)"
  shows "finished req (dc_Generation dc) nodes t"
proof -
  obtain x1 dc1 s1 where f: "setFinalizer e dc s = ((x1, dc1), s1)" by (metis surj_pair)
  then have g1: "dc_Generation dc1 = dc_Generation dc" by (auto simp: setFinalizer_def Let_def split: if_splits prod.splits)
  obtain x2 dc2 s2 where b: "handleBuildConfigMap e dc1 nodes s1 = ((x2, dc2), s2)" by (metis surj_pair)
  obtain r s3 where u: "handleModuleUpgrade e dc2 nodes False s2 = (r, s3)" by fastforce
  obtain x4 nodes1 s4 where k: "handleKMMModule e dc2 nodes s3 = ((x4, nodes1), s4)" by (metis surj_pair)
  obtain x5 s5 where o: "handleOperands e dc2 nodes1 s4 = (x5, s5)" by fastforce
  obtain rr x6 s6 where rm: "handleRemediationWorkflow e dc2 nodes1 False s5 = ((rr, x6), s6)" by (metis surj_pair)
  from assms f have "x1 = None" by (cases x1) (auto simp: reconcileAccepted_def)
  with assms f b have "x2 = None" by (cases x2) (auto simp: reconcileAccepted_def)
  with \<open>x1 = None\<close> assms f b u k have "x4 = None" by (cases x4) (auto simp: reconcileAccepted_def)
  with \<open>x1 = None\<close> \<open>x2 = None\<close> assms f b u k o have "x5 = None" by (cases x5) (auto simp: reconcileAccepted_def)
  with \<open>x1 = None\<close> \<open>x2 = None\<close> \<open>x4 = None\<close> assms f b u k o
  have "reconcileRemediation e req dc2 nodes1 r s5 = ((res, None), t)" by (simp add: reconcileAccepted_def)
  with rm have "finishReconcile e req dc2 nodes1 s6 = (None, t)"
    by (cases x6) (auto simp: reconcileRemediation_def Let_def split: prod.splits)
  from finishReconcile_finished [OF this] finished_names [OF handleKMMModule_names [OF k]]
  have "finished req (dc_Generation dc2) nodes t" by blast
  moreover have "dc_Generation dc2 = dc_Generation dc1"
    using handleBuildConfigMap_all [of e dc1 nodes s1 dc2 s2] b \<open>x2 = None\<close> sameButURL_keeps(3) by simp
  ultimately show ?thesis using g1 by simp
qed

lemma validateDeviceConfig_generation:
  "dc_Generation (snd (fst (validateDeviceConfig e dc s))) = dc_Generation dc"
proof -
  have v: "dc_Generation (snd (fst (v dc0 s0))) = dc_Generation dc0" if "(k, v) \<in> set (NewValidator env)" for k v env dc0 s0
    using that by (auto simp: NewValidator_def readOnly_def ValidateDriverSpec_def Let_def defaultDriverType_def)
  have "dc_Generation (snd (fst (ValidateDeviceConfigAll fs dc0 s0))) = dc_Generation dc0"
    if "set fs \<subseteq> set (NewValidator env)" for fs env dc0 s0
    using that
  proof (induction fs dc0 s0 rule: ValidateDeviceConfigAll.induct)
    case (1 dc s)
    then show ?case by simp
  next
    case (2 k v fs dc s)
    then show ?case using v [of k v env dc s] by (auto split: prod.splits)
  qed
  from this [OF visitIn_subset] show ?thesis by (simp add: validateDeviceConfig_def with_hist)
qed

lemma Reconcile_finishes:
  assumes "s0 = runInit e s" and "o_dc e (hist s0) (nsn_Namespace req) (nsn_Name req) = Inr dc" and "\<not> dc_Deleting dc"
    and "o_listNodes e (CGet KDeviceConfig (nsn_Namespace req) (nsn_Name req) # hist s0) (selectorOf dc) = Inr nodes"
    and "nodes \<noteq> []" and "Reconcile e req s = ((res, None), t)"
  shows "finished req (dc_Generation dc) nodes t"
proof -
  let ?u = "logCall (CList KNode None (selectorOf dc)) (logCall (CGet KDeviceConfig (nsn_Namespace req) (nsn_Name req)) s0)"
  have "initErr s0 = None" using assms(1,6) by (auto simp: Reconcile_def Let_def split: option.splits)
  with assms(1-4) have "Reconcile e req s = reconcilePresent e req dc nodes ?u"
    by (simp add: Reconcile_def getRequestedDeviceConfig_def getDC_def listNodes_def crGone_def)
  with assms(6) have r: "reconcilePresent e req dc nodes ?u = ((res, None), t)" by simp
  obtain errs dc1 s1 where v: "validateDeviceConfig e dc ?u = ((errs, dc1), s1)" by (metis surj_pair)
  with r assms(5) have "reconcileAccepted e req dc1 nodes s1 = ((res, None), t)"
    by (auto simp: reconcilePresent_def split: option.splits if_splits)
  from reconcileAccepted_finished [OF this] validateDeviceConfig_generation [of e dc ?u] v show ?thesis by simp
qed


text \<open>A DeviceConfig whose operands are all turned off and which already carries the finalizer.\<close>

definition plainDC :: DeviceConfig where
  "plainDC = sampleDC\<lparr>dc_Generation := 0, dc_Finalizers := [deviceConfigFinalizer], dc_Spec := sampleSpec\<lparr>s_Driver := sampleDriver\<lparr>d_Enable := None\<rparr>,
     s_MetricsExporter := sampleMetrics\<lparr>me_Enable := None\<rparr>,
     s_DevicePlugin := samplePlugin\<lparr>dp_EnableDevicePlugin := None, dp_EnableNodeLabeller := None\<rparr>,
     s_RemediationWorkflow := sampleRemediation\<lparr>rw_Enable := None\<rparr>\<rparr>\<rparr>"

definition plainRenv :: renv where
  "plainRenv = sampleRenv\<lparr>o_dc := \<lambda>h ns n. Inr plainDC, o_listNodes := \<lambda>h sel. Inr [nodeB]\<rparr>"

lemma plain_server:
  "o_write plainRenv h c = None" "o_dc plainRenv h ns n = Inr plainDC" "o_listNodes plainRenv h sel = Inr [nodeB]"
  "o_daemonset plainRenv h ns n = Inl NotFound" "o_service plainRenv h ns n = Inl NotFound"
  "o_servicemonitor plainRenv h ns n = Inl NotFound" "o_secret plainRenv h ns n = Inl NotFound"
  by (simp_all add: plainRenv_def sampleRenv_def apiserver.defs sampleApi_def)

lemma plain_off:
  "isTrue (d_Enable (driver plainDC)) = False" "ShouldUseKMM (Some plainDC) = False"
  "isTrue (me_Enable (s_MetricsExporter (dc_Spec plainDC))) = False" "dp_IsEnabled (s_DevicePlugin (dc_Spec plainDC)) = False"
  "isTrue (dp_EnableNodeLabeller (s_DevicePlugin (dc_Spec plainDC))) = False"
  "dra_IsEnabled (s_DRADriver (dc_Spec plainDC)) = False" "isTrue (tr_Enable (s_TestRunner (dc_Spec plainDC))) = False"
  "isTrue (cm_Enable (s_ConfigManager (dc_Spec plainDC))) = False" "isTrue (rw_Enable (remediation plainDC)) = False"
  "dc_Deleting plainDC = False" "dc_Generation plainDC = 0" "st_ObservedGeneration (dc_Status plainDC) = 0"
  by (simp_all add: plainDC_def sampleDC_def sampleSpec_def sampleStatus_def ShouldUseKMM_def dp_IsEnabled_def dra_IsEnabled_def)

lemma orElse_ok: "fst r = None \<Longrightarrow> (\<And>t. fst (f t) = None) \<Longrightarrow> fst (orElse r f) = None"
  by (cases r) (simp add: orElse_pair)

lemma wrapErr_ok: "fst (wrapErr m r) = None \<longleftrightarrow> fst r = None"
  by (simp add: wrapErr_def)

lemma plain_deletes:
  "fst (deleteDaemonSet plainRenv m dc sfx s) = None" "fst (removeDaemonSet plainRenv m dc sfx s) = None"
  by (simp_all add: deleteDaemonSet_def removeDaemonSet_def deleteIfFound_def getDaemonSet_def writeObj_def plain_server)

lemma plain_operands: "fst (handleOperands plainRenv plainDC nodes s) = None"
proof -
  have "fst (handleNodeLabeller plainRenv plainDC nodes t) = None" for t
    by (simp add: handleNodeLabeller_def plain_off plain_server deleteIfFound_def getDaemonSet_def orElse_pair)
  moreover have "fst (finalizeMetricsExporter plainRenv plainDC t) = None" for t
    unfolding finalizeMetricsExporter_def Let_def
    by (intro orElse_ok plain_deletes)
      (simp_all add: deleteIfFound_def getServiceMonitor_def getService_def getSecret_def plain_server isMissing_def)
  moreover have "fst (finalizeTestRunner plainRenv plainDC nodes t) = None" for t
    unfolding finalizeTestRunner_def by (intro orElse_ok plain_deletes) simp
  ultimately show ?thesis
    unfolding handleOperands_def
    by (intro orElse_ok)
      (simp_all add: wrapErr_ok handleDevicePlugin_def handleDeviceClass_def handleDRADriver_def handleKMMVersionLabel_def
        shouldUseKMMOperatorLevel_def handleMetricsExporter_def handleTestRunner_def handleConfigManager_def
        finalizeConfigManager_def plain_off plain_deletes Let_def)
qed

lemma plain_status: "fst (updateDeviceConfigStatus plainRenv dc s) = None"
proof -
  have "updateStatusOnce plainRenv dc s = (None, snd (updateStatusOnce plainRenv dc s))"
    by (simp add: updateStatusOnce_def getRequestedDeviceConfig_def getDC_def writeObj_def plain_server)
  then show ?thesis unfolding updateDeviceConfigStatus_def by (metis fst_conv retryOnConflict_first_success)
qed

lemma plain_finish: "fst (finishReconcile plainRenv req plainDC nodes s) = None"
proof -
  have "fst (fst (buildDeviceConfigStatus plainRenv plainDC nodes s)) = None"
    by (simp add: buildDeviceConfigStatus_def shouldUseKMMOperatorLevel_def plain_off Let_def case_prod_beta)
  then obtain dc1 s1 where "buildDeviceConfigStatus plainRenv plainDC nodes s = ((None, dc1), s1)"
    by (metis prod.collapse)
  with plain_status [of dc1 s1] show ?thesis
    by (cases "updateDeviceConfigStatus plainRenv dc1 s1") (simp add: finishReconcile_def orElse_pair wrapErr_def)
qed

lemma plain_succeeds: "fst (Reconcile plainRenv sampleReq sampleReconciler) = (noRequeue, None)"
proof -
  let ?nb = "[nodeB]"
  have rem: "fst (reconcileRemediation plainRenv sampleReq plainDC ?nb noRequeue s) = (noRequeue, None)" for s
    using plain_finish [of sampleReq ?nb]
    by (simp add: reconcileRemediation_def handleRemediationWorkflow_def withRemediation_def HandleRemediation_def
        isRemediationDisabled_def plain_off joinErrs_def shouldReconcile_def Let_def case_prod_beta)
  have acc: "fst (reconcileAccepted plainRenv sampleReq plainDC ?nb s) = (noRequeue, None)" for s
  proof -
    have f: "setFinalizer plainRenv plainDC s = ((None, plainDC), s)" by (simp add: setFinalizer_def plainDC_def)
    have b: "handleBuildConfigMap plainRenv plainDC ?nb s = ((None, plainDC), s)"
      by (simp add: handleBuildConfigMap_def shouldUseKMMOperatorLevel_def plain_off)
    obtain s3 where u: "handleModuleUpgrade plainRenv plainDC ?nb False s = (noRequeue, s3)"
      by (simp add: handleModuleUpgrade_def withUpgrade_def HandleUpgrade_def plain_off)
    have k: "handleKMMModule plainRenv plainDC ?nb s3 = ((None, ?nb), s3)"
      by (simp add: handleKMMModule_def UpdateDriverTypeNodeLabel_def shouldUseKMMOperatorLevel_def plain_off)
    obtain s5 where o: "handleOperands plainRenv plainDC ?nb s3 = (None, s5)"
      using plain_operands [of ?nb s3] by (metis prod.collapse)
    show ?thesis using rem by (simp add: reconcileAccepted_def f b u k o)
  qed
  have n: "nodeAssignments sampleReconciler ''node-b'' = None" "onceDone sampleReconciler" "initErr sampleReconciler = None"
    by (simp_all add: sampleReconciler_def newDeviceConfigReconciler_def)
  have pre: "fst (reconcilePresent plainRenv sampleReq plainDC ?nb s) = (noRequeue, None)"
    if na: "nodeAssignments s = nodeAssignments sampleReconciler" for s
  proof -
    have v: "validateNodeAssignments (nodeAssignments s) (nsnText sampleReq) (map n_Name ?nb) = None"
      using n(1) by (simp add: na validateNodeAssignments_None nodeB_def sampleNode_def)
    have d: "validateDeviceConfig plainRenv plainDC s = (([], plainDC), s)" by (simp add: validateDeviceConfig_def plain_off)
    show ?thesis unfolding reconcilePresent_def v d using acc by simp
  qed
  let ?u = "logCall (CList KNode None (selectorOf plainDC))
      (logCall (CGet KDeviceConfig (nsn_Namespace sampleReq) (nsn_Name sampleReq)) sampleReconciler)"
  have "Reconcile plainRenv sampleReq sampleReconciler = reconcilePresent plainRenv sampleReq plainDC ?nb ?u"
    using n(2,3)
    by (simp add: Reconcile_def runInit_def getRequestedDeviceConfig_def getDC_def listNodes_def crGone_def plain_server
        plain_off)
  moreover have "only (\<lambda>_. True) sampleReconciler ?u" by simp
  ultimately show ?thesis using pre only_fields(1) by metis
qed


end
