(* ===== verification/Controller.thy ===== *)
theory Controller
  imports Reconciler
begin

text \<open>
  The operator as a process: \<open>src/cmd/main.go\<close> and \<open>src/internal/config\<close> start it, \<open>SetupWithManager\<close> of
  \<open>src/internal/controllers/device_config_reconciler.go\<close> says which changes of the cluster it hears about, and the
  vendored controller-runtime queues the requests and runs the reconciler on them.  The queue is a list of the
  pending requests; when a delayed request becomes due, and which request is next, are left open, so that a step may
  take any of them.  A request is taken from the queue before its reconcile and can be queued again while that runs.
  The queue of controller-runtime itself, with its order and its delays, is in \<open>Work_Queue\<close>; \<open>Queue_Process\<close> shows that it
  refines this one.
\<close>

section \<open>Start-up\<close>

text \<open>\<open>strconv.ParseBool\<close>.\<close>

definition parseBool :: "string \<Rightarrow> bool option" where
  "parseBool t =
     (if t \<in> {''1'', ''t'', ''T'', ''TRUE'', ''true'', ''True''} then Some True
      else if t \<in> {''0'', ''f'', ''F'', ''FALSE'', ''false'', ''False''} then Some False
      else None)"

definition kmmWatchSetting :: "'e apiserver_scheme \<Rightarrow> bool" where
  "kmmWatchSetting e =
     (case o_getenv e ''KMM_WATCH_ENABLED'' of
        None \<Rightarrow> True
      | Some v \<Rightarrow> if v = [] then True else (case parseBool v of None \<Rightarrow> True | Some b \<Rightarrow> b))"

record LeaderElection =
  le_Enabled :: bool
  le_ResourceID :: string

record OperatorConfig =
  cfg_HealthProbeBindAddress :: string
  cfg_MetricsBindAddress :: string
  cfg_LeaderElection :: LeaderElection

text \<open>Decoding YAML is a parameter; the errors are without the underlying message.\<close>

definition ParseFile ::
  "'e apiserver_scheme \<Rightarrow> (string \<Rightarrow> OperatorConfig option) \<Rightarrow> string \<Rightarrow> OperatorConfig res" where
  "ParseFile e decode path =
     (case o_readFile e path of
        None \<Rightarrow> Inl (OtherErr ''could not open the configuration file'')
      | Some txt \<Rightarrow>
          (case decode txt of
             None \<Rightarrow> Inl (OtherErr ''could not decode configuration file'')
           | Some cfg \<Rightarrow> Inr cfg))"

record ManagerOpts =
  mo_HealthProbeBindAddress :: string
  mo_LeaderElection :: bool
  mo_LeaderElectionID :: string
  mo_MetricsBindAddress :: string

definition ManagerOptions :: "OperatorConfig \<Rightarrow> ManagerOpts" where
  "ManagerOptions c =
     \<lparr>mo_HealthProbeBindAddress = cfg_HealthProbeBindAddress c,
      mo_LeaderElection = le_Enabled (cfg_LeaderElection c),
      mo_LeaderElectionID = le_ResourceID (cfg_LeaderElection c),
      mo_MetricsBindAddress = cfg_MetricsBindAddress c\<rparr>"

section \<open>Watches\<close>

text \<open>
  What the watches report.  An event of a Service carries its deletion mark and generation, one of a
  \<open>NodeModulesConfig\<close> its resource version.
\<close>

datatype change =
    EDeviceConfig "DeviceConfig event" | EService "(Service \<times> bool \<times> int) event" | EModule "Module event"
  | ENMC "(NMC \<times> string) event" | EDaemonSet "DaemonSet event" | ESecret "(string \<times> string) event"
  | ENode "Node event" | EPod "Pod event"

fun newObject :: "'o event \<Rightarrow> 'o" where
  "newObject (Created x) = x"
| "newObject (Updated old new) = new"
| "newObject (Deleted x) = x"
| "newObject (Generic x) = x"

fun bothObjects :: "'o event \<Rightarrow> 'o list" where
  "bothObjects (Created x) = [x]"
| "bothObjects (Updated old new) = [old, new]"
| "bothObjects (Deleted x) = [x]"
| "bothObjects (Generic x) = [x]"

definition EnqueueRequestForObject :: "('o \<Rightarrow> string \<times> string) \<Rightarrow> 'o event \<Rightarrow> NamespacedName list" where
  "EnqueueRequestForObject key ev = [request (fst (key (newObject ev))) (snd (key (newObject ev)))]"

text \<open>Owners of the kind DeviceConfig are taken to be of the operator's own API group, whose resources have a namespace.\<close>

definition getOwnerReconcileRequest :: "string \<Rightarrow> OwnerReference list \<Rightarrow> NamespacedName list" where
  "getOwnerReconcileRequest ns os =
     (case GetControllerOf os of
        None \<Rightarrow> []
      | Some r \<Rightarrow> if or_Kind r = KindDeviceConfig then [request ns (or_Name r)] else [])"

definition EnqueueRequestForOwner ::
  "('o \<Rightarrow> string) \<Rightarrow> ('o \<Rightarrow> OwnerReference list) \<Rightarrow> 'o event \<Rightarrow> NamespacedName list" where
  "EnqueueRequestForOwner ns owners ev =
     remdups (concat (map (\<lambda>x. getOwnerReconcileRequest (ns x) (owners x)) (bothObjects ev)))"

fun mapAndEnqueue ::
  "('o \<Rightarrow> 's \<Rightarrow> NamespacedName list \<times> 's) \<Rightarrow> 'o list \<Rightarrow> NamespacedName list \<Rightarrow> 's \<Rightarrow> NamespacedName list \<times> 's" where
  "mapAndEnqueue f [] reqs s = (reqs, s)"
| "mapAndEnqueue f (x # xs) reqs s =
     (case f x s of (rs, s1) \<Rightarrow> mapAndEnqueue f xs (reqs @ filter (\<lambda>r. r \<notin> set reqs) (remdups rs)) s1)"

definition EnqueueRequestsFromMapFunc ::
  "('o \<Rightarrow> 's \<Rightarrow> NamespacedName list \<times> 's) \<Rightarrow> 'o event \<Rightarrow> 's \<Rightarrow> NamespacedName list \<times> 's" where
  "EnqueueRequestsFromMapFunc f ev s = mapAndEnqueue f (bothObjects ev) [] s"

fun ResourceVersionChangedPredicate :: "string event \<Rightarrow> bool" where
  "ResourceVersionChangedPredicate (Updated old new) = (new \<noteq> old)"
| "ResourceVersionChangedPredicate _ = True"

text \<open>The requests a change leads to: the predicate of its watch, then the handler.\<close>

fun SetupWithManager ::
  "renv \<Rightarrow> vfioScripts \<Rightarrow> DeviceConfig \<Rightarrow> change \<Rightarrow> reconciler \<Rightarrow> NamespacedName list \<times> reconciler" where
  "SetupWithManager e vs blank (EDeviceConfig ev) s =
     (if SpecChangedOrDeletionPredicate (map_event (\<lambda>dc. (dc_Deleting dc, dc_Generation dc)) ev)
      then EnqueueRequestForObject (\<lambda>dc. (dc_Namespace dc, dc_Name dc)) ev else [], s)"
| "SetupWithManager e vs blank (EService ev) s =
     (if SpecChangedOrDeletionPredicate (map_event snd ev)
      then EnqueueRequestForOwner (\<lambda>(v, _). svc_Namespace v) (\<lambda>(v, _). svc_Owners v) ev else [], s)"
| "SetupWithManager e vs blank (EModule ev) s =
     (if kmmWatchEnabled s then EnqueueRequestForOwner mod_Namespace mod_Owners ev else [], s)"
| "SetupWithManager e vs blank (ENMC ev) s =
     (if kmmWatchEnabled s \<and> ResourceVersionChangedPredicate (map_event snd ev)
      then EnqueueRequestsFromMapFunc (\<lambda>(nmc, _) t. (findDeviceConfigsForNMC nmc t, t)) ev s else ([], s))"
| "SetupWithManager e vs blank (EDaemonSet ev) s =
     (if DaemonsetPredicate ev then DaemonsetEventHandler e blank ev s else ([], s))"
| "SetupWithManager e vs blank (ESecret ev) s =
     EnqueueRequestsFromMapFunc (\<lambda>(ns, n) t. findDeviceConfigsForSecret e ns n t) ev s"
| "SetupWithManager e vs blank (ENode ev) s =
     (if NodePredicate ev then NodeEventHandler e vs ev s else ([], s))"
| "SetupWithManager e vs blank (EPod ev) s =
     ([], if PodLabelPredicate ev then PodEventHandler e ev s else s)"

section \<open>The queue\<close>

record controller =
  ct_state :: reconciler
  ct_pending :: "NamespacedName list"
  ct_active :: "NamespacedName option"

definition newController :: "reconciler \<Rightarrow> controller" where
  "newController s = \<lparr>ct_state = s, ct_pending = [], ct_active = None\<rparr>"

text \<open>A request that is pending is not added again.\<close>

definition addRequest :: "NamespacedName \<Rightarrow> NamespacedName list \<Rightarrow> NamespacedName list" where
  "addRequest r q = (if r \<in> set q then q else q @ [r])"

definition again :: "Result \<times> err \<Rightarrow> bool" where
  "again r \<longleftrightarrow> snd r \<noteq> None \<or> RequeueAfter (fst r) > 0 \<or> Requeue (fst r)"

text \<open>A failed reconcile is repeated later, as is one that asks for it; the operator uses no terminal errors.\<close>

definition reconcileHandler :: "renv \<Rightarrow> NamespacedName \<Rightarrow> controller \<Rightarrow> controller" where
  "reconcileHandler e req c =
     (case Reconcile e req (ct_state c) of (r, s) \<Rightarrow>
        c\<lparr>ct_state := s, ct_active := None,
          ct_pending := (if again r then addRequest req (ct_pending c) else ct_pending c)\<rparr>)"

datatype qlabel = QChange change | QTake NamespacedName | QDone NamespacedName | QTask task | QRestart

inductive qstep :: "renv \<Rightarrow> vfioScripts \<Rightarrow> DeviceConfig \<Rightarrow> controller \<Rightarrow> qlabel \<Rightarrow> controller \<Rightarrow> bool"
  for e :: renv and vs :: vfioScripts and blank :: DeviceConfig where
  changed: "SetupWithManager e vs blank ev (ct_state c) = (reqs, s) \<Longrightarrow>
    qstep e vs blank c (QChange ev) (c\<lparr>ct_state := s, ct_pending := fold addRequest reqs (ct_pending c)\<rparr>)"
| taken: "ct_active c = None \<Longrightarrow> req \<in> set (ct_pending c) \<Longrightarrow>
    qstep e vs blank c (QTake req) (c\<lparr>ct_active := Some req, ct_pending := remove1 req (ct_pending c)\<rparr>)"
| reconciled: "ct_active c = Some req \<Longrightarrow> qstep e vs blank c (QDone req) (reconcileHandler e req c)"
| goroutine: "t \<in> set (spawned (upgradeMgrHandler (ct_state c))) \<Longrightarrow>
    qstep e vs blank c (QTask t) (c\<lparr>ct_state := runGoroutine e t (ct_state c)\<rparr>)"
| restart: "qstep e vs blank c QRestart (newController (restarted e (ct_state c)))"

inductive qrun :: "renv \<Rightarrow> vfioScripts \<Rightarrow> DeviceConfig \<Rightarrow> controller \<Rightarrow> qlabel list \<Rightarrow> controller \<Rightarrow> bool"
  for e :: renv and vs :: vfioScripts and blank :: DeviceConfig where
  none: "qrun e vs blank c [] c"
| more: "qrun e vs blank c ls d \<Longrightarrow> qstep e vs blank d l d' \<Longrightarrow> qrun e vs blank c (ls @ [l]) d'"

section \<open>The process\<close>

text \<open>
  What the manager and the cluster answer during start-up.  A failure ends the process; the result of a start that
  succeeds is the controller that the manager then runs.
\<close>

record startup =
  su_decode :: "string \<Rightarrow> OperatorConfig option"
  su_newManager :: "ManagerOpts \<Rightarrow> err"
  su_clusterConfig :: err
  su_clientset :: err
  su_nodes :: "Node list res"
  su_watches :: err
  su_healthz :: err
  su_readyz :: err

definition IsOpenShift :: "startup \<Rightarrow> bool res" where
  "IsOpenShift su =
     (case su_clusterConfig su of
        Some x \<Rightarrow> Inl x
      | None \<Rightarrow>
     (case su_clientset su of
        Some x \<Rightarrow> Inl x
      | None \<Rightarrow> map_sum (\<lambda>x. x) hasOpenShiftLabel (su_nodes su)))"

definition operatorMain :: "renv \<Rightarrow> startup \<Rightarrow> string \<Rightarrow> controller res" where
  "operatorMain e su configFile =
     (case ParseFile e (su_decode su) configFile of
        Inl x \<Rightarrow> Inl x
      | Inr cfg \<Rightarrow>
     (case su_newManager su (ManagerOptions cfg) of
        Some x \<Rightarrow> Inl x
      | None \<Rightarrow>
     (case IsOpenShift su of
        Inl x \<Rightarrow> Inl x
      | Inr openshift \<Rightarrow>
     (case su_watches su of
        Some x \<Rightarrow> Inl x
      | None \<Rightarrow>
     (case su_healthz su of
        Some x \<Rightarrow> Inl x
      | None \<Rightarrow>
     (case su_readyz su of
        Some x \<Rightarrow> Inl x
      | None \<Rightarrow>
          Inr (newController (newDeviceConfigReconciler e openshift (kmmWatchSetting e)))))))))"

end
