(* ===== verification/Controller_Props.thy ===== *)
theory Controller_Props
  imports Controller Reconciler_Status
begin

text \<open>
  The process around the reconciler: with its queue it is one of the controllers whose runs \<open>crun\<close> describes, it
  hears about every change that matters to a DeviceConfig, and it comes to rest only when the DeviceConfigs it heard
  about were reconciled with success.
\<close>

section \<open>Refinement\<close>

text \<open>The steps of the reconciler's transition system that a step of the process stands for.\<close>

definition observes :: "label list \<Rightarrow> bool" where
  "observes ls \<longleftrightarrow> (\<forall>l \<in> set ls. \<exists>x y z ns n. l \<in> {LDaemonSet x, LNode y, LPod z, LSecret ns n})"

lemma observes_Nil [simp]: "observes []"
  and observes_one [simp]: "observes [LDaemonSet x]" "observes [LNode y]" "observes [LPod z]" "observes [LSecret ns n]"
  and observes_append [simp]: "observes (ls @ ls') \<longleftrightarrow> observes ls \<and> observes ls'"
  by (auto simp: observes_def)

lemma observes_labels: "observes ls \<Longrightarrow> LRestart \<notin> set ls \<and> LReconcile req g \<notin> set ls"
  by (auto simp: observes_def)

lemma crun_one: "cstep e vs blank s l t \<Longrightarrow> crun e vs blank s [l] t"
  using crun.more [OF crun.none] by fastforce

lemma crun_trans: "crun e vs blank t ls' u \<Longrightarrow> crun e vs blank s ls t \<Longrightarrow> crun e vs blank s (ls @ ls') u"
proof (induction rule: crun.induct)
  case (more t ls' u l v)
  then have "crun e vs blank s ((ls @ ls') @ [l]) v" by (blast intro: crun.more)
  then show ?case by simp
qed simp

lemma mapAndEnqueue_secrets:
  "mapAndEnqueue (\<lambda>(ns, n) t. findDeviceConfigsForSecret e ns n t) xs reqs s = (reqs', t) \<Longrightarrow>
     \<exists>ls. observes ls \<and> crun e vs blank s ls t"
proof (induction xs arbitrary: reqs s)
  case Nil
  then have "crun e vs blank s [] t" by (auto intro: crun.none)
  then show ?case using observes_Nil by blast
next
  case (Cons x xs)
  obtain ns n where x: "x = (ns, n)" by fastforce
  let ?s1 = "snd (findDeviceConfigsForSecret e ns n s)"
  from Cons.prems x obtain reqs1 where "mapAndEnqueue (\<lambda>(ns, n) t. findDeviceConfigsForSecret e ns n t) xs reqs1 ?s1 = (reqs', t)"
    by (auto split: prod.splits)
  from Cons.IH [OF this] obtain ls where ls: "observes ls" "crun e vs blank ?s1 ls t" by blast
  have "crun e vs blank s ([LSecret ns n] @ ls) t"
    by (rule crun_trans [OF ls(2) crun_one [OF cstep.secret]])
  moreover have "observes ([LSecret ns n] @ ls)" using ls(1) by (simp only: observes_append observes_one)
  ultimately show ?case by blast
qed

lemma mapAndEnqueue_pure: "snd (mapAndEnqueue (\<lambda>x t. (f x t, t)) xs reqs s) = s"
  by (induction xs arbitrary: reqs) auto

lemma SetupWithManager_steps:
  assumes "SetupWithManager e vs blank ev s = (reqs, t)"
  shows "\<exists>ls. observes ls \<and> crun e vs blank s ls t"
proof -
  have stay: ?thesis if "t = s"
    using that crun.none [of e vs blank s] observes_Nil by blast
  have step: ?thesis if "cstep e vs blank s l t" and "observes [l]" for l
    using that crun_one by blast
  show ?thesis
  proof (cases ev)
    case (EDaemonSet x)
    with assms stay step [of "LDaemonSet x"] cstep.daemonset [of x e vs blank s] show ?thesis
      by (auto split: if_splits)
  next
    case (ESecret x)
    with assms mapAndEnqueue_secrets show ?thesis by (simp add: EnqueueRequestsFromMapFunc_def)
  next
    case (ENode x)
    with assms stay step [of "LNode x"] cstep.node [of x e vs blank s] show ?thesis
      by (auto split: if_splits)
  next
    case (EPod x)
    with assms stay step [of "LPod x"] cstep.pod [of x e vs blank s] show ?thesis
      by (auto split: if_splits)
  next
    case (ENMC x)
    with assms stay mapAndEnqueue_pure [of "\<lambda>(nmc, _) t. findDeviceConfigsForNMC nmc t" "bothObjects x" "[]" s]
    show ?thesis by (auto simp: EnqueueRequestsFromMapFunc_def case_prod_beta' split: if_splits)
  qed (use assms stay in auto)
qed

text \<open>\<open>served ls ls'\<close>: the steps \<open>ls'\<close> restart, and reconcile, only where \<open>ls\<close> does.\<close>

definition served :: "qlabel list \<Rightarrow> label list \<Rightarrow> bool" where
  "served ls ls' \<longleftrightarrow> (LRestart \<in> set ls' \<longrightarrow> QRestart \<in> set ls)
     \<and> (\<forall>req g. LReconcile req g \<in> set ls' \<longrightarrow> QDone req \<in> set ls)"

lemma qstep_refines:
  assumes "qstep e vs blank c l d"
  shows "\<exists>ls'. served [l] ls' \<and> crun e vs blank (ct_state c) ls' (ct_state d)"
  using assms
proof (cases rule: qstep.cases)
  case (changed ev reqs s)
  with SetupWithManager_steps [OF changed(3)] observes_labels show ?thesis
    by (fastforce simp: served_def)
next
  case (taken req)
  with crun.none [of e vs blank "ct_state c"] show ?thesis by (intro exI [of _ "[]"]) (simp add: served_def)
next
  case (reconciled req)
  have "ct_state d = snd (Reconcile e req (ct_state c))"
    by (simp add: reconciled reconcileHandler_def case_prod_beta')
  with crun_one [OF cstep.reconcile [of e vs blank "ct_state c" req]] reconciled(1) show ?thesis
    by (intro exI [of _ "[LReconcile req (sawGone e req (ct_state c))]"]) (simp add: served_def)
next
  case (goroutine t)
  with crun_one [OF cstep.goroutine [OF goroutine(3), of e vs blank]] show ?thesis
    by (intro exI [of _ "[LTask t]"]) (simp add: served_def)
next
  case restart
  with crun_one [OF cstep.restart [of e vs blank "ct_state c"]] show ?thesis
    by (intro exI [of _ "[LRestart]"]) (simp add: served_def newController_def)
qed

lemma qrun_refines:
  "qrun e vs blank c ls d \<Longrightarrow> \<exists>ls'. served ls ls' \<and> crun e vs blank (ct_state c) ls' (ct_state d)"
proof (induction rule: qrun.induct)
  case (none c)
  have "served [] []" by (simp add: served_def)
  then show ?case using crun.none by blast
next
  case (more c ls d l d')
  then obtain ls1 where 1: "served ls ls1" "crun e vs blank (ct_state c) ls1 (ct_state d)" by blast
  from qstep_refines [OF more.hyps(2)] obtain ls2 where 2: "served [l] ls2" "crun e vs blank (ct_state d) ls2 (ct_state d')"
    by blast
  have "served (ls @ [l]) (ls1 @ ls2)" using 1(1) 2(1) by (auto simp: served_def)
  with crun_trans [OF 2(2) 1(2)] show ?case by blast
qed


lemma qrun_one: "qstep e vs blank c l d \<Longrightarrow> qrun e vs blank c [l] d"
  using qrun.more [OF qrun.none] by fastforce


section \<open>The queue\<close>

lemma addRequest_set [simp]: "set (addRequest r q) = insert r (set q)"
  by (auto simp: addRequest_def)

lemma fold_addRequest_set [simp]: "set (fold addRequest rs q) = set rs \<union> set q"
  by (induction rs arbitrary: q) auto

lemma addRequest_distinct [simp]: "distinct (addRequest r q) \<longleftrightarrow> distinct q"
  by (simp add: addRequest_def)

lemma fold_addRequest_distinct [simp]: "distinct (fold addRequest rs q) \<longleftrightarrow> distinct q"
  by (induction rs arbitrary: q) auto

text \<open>The run reconciled the request from the start, without an error and without asking for another round.\<close>

definition goodDone ::
  "renv \<Rightarrow> vfioScripts \<Rightarrow> DeviceConfig \<Rightarrow> NamespacedName \<Rightarrow> controller \<Rightarrow> qlabel list \<Rightarrow> bool" where
  "goodDone e vs blank req c ls \<longleftrightarrow>
     (\<exists>ls1 ls2 m. ls = ls1 @ QDone req # ls2 \<and> QTake req \<in> set ls1 \<and> qrun e vs blank c ls1 m
        \<and> ct_active m = Some req \<and> \<not> again (fst (Reconcile e req (ct_state m))))"

lemma goodDone_snoc: "goodDone e vs blank req c ls \<Longrightarrow> goodDone e vs blank req c (ls @ [l])"
  unfolding goodDone_def by (elim exE conjE) (intro exI conjI, auto)

lemma pending_step:
  assumes "qstep e vs blank d l d'" and "l \<noteq> QRestart" and "req \<in> set (ct_pending d)"
  shows "req \<in> set (ct_pending d') \<or> ct_active d' = Some req \<and> l = QTake req"
  using assms by (cases rule: qstep.cases) (auto simp: reconcileHandler_def case_prod_beta')

lemma active_step:
  assumes "qstep e vs blank d l d'" and "l \<noteq> QRestart" and "ct_active d = Some req"
  shows "ct_active d' = Some req \<or> l = QDone req \<and> (req \<in> set (ct_pending d') \<or> \<not> again (fst (Reconcile e req (ct_state d))))"
  using assms by (cases rule: qstep.cases) (auto simp: reconcileHandler_def case_prod_beta')

lemma pending_served:
  "qrun e vs blank c ls d \<Longrightarrow> req \<in> set (ct_pending c) \<Longrightarrow> QRestart \<notin> set ls \<Longrightarrow>
     req \<in> set (ct_pending d) \<or> ct_active d = Some req \<and> QTake req \<in> set ls \<or> goodDone e vs blank req c ls"
proof (induction rule: qrun.induct)
  case (more c ls d l d')
  then have l: "l \<noteq> QRestart" by auto
  from more consider "req \<in> set (ct_pending d)" | "ct_active d = Some req" "QTake req \<in> set ls" | "goodDone e vs blank req c ls"
    by auto
  then show ?case
  proof cases
    case 1
    with pending_step [OF more.hyps(2) l] show ?thesis by auto
  next
    case 2
    have "goodDone e vs blank req c (ls @ [QDone req])" if "\<not> again (fst (Reconcile e req (ct_state d)))"
      unfolding goodDone_def using that 2 more.hyps(1) by fastforce
    with active_step [OF more.hyps(2) l 2(1)] 2(2) show ?thesis by auto
  next
    case 3
    then show ?thesis using goodDone_snoc by blast
  qed
qed simp

lemma qrun_distinct: "qrun e vs blank c ls d \<Longrightarrow> distinct (ct_pending c) \<Longrightarrow> distinct (ct_pending d)"
proof (induction rule: qrun.induct)
  case (more c ls d l d')
  then have "distinct (ct_pending d)" by blast
  with more.hyps(2) show ?case
    by (cases rule: qstep.cases) (auto simp: reconcileHandler_def newController_def case_prod_beta')
qed

section \<open>Watches\<close>

definition listsDC :: "renv \<Rightarrow> reconciler \<Rightarrow> DeviceConfig \<Rightarrow> bool" where
  "listsDC e s dc \<longleftrightarrow> (\<exists>dcs. o_listDCs e (hist s) = Inr dcs \<and> dc \<in> set dcs)"

definition controlledBy :: "DeviceConfig \<Rightarrow> string \<Rightarrow> OwnerReference list \<Rightarrow> bool" where
  "controlledBy dc ns os \<longleftrightarrow> ns = dc_Namespace dc \<and> GetControllerOf os = Some (controllerRef dc)
     \<and> (\<forall>r \<in> set os. or_Kind r = KindDeviceConfig \<longrightarrow> or_Name r = dc_Name dc)"

text \<open>The changes that matter to a DeviceConfig.\<close>

fun concerns :: "renv \<Rightarrow> reconciler \<Rightarrow> DeviceConfig \<Rightarrow> change \<Rightarrow> bool" where
  "concerns e s dc (EDeviceConfig ev) \<longleftrightarrow> nsnOf (newObject ev) = nsnOf dc
     \<and> (\<forall>old new. ev = Updated old new \<longrightarrow> dc_Deleting old \<noteq> dc_Deleting new \<or> dc_Generation old \<noteq> dc_Generation new)"
| "concerns e s dc (EService ev) \<longleftrightarrow> (\<exists>v \<in> fst ` set (bothObjects ev). controlledBy dc (svc_Namespace v) (svc_Owners v))
     \<and> (\<forall>old new. ev = Updated old new \<longrightarrow> snd old \<noteq> snd new)"
| "concerns e s dc (EModule ev) \<longleftrightarrow> kmmWatchEnabled s
     \<and> (\<exists>m \<in> set (bothObjects ev). controlledBy dc (mod_Namespace m) (mod_Owners m))"
| "concerns e s dc (ENMC ev) \<longleftrightarrow> kmmWatchEnabled s \<and> (\<forall>old new. ev = Updated old new \<longrightarrow> snd old \<noteq> snd new)
     \<and> (\<exists>x \<in> set (bothObjects ev). \<exists>m \<in> set (nmc_SpecModules (fst x) @ nmc_StatusModules (fst x)).
          isGpuModule m \<and> nm_Namespace m = dc_Namespace dc \<and> nm_Name m = dc_Name dc)"
| "concerns e s dc (EDaemonSet ev) \<longleftrightarrow> (\<exists>old new. ev = Updated old new \<and> controlledBy dc (dset_Namespace new) (dset_Owners new)
     \<and> (dset_Generation old \<noteq> dset_Generation new \<or> dset_Deleting old \<noteq> dset_Deleting new))"
| "concerns e s dc (ESecret ev) \<longleftrightarrow> listsDC e s dc \<and> dc_Namespace dc = operatorNamespace s
     \<and> fst (hd (bothObjects ev)) = operatorNamespace s \<and> hasSecretReference (snd (hd (bothObjects ev))) dc"
| "concerns e s dc (ENode ev) \<longleftrightarrow> listsDC e s dc
     \<and> ((\<exists>n. ev = Created n) \<or> (\<exists>old new. ev = Updated old new \<and> nodeChanged old new))"
| "concerns e s dc (EPod ev) \<longleftrightarrow> False"

lemma mapAndEnqueue_keeps: "r \<in> set reqs \<Longrightarrow> r \<in> set (fst (mapAndEnqueue f xs reqs s))"
  by (induction xs arbitrary: reqs s) (auto split: prod.splits)

lemma mapAndEnqueue_hd: "xs \<noteq> [] \<Longrightarrow> r \<in> set (fst (f (hd xs) s)) \<Longrightarrow> r \<in> set (fst (mapAndEnqueue f xs reqs s))"
  by (cases xs) (auto split: prod.splits intro: mapAndEnqueue_keeps)

lemma mapAndEnqueue_any: "x \<in> set xs \<Longrightarrow> r \<in> set (f x s) \<Longrightarrow> r \<in> set (fst (mapAndEnqueue (\<lambda>x t. (f x t, t)) xs reqs s))"
  by (induction xs arbitrary: reqs) (auto intro: mapAndEnqueue_keeps)

lemma bothObjects_Cons [simp]: "bothObjects ev \<noteq> []"
  by (cases ev) auto

lemma owner_found: "controlledBy dc ns os \<Longrightarrow> getOwnerReconcileRequest ns os = [nsnOf dc]"
  by (simp add: controlledBy_def getOwnerReconcileRequest_def controllerRef_def nsnOf_def)

lemma owner_enqueued:
  assumes "x \<in> set (bothObjects ev)" and "controlledBy dc (ns x) (owners x)"
  shows "nsnOf dc \<in> set (EnqueueRequestForOwner ns owners ev)"
  using owner_found [OF assms(2)] assms(1) by (simp add: EnqueueRequestForOwner_def) (metis list.set_intros(1))

lemma find_result: "find P xs = Some x \<Longrightarrow> x \<in> set xs" "find P xs = Some x \<Longrightarrow> P x"
  by (induction xs) (auto split: if_splits)

lemma owner_name: "controlledBy dc ns os \<Longrightarrow> ownedByDeviceConfig os \<and> fetchOwnerDeviceConfigName os = dc_Name dc"
proof -
  assume c: "controlledBy dc ns os"
  then have "find or_Controller os = Some (controllerRef dc)" by (simp add: controlledBy_def GetControllerOf_def)
  then have "controllerRef dc \<in> set os" by (rule find_result)
  then have ex: "\<exists>r \<in> set os. or_Kind r = KindDeviceConfig" by (rule rev_bexI) (simp add: controllerRef_def)
  then obtain r where r: "find (\<lambda>r. or_Kind r = KindDeviceConfig) os = Some r"
    by (cases "find (\<lambda>r. or_Kind r = KindDeviceConfig) os") (auto simp: find_None_iff)
  from c find_result [OF r] have "or_Name r = dc_Name dc" by (simp add: controlledBy_def)
  with r ex show ?thesis by (auto simp: ownedByDeviceConfig_def list_ex_iff fetchOwnerDeviceConfigName_def)
qed

lemma concerns_enqueues:
  assumes "concerns e s dc ev" and "dc_Name dc \<noteq> []"
  shows "nsnOf dc \<in> set (fst (SetupWithManager e vs blank ev s))"
proof (cases ev)
  case (EDeviceConfig x)
  with assms show ?thesis by (cases x) (auto simp: EnqueueRequestForObject_def nsnOf_def)
next
  case (EService x)
  with assms obtain v b where v: "(v, b) \<in> set (bothObjects x)" "controlledBy dc (svc_Namespace v) (svc_Owners v)" by auto
  have "SpecChangedOrDeletionPredicate (map_event snd x)" using EService assms(1) by (cases x) (auto simp: prod_eq_iff)
  with EService owner_enqueued [OF v(1), of dc "\<lambda>(v, _). svc_Namespace v" "\<lambda>(v, _). svc_Owners v"] v(2) show ?thesis by simp
next
  case (EModule x)
  with assms owner_enqueued show ?thesis by fastforce
next
  case (ENMC x)
  with assms(1) obtain n m where m: "n \<in> set (bothObjects x)" "m \<in> set (nmc_SpecModules (fst n) @ nmc_StatusModules (fst n))"
    "isGpuModule m" "nm_Namespace m = dc_Namespace dc" "nm_Name m = dc_Name dc" and k: "kmmWatchEnabled s"
    by (simp only: concerns.simps) blast
  then have "nsnOf dc \<in> set (findDeviceConfigsForNMC (fst n) s)" by (force simp: findDeviceConfigsForNMC_def nsnOf_def)
  moreover have "ResourceVersionChangedPredicate (map_event snd x)" using ENMC assms(1) by (cases x) auto
  ultimately show ?thesis
    using ENMC k mapAndEnqueue_any [OF m(1), of "nsnOf dc" "\<lambda>x t. findDeviceConfigsForNMC (fst x) t" s "[]"]
    by (simp add: EnqueueRequestsFromMapFunc_def case_prod_beta')
next
  case (EDaemonSet x)
  with assms obtain old new where "x = Updated old new" "controlledBy dc (dset_Namespace new) (dset_Owners new)"
    "dset_Generation old \<noteq> dset_Generation new \<or> dset_Deleting old \<noteq> dset_Deleting new" by auto
  with EDaemonSet assms(2) owner_name show ?thesis
    by (fastforce simp: Let_def controlledBy_def nsnOf_def)
next
  case (ESecret x)
  obtain ns n where h: "hd (bothObjects x) = (ns, n)" by fastforce
  with ESecret assms(1) have "nsnOf dc \<in> set (fst (findDeviceConfigsForSecret e ns n s))"
    by (auto simp: findDeviceConfigsForSecret_def listDeviceConfigs_def listDCs_def listsDC_def)
  with ESecret h mapAndEnqueue_hd [of "bothObjects x" "nsnOf dc" "\<lambda>(ns, n) t. findDeviceConfigsForSecret e ns n t" s "[]"]
  show ?thesis by (simp add: EnqueueRequestsFromMapFunc_def)
next
  case (ENode x)
  with assms(1) show ?thesis
    by (cases x) (auto simp: reconcileAllDeviceConfigs_def listDCs_def listsDC_def nsnOf_def split: prod.splits)
qed (use assms in simp)


definition pluginDS :: "int \<Rightarrow> DaemonSet" where
  "pluginDS gen = \<lparr>dset_Name = ''gpu-device-plugin'', dset_Namespace = ''kube-amd-gpu'', dset_Owners = [controllerRef sampleDC],
     dset_Generation = gen, dset_Deleting = False, dset_Spec = devicePluginSpec False sampleDC, dset_NumberAvailable = 1,
     dset_DesiredNumberScheduled = 1\<rparr>"


text \<open>
  The exception among the operands' objects: a DaemonSet that disappears without having been marked for deletion
  first leads to no request, though the comment in the handler promises a reconcile when it is deleted.
\<close>

lemma deleted_daemonset_unheard: "fst (SetupWithManager e vs blank (EDaemonSet (Deleted ds)) s) = []"
  by simp

section \<open>Settling\<close>

text \<open>
  A reconcile of \<open>req\<close> in \<open>s\<close> that leaves nothing to do: it asks for no further round, and a DeviceConfig it found,
  not being deleted and with nodes selected, is reported as ready.
\<close>

definition settles :: "renv \<Rightarrow> NamespacedName \<Rightarrow> reconciler \<Rightarrow> bool" where
  "settles e req s \<longleftrightarrow> \<not> again (fst (Reconcile e req s))
     \<and> (\<forall>dc nodes. let h = hist (runInit e s) in
          o_dc e h (nsn_Namespace req) (nsn_Name req) = Inr dc \<and> \<not> dc_Deleting dc
          \<and> o_listNodes e (CGet KDeviceConfig (nsn_Namespace req) (nsn_Name req) # h) (selectorOf dc) = Inr nodes
          \<and> nodes \<noteq> [] \<longrightarrow> finished req (dc_Generation dc) nodes (snd (Reconcile e req s)))"

lemma settles_iff: "settles e req s \<longleftrightarrow> \<not> again (fst (Reconcile e req s))"
proof -
  have "finished req (dc_Generation dc) nodes t"
    if "\<not> again r" and "Reconcile e req s = (r, t)"
      and "o_dc e (hist (runInit e s)) (nsn_Namespace req) (nsn_Name req) = Inr dc" and "\<not> dc_Deleting dc"
      and "o_listNodes e (CGet KDeviceConfig (nsn_Namespace req) (nsn_Name req) # hist (runInit e s)) (selectorOf dc) = Inr nodes"
      and "nodes \<noteq> []" for r t dc nodes
    by (rule Reconcile_finishes [OF refl that(3-6), of "fst r"]) (use that(1,2) in \<open>cases r; simp add: again_def\<close>)
  then show ?thesis unfolding settles_def Let_def by (metis prod.collapse)
qed



end
