(* ===== verification/Kmm_Off.thy ===== *)
theory Kmm_Off
  imports Controller_Props Remediation_Safety Upgrade_Steps
begin

text \<open>
  The operator without KMM (\<open>KMM_WATCH_ENABLED=false\<close>, the chart's \<open>kmm.watch\<close>): it keeps away from the modules of the
  kernel module management operator, whatever happens in the cluster.
\<close>

section \<open>The managers\<close>

lemma upgradeCall_off: "upgradeCall dc c \<Longrightarrow> offModule c"
  by (cases c) (auto simp: upgradeCall_def split: obj.splits)

lemma upgrade_off: "ran (upgradeCall dc) s t \<Longrightarrow> ran offModule s t"
  by (erule ran_mono) (rule upgradeCall_off)

lemma noWf_off: "ran noWf s t \<Longrightarrow> ran offModule s t"
  by (erule ran_mono) (simp add: noWf_def)

lemma noWf_keeps: "ran offModule s t \<Longrightarrow> ran noWf t u \<Longrightarrow> ran offModule s u"
  using noWf_off ran_trans by blast

text \<open>
  \<open>apart s t\<close>: from \<open>s\<close> to \<open>t\<close> the reconciler made no call on a module and kept its KMM setting.
\<close>

definition apart :: "reconciler \<Rightarrow> reconciler \<Rightarrow> bool" where
  "apart s t \<longleftrightarrow> ran offModule s t \<and> kmmWatchEnabled t = kmmWatchEnabled s"

lemma apart_refl [simp]: "apart s s"
  by (simp add: apart_def)

lemma apart_trans: "apart s t \<Longrightarrow> apart t u \<Longrightarrow> apart s u"
  by (auto simp: apart_def intro: ran_trans)

lemma only_apart: "only offModule s t \<Longrightarrow> apart s t"
  by (simp add: apart_def only_ran only_fields(2))

lemma apart_watch: "apart s t \<Longrightarrow> kmmWatchEnabled t = kmmWatchEnabled s"
  by (simp add: apart_def)

lemma apart_fields [simp]:
  "apart s (t\<lparr>nodeAssignments := na\<rparr>) = apart s t" "apart s (t\<lparr>onceDone := b\<rparr>) = apart s t"
  "apart s (t\<lparr>initErr := x\<rparr>) = apart s t"
  by (simp_all add: apart_def ran_def)

lemma apart_logCall [simp]: "apart s t \<Longrightarrow> offModule c \<Longrightarrow> apart s (logCall c t)"
  unfolding apart_def by (intro conjI ran_logCall) (simp_all add: logCall_def)

lemma apart_then:
  assumes "apart s (snd r)" and "\<And>t. apart s t \<Longrightarrow> apart t (snd (f t))"
  shows "apart s (snd (orElse r f))"
  using assms by (cases r) (auto simp: orElse_pair intro: apart_trans)

lemma apart_upgrade: "apart s (snd (handleModuleUpgrade e dc nodes del s))"
proof -
  let ?m = "(upgradeMgrHandler s)\<lparr>hist := hist s\<rparr>"
  have "ran offModule ?m (snd (if del then HandleDelete (upgradeEnv e) dc nodes ?m else HandleUpgrade (upgradeEnv e) dc nodes ?m))"
    by (simp add: upgrade_off [OF ran_HandleDelete] upgrade_off [OF ran_HandleUpgrade])
  then show ?thesis by (simp add: handleModuleUpgrade_def apart_def ran_def with_hist if_distribR)
qed

lemma apart_goroutine: "apart s (runGoroutine e tk s)"
proof -
  let ?m = "(upgradeMgrHandler s)\<lparr>hist := hist s\<rparr>"
  have "ran offModule m (runTask (upgradeEnv e) tk m)" for m
    by (simp add: runTask_def upgrade_off [OF ran_handleNodeUpgrade [OF ran_refl]]
        upgrade_off [OF ran_deleteRebootPod [OF ran_refl]] split: task.split)
  from this [of "?m\<lparr>spawned := remove1 tk (spawned ?m)\<rparr>"] show ?thesis
    by (simp add: runGoroutine_def apart_def ran_def with_hist)
qed

lemma off_remediateNode: "ran offModule s (snd (remediateNode api dc ms node s))"
proof (rule disjE [OF remediateNode_cases [of s api dc ms node]])
  assume "ran noWf s (snd (remediateNode api dc ms node s))"
  then show ?thesis by (rule noWf_off)
next
  assume "\<exists>m w t. firstCondition ms (n_Conditions node) = Some m \<and> isWorkflowSchedulableOnNode dc node m s
       \<and> justified dc ms node w \<and> ran noWf s t \<and> recoveryTracker t = recoveryTracker s
       \<and> remediateNode api dc ms node s = startWorkflow api dc node m w t"
  then obtain m w t where w: "ran noWf s t" "remediateNode api dc ms node s = startWorkflow api dc node m w t" by blast
  from startWorkflow_creates [of t w api dc node m] obtain u :: rmgr where u: "ran noWf t u"
    "ran noWf (logCall (CCreate (OWorkflow w)) u) (snd (startWorkflow api dc node m w t))" by blast
  have "ran offModule s (logCall (CCreate (OWorkflow w)) u)" using noWf_off [OF ran_trans [OF w(1) u(1)]] by simp
  with noWf_off [OF u(2)] w(2) show ?thesis by (simp add: ran_trans)
qed

lemma off_remediateNodes: "ran offModule s (snd (remediateNodes api dc ms nodes errs s))"
proof (induction nodes arbitrary: errs s)
  case (Cons node nodes)
  obtain out s1 where r: "remediateNode api dc ms node s = (out, s1)" by fastforce
  with off_remediateNode [of s api dc ms node] have "ran offModule s s1" by simp
  with r Cons.IH show ?case by (cases out) (auto intro: ran_trans)
qed simp

lemma off_runRemediation: "ran offModule s (snd (runRemediation api dc nodes s))"
proof -
  let ?g = "getConfigMapObj api (dc_Namespace dc) (configMapNameOf dc) s"
  let ?p = "updateMaxParallelWorkflows api dc (snd ?g)"
  let ?d = "dropOlderRecoveryAttemptsFromStatusCR api (dc_Namespace dc) (snd ?p)"
  have g: "ran offModule s (snd ?g)" by simp
  have p: "ran offModule s (snd ?p)" by (rule noWf_keeps [OF g quiet_parallel [OF ran_refl]])
  have d: "ran offModule s (snd ?d)" by (rule noWf_keeps [OF p quiet_history(1) [OF ran_refl]])
  have y: "ran offModule s (snd (syncInternalMapFromStatusCR api (dc_Namespace dc) ms (snd ?d)))" for ms
    by (rule noWf_keeps [OF d quiet_history(2) [OF ran_refl]])
  show ?thesis
    unfolding runRemediation_def Let_def case_prod_unfold
    using g p d y ran_trans [OF y off_remediateNodes [where api = api and dc = dc]] by (simp split: sum.split option.split)
qed

lemma off_HandleRemediation: "ran offModule s (snd (HandleRemediation api dc nodes s))"
proof -
  let ?b = "isRemediationDisabled api dc s"
  let ?v = "validateUserConfigMap api dc (snd ?b)"
  define c where "c = (if userConfigName dc = [] then createConfigMapFromImage api dc (snd ?v) else ((noRequeue, None), snd ?v))"
  let ?o = "createDefaultObjects api dc (snd c)"
  have b: "ran offModule s (snd ?b)" by (rule noWf_off [OF quiet_preconditions(1) [OF ran_refl]])
  have v: "ran offModule s (snd ?v)" by (rule noWf_keeps [OF b quiet_preconditions(2) [OF ran_refl]])
  have c: "ran offModule s (snd c)" using v noWf_keeps [OF v quiet_configMapJob [OF ran_refl, where api = api and dc = dc]] by (simp add: c_def)
  have o: "ran offModule s (snd ?o)" by (rule noWf_keeps [OF c quiet_defaultObjects [OF ran_refl]])
  show ?thesis
    unfolding HandleRemediation_def Let_def case_prod_unfold c_def [symmetric]
    using b v c o ran_trans [OF o off_runRemediation [where api = api and dc = dc]] by (simp split: sum.split option.split bool.split)
qed

lemma off_HandleRemediationDelete: "ran offModule s (snd (HandleRemediationDelete api dc nodes s))"
proof -
  have w: "ran offModule s t \<Longrightarrow> ran offModule s (deleteWorkflows api ws t)" for ws t
    by (induction ws arbitrary: t) (simp_all add: deleteWorkflow_def)
  have d: "ran offModule s (deleteDefaultConfigMap api dc s)"
    by (simp add: deleteDefaultConfigMap_def case_prod_unfold split: sum.split)
  have c: "ran offModule s t \<Longrightarrow> ran offModule s (snd (isWorkflowCRDPresent api t))" for t
    by (simp add: isWorkflowCRDPresent_def Let_def split: option.split kerr.split)
  from d show ?thesis
    unfolding HandleRemediationDelete_def Let_def case_prod_unfold getWorkflowList_def
    using w c by (simp split: sum.split option.split bool.split)
qed

lemma apart_remediation: "apart s (snd (handleRemediationWorkflow e dc nodes del s))"
proof -
  let ?m = "(remediationMgrHandler s)\<lparr>hist := hist s\<rparr>"
  show ?thesis
    using off_HandleRemediation [of ?m e dc nodes] off_HandleRemediationDelete [of ?m e dc nodes]
    by (simp add: handleRemediationWorkflow_def apart_def ran_def with_hist case_prod_unfold if_distribR)
qed

section \<open>The reconciler\<close>

interpretation offmod: handler_calls offModule
  by unfold_locales simp_all

lemmas apart_handlers = offmod.calls_handleBuildConfigMap [THEN only_apart] offmod.calls_handleOperands [THEN only_apart]
  offmod.calls_finalizeConfigManager [THEN only_apart] offmod.calls_finalizeTestRunner [THEN only_apart]
  offmod.calls_finalizeMetricsExporter [THEN only_apart] offmod.calls_removeDaemonSet [THEN only_apart]
  offmod.calls_UpdateDriverTypeNodeLabel [THEN only_apart]

lemma status_apart: "only (statusCall e dc) s t \<Longrightarrow> apart s t"
  by (rule only_apart, erule only_mono) (auto simp: statusCall_def)

lemmas apart_status = status_apart [OF only_updateStatus] status_apart [OF only_reject]

lemma apart_finalize:
  assumes "\<not> kmmWatchEnabled s"
  shows "apart s (snd (finalizeDeviceConfig e dc nodes s))"
proof -
  have d: "apart t (snd (finalizeDriver e dc nodes t))" if "\<not> kmmWatchEnabled t" for t
  proof -
    let ?u = "UpdateDriverTypeNodeLabel e (Some dc) (Some nodes) True t"
    have u: "apart t (snd ?u)" by (rule apart_handlers)
    with that have "apart v (snd (finalizeModule e dc ns v))" if "apart t v" for ns v
      using that apart_watch [OF that] by (simp add: finalizeModule_def removeFinalizer_def writeObj_def)
    with u show ?thesis
      unfolding finalizeDriver_def case_prod_unfold by (intro apart_then) simp_all
  qed
  have "apart t (snd (finalizeDriver e dc nodes t))" if "apart s t" for t
    using d assms apart_watch [OF that] by simp
  then show ?thesis
    unfolding finalizeDeviceConfig_def
    by (intro apart_then apart_handlers) (meson apart_trans)
qed

lemma apart_validate: "apart s (snd (validateDeviceConfig e dc s))"
proof -
  have "ran offModule s (snd (validateDeviceConfig e dc s))"
    using reading_validateDeviceConfig [of s e dc] by (auto elim: ran_mono)
  then show ?thesis by (simp add: apart_def validateDeviceConfig_def)
qed

lemma apart_buildStatus:
  assumes "\<not> kmmWatchEnabled s"
  shows "apart s (snd (buildDeviceConfigStatus e dc nodes s))"
proof -
  have "apart s t \<Longrightarrow> apart s (snd (nodeStatuses e d prev ns acc t))" for d prev ns acc t
    by (induction ns arbitrary: acc t) (simp_all add: Let_def getNMC_def)
  with assms show ?thesis
    by (simp add: buildDeviceConfigStatus_def shouldUseKMMOperatorLevel_def buildDeviceConfigNodeStatus_def
        SetReadyCondition_def timeNow_def Let_def case_prod_unfold)
qed

lemma apart_finish:
  assumes "\<not> kmmWatchEnabled s"
  shows "apart s (snd (finishReconcile e req dc nodes s))"
proof -
  obtain x dc1 s1 where b: "buildDeviceConfigStatus e dc nodes s = ((x, dc1), s1)" by (metis surj_pair)
  with apart_buildStatus [OF assms, of e dc nodes] have 1: "apart s s1" by simp
  have "apart s1 (snd (orElse (wrapErr m (updateDeviceConfigStatus e dc1 s1)) (\<lambda>s2. (None, s2\<lparr>nodeAssignments := f s2\<rparr>))))" for m f
    by (rule apart_then) (simp_all add: apart_status)
  with 1 b show ?thesis by (cases x) (auto simp: finishReconcile_def intro: apart_trans)
qed

lemma apart_accepted:
  assumes "\<not> kmmWatchEnabled s"
  shows "apart s (snd (reconcileAccepted e req dc nodes s))"
proof -
  obtain x1 dc1 s1 where f: "setFinalizer e dc s = ((x1, dc1), s1)" by (metis surj_pair)
  then have 1: "apart s s1" by (auto simp: setFinalizer_def writeObj_def Let_def split: if_splits)
  obtain x2 dc2 s2 where b: "handleBuildConfigMap e dc1 nodes s1 = ((x2, dc2), s2)" by (metis surj_pair)
  with apart_handlers(1) [of s1 e dc1 nodes] 1 have 2: "apart s s2" by (auto intro: apart_trans)
  obtain res s3 where u: "handleModuleUpgrade e dc2 nodes False s2 = (res, s3)" by fastforce
  with apart_upgrade [of s2 e dc2 nodes False] 2 have 3: "apart s s3" by (auto intro: apart_trans)
  obtain x4 nodes1 s4 where k: "handleKMMModule e dc2 nodes s3 = ((x4, nodes1), s4)" by (metis surj_pair)
  have "only offModule s3 (snd (handleKMMModule e dc2 nodes s3))"
    by (rule offmod.calls_handleKMMModule) (use assms apart_watch [OF 3] in simp)
  with k 3 have 4: "apart s s4" by (auto intro: apart_trans only_apart)
  obtain x5 s5 where o: "handleOperands e dc2 nodes1 s4 = (x5, s5)" by fastforce
  with apart_handlers(2) [of s4 e dc2 nodes1] 4 have 5: "apart s s5" by (auto intro: apart_trans)
  obtain rr x6 s6 where r: "handleRemediationWorkflow e dc2 nodes1 False s5 = ((rr, x6), s6)" by (metis surj_pair)
  with apart_remediation [of s5 e dc2 nodes1 False] 5 have 6: "apart s s6" by (auto intro: apart_trans)
  with apart_finish [of s6 e req dc2 nodes1] assms have 7: "apart s (snd (finishReconcile e req dc2 nodes1 s6))"
    by (auto simp: apart_watch intro: apart_trans)
  show ?thesis
    using f b u k o r 1 2 3 4 5 6 7
    by (cases x1; cases x2; cases x4; cases x5; cases x6)
      (simp_all add: reconcileAccepted_def reconcileRemediation_def Let_def case_prod_unfold)
qed

lemma apart_present:
  assumes "\<not> kmmWatchEnabled s"
  shows "apart s (snd (reconcilePresent e req dc nodes s))"
proof -
  obtain errs dc1 s1 where v: "validateDeviceConfig e dc s = ((errs, dc1), s1)" by (metis surj_pair)
  with apart_validate [of s e dc] have 1: "apart s s1" by simp
  with apart_accepted [of s1 e req dc1 nodes] assms have "apart s (snd (reconcileAccepted e req dc1 nodes s1))"
    by (auto simp: apart_watch intro: apart_trans)
  moreover have "apart s (reject e dc1 a b c d s1)" for a b c d
    using 1 apart_status(2) apart_trans by blast
  ultimately show ?thesis
    using v apart_status(2) by (simp add: reconcilePresent_def split: option.split)
qed

lemma apart_Reconcile:
  assumes "\<not> kmmWatchEnabled s"
  shows "apart s (snd (Reconcile e req s))"
proof -
  let ?s0 = "runInit e s"
  have 0: "apart s ?s0"
    by (simp add: runInit_def initReconciler_def listDeviceConfigs_def listDCs_def split: sum.split)
  obtain r s1 where g: "getRequestedDeviceConfig e req ?s0 = (r, s1)" by fastforce
  with 0 have 1: "apart s s1" by (auto simp: getRequestedDeviceConfig_def getDC_def split: sum.splits)
  have del: "apart t (snd (reconcileDeletion e dc nodes t))" if "\<not> kmmWatchEnabled t" for dc nodes t
  proof -
    let ?u = "snd (handleRemediationWorkflow e dc nodes True (snd (handleModuleUpgrade e dc nodes True t)))"
    have u: "apart t ?u" by (rule apart_trans [OF apart_upgrade apart_remediation])
    with apart_finalize [of ?u e dc nodes] that have "apart t (snd (finalizeDeviceConfig e dc nodes ?u))"
      by (auto simp: apart_watch intro: apart_trans)
    then show ?thesis by (simp add: reconcileDeletion_def Let_def case_prod_unfold)
  qed
  have fin: "apart s (snd (if dc_Deleting dc then reconcileDeletion e dc nodes t else reconcilePresent e req dc nodes t))"
    if "apart s t" for dc nodes t
    using that del [of t dc nodes] apart_present [of t e req dc nodes] assms
    by (auto simp: apart_watch intro: apart_trans)
  from 1 have "apart s (snd (listNodes e sel s1))" for sel by (simp add: listNodes_def)
  with g 0 1 fin show ?thesis
    unfolding Reconcile_def Let_def case_prod_unfold by (simp split: option.split sum.split)
qed

section \<open>The process\<close>

lemma apart_cstep:
  assumes "cstep e vs blank s l t" and "\<not> kmmWatchEnabled s"
  shows "apart s t"
  using assms(1)
proof (cases rule: cstep.cases)
  case restart
  then show ?thesis by (simp add: restarted_def newDeviceConfigReconciler_def apart_def ran_def)
qed (simp_all add: apart_Reconcile [OF assms(2)] apart_goroutine only_apart framed_DaemonsetEventHandler
    framed_NodeEventHandler framed_PodEventHandler framed_secret)

lemma apart_crun: "crun e vs blank s ls t \<Longrightarrow> \<not> kmmWatchEnabled s \<Longrightarrow> apart s t"
proof (induction rule: crun.induct)
  case (more s ls t l u)
  then have "apart s t" by blast
  with apart_cstep [OF more.hyps(2)] more.prems show ?case by (auto simp: apart_watch intro: apart_trans)
qed simp

lemma kmmWatchSetting_off:
  "o_getenv e ''KMM_WATCH_ENABLED'' = Some v \<Longrightarrow> parseBool v = Some False \<Longrightarrow> \<not> kmmWatchSetting e"
  by (auto simp: kmmWatchSetting_def parseBool_def)

lemma operatorMain_starts:
  "operatorMain e su cfg = Inr c \<Longrightarrow> \<exists>openshift. c = newController (newDeviceConfigReconciler e openshift (kmmWatchSetting e))"
  by (auto simp: operatorMain_def split: sum.splits option.splits)

text \<open>
  C11: The KMM switch works.  An operator that was started with \<open>KMM_WATCH_ENABLED\<close> set to a false value never reads,
  creates, changes or deletes a KMM module: not in a reconcile or a deletion, not in the upgrade and remediation
  managers and their goroutines, and not in an event handler, whatever the cluster answers, in any order and also
  across restarts.
\<close>

theorem kmm_off_no_modules:
  assumes "o_getenv e ''KMM_WATCH_ENABLED'' = Some v" and "parseBool v = Some False"
    and "operatorMain e su cfg = Inr c" and "qrun e vs blank c ls d" and "x \<in> set (hist (ct_state d))"
  shows "offModule x"
proof -
  from operatorMain_starts [OF assms(3)] kmmWatchSetting_off [OF assms(1,2)]
  have k: "\<not> kmmWatchEnabled (ct_state c)" and h: "hist (ct_state c) = []"
    by (auto simp: newController_def newDeviceConfigReconciler_def)
  from qrun_refines [OF assms(4)] obtain ls' where "crun e vs blank (ct_state c) ls' (ct_state d)" by blast
  from apart_crun [OF this k] have "list_all offModule (hist (ct_state d))" using h by (simp add: apart_def ran_def)
  with assms(5) show ?thesis by (simp add: list_all_iff)
qed

definition offRenv :: renv where
  "offRenv = plainRenv\<lparr>o_getenv := \<lambda>k. if k = ''KMM_WATCH_ENABLED'' then Some ''false'' else None,
     o_readFile := \<lambda>f. Some []\<rparr>"

definition offStartup :: startup where
  "offStartup = \<lparr>su_decode = \<lambda>txt. Some \<lparr>cfg_HealthProbeBindAddress = '':8081'', cfg_MetricsBindAddress = '':8080'',
       cfg_LeaderElection = \<lparr>le_Enabled = True, le_ResourceID = ''gpu-operator''\<rparr>\<rparr>,
     su_newManager = \<lambda>opts. None, su_clusterConfig = None, su_clientset = None, su_nodes = Inr [nodeA], su_watches = None,
     su_healthz = None, su_readyz = None\<rparr>"

theorem kmm_off_no_modules_witness:
  "\<exists>c d. operatorMain offRenv offStartup ''config.yaml'' = Inr c
    \<and> qrun offRenv \<lparr>vs_Bind = [], vs_Unbind = []\<rparr> sampleDC c [QChange (ENode (Created nodeA))] d
    \<and> hist (ct_state d) \<noteq> [] \<and> list_all offModule (hist (ct_state d))"
proof -
  let ?vs = "\<lparr>vs_Bind = [], vs_Unbind = []\<rparr>"
  obtain c where c: "operatorMain offRenv offStartup ''config.yaml'' = Inr c"
    by (simp add: operatorMain_def ParseFile_def IsOpenShift_def offRenv_def offStartup_def)
  obtain reqs s where r: "SetupWithManager offRenv ?vs sampleDC (ENode (Created nodeA)) (ct_state c) = (reqs, s)" by fastforce
  then have "s = logCall (CList KDeviceConfig None []) (ct_state c)"
    by (auto simp: reconcileAllDeviceConfigs_def listDCs_def split: sum.splits)
  with qrun_one [OF qstep.changed [OF r]] obtain d where
    d: "qrun offRenv ?vs sampleDC c [QChange (ENode (Created nodeA))] d" "hist (ct_state d) \<noteq> []" by fastforce
  have v: "o_getenv offRenv ''KMM_WATCH_ENABLED'' = Some ''false''" "parseBool ''false'' = Some False"
    by (simp_all add: offRenv_def parseBool_def)
  have "list_all offModule (hist (ct_state d))"
    using kmm_off_no_modules [OF v c d(1)] by (simp add: list_all_iff)
  with c d show ?thesis by blast
qed

section \<open>Passthrough without KMM\<close>

text \<open>
  With KMM watched, a finalizer goes only when the devices of the nodes are unbound.  Without it the deletion returns
  before that test: the finalizer goes while a node of a passthrough driver, which does not need KMM, is still bound,
  and the worker that unbinds its devices is not started any more once the DeviceConfig is gone.
\<close>

definition pfDC :: DeviceConfig where
  "pfDC = plainDC\<lparr>dc_Spec := (dc_Spec plainDC)\<lparr>s_Driver := sampleDriver\<lparr>d_Enable := Some True, d_DriverType := ''pf-passthrough''\<rparr>\<rparr>\<rparr>"

definition boundNode :: Node where
  "boundNode = nodeB\<lparr>n_Labels := [(GetWorkReadyLabel (nsnOf pfDC), [])]\<rparr>"

lemma orElse_off:
  assumes "fst r = None" and "\<not> kmmWatchEnabled (snd r)" and "\<And>t. \<not> kmmWatchEnabled t \<Longrightarrow> fst (f t) = None"
  shows "fst (orElse r f) = None"
  using assms by (cases r) (simp add: orElse_pair)

lemma kmm_off_finalizes:
  assumes "\<not> kmmWatchEnabled s"
  shows "fst (finalizeDeviceConfig plainRenv dc nodes s) = None"
proof -
  have m: "fst (finalizeMetricsExporter plainRenv dc t) = None" for t
    unfolding finalizeMetricsExporter_def Let_def
    by (intro orElse_ok plain_deletes)
      (simp_all add: deleteIfFound_def getServiceMonitor_def getService_def getSecret_def plain_server isMissing_def)
  have r: "fst (finalizeTestRunner plainRenv dc nodes t) = None" for t
    unfolding finalizeTestRunner_def by (intro orElse_ok plain_deletes) simp
  have l: "fst (fst (updateDriverTypeLabels plainRenv dc True ns t)) = []" for ns and t :: reconciler
    by (induction ns arbitrary: t) (simp_all add: Let_def case_prod_unfold writeObj_def plain_server)
  have "fst (finalizeDriver plainRenv dc nodes t) = None" if "\<not> kmmWatchEnabled t" for t
    using that l [of nodes t] apart_watch [OF apart_handlers(7) [of t plainRenv dc nodes True]]
    unfolding finalizeDriver_def case_prod_unfold
    by (intro orElse_off)
      (simp_all add: wrapErr_def joinErrs_def finalizeModule_def removeFinalizer_def writeObj_def plain_server
        UpdateDriverTypeNodeLabel_def)
  with assms show ?thesis
    unfolding finalizeDeviceConfig_def
    by (intro orElse_off)
      (simp_all add: m r plain_deletes finalizeConfigManager_def apart_watch [OF apart_handlers(4)]
        apart_watch [OF apart_handlers(5)] apart_watch [OF apart_handlers(6)])
qed

lemma kmm_off_leaves_bound:
  "bindsDevices pfDC \<and> hasKey (n_Labels boundNode) (GetWorkReadyLabel (nsnOf pfDC))
   \<and> fst (finalizeDeviceConfig plainRenv pfDC [boundNode] (sampleReconciler\<lparr>kmmWatchEnabled := False\<rparr>)) = None"
  by (simp add: kmm_off_finalizes bindsDevices_def isPassthrough_def pfDC_def sampleDriver_def DriverTypePFPassthrough_def
      boundNode_def hasKey_def)

end
