(* ===== verification/Upgrade_Runs.thy ===== *)
theory Upgrade_Runs
  imports Upgrade_Steps Upgrade_Safety
begin

text \<open>
  Runs of the upgrade manager: the passes that the reconciles of a DeviceConfig make, each against a cluster that may
  have changed, interleaved with the goroutines that earlier passes started.  The limit of the upgrade policy and the
  rule of one goroutine per node are invariants of these runs, as long as the driver version stays and no goroutine
  outlives the two hours of its upgrade; both provisos are needed.
\<close>

section \<open>Fields that no goroutine changes\<close>

definition settings :: "umgr \<Rightarrow> bool \<times> driverSpec \<times> task list" where
  "settings s = (init s, currentSpec s, spawned s)"

lemma settings_more: "world.more s = world.more t \<Longrightarrow> settings s = settings t"
  using fields_of_more [of s t] by (simp add: settings_def)

lemmas settings_quiet [simp] = quiet_ops [THEN settings_more]

lemma settings_own [simp]:
  "settings (setNodeStatus k v s) = settings s"
  "settings (clearUpgradeStartTime k s) = settings s"
  "settings (setUpgradeStartTime api k s) = settings s"
  "settings (setBootID k b s) = settings s"
  "settings (clearNodeStatus s) = settings s"
  by (simp_all add: settings_def setNodeStatus_def clearUpgradeStartTime_def setUpgradeStartTime_def setBootID_def
      clearNodeStatus_def timeNow_def logCall_def)

lemma settings_finishReboot [simp]: "settings (finishReboot api n dc s) = settings s"
  by (simp add: finishReboot_def Let_def split_beta split: sum.split)

lemma settings_awaitNodeReady [simp]: "settings (awaitNodeReady k api n dc s) = settings s"
  by (induction k arbitrary: s) (simp_all add: Let_def split_beta split: sum.split)

lemma settings_deleteRebootPod [simp]: "settings (deleteRebootPod api n dc force s) = settings s"
  by (simp add: deleteRebootPod_def split_beta split: sum.split del: awaitNodeReady.simps)

lemma settings_waitForRebootPod [simp]: "settings (waitForRebootPod k api node dc s) = settings s"
  by (induction k arbitrary: s) (simp_all add: split_beta split: sum.split)

lemma settings_clearRebootPod [simp]: "settings (snd (clearRebootPod api node dc s)) = settings s"
  by (simp add: clearRebootPod_def split_beta split: sum.split)

lemma settings_handleNodeReboot [simp]: "settings (handleNodeReboot api node dc s) = settings s"
  by (cases rule: handleNodeReboot_steps [of api node dc s])
    (simp split: sum.split del: waitForRebootPod.simps waitForDriverUpgrade.simps)

lemma settings_handleNodeUpgrade [simp]: "settings (handleNodeUpgrade api dc node s) = settings s"
  by (simp add: handleNodeUpgrade_def case_prod_unfold split: option.split)

lemma settings_runTask: "settings (runTask api t s) = settings s"
  by (simp add: runTask_def split: task.split)

lemma settings_handleInitStatus [simp]: "settings (handleInitStatus api node dc s) = settings s"
  by (simp add: handleInitStatus_def Let_def split_beta split: option.splits)

lemma settings_timedOut [simp]:
  "settings (snd (hasUpgradeTimeExceeded api n dc s)) = settings s"
  "settings (handleUpgradeTimedOut api node dc s) = settings s"
  by (simp_all add: hasUpgradeTimeExceeded_def handleUpgradeTimedOut_def Let_def split_beta
      split: option.splits bool.splits)

lemma settings_tests [simp]:
  "settings (snd (isNodeNmcStatusMissing api node dc s)) = settings s"
  "settings (snd (isNodeReady api node dc s)) = settings s"
  "settings (snd (isNodeNew api node dc s)) = settings s"
  "settings (snd (isNodeStateUpgradeInProgress api node dc s)) = settings s"
  by (simp_all add: isNodeNmcStatusMissing_def isNodeReady_def isNodeNew_def isNodeStateUpgradeInProgress_def
      Let_def split_beta split: option.splits)

lemma settings_processNode [simp]: "settings (snd (processNode api dc node s)) = settings s"
  by (simp add: processNode_def Let_def split_beta split: bool.splits)

lemma settings_processNodes [simp]: "settings (snd (processNodes api dc nodes l s)) = settings s"
  by (induction nodes arbitrary: l s) (simp_all add: split_beta)

lemma settings_startUpgrades:
  "settings (startUpgrades api dc ns s) = (init s, currentSpec s, rev (map (TNodeUpgrade dc) ns) @ spawned s)"
proof (induction ns arbitrary: s)
  case (Cons n ns)
  have "settings (startUpgrade api dc n s) = (init s, currentSpec s, TNodeUpgrade dc n # spawned s)"
    by (simp add: startUpgrade_def settings_def spawn_def setNodeStatus_def setUpgradeStartTime_def timeNow_def logCall_def)
  with Cons show ?case by (simp add: settings_def)
qed (simp add: settings_def)

section \<open>Steps\<close>

fun taskNode :: "task \<Rightarrow> string" where
  "taskNode (TNodeUpgrade dc node) = n_Name node"
| "taskNode (TDeleteRebootPod n dc force) = n"

fun isUpgradeTask :: "task \<Rightarrow> bool" where
  "isUpgradeTask (TNodeUpgrade dc node) = True"
| "isUpgradeTask (TDeleteRebootPod n dc force) = False"

definition finishTask :: "env \<Rightarrow> task \<Rightarrow> umgr \<Rightarrow> umgr" where
  "finishTask api t s = runTask api t (s\<lparr>spawned := remove1 t (spawned s)\<rparr>)"

text \<open>
  A pass over the nodes \<open>names\<close> for driver version \<open>v\<close> under the policy \<open>up\<close>, or the work of a goroutine.  The answers
  of the API server, the node objects and the rest of the DeviceConfig may differ from step to step.
\<close>

inductive ustep :: "string \<Rightarrow> DriverUpgradePolicySpec \<Rightarrow> string list \<Rightarrow> umgr \<Rightarrow> umgr \<Rightarrow> bool"
  for v :: string and up :: DriverUpgradePolicySpec and names :: "string list" where
  pass: "d_Version (driver dc) = v \<Longrightarrow> d_UpgradePolicy (driver dc) = Some up \<Longrightarrow> map n_Name nodes = names \<Longrightarrow>
    ustep v up names s (snd (HandleUpgrade api dc nodes s))"
| task: "t \<in> set (spawned s) \<Longrightarrow> ustep v up names s (finishTask api t s)"

definition timely :: "umgr \<Rightarrow> bool" where
  "timely s \<longleftrightarrow> list_all (\<lambda>t. getNodeStatus s (taskNode t) \<noteq> UpgradeStateTimedOut) (spawned s)"

definition activeNames :: "umgr \<Rightarrow> string list \<Rightarrow> nat" where
  "activeNames s names = length (filter (\<lambda>n. activeState (getNodeStatus s n)) names)"

lemma activeNames_nodes: "activeNames s (map n_Name nodes) = activeCount s nodes"
  by (simp add: activeNames_def activeCount_def filter_map comp_def)

text \<open>The invariant: the goroutines under way are upgrades of different nodes, all of them \<open>Upgrade-Started\<close>.\<close>

definition underway :: "string \<Rightarrow> string list \<Rightarrow> umgr \<Rightarrow> bool" where
  "underway v names s \<longleftrightarrow> init s \<and> version (currentSpec s) \<in> {[], v} \<and> distinct (map taskNode (spawned s))
     \<and> list_all (\<lambda>t. isUpgradeTask t \<and> taskNode t \<in> set names \<and> getNodeStatus s (taskNode t) = UpgradeStateStarted)
         (spawned s)"

section \<open>A pass leaves the nodes under way alone\<close>

lemma processNode_started:
  assumes "getNodeStatus s (n_Name node) = UpgradeStateStarted" and "processNode api dc node s = (v, s')"
  shows "v = VInProgress \<and> getNodeStatus s' (n_Name node) = UpgradeStateStarted
    \<or> v = VFailed \<and> getNodeStatus s' (n_Name node) = UpgradeStateTimedOut"
proof -
  let ?s2 = "handleUpgradeTimedOut api node dc (handleInitStatus api node dc s)"
  have i: "handleInitStatus api node dc s = s"
    using assms(1) by (simp add: handleInitStatus_def isNodeInFailedUpgradeStates_def)
  then have s2: "getNodeStatus ?s2 (n_Name node) \<in> {UpgradeStateStarted, UpgradeStateTimedOut}"
    using handleUpgradeTimedOut_status [of api node dc s] assms(1) by auto
  from assms(2) show ?thesis
  proof (cases rule: processNode_cases)
    case failed
    with s2 show ?thesis by (auto simp: isNodeInFailedUpgradeStates_def)
  next
    case missing
    with s2 isNodeNmcStatusMissing_true [OF missing(2)] show ?thesis by auto
  next
    case (rest s2 s3)
    with s2 have "getNodeStatus s2 (n_Name node) = UpgradeStateStarted"
      by (auto simp: isNodeInFailedUpgradeStates_def)
    with isNodeNmcStatusMissing_false [OF rest(3)] have "getNodeStatus s3 (n_Name node) = UpgradeStateStarted"
      by auto
    with rest(4) show ?thesis by (auto simp: isNodeStateUpgradeStarted_def)
  qed
qed

lemma processNodes_visits:
  assumes "processNodes api dc nodes loopInit s = (l, s')"
  shows "s' = snd (passLoop (processNode api dc) nodes s)"
    and "n \<in> set (candidateNodes l) \<Longrightarrow> (n, VCandidate) \<in> set (fst (passLoop (processNode api dc) nodes s))"
    and "n \<in> set nodes \<Longrightarrow> \<exists>v. (n, v) \<in> set (fst (passLoop (processNode api dc) nodes s))"
proof -
  let ?vs = "fst (passLoop (processNode api dc) nodes s)"
  show "s' = snd (passLoop (processNode api dc) nodes s)"
    using assms by (simp add: processNodes_passLoop)
  have "candidateNodes l = map fst (filter (\<lambda>(n, v). v = VCandidate) ?vs)"
    using assms by (auto simp: processNodes_passLoop counters_fold loopInit_def)
  then show "(n, VCandidate) \<in> set ?vs" if "n \<in> set (candidateNodes l)" using that by auto
  show "\<exists>v. (n, v) \<in> set ?vs" if "n \<in> set nodes"
  proof -
    from that have "n \<in> set (map fst ?vs)" by (simp only: pass.loop_nodes)
    then show ?thesis by auto
  qed
qed

lemma processNodes_started:
  assumes "distinct (map n_Name nodes)" and "processNodes api dc nodes loopInit s = (l, s')"
    and "getNodeStatus s k = UpgradeStateStarted" and "k \<in> n_Name ` set nodes"
  shows "getNodeStatus s' k \<in> {UpgradeStateStarted, UpgradeStateTimedOut}" and "k \<notin> n_Name ` set (candidateNodes l)"
proof -
  let ?vs = "fst (passLoop (processNode api dc) nodes s)"
  note visits = processNodes_visits [OF assms(2)]
  have judged: "v \<noteq> VCandidate \<and> getNodeStatus s' (n_Name n) \<in> {UpgradeStateStarted, UpgradeStateTimedOut}"
    if visit: "(n, v) \<in> set ?vs" and k: "n_Name n = k" for n v
  proof -
    from pass.loop_visit [OF assms(1) visit] obtain t where
      "getNodeStatus t (n_Name n) = UpgradeStateStarted" "v = fst (processNode api dc n t)"
      "getNodeStatus s' (n_Name n) = getNodeStatus (snd (processNode api dc n t)) (n_Name n)"
      using assms(3) visits(1) k by auto
    with processNode_started [of t n api dc v] show ?thesis by (cases "processNode api dc n t") auto
  qed
  from assms(4) obtain n where n: "n \<in> set nodes" "n_Name n = k" by blast
  with visits(3) judged show "getNodeStatus s' k \<in> {UpgradeStateStarted, UpgradeStateTimedOut}" by blast
  show "k \<notin> n_Name ` set (candidateNodes l)" using visits(2) judged by blast
qed

section \<open>The invariant\<close>

lemma preparePass_same_version:
  assumes "init s" and "version (currentSpec s) \<in> {[], d_Version (driver dc)}"
  shows "preparePass api dc s = setcurrentSpec dc s"
  using assms by (auto simp: preparePass_def isInit_def specChanged_def Let_def)

lemma underway_spec:
  "underway v names s \<Longrightarrow> init s \<and> version (currentSpec s) \<in> {[], v}"
  "underway v names s \<Longrightarrow> t \<in> set (spawned s) \<Longrightarrow>
     taskNode t \<in> set names \<and> getNodeStatus s (taskNode t) = UpgradeStateStarted"
  by (auto simp: underway_def list_all_iff)

lemma underway_pass:
  assumes "underway v names s" and "distinct names" and "map n_Name nodes = names" and "d_Version (driver dc) = v"
    and "timely (snd (HandleUpgrade api dc nodes s))"
  shows "underway v names (snd (HandleUpgrade api dc nodes s))"
proof -
  obtain r s' where h: "HandleUpgrade api dc nodes s = (r, s')" by fastforce
  have pre: "preparePass api dc s = setcurrentSpec dc s"
    using underway_spec(1) [OF assms(1)] assms(4) by (simp add: preparePass_same_version)
  have names: "set names = n_Name ` set nodes" "distinct (map n_Name nodes)" using assms(2,3) by auto
  have kept: "settings s1 = (True, currentSpec (setcurrentSpec dc s), spawned s)"
    if "processNodes api dc nodes loopInit (preparePass api dc s) = (l, s1)" for l s1
    using settings_processNodes [of api dc nodes loopInit "setcurrentSpec dc s"] that pre underway_spec(1) [OF assms(1)]
    by (simp add: settings_def setcurrentSpec_def)
  have old: "getNodeStatus s1 (taskNode t) \<in> {UpgradeStateStarted, UpgradeStateTimedOut}
      \<and> taskNode t \<notin> n_Name ` set (candidateNodes l)"
    if p: "processNodes api dc nodes loopInit (preparePass api dc s) = (l, s1)" and t: "t \<in> set (spawned s)" for l s1 t
    using processNodes_started [OF names(2) p, of "taskNode t"] underway_spec(2) [OF assms(1) t] names(1) pre by simp
  from h show ?thesis
  proof (cases rule: HandleUpgrade_cases)
    case off
    with h assms(1) show ?thesis by simp
  next
    case (idle up l)
    with assms(1,4,5) h kept [OF idle(2)] old [OF idle(2)] show ?thesis
      by (fastforce simp: underway_def timely_def list_all_iff settings_def setcurrentSpec_def)
  next
    case (starts up l s1 mx)
    define ns where "ns = take (nat (mx - upgradeInProgress l)) (candidateNodes l)"
    have s': "s' = startUpgrades api dc ns s1" using starts(6) by (simp add: ns_def)
    have cand: "set ns \<subseteq> set (candidateNodes l)" by (auto simp: ns_def dest: in_set_takeD)
    have sub: "subseq ns nodes" unfolding ns_def
      by (rule subseq_order.trans [OF prefix_imp_subseq [OF take_is_prefix] processNodes_candidates [OF starts(2)]])
    then have dist: "distinct (map n_Name ns)" using names(2) by (metis subseqs_distinctD set_subseqs_eq subseq_map mem_Collect_eq)
    have sp: "spawned s' = rev (map (TNodeUpgrade dc) ns) @ spawned s" and set: "init s'" "version (currentSpec s') = v"
      using settings_startUpgrades [of api dc ns s1] kept [OF starts(2)] assms(4)
      by (simp_all add: s' settings_def setcurrentSpec_def)
    have st: "getNodeStatus s' (taskNode t) = UpgradeStateStarted" if "t \<in> set (spawned s')" for t
    proof (cases "t \<in> set (spawned s)")
      case True
      have "getNodeStatus s' (taskNode t) \<noteq> UpgradeStateTimedOut" using assms(5) h that by (simp add: timely_def list_all_iff)
      with old [OF starts(2) True] cand show ?thesis by (auto simp: s' startUpgrades_status split: if_splits)
    next
      case False
      with that sp show ?thesis by (auto simp: s' startUpgrades_status)
    qed
    have "map taskNode (spawned s') = rev (map n_Name ns) @ map taskNode (spawned s)"
      by (simp add: sp rev_map comp_def)
    moreover have "taskNode ` set (spawned s) \<inter> n_Name ` set ns = {}"
      using old [OF starts(2)] cand by blast
    ultimately have "distinct (map taskNode (spawned s'))"
      using dist assms(1) by (auto simp: underway_def)
    moreover have "set ns \<subseteq> set nodes" using list_emb_set [OF sub] by blast
    then have "isUpgradeTask t \<and> taskNode t \<in> set names" if "t \<in> set (spawned s')" for t
      using that assms(1) names(1) by (auto simp: sp underway_def list_all_iff)
    ultimately show ?thesis
      using set st h by (simp add: underway_def list_all_iff)
  qed
qed

lemma underway_task:
  assumes "underway v names s" and "t \<in> set (spawned s)"
  shows "underway v names (finishTask api t s)"
    and "activeState (getNodeStatus (finishTask api t s) n) \<Longrightarrow> activeState (getNodeStatus s n)"
proof -
  let ?s = "s\<lparr>spawned := remove1 t (spawned s)\<rparr>"
  have st: "getNodeStatus ?s = getNodeStatus s" by (simp add: fun_eq_iff getNodeStatus_def)
  from assms obtain dc node where t: "t = TNodeUpgrade dc node"
    by (cases t) (auto simp: underway_def list_all_iff)
  have other: "getNodeStatus (finishTask api t s) m = getNodeStatus s m" if "m \<noteq> taskNode t" for m
    using handleNodeUpgrade_status [of api dc node ?s m] that st by (auto simp: t finishTask_def runTask_def)
  have "settings (finishTask api t s) = (init s, currentSpec s, remove1 t (spawned s))"
    by (simp add: finishTask_def settings_runTask) (simp add: settings_def)
  moreover have "taskNode u \<noteq> taskNode t \<and> u \<in> set (spawned s)" if "u \<in> set (remove1 t (spawned s))" for u
    using assms that by (auto simp: underway_def distinct_map dest: inj_onD)
  moreover have "distinct (map taskNode (remove1 t (spawned s)))"
    using assms(1) by (auto simp: underway_def distinct_map intro: inj_on_subset dest: subsetD [OF set_remove1_subset])
  ultimately show "underway v names (finishTask api t s)"
    using assms(1) other by (fastforce simp: underway_def settings_def list_all_iff)
  show "activeState (getNodeStatus s n)" if "activeState (getNodeStatus (finishTask api t s) n)"
    using that other [of n] underway_spec(2) [OF assms] by (cases "n = taskNode t") (auto simp: activeState_def)
qed

section \<open>Runs\<close>

lemma ustep_underway:
  assumes "ustep v up names s t" and "timely t" and "underway v names s" and "distinct names"
    and "up_MaxParallelUpgrades up > 0"
  shows "underway v names t" and "int (activeNames t names) \<le> max (int (activeNames s names)) (up_MaxParallelUpgrades up)"
  using assms
proof (induction rule: ustep.induct)
  case (pass dc nodes s api)
  {
    case 1
    with pass underway_pass [of v names s nodes dc api] show ?case by simp
  next
    case 2
    with pass pass_parallel_limit [of nodes s dc up api] underway_spec(1) [of v names s] show ?case
      by (simp flip: activeNames_nodes)
  }
next
  case (task u s api)
  {
    case 1
    with task underway_task(1) show ?case by simp
  next
    case 2
    have "activeNames (finishTask api u s) names \<le> activeNames s names"
      unfolding activeNames_def by (rule length_filter_imp) (use underway_task(2) [OF 2(2) task] in blast)
    then show ?case by simp
  }
qed

lemma run_underway:
  assumes "(\<lambda>s t. ustep v up names s t \<and> timely t)\<^sup>*\<^sup>* s t" and "underway v names s" and "distinct names"
    and "up_MaxParallelUpgrades up > 0"
  shows "underway v names t \<and> int (activeNames t names) \<le> max (int (activeNames s names)) (up_MaxParallelUpgrades up)"
  using assms(1)
proof (induction rule: rtranclp_induct)
  case (step t u)
  with ustep_underway [of v up names t u] assms(3,4) show ?case by fastforce
qed (simp add: assms(2))


definition sampleRunA :: umgr where
  "sampleRunA = snd (HandleUpgrade sampleApi sampleDC [nodeA, nodeB] sampleMgr)"

definition sampleRunB :: umgr where
  "sampleRunB = finishTask sampleApi (hd (spawned sampleRunA)) sampleRunA"


section \<open>Why the provisos are needed\<close>

text \<open>
  The manager keeps one driver version and one table of states for all DeviceConfigs.  A pass for a DeviceConfig with
  another driver version than that of the pass before, enabled and with an upgrade policy, forgets the state of every
  node that is not its own, also of one whose goroutine is under way.
\<close>

lemma other_config_forgets:
  assumes "init s" and "version (currentSpec s) \<noteq> []" and "version (currentSpec s) \<noteq> d_Version (driver dc)"
    and "isTrue (d_Enable (driver dc))" and "d_UpgradePolicy (driver dc) = Some up" and "up_Enable up \<noteq> Some False"
    and "n \<notin> n_Name ` set nodes"
  shows "getNodeStatus (snd (HandleUpgrade api dc nodes s)) n = UpgradeStateEmpty"
proof -
  obtain l s1 where p: "processNodes api dc nodes loopInit (preparePass api dc s) = (l, s1)" by fastforce
  have "getNodeStatus (preparePass api dc s) n = UpgradeStateEmpty"
    using assms(1-3) by (simp add: preparePass_def isInit_def specChanged_def)
  then have "getNodeStatus s1 n = UpgradeStateEmpty"
    using pass.loop_other [OF assms(7), of api dc "preparePass api dc s"] p by (simp add: processNodes_passLoop)
  moreover have "n \<notin> n_Name ` set (take k (candidateNodes l))" for k
    using assms(7) list_emb_set [OF processNodes_candidates [OF p]] by (blast dest: in_set_takeD)
  ultimately show ?thesis
    using assms(4-6) p by (simp add: HandleUpgrade_def startUpgrades_status split_beta)
qed

text \<open>
  A goroutine that ends after its upgrade has timed out takes the node back to \<open>Upgrade-In-Progress\<close>; when the pass
  that noticed the time-out has started another node meanwhile, more nodes are active than the limit allows.
\<close>

definition latePolicy :: DriverUpgradePolicySpec where
  "latePolicy = samplePolicy\<lparr>up_MaxUnavailableNodes := StrVal ''100%''\<rparr>"

definition lateDC :: DeviceConfig where
  "lateDC = sampleDC\<lparr>dc_Spec := sampleSpec\<lparr>s_Driver := sampleDriver\<lparr>d_UpgradePolicy := Some latePolicy\<rparr>\<rparr>\<rparr>"

definition lateApi :: env where
  "lateApi = sampleApi\<lparr>o_dc := \<lambda>h ns n. Inr lateDC\<rparr>"

definition lateStart :: umgr where
  "lateStart = startedA\<lparr>spawned := [TNodeUpgrade lateDC nodeA]\<rparr>"

definition latePass :: umgr where
  "latePass = snd (HandleUpgrade lateApi lateDC [nodeA, nodeB] lateStart)"

lemma late_goroutine_exceeds:
  "up_MaxParallelUpgrades latePolicy = 1" "activeNames lateStart [''node-a'', ''node-b''] = 1"
  "getNodeStatus latePass ''node-a'' = UpgradeStateTimedOut"
  "activeNames (finishTask lateApi (last (spawned latePass)) latePass) [''node-a'', ''node-b''] = 2"
  by code_simp+

end
