(* ===== verification/Upgrade_Cycle.thy ===== *)
theory Upgrade_Cycle
  imports Upgrade_Runs
begin

text \<open>
  The way of one node through an upgrade without reboot: the goroutine that a pass started takes the node to
  \<open>Upgrade-In-Progress\<close>, and the first pass that sees the new driver reported for it completes the upgrade, provided the
  API server answers.
\<close>

section \<open>An API server that answers\<close>

text \<open>Every write succeeds, nodes and pods can be read, and the DeviceConfig still asks for version \<open>v\<close>.\<close>

definition obliging :: "env \<Rightarrow> string \<Rightarrow> bool" where
  "obliging api v \<longleftrightarrow> (\<forall>h c. o_write api h c = None) \<and> (\<forall>h n. \<not> isl (o_node api h n))
     \<and> (\<forall>h ns n. case o_dc api h ns n of Inl e \<Rightarrow> False | Inr dc \<Rightarrow> d_Version (driver dc) = v)
     \<and> (\<forall>h c. \<not> isl (o_listPods api h c))"

lemma obliging_reads:
  assumes "obliging api v"
  shows "o_node api h n \<noteq> Inl e" and "o_listPods api h c \<noteq> Inl e" and "o_dc api h ns n \<noteq> Inl e"
    and "o_dc api h ns n = Inr dc \<Longrightarrow> d_Version (driver dc) = v" and "o_write api h c = None"
proof -
  have "\<not> isl (o_node api h n)" and "\<not> isl (o_listPods api h c)" and "o_write api h c = None"
    and dc: "case o_dc api h ns n of Inl e \<Rightarrow> False | Inr dc \<Rightarrow> d_Version (driver dc) = v"
    using assms by (simp_all add: obliging_def)
  then show "o_node api h n \<noteq> Inl e" and "o_listPods api h c \<noteq> Inl e" and "o_write api h c = None" by auto
  from dc show "o_dc api h ns n \<noteq> Inl e" and "o_dc api h ns n = Inr dc \<Longrightarrow> d_Version (driver dc) = v"
    by (auto split: sum.splits)
qed

lemma retry_succeeds: "fst (f s) = None \<Longrightarrow> fst (retryOnConflict f s) = None"
  by (cases "f s") (simp add: retryOnConflict_first_success)

lemma obliging_calls:
  assumes "obliging api v"
  shows "fst (addOrRemoveTaintToNode api node b s) = None"
    and "fst (cordonOrUncordonNode api node b s) = None"
    and "fst (updateModuleVersionOnNode api dc node s) = None"
    and "d_UpgradePolicy (driver dc) \<noteq> None \<Longrightarrow> fst (deleteOrDrainPods api dc node s) = None"
    and "d_Version (driver dc) = v \<Longrightarrow> fst (isDeviceConfigValid api dc s)"
proof -
  note ok = obliging_reads [OF assms]
  show taint: "fst (addOrRemoveTaintToNode api node b s) = None" for s :: "'a world_scheme"
    unfolding addOrRemoveTaintToNode_def
    by (rule retry_succeeds) (simp add: getNode_def writeObj_def Let_def ok split: sum.split)
  show "fst (cordonOrUncordonNode api node b s) = None"
    by (simp add: cordonOrUncordonNode_def getNode_def ok taint split: sum.split)
  show "fst (updateModuleVersionOnNode api dc node s) = None"
    unfolding updateModuleVersionOnNode_def
    by (rule retry_succeeds) (simp add: getNode_def writeObj_def ok split: sum.split prod.split option.split)
  show "fst (deleteOrDrainPods api dc node s) = None" if "d_UpgradePolicy (driver dc) \<noteq> None"
    using that by (auto simp: deleteOrDrainPods_def getPodsToDrainOrDelete_def listPods_def writeObj_def ok split: sum.split)
  show "fst (isDeviceConfigValid api dc s)" if "d_Version (driver dc) = v"
    using that ok(4) by (auto simp: isDeviceConfigValid_def getDC_def ok(3) split: sum.split)
qed

section \<open>The goroutine\<close>

lemma startTime_own [simp]:
  "getUpgradeStartTime (setNodeStatus k v s) = getUpgradeStartTime s"
  "getUpgradeStartTime (setcurrentSpec dc s) = getUpgradeStartTime s"
  "getUpgradeStartTime (s\<lparr>spawned := ts\<rparr>) = getUpgradeStartTime s"
  by (simp_all add: fun_eq_iff getUpgradeStartTime_def setNodeStatus_def setcurrentSpec_def)

lemma obliging_upgrade:
  assumes "obliging api (d_Version (driver dc))" and "d_UpgradePolicy (driver dc) \<noteq> None" and "\<not> rebootRequired dc"
  shows "getNodeStatus (handleNodeUpgrade api dc node s) (n_Name node) = UpgradeStateInProgress"
    and "getUpgradeStartTime (handleNodeUpgrade api dc node s) = getUpgradeStartTime s"
  using assms(2,3) by (simp_all add: handleNodeUpgrade_def split_beta obliging_calls [OF assms(1)])

section \<open>The pass that completes the upgrade\<close>

lemma startTime_other [simp]:
  "getUpgradeStartTime (handleInitStatus api node dc s) = getUpgradeStartTime s"
  "getUpgradeStartTime (handleUpgradeTimedOut api node dc s) = getUpgradeStartTime s"
  "getUpgradeStartTime (snd (isNodeNmcStatusMissing api node dc s)) = getUpgradeStartTime s"
  "getUpgradeStartTime (snd (isNodeReady api node dc s)) = getUpgradeStartTime s"
  "getUpgradeStartTime (snd (isNodeNew api node dc s)) = getUpgradeStartTime s"
  "getUpgradeStartTime (snd (isNodeStateUpgradeInProgress api node dc s)) = getUpgradeStartTime s"
  by (simp_all add: handleInitStatus_def handleUpgradeTimedOut_def hasUpgradeTimeExceeded_def isNodeNmcStatusMissing_def
      isNodeReady_def isNodeNew_def isNodeStateUpgradeInProgress_def Let_def split_beta split: option.splits bool.splits)

text \<open>A node is judged on the status and the start time it had before the pass.\<close>

definition progressOf :: "umgr \<Rightarrow> string \<Rightarrow> UpgradeState \<times> timestamp" where
  "progressOf s n = (getNodeStatus s n, getUpgradeStartTime s n)"

interpretation timed: node_pass "processNode api dc" progressOf for api dc
  by unfold_locales
    (simp add: progressOf_def processNode_other,
     simp add: processNode_def Let_def split_beta clearUpgradeStartTime_def started_at.load_store split: bool.splits)

lemma processNode_reported:
  assumes "obliging api v" and "d_Version (driver dc) = v" and "v \<noteq> []"
    and "getNodeStatus s (n_Name node) = UpgradeStateInProgress" and "getUpgradeStartTime s (n_Name node) = At t"
    and "\<And>h. o_now api h - t * 1000000000 \<le> twoHours"
    and "lookup (nodeModuleStatus dc) (n_Name node) = Some ms" and "hasSuffix (ms_ContainerImage ms) v"
  shows "fst (processNode api dc node s) = VDone"
    and "getNodeStatus (snd (processNode api dc node s)) (n_Name node) = UpgradeStateComplete"
proof -
  have i: "handleInitStatus api node dc s = s"
    using assms(4) by (simp add: handleInitStatus_def isNodeInFailedUpgradeStates_def)
  have "\<not> twoHours < o_now api (hist s) - t * 1000000000" using assms(6) [of "hist s"] by simp
  then have h: "handleUpgradeTimedOut api node dc s = logCall CNow s"
    using assms(4,5,7) by (simp add: handleUpgradeTimedOut_def hasUpgradeTimeExceeded_def timeNow_def)
  have "ms_ContainerImage ms \<noteq> []" using assms(3,8) by (auto simp: hasSuffix_def)
  then have m: "isNodeNmcStatusMissing api node dc (logCall CNow s) = (False, logCall CNow s)"
    using assms(7) by (simp add: isNodeNmcStatusMissing_def)
  have r: "isNodeReady api node dc (logCall CNow s)
      = (True, setNodeStatus (n_Name node) UpgradeStateComplete (snd (cordonOrUncordonNode api node False (logCall CNow s))))"
    using assms(2-4,7,8) by (simp add: isNodeReady_def GetDriverVersion_def split_beta obliging_calls [OF assms(1)])
  show "fst (processNode api dc node s) = VDone"
    and "getNodeStatus (snd (processNode api dc node s)) (n_Name node) = UpgradeStateComplete"
    using assms(4) by (simp_all add: processNode_def i h m r isNodeStateUpgradeFailed_def isNodeStateUpgradeStarted_def
        isNodeInFailedUpgradeStates_def)
qed

lemma pass_reported:
  assumes "init s" and "version (currentSpec s) \<in> {[], v}" and "distinct (map n_Name nodes)" and "node \<in> set nodes"
    and "isTrue (d_Enable (driver dc))" and "d_UpgradePolicy (driver dc) = Some up" and "up_Enable up \<noteq> Some False"
    and "obliging api v" and "d_Version (driver dc) = v" and "v \<noteq> []"
    and "getNodeStatus s (n_Name node) = UpgradeStateInProgress" and "getUpgradeStartTime s (n_Name node) = At t"
    and "\<And>h. o_now api h - t * 1000000000 \<le> twoHours"
    and "lookup (nodeModuleStatus dc) (n_Name node) = Some ms" and "hasSuffix (ms_ContainerImage ms) v"
  shows "getNodeStatus (snd (HandleUpgrade api dc nodes s)) (n_Name node) = UpgradeStateComplete"
proof -
  let ?p = "preparePass api dc s"
  obtain l s1 where p: "processNodes api dc nodes loopInit ?p = (l, s1)" by fastforce
  let ?vs = "fst (passLoop (processNode api dc) nodes ?p)"
  note visits = processNodes_visits [OF p]
  have pre: "progressOf ?p (n_Name node) = (UpgradeStateInProgress, At t)"
    using assms(1,2,9,11,12) by (simp add: preparePass_same_version progressOf_def)
  have judged: "v' = VDone \<and> getNodeStatus s1 (n_Name node) = UpgradeStateComplete"
    if visit: "(n, v') \<in> set ?vs" and n: "n_Name n = n_Name node" for n v'
  proof -
    from timed.loop_visit [OF assms(3) visit] obtain u where u: "progressOf u (n_Name n) = (UpgradeStateInProgress, At t)"
      "v' = fst (processNode api dc n u)" "progressOf s1 (n_Name n) = progressOf (snd (processNode api dc n u)) (n_Name n)"
      using pre n visits(1) by auto
    from u(1) have "getNodeStatus u (n_Name n) = UpgradeStateInProgress" "getUpgradeStartTime u (n_Name n) = At t"
      by (simp_all add: progressOf_def)
    from processNode_reported [OF assms(8-10) this assms(13) assms(14) [folded n] assms(15)] u(2,3) n
    show ?thesis by (simp add: progressOf_def)
  qed
  from visits(3) [OF assms(4)] judged have "getNodeStatus s1 (n_Name node) = UpgradeStateComplete" by blast
  moreover have "n_Name node \<notin> n_Name ` set (candidateNodes l)"
    by (auto dest!: visits(2) dest: judged [THEN conjunct1])
  then have "n_Name node \<notin> n_Name ` set (take k (candidateNodes l))" for k by (blast dest: in_set_takeD)
  ultimately show ?thesis
    using assms(5-7) p by (simp add: HandleUpgrade_def startUpgrades_status split_beta)
qed


definition cycleMgr :: umgr where
  "cycleMgr = sampleMgr\<lparr>nodeStatus := [''node-a'' \<mapsto> UpgradeStateStarted],
     nodeUpgradeStartTime := [''node-a'' \<mapsto> At 9000], spawned := [TNodeUpgrade sampleDC nodeA]\<rparr>"

definition cycleDC :: DeviceConfig where
  "cycleDC = sampleDC\<lparr>dc_Status := sampleStatus [(''node-a'',
     (sampleModuleStatus UpgradeStateInProgress)\<lparr>ms_ContainerImage := ''registry/driver:ubuntu-22.04-6.3.3''\<rparr>)]\<rparr>"


end
