(* ===== verification/Work_Queue.thy ===== *)
theory Work_Queue
  imports Go_Prelude "HOL-Library.Product_Lexorder"
begin

text \<open>
  The work queue between the watches and the reconciler: the priority queue of the vendored controller-runtime
  (\<open>pkg/controller/priorityqueue/priorityqueue.go\<close>) with the rate limiter of client-go, which the controller of the
  operator uses because its options leave both at their default.  Requests wait in two ordered trees, those that are
  ready and those whose time has not come; three goroutines move them on, each woken up by a channel of capacity one,
  here a flag, or by a timer.  Every operation holds the queue's lock and is one step.  The counter of 64 bits that
  orders the requests is a natural number; metrics and logging are left out.
\<close>

section \<open>The order of the requests\<close>

text \<open>Higher priorities come first, and requests of the same priority in the order of their counter.\<close>

datatype rank = Rank int nat

instantiation rank :: linorder
begin

fun less_eq_rank :: "rank \<Rightarrow> rank \<Rightarrow> bool" where
  "less_eq_rank (Rank p c) (Rank q d) \<longleftrightarrow> q < p \<or> p = q \<and> c \<le> d"

fun less_rank :: "rank \<Rightarrow> rank \<Rightarrow> bool" where
  "less_rank (Rank p c) (Rank q d) \<longleftrightarrow> q < p \<or> p = q \<and> c < d"

instance
proof
  fix x y z :: rank
  show "x \<le> x" and "(x < y) = (x \<le> y \<and> \<not> y \<le> x)" and "x \<le> y \<or> y \<le> x" by (cases x; cases y; auto)+
  show "x \<le> y \<Longrightarrow> y \<le> x \<Longrightarrow> x = y" by (cases x; cases y) auto
  show "x \<le> y \<Longrightarrow> y \<le> z \<Longrightarrow> x \<le> z" by (cases x; cases y; cases z) auto
qed

end

record 'k item =
  it_Key :: 'k
  it_AddedCounter :: nat
  it_Priority :: int
  it_ReadyAt :: "int option"

definition readyRank :: "'k item \<Rightarrow> rank" where
  "readyRank it = Rank (it_Priority it) (it_AddedCounter it)"

definition waitRank :: "'k item \<Rightarrow> int \<times> rank" where
  "waitRank it = (case it_ReadyAt it of None \<Rightarrow> 0 | Some t \<Rightarrow> t, readyRank it)"

definition lessReady :: "'k item \<Rightarrow> 'k item \<Rightarrow> bool" where
  "lessReady a b \<longleftrightarrow> readyRank a < readyRank b"

definition lessWaiting :: "'k item \<Rightarrow> 'k item \<Rightarrow> bool" where
  "lessWaiting a b \<longleftrightarrow> waitRank a < waitRank b"

section \<open>Ordered trees\<close>

text \<open>The B-trees of the queue, as the lists of their elements in ascending order.\<close>

definition ReplaceOrInsert :: "('a \<Rightarrow> 'o::linorder) \<Rightarrow> 'a \<Rightarrow> 'a list \<Rightarrow> 'a list" where
  "ReplaceOrInsert key x t = insort_key key x (filter (\<lambda>y. key y \<noteq> key x) t)"

definition Delete :: "('a \<Rightarrow> 'o::linorder) \<Rightarrow> 'a \<Rightarrow> 'a list \<Rightarrow> 'a list" where
  "Delete key x t = filter (\<lambda>y. key y \<noteq> key x) t"

lemma strictly_distinct: "sorted_wrt (\<lambda>a b. key a < (key b :: 'o::linorder)) xs \<Longrightarrow> distinct xs"
  by (induction xs) auto

locale ordered_tree =
  fixes key :: "'a \<Rightarrow> 'o::linorder"
    and insert_at delete_at :: "'a \<Rightarrow> 't \<Rightarrow> 't"
    and elements :: "'t \<Rightarrow> 'a list"
  assumes elements_insert: "set (elements (insert_at x t)) = insert x {y \<in> set (elements t). key y \<noteq> key x}"
    and elements_delete: "set (elements (delete_at x t)) = {y \<in> set (elements t). key y \<noteq> key x}"
    and sorted_insert: "sorted_wrt (\<lambda>a b. key a < key b) (elements t) \<Longrightarrow>
      sorted_wrt (\<lambda>a b. key a < key b) (elements (insert_at x t))"
    and sorted_delete: "sorted_wrt (\<lambda>a b. key a < key b) (elements t) \<Longrightarrow>
      sorted_wrt (\<lambda>a b. key a < key b) (elements (delete_at x t))"
begin

definition ordered :: "'t \<Rightarrow> bool" where
  "ordered t \<longleftrightarrow> sorted_wrt (\<lambda>a b. key a < key b) (elements t)"

lemma ordered_insert: "ordered t \<Longrightarrow> ordered (insert_at x t)"
  by (simp add: ordered_def sorted_insert)

lemma ordered_delete: "ordered t \<Longrightarrow> ordered (delete_at x t)"
  by (simp add: ordered_def sorted_delete)

lemma ordered_deletes: "ordered t \<Longrightarrow> ordered (fold delete_at xs t)"
  by (induction xs arbitrary: t) (simp_all add: ordered_delete)

lemma elements_deletes: "set (elements (fold delete_at xs t)) = {y \<in> set (elements t). key y \<notin> key ` set xs}"
  by (induction xs arbitrary: t) (auto simp: elements_delete)

text \<open>An element whose key no other has is the only one that a deletion takes.\<close>

lemma elements_delete_own:
  assumes "\<And>y. y \<in> set (elements t) \<Longrightarrow> key y = key x \<Longrightarrow> y = x"
  shows "set (elements (delete_at x t)) = set (elements t) - {x}"
  using assms by (auto simp: elements_delete)

lemma elements_insert_new:
  assumes "\<And>y. y \<in> set (elements t) \<Longrightarrow> key y \<noteq> key x"
  shows "set (elements (insert_at x t)) = insert x (set (elements t))"
  using assms by (auto simp: elements_insert)

lemma ordered_distinct: "ordered t \<Longrightarrow> distinct (elements t)"
  unfolding ordered_def by (rule strictly_distinct)

lemma ordered_first:
  assumes "ordered t" and "elements t = xs @ y # ys" and "z \<in> set (elements t)" and "z \<notin> set xs"
  shows "z = y \<or> key y < key z"
  using assms by (auto simp: ordered_def sorted_wrt_append)

end

lemma ReplaceOrInsert_set: "set (ReplaceOrInsert key x t) = insert x {y \<in> set t. key y \<noteq> key x}"
  by (auto simp: ReplaceOrInsert_def set_insort_key)

lemma insort_key_strict:
  "sorted_wrt (\<lambda>a b. key a < key b) t \<Longrightarrow> (\<And>y. y \<in> set t \<Longrightarrow> key y \<noteq> key x) \<Longrightarrow>
     sorted_wrt (\<lambda>a b. key a < key b) (insort_key key x t)"
  by (induction t) (force simp: set_insort_key)+

lemma ordered_lists: "ordered_tree key (ReplaceOrInsert key) (Delete key) (\<lambda>t. t)"
proof
  fix x :: 'a and t :: "'a list"
  show "set (ReplaceOrInsert key x t) = insert x {y \<in> set t. key y \<noteq> key x}" by (rule ReplaceOrInsert_set)
  show "set (Delete key x t) = {y \<in> set t. key y \<noteq> key x}" by (auto simp: Delete_def)
  assume "sorted_wrt (\<lambda>a b. key a < key b) t"
  then show "sorted_wrt (\<lambda>a b. key a < key b) (ReplaceOrInsert key x t)"
    and "sorted_wrt (\<lambda>a b. key a < key b) (Delete key x t)"
    unfolding ReplaceOrInsert_def Delete_def by (auto intro!: insort_key_strict sorted_wrt_filter)
qed

interpretation readyTree: ordered_tree readyRank "ReplaceOrInsert readyRank" "Delete readyRank" "\<lambda>t. t"
  by (rule ordered_lists)

interpretation waitTree: ordered_tree waitRank "ReplaceOrInsert waitRank" "Delete waitRank" "\<lambda>t. t"
  by (rule ordered_lists)

section \<open>The rate limiter\<close>

definition When :: "'k \<Rightarrow> ('k \<Rightarrow> nat) \<Rightarrow> int \<times> ('k \<Rightarrow> nat)" where
  "When key failures =
     (let backoff = 5000000 * 2 ^ failures key; maxDelay = 1000000000000
      in (if backoff > 2 ^ 63 then maxDelay else if backoff > maxDelay then maxDelay else backoff,
          failures(key := failures key + 1)))"

definition ForgetFailures :: "'k \<Rightarrow> ('k \<Rightarrow> nat) \<Rightarrow> 'k \<Rightarrow> nat" where
  "ForgetFailures key failures = failures(key := 0)"

lemma When_bounds: "5000000 \<le> fst (When key f)" "fst (When key f) \<le> 1000000000000"
  using one_le_power [of "2::int" "f key"] by (auto simp: When_def Let_def)

section \<open>The queue\<close>

record AddOpts =
  ao_After :: int
  ao_RateLimited :: bool
  ao_Priority :: "int option"

record 'k pqueue =
  addBuffer :: "(AddOpts \<times> 'k list) list"
  items :: "'k \<rightharpoonup> 'k item"
  ready :: "'k item list"
  waiting :: "'k item list"
  addedCounter :: nat
  rateLimiter :: "'k \<Rightarrow> nat"
  locked :: "'k set"
  waiters :: nat
  shutdown :: bool
  itemAddedToAddBuffer :: bool
  readyItemOrWaiterAdded :: bool
  waitingItemAddedOrUpdated :: bool
  nextReady :: "int option"

definition newQueue :: "'k pqueue" where
  "newQueue = \<lparr>addBuffer = [], items = Map.empty, ready = [], waiting = [], addedCounter = 0, rateLimiter = \<lambda>_. 0,
     locked = {}, waiters = 0, shutdown = False, itemAddedToAddBuffer = False, readyItemOrWaiterAdded = False,
     waitingItemAddedOrUpdated = False, nextReady = None\<rparr>"

definition AddWithOpts :: "AddOpts \<Rightarrow> 'k list \<Rightarrow> 'k pqueue \<Rightarrow> 'k pqueue" where
  "AddWithOpts opts keys q =
     (if shutdown q \<or> keys = [] then q
      else q\<lparr>addBuffer := addBuffer q @ [(opts, keys)], itemAddedToAddBuffer := True\<rparr>)"

text \<open>One round of the loop of \<open>lockedAddWithOpts\<close>; the flags that the code raises after the loop are raised at once.\<close>

definition readyAfter :: "AddOpts \<Rightarrow> 'k \<Rightarrow> ('k \<Rightarrow> nat) \<Rightarrow> int \<times> ('k \<Rightarrow> nat)" where
  "readyAfter opts key failures =
     (if ao_RateLimited opts then
        (case When key failures of (rl, failures') \<Rightarrow>
           (if ao_After opts = 0 \<or> rl < ao_After opts then rl else ao_After opts, failures'))
      else (ao_After opts, failures))"

definition optPriority :: "AddOpts \<Rightarrow> int" where
  "optPriority opts = (case ao_Priority opts of None \<Rightarrow> 0 | Some p \<Rightarrow> p)"

definition addNew :: "'k item \<Rightarrow> 'k pqueue \<Rightarrow> 'k pqueue" where
  "addNew it q =
     (let q1 = q\<lparr>addedCounter := addedCounter q + 1, items := (items q)(it_Key it \<mapsto> it)\<rparr>
      in if it_ReadyAt it \<noteq> None
         then q1\<lparr>waiting := ReplaceOrInsert waitRank it (waiting q1), waitingItemAddedOrUpdated := True\<rparr>
         else q1\<lparr>ready := ReplaceOrInsert readyRank it (ready q1), readyItemOrWaiterAdded := True\<rparr>)"

definition earlier :: "int option \<Rightarrow> int option \<Rightarrow> int option" where
  "earlier old new =
     (case old of
        None \<Rightarrow> None
      | Some t \<Rightarrow> (case new of None \<Rightarrow> None | Some t' \<Rightarrow> if t < t' then Some t else Some t'))"

definition moveItem :: "'k item \<Rightarrow> 'k item \<Rightarrow> 'k pqueue \<Rightarrow> 'k pqueue" where
  "moveItem old it q =
     (let q1 = q\<lparr>items := (items q)(it_Key old \<mapsto> it)\<rparr>
      in if it_ReadyAt it = None \<and> it_ReadyAt old = None
         then q1\<lparr>ready := ReplaceOrInsert readyRank it (Delete readyRank old (ready q1))\<rparr>
         else if it_ReadyAt it = None
         then q1\<lparr>waiting := Delete waitRank old (waiting q1), ready := ReplaceOrInsert readyRank it (ready q1),
                 readyItemOrWaiterAdded := True\<rparr>
         else q1\<lparr>waiting := ReplaceOrInsert waitRank it (Delete waitRank old (waiting q1)),
                 waitingItemAddedOrUpdated := True\<rparr>)"

definition addKey :: "int \<Rightarrow> AddOpts \<Rightarrow> 'k \<Rightarrow> 'k pqueue \<Rightarrow> 'k pqueue" where
  "addKey now opts key q =
     (case readyAfter opts key (rateLimiter q) of (after, failures) \<Rightarrow>
      let q1 = q\<lparr>rateLimiter := failures\<rparr>;
          readyAt = (if after > 0 then Some (now + after) else None);
          newPriority = optPriority opts
      in case items q1 key of
           None \<Rightarrow> addNew \<lparr>it_Key = key, it_AddedCounter = addedCounter q1, it_Priority = newPriority, it_ReadyAt = readyAt\<rparr> q1
         | Some old \<Rightarrow>
             if newPriority > it_Priority old
             then moveItem old (old\<lparr>it_ReadyAt := earlier (it_ReadyAt old) readyAt, it_Priority := newPriority,
                                    it_AddedCounter := addedCounter q1\<rparr>)
                    (q1\<lparr>addedCounter := addedCounter q1 + 1\<rparr>)
             else moveItem old (old\<lparr>it_ReadyAt := earlier (it_ReadyAt old) readyAt\<rparr>) q1)"

definition lockedAddWithOpts :: "int \<Rightarrow> AddOpts \<Rightarrow> 'k list \<Rightarrow> 'k pqueue \<Rightarrow> 'k pqueue" where
  "lockedAddWithOpts now opts keys q = (if shutdown q then q else fold (addKey now opts) keys q)"

definition lockedFlushAddBuffer :: "int \<Rightarrow> 'k pqueue \<Rightarrow> 'k pqueue" where
  "lockedFlushAddBuffer now q =
     fold (\<lambda>(opts, keys). lockedAddWithOpts now opts keys) (addBuffer q) (q\<lparr>addBuffer := []\<rparr>)"

definition handleAddBuffer :: "int \<Rightarrow> 'k pqueue \<Rightarrow> 'k pqueue" where
  "handleAddBuffer now q = lockedFlushAddBuffer now (q\<lparr>itemAddedToAddBuffer := False\<rparr>)"

text \<open>The goroutine of the waiting requests wakes up for its flag or for its timer.\<close>

definition due :: "int \<Rightarrow> 'k item \<Rightarrow> bool" where
  "due now it \<longleftrightarrow> (case it_ReadyAt it of None \<Rightarrow> True | Some t \<Rightarrow> t \<le> now)"

definition becomeReady :: "'k item \<Rightarrow> 'k pqueue \<Rightarrow> 'k pqueue" where
  "becomeReady it q =
     (let it' = it\<lparr>it_ReadyAt := None, it_AddedCounter := addedCounter q\<rparr>
      in q\<lparr>waiting := Delete waitRank it (waiting q), items := (items q)(it_Key it \<mapsto> it'),
           addedCounter := addedCounter q + 1, ready := ReplaceOrInsert readyRank it' (ready q)\<rparr>)"

definition handleWaitingItems :: "bool \<Rightarrow> int \<Rightarrow> 'k pqueue \<Rightarrow> 'k pqueue" where
  "handleWaitingItems timer now q =
     (let q1 = (if timer then q\<lparr>nextReady := None\<rparr> else q\<lparr>waitingItemAddedOrUpdated := False\<rparr>);
          toMove = takeWhile (due now) (waiting q1);
          q2 = (case dropWhile (due now) (waiting q1) of [] \<Rightarrow> q1 | it # _ \<Rightarrow> q1\<lparr>nextReady := it_ReadyAt it\<rparr>);
          q3 = fold becomeReady toMove q2
      in if toMove \<noteq> [] then q3\<lparr>readyItemOrWaiterAdded := True\<rparr> else q3)"

fun handOut :: "'k item list \<Rightarrow> 'k pqueue \<Rightarrow> 'k item list \<times> 'k pqueue" where
  "handOut [] q = ([], q)"
| "handOut (it # its) q =
     (if it_Key it \<in> locked q then handOut its q
      else let q1 = q\<lparr>locked := insert (it_Key it) (locked q), waiters := waiters q - 1, items := (items q)(it_Key it := None)\<rparr>
           in if waiters q1 > 0 then (case handOut its q1 of (got, q2) \<Rightarrow> (it # got, q2)) else ([it], q1))"

definition handleReadyItems :: "int \<Rightarrow> 'k pqueue \<Rightarrow> 'k item list \<times> 'k pqueue" where
  "handleReadyItems now q =
     (let q1 = lockedFlushAddBuffer now (q\<lparr>readyItemOrWaiterAdded := False\<rparr>)
      in if waiters q1 = 0 then ([], q1)
         else case handOut (ready q1) q1 of (toDelete, q2) \<Rightarrow>
           (toDelete, q2\<lparr>ready := fold (Delete readyRank) toDelete (ready q2)\<rparr>))"

text \<open>A worker that asks for a request waits until one is handed out.\<close>

definition GetWithPriority :: "'k pqueue \<Rightarrow> 'k pqueue" where
  "GetWithPriority q = (if shutdown q then q else q\<lparr>waiters := waiters q + 1, readyItemOrWaiterAdded := True\<rparr>)"

definition Done :: "'k \<Rightarrow> 'k pqueue \<Rightarrow> 'k pqueue" where
  "Done key q = q\<lparr>locked := locked q - {key}, readyItemOrWaiterAdded := True\<rparr>"

definition Forget :: "'k \<Rightarrow> 'k pqueue \<Rightarrow> 'k pqueue" where
  "Forget key q = q\<lparr>rateLimiter := ForgetFailures key (rateLimiter q)\<rparr>"

definition ShutDown :: "'k pqueue \<Rightarrow> 'k pqueue" where
  "ShutDown q = q\<lparr>shutdown := True\<rparr>"

definition Len :: "int \<Rightarrow> 'k pqueue \<Rightarrow> nat \<times> 'k pqueue" where
  "Len now q = (let q1 = lockedFlushAddBuffer now q in (length (ready q1), q1))"

end
