(* ===== verification/Work_Queue_Props.thy ===== *)
theory Work_Queue_Props
  imports Work_Queue
begin

text \<open>
  The work queue keeps its trees and its table of requests in step, loses no request and hands none out twice, in the
  order of priority and age; and it never falls asleep while there is something to do: whoever has to act next has
  been woken up or has a timer set in time.
\<close>

lemmas tree_orders [simp] = readyTree.ordered_insert waitTree.ordered_insert readyTree.ordered_delete waitTree.ordered_delete

section \<open>The invariant of the data\<close>

definition wfQueue :: "'k pqueue \<Rightarrow> bool" where
  "wfQueue q \<longleftrightarrow>
     (\<forall>k it. items q k = Some it \<longrightarrow> it_Key it = k \<and> it_AddedCounter it < addedCounter q)
     \<and> (\<forall>k k' it it'. items q k = Some it \<longrightarrow> items q k' = Some it' \<longrightarrow> it_AddedCounter it = it_AddedCounter it' \<longrightarrow> k = k')
     \<and> set (ready q) = {it. items q (it_Key it) = Some it \<and> it_ReadyAt it = None}
     \<and> set (waiting q) = {it. items q (it_Key it) = Some it \<and> it_ReadyAt it \<noteq> None}
     \<and> readyTree.ordered (ready q) \<and> waitTree.ordered (waiting q)"

lemma wfQueue_items:
  assumes "wfQueue q"
  shows "items q k = Some it \<Longrightarrow> it_Key it = k" and "items q k = Some it \<Longrightarrow> it_AddedCounter it < addedCounter q"
    and "items q k = Some it \<Longrightarrow> items q k' = Some it' \<Longrightarrow> it_AddedCounter it = it_AddedCounter it' \<Longrightarrow> k = k'"
  using assms unfolding wfQueue_def by blast+

lemma wfQueue_trees:
  assumes "wfQueue q"
  shows "set (ready q) = {it. items q (it_Key it) = Some it \<and> it_ReadyAt it = None}"
    and "set (waiting q) = {it. items q (it_Key it) = Some it \<and> it_ReadyAt it \<noteq> None}"
    and "readyTree.ordered (ready q)" and "waitTree.ordered (waiting q)"
  using assms unfolding wfQueue_def by blast+

lemma wfQueue_fields [simp]:
  "wfQueue (q\<lparr>readyItemOrWaiterAdded := b\<rparr>) = wfQueue q" "wfQueue (q\<lparr>itemAddedToAddBuffer := b\<rparr>) = wfQueue q"
  "wfQueue (q\<lparr>addBuffer := bs\<rparr>) = wfQueue q" "wfQueue (q\<lparr>waiters := n\<rparr>) = wfQueue q" "wfQueue (q\<lparr>locked := l\<rparr>) = wfQueue q"
  "wfQueue (q\<lparr>rateLimiter := f\<rparr>) = wfQueue q" "wfQueue (q\<lparr>shutdown := b\<rparr>) = wfQueue q"
  by (simp_all add: wfQueue_def)

lemma wfQueue_new: "wfQueue newQueue"
  by (simp add: wfQueue_def newQueue_def readyTree.ordered_def waitTree.ordered_def)

lemma rank_counter:
  "readyRank a = readyRank b \<Longrightarrow> it_AddedCounter a = it_AddedCounter b"
  "waitRank a = waitRank b \<Longrightarrow> it_AddedCounter a = it_AddedCounter b"
  by (simp_all add: readyRank_def waitRank_def)

text \<open>Deleting a request from a tree takes that request and no other.\<close>

lemma delete_old:
  assumes "wfQueue q" and "items q (it_Key old) = Some old"
  shows "set (Delete readyRank old (ready q)) = {it \<in> set (ready q). it_Key it \<noteq> it_Key old}"
    and "set (Delete waitRank old (waiting q)) = {it \<in> set (waiting q). it_Key it \<noteq> it_Key old}"
proof -
  have same: "it_AddedCounter it = it_AddedCounter old \<longleftrightarrow> it = old" "it_Key it = it_Key old \<longleftrightarrow> it = old"
    if "it \<in> set (ready q) \<union> set (waiting q)" for it
  proof -
    from that have it: "items q (it_Key it) = Some it" by (auto simp: wfQueue_trees(1,2) [OF assms(1)])
    show "it_AddedCounter it = it_AddedCounter old \<longleftrightarrow> it = old"
      using wfQueue_items(3) [OF assms(1) it assms(2)] it assms(2) by (metis option.inject)
    show "it_Key it = it_Key old \<longleftrightarrow> it = old" using it assms(2) by (metis option.inject)
  qed
  show "set (Delete readyRank old (ready q)) = {it \<in> set (ready q). it_Key it \<noteq> it_Key old}"
    unfolding readyTree.elements_delete
    by (rule Collect_cong) (use same rank_counter(1) [of _ old] in \<open>metis UnCI\<close>)
  show "set (Delete waitRank old (waiting q)) = {it \<in> set (waiting q). it_Key it \<noteq> it_Key old}"
    unfolding waitTree.elements_delete
    by (rule Collect_cong) (use same rank_counter(2) [of _ old] in \<open>metis UnCI\<close>)
qed

text \<open>A new version of a request, with a fresh counter or its old one, in the tree where it belongs.\<close>

definition freshFor :: "'k pqueue \<Rightarrow> 'k item \<Rightarrow> bool" where
  "freshFor q it \<longleftrightarrow> (\<forall>k x. items q k = Some x \<longrightarrow> k \<noteq> it_Key it \<longrightarrow> it_AddedCounter x \<noteq> it_AddedCounter it)"

definition others :: "'k \<Rightarrow> 'k item set \<Rightarrow> 'k item set" where
  "others k X = {x \<in> X. it_Key x \<noteq> k}"

lemma wfQueue_put:
  assumes "wfQueue q" and "freshFor q it" and "addedCounter q \<le> addedCounter q'" and "it_AddedCounter it < addedCounter q'"
    and "items q' = (items q)(it_Key it \<mapsto> it)"
    and "set (ready q') = others (it_Key it) (set (ready q)) \<union> (if it_ReadyAt it = None then {it} else {})"
    and "set (waiting q') = others (it_Key it) (set (waiting q)) \<union> (if it_ReadyAt it = None then {} else {it})"
    and "readyTree.ordered (ready q')" and "waitTree.ordered (waiting q')"
  shows "wfQueue q'"
  unfolding wfQueue_def
proof (intro conjI allI impI)
  fix k x
  assume x: "items q' k = Some x"
  show "it_Key x = k" and "it_AddedCounter x < addedCounter q'"
    using x assms(3-5) wfQueue_items(1,2) [OF assms(1), of k x] by (auto split: if_splits)
next
  fix k k' x x'
  assume "items q' k = Some x" and "items q' k' = Some x'" and "it_AddedCounter x = it_AddedCounter x'"
  then show "k = k'"
    using assms(2,5) wfQueue_items(3) [OF assms(1), of k x k' x'] unfolding freshFor_def by (metis fun_upd_apply option.inject)
next
  show "set (ready q') = {x. items q' (it_Key x) = Some x \<and> it_ReadyAt x = None}"
    using assms(5,6) wfQueue_trees(1) [OF assms(1)] by (auto simp: others_def split: if_splits)
  show "set (waiting q') = {x. items q' (it_Key x) = Some x \<and> it_ReadyAt x \<noteq> None}"
    using assms(5,7) wfQueue_trees(2) [OF assms(1)] by (auto simp: others_def split: if_splits)
qed (use assms(8,9) in simp_all)

lemma insert_new:
  assumes "wfQueue q" and "freshFor q it"
  shows "X \<subseteq> set (ready q) \<Longrightarrow> set t = others (it_Key it) X \<Longrightarrow> set (ReplaceOrInsert readyRank it t) = insert it (others (it_Key it) X)"
    and "X \<subseteq> set (waiting q) \<Longrightarrow> set t = others (it_Key it) X \<Longrightarrow> set (ReplaceOrInsert waitRank it t) = insert it (others (it_Key it) X)"
proof -
  have ne: "it_AddedCounter x \<noteq> it_AddedCounter it" if "x \<in> others (it_Key it) X" "X \<subseteq> set (ready q) \<union> set (waiting q)" for x
    using that assms(2) wfQueue_trees(1,2) [OF assms(1)] by (auto simp: freshFor_def others_def)
  show "set (ReplaceOrInsert readyRank it t) = insert it (others (it_Key it) X)"
    if "X \<subseteq> set (ready q)" "set t = others (it_Key it) X"
    using readyTree.elements_insert_new [of t it] ne that rank_counter(1) by (metis le_supI1)
  show "set (ReplaceOrInsert waitRank it t) = insert it (others (it_Key it) X)"
    if "X \<subseteq> set (waiting q)" "set t = others (it_Key it) X"
    using waitTree.elements_insert_new [of t it] ne that rank_counter(2) by (metis le_supI2)
qed

section \<open>Adding requests\<close>

text \<open>
  What the addition of requests may change besides the table: it raises flags, keeps the timer and the workers, and
  raises the flag of a tree whenever it puts there what was not there before.
\<close>

definition advances :: "'k pqueue \<Rightarrow> 'k pqueue \<Rightarrow> bool" where
  "advances q q' \<longleftrightarrow> addBuffer q' = addBuffer q \<and> locked q' = locked q \<and> waiters q' = waiters q \<and> shutdown q' = shutdown q
     \<and> itemAddedToAddBuffer q' = itemAddedToAddBuffer q \<and> nextReady q' = nextReady q
     \<and> (readyItemOrWaiterAdded q \<longrightarrow> readyItemOrWaiterAdded q')
     \<and> (waitingItemAddedOrUpdated q \<longrightarrow> waitingItemAddedOrUpdated q')
     \<and> (it_Key ` set (ready q') \<subseteq> it_Key ` set (ready q) \<or> readyItemOrWaiterAdded q')
     \<and> (set (waiting q') \<subseteq> set (waiting q) \<or> waitingItemAddedOrUpdated q')"

lemma advances_refl: "advances q q"
  by (simp add: advances_def)

lemma advances_trans: "advances q q' \<Longrightarrow> advances q' q'' \<Longrightarrow> advances q q''"
  unfolding advances_def by (elim conjE, intro conjI) (simp_all, blast+)

text \<open>An operation that adds the keys \<open>ks\<close>.\<close>

definition adds :: "'k set \<Rightarrow> ('k pqueue \<Rightarrow> 'k pqueue) \<Rightarrow> bool" where
  "adds ks f \<longleftrightarrow> (\<forall>q. wfQueue q \<longrightarrow> wfQueue (f q) \<and> dom (items (f q)) = ks \<union> dom (items q) \<and> advances q (f q))"

lemma freshFor_next:
  assumes "wfQueue q" and "it_AddedCounter it = addedCounter q"
  shows "freshFor q it"
  using wfQueue_items(2) [OF assms(1)] assms(2) unfolding freshFor_def by (metis less_irrefl)

lemma freshFor_own:
  assumes "wfQueue q" and "items q (it_Key it) = Some old" and "it_AddedCounter it = it_AddedCounter old"
  shows "freshFor q it"
  using wfQueue_items(3) [OF assms(1,2)] assms(3) by (auto simp: freshFor_def)

lemma others_absent: "wfQueue q \<Longrightarrow> items q k = None \<Longrightarrow> others k (set (ready q)) = set (ready q) \<and> others k (set (waiting q)) = set (waiting q)"
  by (auto simp: others_def wfQueue_trees)

lemma others_other:
  assumes "wfQueue q" and "items q k = Some old"
  shows "it_ReadyAt old = None \<Longrightarrow> others k (set (waiting q)) = set (waiting q)"
    and "it_ReadyAt old \<noteq> None \<Longrightarrow> others k (set (ready q)) = set (ready q)"
  using wfQueue_items(1) [OF assms] assms(2) by (auto simp: others_def wfQueue_trees [OF assms(1)])

lemma addNew_ok:
  assumes "wfQueue q" and "items q (it_Key it) = None" and "it_AddedCounter it = addedCounter q"
  shows "wfQueue (addNew it q)" and "dom (items (addNew it q)) = insert (it_Key it) (dom (items q))"
    and "advances q (addNew it q)"
proof -
  note f = freshFor_next [OF assms(1,3)] and o = others_absent [OF assms(1,2)]
  note ins = insert_new [OF assms(1) f, of "set (ready q)" "ready q"] insert_new [OF assms(1) f, of "set (waiting q)" "waiting q"]
  show "wfQueue (addNew it q)"
    by (rule wfQueue_put [OF assms(1) f])
      (use assms(3) o ins wfQueue_trees(3,4) [OF assms(1)] in
        \<open>auto simp: addNew_def Let_def\<close>)
  show "dom (items (addNew it q)) = insert (it_Key it) (dom (items q))" by (simp add: addNew_def Let_def)
  show "advances q (addNew it q)" by (simp add: advances_def addNew_def Let_def)
qed

lemma moveItem_ok:
  assumes "wfQueue q" and "items q (it_Key old) = Some old" and "it_Key it = it_Key old" and "freshFor q it"
    and "it_AddedCounter it < n" and "addedCounter q \<le> n" and "it_ReadyAt old = None \<Longrightarrow> it_ReadyAt it = None"
  shows "wfQueue (moveItem old it (q\<lparr>addedCounter := n\<rparr>))"
    and "dom (items (moveItem old it (q\<lparr>addedCounter := n\<rparr>))) = dom (items q)"
    and "advances q (moveItem old it (q\<lparr>addedCounter := n\<rparr>))"
proof -
  let ?q = "q\<lparr>addedCounter := n\<rparr>"
  note del = delete_old [OF assms(1,2), folded others_def assms(3)]
  note o = others_other [OF assms(1,2), folded assms(3)]
  note ins = insert_new(1) [OF assms(1,4) subset_refl] insert_new(2) [OF assms(1,4) subset_refl]
  note ord = wfQueue_trees(3,4) [OF assms(1)]
  show "wfQueue (moveItem old it ?q)"
    by (rule wfQueue_put [OF assms(1,4)])
      (use assms(3,5-7) del o ins ord in \<open>auto simp: moveItem_def Let_def\<close>)
  show "dom (items (moveItem old it ?q)) = dom (items q)" using assms(2,3) by (auto simp: moveItem_def Let_def)
  have "old \<in> set (ready q)" if "it_ReadyAt old = None" using that assms(2) by (simp add: wfQueue_trees [OF assms(1)])
  then show "advances q (moveItem old it ?q)"
    using assms(3) ins(1) [OF del(1)] del(2) by (auto simp: advances_def moveItem_def Let_def others_def)
qed

lemma addKey_adds: "adds {key} (addKey now opts key)"
  unfolding adds_def
proof (intro allI impI)
  fix q :: "'a pqueue"
  assume wf: "wfQueue q"
  obtain a f where ra: "readyAfter opts key (rateLimiter q) = (a, f)" by fastforce
  let ?q = "q\<lparr>rateLimiter := f\<rparr>" and ?r = "if a > 0 then Some (now + a) else None"
  have wf': "wfQueue ?q" using wf by (simp add: wfQueue_def)
  have adv: "advances ?q q' \<Longrightarrow> advances q q'" for q' by (simp add: advances_def)
  show "wfQueue (addKey now opts key q) \<and> dom (items (addKey now opts key q)) = {key} \<union> dom (items q)
      \<and> advances q (addKey now opts key q)"
  proof (cases "items q key")
    case None
    with addNew_ok [OF wf', of "\<lparr>it_Key = key, it_AddedCounter = addedCounter q, it_Priority = optPriority opts, it_ReadyAt = ?r\<rparr>"] adv
    show ?thesis by (simp add: addKey_def ra Let_def)
  next
    case (Some old)
    with wfQueue_items(1,2) [OF wf] have old: "it_Key old = key" "it_AddedCounter old < addedCounter q" by blast+
    let ?raised = "old\<lparr>it_ReadyAt := earlier (it_ReadyAt old) ?r, it_Priority := optPriority opts, it_AddedCounter := addedCounter q\<rparr>"
    let ?same = "old\<lparr>it_ReadyAt := earlier (it_ReadyAt old) ?r\<rparr>"
    have "freshFor ?q ?raised" by (rule freshFor_next [OF wf']) simp
    moreover have "freshFor ?q ?same" by (rule freshFor_own [OF wf', of _ old]) (use Some old in simp_all)
    moreover have "?q\<lparr>addedCounter := addedCounter q\<rparr> = ?q" by simp
    moreover have "dom (items q) = insert key (dom (items q))" using Some by auto
    ultimately show ?thesis
      using moveItem_ok [OF wf', of old ?raised "addedCounter q + 1"] moveItem_ok [OF wf', of old ?same "addedCounter q"] adv Some old
      by (cases "optPriority opts > it_Priority old") (simp_all add: addKey_def ra Let_def earlier_def)
  qed
qed

lemma adds_fold:
  assumes "\<And>x. x \<in> set xs \<Longrightarrow> adds (K x) (f x)"
  shows "adds (\<Union>x \<in> set xs. K x) (fold f xs)"
  using assms
proof (induction xs)
  case Nil
  then show ?case by (simp add: adds_def advances_refl)
next
  case (Cons x xs)
  have "wfQueue (fold f xs (f x q)) \<and> dom (items (fold f xs (f x q))) = (\<Union>y \<in> set (x # xs). K y) \<union> dom (items q)
      \<and> advances q (fold f xs (f x q))" if "wfQueue q" for q
    using Cons that advances_trans [of q "f x q" "fold f xs (f x q)"] by (auto simp: adds_def)
  then show ?case by (simp add: adds_def)
qed

lemma item_moves_shutdown [simp]: "shutdown (addNew it q) = shutdown q" "shutdown (moveItem old it q) = shutdown q"
  by (simp_all add: addNew_def moveItem_def Let_def)

lemma addKey_shutdown [simp]: "shutdown (addKey now opts key q) = shutdown q"
  by (cases "readyAfter opts key (rateLimiter q)"; cases "items q key") (simp_all add: addKey_def Let_def)

lemma fold_addKey_shutdown [simp]: "shutdown (fold (addKey now opts) keys q) = shutdown q"
  by (induction keys arbitrary: q) simp_all

definition bufferedKeys :: "'k pqueue \<Rightarrow> 'k set" where
  "bufferedKeys q = (\<Union>(opts, keys) \<in> set (addBuffer q). set keys)"

definition pendingKeys :: "'k pqueue \<Rightarrow> 'k set" where
  "pendingKeys q = bufferedKeys q \<union> dom (items q)"

lemma flush_open:
  "\<not> shutdown q \<Longrightarrow> fold (\<lambda>(opts, keys). lockedAddWithOpts now opts keys) bs q
     = fold (\<lambda>(opts, keys). fold (addKey now opts) keys) bs q"
  by (induction bs arbitrary: q) (auto simp: lockedAddWithOpts_def)

lemma flush_closed: "shutdown q \<Longrightarrow> fold (\<lambda>(opts, keys). lockedAddWithOpts now opts keys) bs q = q"
  by (induction bs) (auto simp: lockedAddWithOpts_def)

lemma flush_ok:
  assumes "wfQueue q"
  shows "wfQueue (lockedFlushAddBuffer now q)" and "addBuffer (lockedFlushAddBuffer now q) = []"
    and "\<not> shutdown q \<Longrightarrow> dom (items (lockedFlushAddBuffer now q)) = pendingKeys q"
    and "advances (q\<lparr>addBuffer := []\<rparr>) (lockedFlushAddBuffer now q)"
proof -
  let ?q = "q\<lparr>addBuffer := []\<rparr>"
  have wf: "wfQueue ?q" using assms by (simp add: wfQueue_def)
  have "adds (\<Union>b \<in> set (addBuffer q). set (snd b)) (fold (\<lambda>(opts, keys). fold (addKey now opts) keys) (addBuffer q))"
  proof (rule adds_fold)
    fix b :: "AddOpts \<times> 'a list"
    show "adds (set (snd b)) (case b of (opts, keys) \<Rightarrow> fold (addKey now opts) keys)"
      using adds_fold [of "snd b" "\<lambda>k. {k}" "addKey now (fst b)"] by (simp add: case_prod_beta addKey_adds)
  qed
  with wf have flushed: "wfQueue r \<and> dom (items r) = pendingKeys q \<and> advances ?q r"
    if "r = fold (\<lambda>(opts, keys). fold (addKey now opts) keys) (addBuffer q) ?q" for r
    unfolding that adds_def by (auto simp: pendingKeys_def bufferedKeys_def case_prod_beta)
  show "wfQueue (lockedFlushAddBuffer now q)" and "\<not> shutdown q \<Longrightarrow> dom (items (lockedFlushAddBuffer now q)) = pendingKeys q"
    and adv: "advances ?q (lockedFlushAddBuffer now q)"
    using flushed [OF refl] wf
    by (cases "shutdown q"; simp add: lockedFlushAddBuffer_def flush_open flush_closed advances_refl)+
  then show "addBuffer (lockedFlushAddBuffer now q) = []" by (simp add: advances_def)
qed

section \<open>Requests whose time has come\<close>

lemma becomeReady_ok:
  assumes "wfQueue q" and "it \<in> set (waiting q)"
  shows "wfQueue (becomeReady it q)" and "dom (items (becomeReady it q)) = dom (items q)"
    and "set (waiting (becomeReady it q)) = set (waiting q) - {it}"
    and "items q k = Some x \<Longrightarrow> k \<noteq> it_Key it \<Longrightarrow> items (becomeReady it q) k = Some x"
proof -
  let ?it = "it\<lparr>it_ReadyAt := None, it_AddedCounter := addedCounter q\<rparr>"
  have it: "items q (it_Key it) = Some it" "it_ReadyAt it \<noteq> None" using assms by (simp_all add: wfQueue_trees)
  have f: "freshFor q ?it" by (rule freshFor_next [OF assms(1)]) simp
  note del = delete_old(2) [OF assms(1) it(1), folded others_def]
  have o: "others (it_Key it) (set (ready q)) = set (ready q)" using others_other(2) [OF assms(1) it] .
  have ins: "set (ReplaceOrInsert readyRank ?it (ready q)) = insert ?it (set (ready q))"
    using insert_new(1) [OF assms(1) f subset_refl, of "ready q"] o by simp
  show "wfQueue (becomeReady it q)"
    by (rule wfQueue_put [OF assms(1) f])
      (use del o ins wfQueue_trees(3,4) [OF assms(1)] in \<open>auto simp: becomeReady_def Let_def\<close>)
  show "dom (items (becomeReady it q)) = dom (items q)" using it(1) by (auto simp: becomeReady_def Let_def)
  have "x = it" if "x \<in> set (waiting q)" "it_Key x = it_Key it" for x
    using that it(1) wfQueue_trees(2) [OF assms(1)] by (metis (mono_tags, lifting) mem_Collect_eq option.inject)
  with del show "set (waiting (becomeReady it q)) = set (waiting q) - {it}"
    by (auto simp: becomeReady_def Let_def others_def)
  show "items (becomeReady it q) k = Some x" if "items q k = Some x" "k \<noteq> it_Key it"
    using that by (simp add: becomeReady_def Let_def)
qed

lemma becomeReady_fields [simp]:
  "addBuffer (becomeReady it q) = addBuffer q" "locked (becomeReady it q) = locked q" "waiters (becomeReady it q) = waiters q"
  "shutdown (becomeReady it q) = shutdown q" "itemAddedToAddBuffer (becomeReady it q) = itemAddedToAddBuffer q"
  "readyItemOrWaiterAdded (becomeReady it q) = readyItemOrWaiterAdded q"
  "waitingItemAddedOrUpdated (becomeReady it q) = waitingItemAddedOrUpdated q" "nextReady (becomeReady it q) = nextReady q"
  "rateLimiter (becomeReady it q) = rateLimiter q"
  by (simp_all add: becomeReady_def Let_def)

lemma becomeReady_all:
  assumes "wfQueue q" and "set its \<subseteq> set (waiting q)" and "distinct its"
  shows "wfQueue (fold becomeReady its q) \<and> dom (items (fold becomeReady its q)) = dom (items q)
    \<and> set (waiting (fold becomeReady its q)) = set (waiting q) - set its"
  using assms
proof (induction its arbitrary: q)
  case (Cons it its)
  note b = becomeReady_ok [OF Cons.prems(1), of it]
  from Cons.prems have "it \<in> set (waiting q)" "set its \<subseteq> set (waiting (becomeReady it q))" "distinct its"
    using b(3) by auto
  with Cons.IH [of "becomeReady it q"] b show ?case by auto
qed simp

lemma becomeReady_all_fields [simp]:
  "addBuffer (fold becomeReady its q) = addBuffer q" "locked (fold becomeReady its q) = locked q"
  "waiters (fold becomeReady its q) = waiters q" "shutdown (fold becomeReady its q) = shutdown q"
  "itemAddedToAddBuffer (fold becomeReady its q) = itemAddedToAddBuffer q"
  "readyItemOrWaiterAdded (fold becomeReady its q) = readyItemOrWaiterAdded q"
  "waitingItemAddedOrUpdated (fold becomeReady its q) = waitingItemAddedOrUpdated q"
  "nextReady (fold becomeReady its q) = nextReady q"
  by (induction its arbitrary: q) simp_all

section \<open>Never asleep with work to do\<close>

text \<open>
  Whoever has to act next is awake: requests in the buffer, a ready request that a waiting worker could take, and a
  waiting request each have their goroutine notified, or a timer that fires no later than the request is due.
\<close>

definition timerSet :: "'k pqueue \<Rightarrow> bool" where
  "timerSet q \<longleftrightarrow> waitingItemAddedOrUpdated q
     \<or> (\<forall>it \<in> set (waiting q). \<exists>t u. nextReady q = Some t \<and> it_ReadyAt it = Some u \<and> t \<le> u)"

definition awake :: "'k pqueue \<Rightarrow> bool" where
  "awake q \<longleftrightarrow> (addBuffer q \<noteq> [] \<longrightarrow> itemAddedToAddBuffer q)
     \<and> (waiters q > 0 \<longrightarrow> it_Key ` set (ready q) \<subseteq> locked q \<or> readyItemOrWaiterAdded q) \<and> timerSet q"

lemma awake_new: "awake newQueue"
  by (simp add: awake_def timerSet_def newQueue_def)

lemma timerSet_advances:
  assumes "timerSet q" and "advances q q'"
  shows "timerSet q'"
proof -
  have n: "nextReady q' = nextReady q" and "waitingItemAddedOrUpdated q \<longrightarrow> waitingItemAddedOrUpdated q'"
    and "set (waiting q') \<subseteq> set (waiting q) \<or> waitingItemAddedOrUpdated q'"
    using assms(2) by (simp_all add: advances_def)
  with assms(1) show ?thesis unfolding timerSet_def n by blast
qed

lemma awake_advances:
  assumes "awake q" and "advances q q'"
  shows "awake q'"
proof -
  from assms(2) have eq: "addBuffer q' = addBuffer q" "locked q' = locked q" "waiters q' = waiters q"
      "itemAddedToAddBuffer q' = itemAddedToAddBuffer q"
    and up: "readyItemOrWaiterAdded q \<longrightarrow> readyItemOrWaiterAdded q'"
    and r: "it_Key ` set (ready q') \<subseteq> it_Key ` set (ready q) \<or> readyItemOrWaiterAdded q'"
    by (auto simp: advances_def)
  show ?thesis unfolding awake_def eq
  proof (intro conjI)
    show "addBuffer q \<noteq> [] \<longrightarrow> itemAddedToAddBuffer q" using assms(1) by (simp add: awake_def)
    show "0 < waiters q \<longrightarrow> it_Key ` set (ready q') \<subseteq> locked q \<or> readyItemOrWaiterAdded q'"
      using assms(1) up r unfolding awake_def by blast
    show "timerSet q'" using assms timerSet_advances by (auto simp: awake_def)
  qed
qed

lemma awake_flush:
  assumes "wfQueue q" and "awake (q\<lparr>addBuffer := []\<rparr>)"
  shows "awake (lockedFlushAddBuffer now q)"
  using awake_advances [OF assms(2) flush_ok(4) [OF assms(1)]] .

lemma wait_time:
  assumes "wfQueue q" and "waiting q = xs @ y # ys" and "z \<in> set (y # ys)"
  shows "\<exists>t u. it_ReadyAt y = Some t \<and> it_ReadyAt z = Some u \<and> t \<le> u"
proof -
  have "y \<in> set (waiting q)" "z \<in> set (waiting q)" using assms(2,3) by auto
  then obtain t u where t: "it_ReadyAt y = Some t" "it_ReadyAt z = Some u"
    unfolding wfQueue_trees(2) [OF assms(1)] by blast
  have "z = y \<or> waitRank y < waitRank z"
    using waitTree.ordered_first [OF wfQueue_trees(4) [OF assms(1)] assms(2), of z] assms(2,3)
      waitTree.ordered_distinct [OF wfQueue_trees(4) [OF assms(1)]] by auto
  with t show ?thesis by (auto simp: waitRank_def)
qed

lemma takeWhile_rest: "distinct xs \<Longrightarrow> set xs - set (takeWhile P xs) = set (dropWhile P xs)"
proof (induction xs)
  case (Cons x xs)
  then show ?case using set_dropWhileD [of _ P xs] by auto
qed simp

lemma handleWaitingItems_ok:
  assumes "wfQueue q" and "awake q"
  shows "wfQueue (handleWaitingItems timer now q)" and "awake (handleWaitingItems timer now q)"
    and "pendingKeys (handleWaitingItems timer now q) = pendingKeys q" and "locked (handleWaitingItems timer now q) = locked q"
    and "waiters (handleWaitingItems timer now q) = waiters q" and "shutdown (handleWaitingItems timer now q) = shutdown q"
    and "addBuffer (handleWaitingItems timer now q) = addBuffer q"
    and "\<forall>it \<in> set (waiting (handleWaitingItems timer now q)). \<not> due now it"
    and "set (waiting (handleWaitingItems timer now q)) \<subseteq> set (waiting q)"
proof -
  let ?h = "handleWaitingItems timer now q" and ?move = "takeWhile (due now) (waiting q)" and ?rest = "dropWhile (due now) (waiting q)"
  let ?q1 = "if timer then q\<lparr>nextReady := None\<rparr> else q\<lparr>waitingItemAddedOrUpdated := False\<rparr>"
  let ?q2 = "case ?rest of [] \<Rightarrow> ?q1 | it # _ \<Rightarrow> ?q1\<lparr>nextReady := it_ReadyAt it\<rparr>"
  have w1: "waiting ?q1 = waiting q" by simp
  have h: "?h = (if ?move \<noteq> [] then (fold becomeReady ?move ?q2)\<lparr>readyItemOrWaiterAdded := True\<rparr> else ?q2)"
    unfolding handleWaitingItems_def Let_def w1 by simp
  have q2: "waiting ?q2 = waiting q" "ready ?q2 = ready q" "items ?q2 = items q" "addBuffer ?q2 = addBuffer q" "locked ?q2 = locked q"
    "waiters ?q2 = waiters q" "shutdown ?q2 = shutdown q" "itemAddedToAddBuffer ?q2 = itemAddedToAddBuffer q"
    "readyItemOrWaiterAdded ?q2 = readyItemOrWaiterAdded q" "addedCounter ?q2 = addedCounter q"
    by (simp_all split: list.split)
  have wf2: "wfQueue ?q2" using assms(1) unfolding wfQueue_def q2 .
  have d: "distinct (waiting q)" by (rule waitTree.ordered_distinct [OF wfQueue_trees(4) [OF assms(1)]])
  have sub: "set ?move \<subseteq> set (waiting ?q2)" unfolding q2 by (rule set_takeWhileD [THEN conjunct1, THEN subsetI])
  note all = becomeReady_all [OF wf2 sub distinct_takeWhile [OF d]]
  note rest = takeWhile_rest [OF d, of "due now"]
  show "wfQueue ?h" unfolding h using all wf2 by simp
  have w: "set (waiting ?h) = set ?rest" unfolding h using all rest q2 by (auto split: if_splits)
  show "locked ?h = locked q" "waiters ?h = waiters q" "shutdown ?h = shutdown q" and buf: "addBuffer ?h = addBuffer q"
    unfolding h by (simp_all add: q2)
  show "pendingKeys ?h = pendingKeys q"
    unfolding pendingKeys_def bufferedKeys_def buf using all by (simp add: h q2)
  have later: "\<exists>t u. it_ReadyAt y = Some t \<and> it_ReadyAt z = Some u \<and> t \<le> u" if "?rest = y # ys" "z \<in> set ?rest" for y ys z
    using wait_time [OF assms(1), of ?move y ys z] that by (metis takeWhile_dropWhile_id)
  have nxt: "nextReady ?h = it_ReadyAt y" if "?rest = y # ys" for y ys
    unfolding h using that by simp
  show "awake ?h"
    unfolding awake_def
  proof (intro conjI)
    show "addBuffer ?h \<noteq> [] \<longrightarrow> itemAddedToAddBuffer ?h" using assms(2) buf by (simp add: awake_def h q2)
    show "waiters ?h > 0 \<longrightarrow> it_Key ` set (ready ?h) \<subseteq> locked ?h \<or> readyItemOrWaiterAdded ?h"
      using assms(2) by (simp add: awake_def h q2)
    show "timerSet ?h"
    proof (cases ?rest)
      case Nil
      show ?thesis unfolding timerSet_def w Nil by simp
    next
      case (Cons y ys)
      show ?thesis unfolding timerSet_def w nxt [OF Cons] using later [OF Cons] by blast
    qed
  qed
  have "\<not> due now z" if "z \<in> set ?rest" for z
  proof (cases ?rest)
    case Nil
    with that show ?thesis by (simp only: list.set empty_iff)
  next
    case (Cons y ys)
    have "\<not> due now y" using Cons by (metis hd_dropWhile list.distinct(1) list.sel(1))
    with later [OF Cons that] show ?thesis by (auto simp: due_def)
  qed
  then show "\<forall>it \<in> set (waiting ?h). \<not> due now it" by (simp add: w)
  show "set (waiting ?h) \<subseteq> set (waiting q)" unfolding w by (auto dest: set_dropWhileD)
qed

section \<open>Handing out\<close>

definition without :: "'k set \<Rightarrow> ('k \<rightharpoonup> 'v) \<Rightarrow> 'k \<rightharpoonup> 'v" where
  "without K m = (\<lambda>k. if k \<in> K then None else m k)"

lemma without_simps [simp]:
  "without K (m(k := None)) = without (insert k K) m" "without K (\<lambda>x. if x = k then None else m x) = without (insert k K) m"
  "without {} m = m"
  "without K m k = Some x \<longleftrightarrow> k \<notin> K \<and> m k = Some x" "dom (without K m) = dom m - K"
  by (auto simp: without_def fun_eq_iff split: if_splits)

lemma without_one: "m(k := None) = without {k} m"
  by (auto simp: without_def)

lemma handOut_exact:
  assumes "distinct (map it_Key its)" and "waiters q > 0"
  defines "got \<equiv> take (waiters q) (filter (\<lambda>it. it_Key it \<notin> locked q) its)"
  shows "handOut its q = (got, q\<lparr>locked := locked q \<union> it_Key ` set got, waiters := waiters q - length got,
    items := without (it_Key ` set got) (items q)\<rparr>)"
  using assms(1,2) unfolding got_def
proof (induction its arbitrary: q)
  case (Cons it its)
  show ?case
  proof (cases "it_Key it \<in> locked q")
    case False
    let ?q = "q\<lparr>locked := insert (it_Key it) (locked q), waiters := waiters q - 1, items := (items q)(it_Key it := None)\<rparr>"
    have f: "filter (\<lambda>x. it_Key x \<notin> locked ?q) its = filter (\<lambda>x. it_Key x \<notin> locked q) its"
    proof (rule filter_cong)
      fix x
      assume "x \<in> set its"
      then have "it_Key x \<in> it_Key ` set its" by (rule imageI)
      with Cons.prems(1) show "(it_Key x \<notin> locked ?q) = (it_Key x \<notin> locked q)" by auto
    qed simp
    show ?thesis
    proof (cases "waiters q = 1")
      case True
      with False show ?thesis by (simp add: without_one)
    next
      case w: False
      then have "waiters ?q > 0" using Cons.prems(2) by simp
      with Cons.IH [of ?q] Cons.prems(1) f False w show ?thesis
        by (simp add: take_Cons')
    qed
  qed (use Cons in simp)
qed simp

lemma ready_keys:
  assumes "wfQueue q"
  shows "distinct (map it_Key (ready q))"
proof -
  have "inj_on it_Key (set (ready q))"
    unfolding wfQueue_trees(1) [OF assms] by (rule inj_onI) (metis (mono_tags, lifting) mem_Collect_eq option.inject)
  with readyTree.ordered_distinct [OF wfQueue_trees(3) [OF assms]] show ?thesis by (simp add: distinct_map)
qed

lemma delete_handed:
  assumes "wfQueue q" and "set got \<subseteq> set (ready q)"
  shows "set (fold (Delete readyRank) got (ready q)) = {it \<in> set (ready q). it_Key it \<notin> it_Key ` set got}"
    and "wfQueue (q\<lparr>items := without (it_Key ` set got) (items q), ready := fold (Delete readyRank) got (ready q)\<rparr>)"
proof -
  have own: "x = y" if "x \<in> set (ready q)" "y \<in> set (ready q)" "readyRank x = readyRank y \<or> it_Key x = it_Key y" for x y
  proof -
    have i: "items q (it_Key x) = Some x" "items q (it_Key y) = Some y" using that by (simp_all add: wfQueue_trees [OF assms(1)])
    with that(3) rank_counter(1) [of x y] wfQueue_items(3) [OF assms(1) i] show ?thesis by (metis option.inject)
  qed
  show eq: "set (fold (Delete readyRank) got (ready q)) = {it \<in> set (ready q). it_Key it \<notin> it_Key ` set got}"
  proof -
    have "readyRank x \<in> readyRank ` set got \<longleftrightarrow> x \<in> set got" and "it_Key x \<in> it_Key ` set got \<longleftrightarrow> x \<in> set got"
      if "x \<in> set (ready q)" for x
      using own [OF that subsetD [OF assms(2)]] by blast+
    then show ?thesis unfolding readyTree.elements_deletes by blast
  qed
  let ?q = "q\<lparr>items := without (it_Key ` set got) (items q), ready := fold (Delete readyRank) got (ready q)\<rparr>"
  have "it_Key x \<notin> it_Key ` set got" if x: "x \<in> set (waiting q)" for x
  proof
    assume "it_Key x \<in> it_Key ` set got"
    then obtain y where "y \<in> set (ready q)" "it_Key x = it_Key y" using assms(2) by blast
    with x show False by (simp add: wfQueue_trees [OF assms(1)])
  qed
  then have w: "set (waiting q) = {it. without (it_Key ` set got) (items q) (it_Key it) = Some it \<and> it_ReadyAt it \<noteq> None}"
    using wfQueue_trees(2) [OF assms(1)] by auto
  show "wfQueue ?q"
    unfolding wfQueue_def
  proof (intro conjI allI impI)
    show "set (ready ?q) = {it. items ?q (it_Key it) = Some it \<and> it_ReadyAt it = None}"
      unfolding pqueue.select_convs pqueue.update_convs using eq wfQueue_trees(1) [OF assms(1)] by auto
    show "set (waiting ?q) = {it. items ?q (it_Key it) = Some it \<and> it_ReadyAt it \<noteq> None}" using w by simp
  qed (use wfQueue_items [OF assms(1)] readyTree.ordered_deletes [OF wfQueue_trees(3) [OF assms(1)], of got]
         wfQueue_trees(4) [OF assms(1)] in \<open>simp_all, blast+\<close>)
qed

text \<open>The requests that a round hands out: as many as workers wait, from those that are ready and not being worked on.\<close>

definition handed :: "int \<Rightarrow> 'k pqueue \<Rightarrow> 'k item list" where
  "handed now q = take (waiters q) (filter (\<lambda>it. it_Key it \<notin> locked q)
     (ready (lockedFlushAddBuffer now (q\<lparr>readyItemOrWaiterAdded := False\<rparr>))))"

lemma handleReadyItems_ok:
  assumes "wfQueue q" and "\<not> shutdown q"
  shows "fst (handleReadyItems now q) = handed now q"
    and "wfQueue (snd (handleReadyItems now q))"
    and "pendingKeys (snd (handleReadyItems now q)) = pendingKeys q - it_Key ` set (handed now q)"
    and "locked (snd (handleReadyItems now q)) = locked q \<union> it_Key ` set (handed now q)"
    and "waiters (snd (handleReadyItems now q)) = waiters q - length (handed now q)"
    and "shutdown (snd (handleReadyItems now q)) = shutdown q"
    and "distinct (map it_Key (handed now q))" and "it_Key ` set (handed now q) \<subseteq> pendingKeys q - locked q"
    and "awake q \<Longrightarrow> awake (snd (handleReadyItems now q))"
proof -
  let ?q0 = "q\<lparr>readyItemOrWaiterAdded := False\<rparr>" and ?h = "snd (handleReadyItems now q)" and ?got = "handed now q"
  define q1 where "q1 = lockedFlushAddBuffer now ?q0"
  have wf0: "wfQueue ?q0" using assms(1) by simp
  note fl = flush_ok [OF wf0, of now, folded q1_def]
  have adv: "locked q1 = locked q" "waiters q1 = waiters q" "shutdown q1 = shutdown q"
    using fl(4) by (auto simp: advances_def)
  have p1: "dom (items q1) = pendingKeys q" using fl(3) assms(2) by (simp add: pendingKeys_def bufferedKeys_def)
  have got: "?got = take (waiters q1) (filter (\<lambda>it. it_Key it \<notin> locked q1) (ready q1))"
    by (simp add: handed_def adv flip: q1_def)
  have sub: "set ?got \<subseteq> set (ready q1)" "it_Key ` set ?got \<inter> locked q = {}"
    using in_set_takeD [of _ "waiters q1"] by (fastforce simp: got adv)+
  have h: "handleReadyItems now q = (?got, q1\<lparr>locked := locked q1 \<union> it_Key ` set ?got, waiters := waiters q1 - length ?got,
      items := without (it_Key ` set ?got) (items q1), ready := fold (Delete readyRank) ?got (ready q1)\<rparr>)"
  proof (cases "waiters q1 = 0")
    case True
    then show ?thesis by (simp add: handleReadyItems_def got flip: q1_def)
  next
    case False
    then show ?thesis
      using handOut_exact [OF ready_keys [OF fl(1)], of q1, folded got] by (simp add: handleReadyItems_def flip: q1_def)
  qed
  show "fst (handleReadyItems now q) = ?got" by (simp add: h)
  have "?h = (q1\<lparr>items := without (it_Key ` set ?got) (items q1), ready := fold (Delete readyRank) ?got (ready q1)\<rparr>)
      \<lparr>locked := locked q1 \<union> it_Key ` set ?got, waiters := waiters q1 - length ?got\<rparr>" by (simp add: h)
  then show "wfQueue ?h" using delete_handed(2) [OF fl(1) sub(1)] by simp
  show "locked ?h = locked q \<union> it_Key ` set ?got" "waiters ?h = waiters q - length ?got" "shutdown ?h = shutdown q"
    by (simp_all add: h adv)
  have keys: "it_Key ` set ?got \<subseteq> dom (items q1)" using sub(1) wfQueue_trees(1) [OF fl(1)] by blast
  show "pendingKeys ?h = pendingKeys q - it_Key ` set ?got"
    using fl(2) by (simp add: h pendingKeys_def bufferedKeys_def p1 [unfolded pendingKeys_def bufferedKeys_def])
  show "it_Key ` set ?got \<subseteq> pendingKeys q - locked q" using keys p1 sub(2) by blast
  show "distinct (map it_Key ?got)"
    using ready_keys [OF fl(1)] unfolding got by (metis distinct_map_filter distinct_take take_map)
  show "awake ?h" if "awake q"
  proof -
    have "timerSet (?q0\<lparr>addBuffer := []\<rparr>)" using that by (simp add: awake_def timerSet_def)
    then have "timerSet q1" using timerSet_advances [OF _ fl(4)] by blast
    moreover have "it_Key x \<in> locked ?h" if "waiters ?h > 0" "x \<in> set (ready q1)" for x
    proof -
      have "length ?got < waiters q1" using that(1) by (simp add: h)
      then have "?got = filter (\<lambda>it. it_Key it \<notin> locked q1) (ready q1)" by (simp add: got)
      with that(2) show ?thesis by (auto simp: h)
    qed
    moreover have "set (ready ?h) \<subseteq> set (ready q1)" using delete_handed(1) [OF fl(1) sub(1)] by (auto simp: h)
    ultimately show ?thesis using fl(2) by (auto simp: awake_def timerSet_def h)
  qed
qed

section \<open>The other operations\<close>

lemma AddWithOpts_ok:
  assumes "wfQueue q" and "\<not> shutdown q"
  shows "wfQueue (AddWithOpts opts keys q)" and "pendingKeys (AddWithOpts opts keys q) = set keys \<union> pendingKeys q"
    and "locked (AddWithOpts opts keys q) = locked q" and "waiters (AddWithOpts opts keys q) = waiters q"
    and "shutdown (AddWithOpts opts keys q) = shutdown q" and "awake q \<Longrightarrow> awake (AddWithOpts opts keys q)"
  using assms by (auto simp: AddWithOpts_def pendingKeys_def bufferedKeys_def awake_def timerSet_def)

lemma handleAddBuffer_ok:
  assumes "wfQueue q" and "\<not> shutdown q"
  shows "wfQueue (handleAddBuffer now q)" and "pendingKeys (handleAddBuffer now q) = pendingKeys q"
    and "locked (handleAddBuffer now q) = locked q" and "waiters (handleAddBuffer now q) = waiters q"
    and "shutdown (handleAddBuffer now q) = shutdown q" and "addBuffer (handleAddBuffer now q) = []"
    and "awake q \<Longrightarrow> awake (handleAddBuffer now q)"
proof -
  let ?q = "q\<lparr>itemAddedToAddBuffer := False\<rparr>"
  have wf: "wfQueue ?q" using assms(1) by simp
  note fl = flush_ok [OF wf, of now, folded handleAddBuffer_def]
  show "wfQueue (handleAddBuffer now q)" and buf: "addBuffer (handleAddBuffer now q) = []" by (fact fl)+
  show "pendingKeys (handleAddBuffer now q) = pendingKeys q"
    using fl(3) assms(2) buf by (simp add: pendingKeys_def bufferedKeys_def)
  show "locked (handleAddBuffer now q) = locked q" "waiters (handleAddBuffer now q) = waiters q"
    "shutdown (handleAddBuffer now q) = shutdown q"
    using fl(4) by (simp_all add: advances_def)
  show "awake (handleAddBuffer now q)" if "awake q"
    unfolding handleAddBuffer_def
    by (rule awake_flush [OF wf]) (use that in \<open>simp add: awake_def timerSet_def\<close>)
qed

lemma other_ops_ok:
  assumes "wfQueue q"
  shows "wfQueue (GetWithPriority q)" and "wfQueue (Done k q)" and "wfQueue (Forget k q)"
    and "pendingKeys (GetWithPriority q) = pendingKeys q" and "pendingKeys (Done k q) = pendingKeys q"
    and "pendingKeys (Forget k q) = pendingKeys q"
    and "awake q \<Longrightarrow> awake (GetWithPriority q)" and "awake q \<Longrightarrow> awake (Done k q)" and "awake q \<Longrightarrow> awake (Forget k q)"
  using assms by (simp_all add: GetWithPriority_def Done_def Forget_def pendingKeys_def bufferedKeys_def awake_def timerSet_def)

end
