(* ===== verification/Queue_Process.thy ===== *)
theory Queue_Process
  imports Controller_Props Work_Queue_Props
begin

text \<open>
  The process with its real work queue: the worker of the controller that asks the queue for a request, reconciles it,
  queues it again when that is called for and reports it done (\<open>processNextWorkItem\<close> and \<open>reconcileHandler\<close> of the
  vendored controller-runtime), and the three goroutines of the queue.  It refines the process of theory
  \<open>Controller\<close>, whose queue is a list, so what was shown of that process holds here; and a worker that waits is
  served.
\<close>

section \<open>What the controller relies on\<close>

text \<open>
  The contract of a work queue, on the requests that are pending and those that are held by a worker: an addition makes
  requests pending, the queue's own rounds change nothing, what is handed out was pending, was held by nobody and is held
  from then on.
\<close>

locale work_queue =
  fixes usable :: "'q \<Rightarrow> bool"
    and pending held :: "'q \<Rightarrow> 'k set"
    and add :: "'o \<Rightarrow> 'k list \<Rightarrow> 'q \<Rightarrow> 'q"
    and internal :: "('q \<Rightarrow> 'q) set"
    and hand_out :: "'t \<Rightarrow> 'q \<Rightarrow> 'k list \<times> 'q"
    and finish :: "'k \<Rightarrow> 'q \<Rightarrow> 'q"
  assumes add_law: "usable q \<Longrightarrow> usable (add opts ks q) \<and> pending (add opts ks q) = set ks \<union> pending q \<and> held (add opts ks q) = held q"
    and internal_law: "usable q \<Longrightarrow> f \<in> internal \<Longrightarrow> usable (f q) \<and> pending (f q) = pending q \<and> held (f q) = held q"
    and hand_law: "usable q \<Longrightarrow> hand_out t q = (ks, q') \<Longrightarrow> usable q' \<and> distinct ks \<and> set ks \<subseteq> pending q - held q
      \<and> pending q' = pending q - set ks \<and> held q' = held q \<union> set ks"
    and finish_law: "usable q \<Longrightarrow> usable (finish k q) \<and> pending (finish k q) = pending q \<and> held (finish k q) = held q - {k}"
begin

lemma adds_law:
  "usable q \<Longrightarrow> usable (fold (\<lambda>(opts, k). add opts [k]) xs q) \<and> pending (fold (\<lambda>(opts, k). add opts [k]) xs q) = snd ` set xs \<union> pending q
     \<and> held (fold (\<lambda>(opts, k). add opts [k]) xs q) = held q"
  by (induction xs arbitrary: q) (simp_all add: case_prod_beta add_law)

text \<open>One round after another: nothing that was pending is lost, and no request is held twice.\<close>

fun rounds :: "('t \<times> ('q \<Rightarrow> 'q)) list \<Rightarrow> 'q \<Rightarrow> 'k list \<times> 'q" where
  "rounds [] q = ([], q)"
| "rounds ((t, f) # ts) q = (case hand_out t (f q) of (ks, q1) \<Rightarrow> case rounds ts q1 of (ks', q2) \<Rightarrow> (ks @ ks', q2))"

lemma rounds_law:
  assumes "usable q" and "snd ` set ts \<subseteq> internal" and "rounds ts q = (ks, q')"
  shows "usable q' \<and> distinct ks \<and> set ks \<subseteq> pending q - held q \<and> pending q' = pending q - set ks \<and> held q' = held q \<union> set ks"
  using assms
proof (induction ts arbitrary: q ks)
  case (Cons x ts)
  obtain t f where x: "x = (t, f)" by fastforce
  obtain ks1 q1 where 1: "hand_out t (f q) = (ks1, q1)" by fastforce
  obtain ks2 where 2: "rounds ts q1 = (ks2, q')" "ks = ks1 @ ks2" using Cons.prems(3) x 1 by (auto split: prod.splits)
  have f: "usable (f q)" "pending (f q) = pending q" "held (f q) = held q"
    using internal_law [OF Cons.prems(1), of f] Cons.prems(2) x by auto
  note h = hand_law [OF f(1) 1, unfolded f(2,3)]
  with Cons.IH [OF _ _ 2(1)] Cons.prems(2) show ?case unfolding 2(2) by auto
qed simp

end

definition usableQueue :: "'k pqueue \<Rightarrow> bool" where
  "usableQueue q \<longleftrightarrow> wfQueue q \<and> awake q \<and> \<not> shutdown q"

definition queueRounds :: "('k pqueue \<Rightarrow> 'k pqueue) set" where
  "queueRounds = range handleAddBuffer \<union> range (\<lambda>(timer, now). handleWaitingItems timer now) \<union> range Forget \<union> {GetWithPriority, id}"

definition handOutKeys :: "int \<Rightarrow> 'k pqueue \<Rightarrow> 'k list \<times> 'k pqueue" where
  "handOutKeys now q = map_prod (map it_Key) id (handleReadyItems now q)"

interpretation wq: work_queue usableQueue pendingKeys locked AddWithOpts queueRounds handOutKeys Done
proof
  fix q :: "'k pqueue" and opts ks
  assume u: "usableQueue q"
  then show "usableQueue (AddWithOpts opts ks q) \<and> pendingKeys (AddWithOpts opts ks q) = set ks \<union> pendingKeys q
      \<and> locked (AddWithOpts opts ks q) = locked q"
    by (simp add: usableQueue_def AddWithOpts_ok)
next
  fix q :: "'k pqueue" and f :: "'k pqueue \<Rightarrow> 'k pqueue"
  assume u: "usableQueue q" and f: "f \<in> queueRounds"
  have wf: "wfQueue q" "awake q" "\<not> shutdown q" using u by (simp_all add: usableQueue_def)
  from f consider now where "f = handleAddBuffer now" | timer now where "f = handleWaitingItems timer now"
    | k where "f = Forget k" | "f = GetWithPriority" | "f = id" by (auto simp: queueRounds_def)
  then show "usableQueue (f q) \<and> pendingKeys (f q) = pendingKeys q \<and> locked (f q) = locked q"
    using wf by cases (simp_all add: usableQueue_def handleAddBuffer_ok handleWaitingItems_ok other_ops_ok,
      simp_all add: Forget_def GetWithPriority_def)
next
  fix q q' :: "'k pqueue" and t ks
  assume u: "usableQueue q" and h: "handOutKeys t q = (ks, q')"
  have wf: "wfQueue q" "awake q" "\<not> shutdown q" using u by (simp_all add: usableQueue_def)
  have eq: "ks = map it_Key (fst (handleReadyItems t q))" "q' = snd (handleReadyItems t q)"
    using h by (cases "handleReadyItems t q"; simp add: handOutKeys_def)+
  show "usableQueue q' \<and> distinct ks \<and> set ks \<subseteq> pendingKeys q - locked q \<and> pendingKeys q' = pendingKeys q - set ks
      \<and> locked q' = locked q \<union> set ks"
    unfolding eq using handleReadyItems_ok [OF wf(1,3), of t] wf by (simp add: usableQueue_def)
next
  fix q :: "'k pqueue" and k
  assume "usableQueue q"
  then show "usableQueue (Done k q) \<and> pendingKeys (Done k q) = pendingKeys q \<and> locked (Done k q) = locked q - {k}"
    by (simp add: usableQueue_def other_ops_ok) (simp add: Done_def)
qed

section \<open>The process\<close>

datatype worker = Idle | Waiting | Busy NamespacedName int

record process =
  pr_state :: reconciler
  pr_queue :: "NamespacedName pqueue"
  pr_worker :: worker

definition newProcess :: "reconciler \<Rightarrow> process" where
  "newProcess s = \<lparr>pr_state = s, pr_queue = newQueue, pr_worker = Idle\<rparr>"

text \<open>The end of a reconcile; a delay in seconds is given to the queue in nanoseconds.\<close>

definition requeue :: "Result \<times> err \<Rightarrow> NamespacedName \<Rightarrow> int \<Rightarrow> NamespacedName pqueue \<Rightarrow> NamespacedName pqueue" where
  "requeue r req priority q =
     (let rateLimited = \<lparr>ao_After = 0, ao_RateLimited = True, ao_Priority = Some priority\<rparr>
      in if snd r \<noteq> None then AddWithOpts rateLimited [req] q
         else if RequeueAfter (fst r) > 0
         then AddWithOpts \<lparr>ao_After = RequeueAfter (fst r) * 1000000000, ao_RateLimited = False, ao_Priority = Some priority\<rparr>
                [req] (Forget req q)
         else if Requeue (fst r) then AddWithOpts rateLimited [req] q
         else Forget req q)"

definition processNextWorkItem :: "renv \<Rightarrow> NamespacedName \<Rightarrow> int \<Rightarrow> process \<Rightarrow> process" where
  "processNextWorkItem e req priority p =
     (case Reconcile e req (pr_state p) of (r, s) \<Rightarrow>
        p\<lparr>pr_state := s, pr_queue := Done req (requeue r req priority (pr_queue p)), pr_worker := Idle\<rparr>)"

text \<open>
  The steps; the label is the step of the process of theory \<open>Controller\<close>, or none.  The options with which the event
  handlers add requests, and the clock, are left open.
\<close>

inductive pstep :: "renv \<Rightarrow> vfioScripts \<Rightarrow> DeviceConfig \<Rightarrow> process \<Rightarrow> qlabel option \<Rightarrow> process \<Rightarrow> bool"
  for e :: renv and vs :: vfioScripts and blank :: DeviceConfig where
  changed: "SetupWithManager e vs blank ev (pr_state p) = (reqs, s) \<Longrightarrow> length os = length reqs \<Longrightarrow>
    pstep e vs blank p (Some (QChange ev))
      (p\<lparr>pr_state := s, pr_queue := fold (\<lambda>(opts, r). AddWithOpts opts [r]) (zip os reqs) (pr_queue p)\<rparr>)"
| flushed: "itemAddedToAddBuffer (pr_queue p) \<Longrightarrow> pstep e vs blank p None (p\<lparr>pr_queue := handleAddBuffer now (pr_queue p)\<rparr>)"
| notified: "waitingItemAddedOrUpdated (pr_queue p) \<Longrightarrow>
    pstep e vs blank p None (p\<lparr>pr_queue := handleWaitingItems False now (pr_queue p)\<rparr>)"
| fired: "nextReady (pr_queue p) = Some t \<Longrightarrow> t \<le> now \<Longrightarrow>
    pstep e vs blank p None (p\<lparr>pr_queue := handleWaitingItems True now (pr_queue p)\<rparr>)"
| asks: "pr_worker p = Idle \<Longrightarrow> pstep e vs blank p None (p\<lparr>pr_queue := GetWithPriority (pr_queue p), pr_worker := Waiting\<rparr>)"
| spurious: "readyItemOrWaiterAdded (pr_queue p) \<Longrightarrow> handleReadyItems now (pr_queue p) = ([], q) \<Longrightarrow>
    pstep e vs blank p None (p\<lparr>pr_queue := q\<rparr>)"
| given: "readyItemOrWaiterAdded (pr_queue p) \<Longrightarrow> handleReadyItems now (pr_queue p) = ([it], q) \<Longrightarrow>
    pstep e vs blank p (Some (QTake (it_Key it))) (p\<lparr>pr_queue := q, pr_worker := Busy (it_Key it) (it_Priority it)\<rparr>)"
| reconciled: "pr_worker p = Busy req priority \<Longrightarrow> pstep e vs blank p (Some (QDone req)) (processNextWorkItem e req priority p)"
| goroutine: "t \<in> set (spawned (upgradeMgrHandler (pr_state p))) \<Longrightarrow>
    pstep e vs blank p (Some (QTask t)) (p\<lparr>pr_state := runGoroutine e t (pr_state p)\<rparr>)"
| restart: "pstep e vs blank p (Some QRestart) (newProcess (restarted e (pr_state p)))"

inductive prun :: "renv \<Rightarrow> vfioScripts \<Rightarrow> DeviceConfig \<Rightarrow> process \<Rightarrow> qlabel list \<Rightarrow> process \<Rightarrow> bool"
  for e :: renv and vs :: vfioScripts and blank :: DeviceConfig where
  none: "prun e vs blank p [] p"
| quiet: "prun e vs blank p ls q \<Longrightarrow> pstep e vs blank q None q' \<Longrightarrow> prun e vs blank p ls q'"
| visible: "prun e vs blank p ls q \<Longrightarrow> pstep e vs blank q (Some l) q' \<Longrightarrow> prun e vs blank p (ls @ [l]) q'"

section \<open>Refinement\<close>

fun activeOf :: "worker \<Rightarrow> NamespacedName option" where
  "activeOf (Busy req priority) = Some req"
| "activeOf _ = None"

definition processOk :: "process \<Rightarrow> bool" where
  "processOk p \<longleftrightarrow> usableQueue (pr_queue p) \<and> locked (pr_queue p) = set_option (activeOf (pr_worker p))
     \<and> waiters (pr_queue p) = (if pr_worker p = Waiting then 1 else 0)"

definition simulates :: "process \<Rightarrow> controller \<Rightarrow> bool" where
  "simulates p c \<longleftrightarrow> ct_state c = pr_state p \<and> set (ct_pending c) = pendingKeys (pr_queue p)
     \<and> ct_active c = activeOf (pr_worker p) \<and> distinct (ct_pending c)"

lemma processOk_new: "processOk (newProcess s)"
  by (simp add: processOk_def newProcess_def usableQueue_def wfQueue_new awake_new) (simp add: newQueue_def)

lemma simulates_new: "simulates (newProcess s) (newController s)"
  by (simp add: simulates_def newProcess_def newController_def pendingKeys_def bufferedKeys_def newQueue_def)

lemma waiters_kept [simp]:
  "waiters (AddWithOpts opts ks q) = waiters q" "waiters (Forget k q) = waiters q" "waiters (Done k q) = waiters q"
  by (simp_all add: AddWithOpts_def Forget_def Done_def)

lemma waiters_adds [simp]: "waiters (fold (\<lambda>(opts, r). AddWithOpts opts [r]) xs q) = waiters q"
  by (induction xs arbitrary: q) (simp_all add: case_prod_beta)

text \<open>A round of the queue's own goroutines is invisible.\<close>

lemma quiet_round:
  assumes "processOk p" and "simulates p c" and "f \<in> queueRounds" and "waiters (f (pr_queue p)) = waiters (pr_queue p)"
  shows "processOk (p\<lparr>pr_queue := f (pr_queue p)\<rparr>) \<and> simulates (p\<lparr>pr_queue := f (pr_queue p)\<rparr>) c"
  using wq.internal_law [of "pr_queue p" f] assms by (simp add: processOk_def simulates_def)

lemma requeue_ok:
  assumes "usableQueue q"
  shows "usableQueue (requeue r req priority q)" and "locked (requeue r req priority q) = locked q"
    and "pendingKeys (requeue r req priority q) = (if again r then insert req (pendingKeys q) else pendingKeys q)"
    and "waiters (requeue r req priority q) = waiters q"
proof -
  have f: "usableQueue (Forget req q) \<and> pendingKeys (Forget req q) = pendingKeys q \<and> locked (Forget req q) = locked q"
    by (rule wq.internal_law [OF assms]) (simp add: queueRounds_def)
  note a = wq.add_law [OF assms, of _ "[req]"] wq.add_law [OF conjunct1 [OF f], of _ "[req]"]
  show "usableQueue (requeue r req priority q)" and "locked (requeue r req priority q) = locked q"
    and "pendingKeys (requeue r req priority q) = (if again r then insert req (pendingKeys q) else pendingKeys q)"
    and "waiters (requeue r req priority q) = waiters q"
    using f a by (simp_all add: requeue_def again_def Let_def)
qed

lemma reconciled_step:
  assumes "processOk p" and "simulates p c" and "pr_worker p = Busy req priority"
  shows "processOk (processNextWorkItem e req priority p) \<and> simulates (processNextWorkItem e req priority p) (reconcileHandler e req c)"
proof -
  obtain r s where r: "Reconcile e req (pr_state p) = (r, s)" by fastforce
  let ?q = "requeue r req priority (pr_queue p)"
  have u: "usableQueue (pr_queue p)" "locked (pr_queue p) = {req}" "waiters (pr_queue p) = 0"
    using assms(1,3) by (simp_all add: processOk_def)
  note q = requeue_ok [OF u(1), of r req priority]
  note d = wq.finish_law [OF q(1), of req]
  have "processOk (processNextWorkItem e req priority p)"
    using d q(2,4) u(2,3) by (simp add: processOk_def processNextWorkItem_def r)
  moreover have "simulates (processNextWorkItem e req priority p) (reconcileHandler e req c)"
    using assms(2) d q(3) by (simp add: simulates_def processNextWorkItem_def reconcileHandler_def r)
  ultimately show ?thesis ..
qed

lemma pstep_refines:
  assumes "pstep e vs blank p l p'" and "processOk p" and "simulates p c"
  shows "processOk p' \<and> (\<exists>c'. simulates p' c' \<and> (case l of None \<Rightarrow> c' = c | Some a \<Rightarrow> qstep e vs blank c a c'))"
  using assms(1)
proof (cases rule: pstep.cases)
  case (changed ev reqs s os)
  let ?c = "c\<lparr>ct_state := s, ct_pending := fold addRequest reqs (ct_pending c)\<rparr>"
  have "snd ` set (zip os reqs) = set reqs" using changed(4) by (metis map_snd_zip set_map)
  with wq.adds_law [of "pr_queue p" "zip os reqs"] assms(2,3) changed(2)
  have "processOk p' \<and> simulates p' ?c" by (simp add: processOk_def simulates_def)
  moreover have "qstep e vs blank c (QChange ev) ?c"
    by (rule qstep.changed) (use changed(3) assms(3) in \<open>simp add: simulates_def\<close>)
  ultimately show ?thesis using changed(1) by auto
next
  case (flushed now)
  have "usableQueue (pr_queue p)" using assms(2) by (simp add: processOk_def)
  then have "waiters (handleAddBuffer now (pr_queue p)) = waiters (pr_queue p)" by (simp add: usableQueue_def handleAddBuffer_ok)
  with quiet_round [OF assms(2,3), of "handleAddBuffer now"] flushed show ?thesis by (auto simp: queueRounds_def)
next
  case (notified now)
  have "usableQueue (pr_queue p)" using assms(2) by (simp add: processOk_def)
  then have "waiters (handleWaitingItems False now (pr_queue p)) = waiters (pr_queue p)" by (simp add: usableQueue_def handleWaitingItems_ok)
  with quiet_round [OF assms(2,3), of "handleWaitingItems False now"] notified show ?thesis by (auto simp: queueRounds_def)
next
  case (fired t now)
  have "usableQueue (pr_queue p)" using assms(2) by (simp add: processOk_def)
  then have "waiters (handleWaitingItems True now (pr_queue p)) = waiters (pr_queue p)" by (simp add: usableQueue_def handleWaitingItems_ok)
  with quiet_round [OF assms(2,3), of "handleWaitingItems True now"] fired show ?thesis by (auto simp: queueRounds_def)
next
  case asks
  have u: "usableQueue (pr_queue p)" "\<not> shutdown (pr_queue p)" using assms(2) by (simp_all add: processOk_def usableQueue_def)
  have "waiters (GetWithPriority (pr_queue p)) = waiters (pr_queue p) + 1" using u(2) by (simp add: GetWithPriority_def)
  with wq.internal_law [OF u(1), of GetWithPriority] asks assms(2,3) show ?thesis
    by (auto simp: processOk_def simulates_def queueRounds_def)
next
  case (spurious now q)
  have u: "usableQueue (pr_queue p)" "wfQueue (pr_queue p)" "\<not> shutdown (pr_queue p)"
    using assms(2) by (simp_all add: processOk_def usableQueue_def)
  have "handOutKeys now (pr_queue p) = ([], q)" by (simp add: handOutKeys_def spurious(4))
  with wq.hand_law [OF u(1)] handleReadyItems_ok(1,5) [OF u(2,3), of now] spurious assms(2,3) show ?thesis
    by (fastforce simp: processOk_def simulates_def)
next
  case (given now it q)
  have u: "usableQueue (pr_queue p)" "wfQueue (pr_queue p)" "\<not> shutdown (pr_queue p)"
    using assms(2) by (simp_all add: processOk_def usableQueue_def)
  have "handOutKeys now (pr_queue p) = ([it_Key it], q)" by (simp add: handOutKeys_def given(4))
  from wq.hand_law [OF u(1) this] have h: "usableQueue q" "it_Key it \<in> pendingKeys (pr_queue p)" "it_Key it \<notin> locked (pr_queue p)"
    "pendingKeys q = pendingKeys (pr_queue p) - {it_Key it}" "locked q = insert (it_Key it) (locked (pr_queue p))" by auto
  have got: "handed now (pr_queue p) = [it]" using handleReadyItems_ok(1) [OF u(2,3), of now] given(4) by simp
  have w: "waiters q = waiters (pr_queue p) - 1" using handleReadyItems_ok(5) [OF u(2,3), of now] given(4) got by simp
  have "waiters (pr_queue p) \<noteq> 0"
  proof
    assume "waiters (pr_queue p) = 0"
    then have "handed now (pr_queue p) = []" by (simp add: handed_def)
    with got show False by simp
  qed
  with assms(2) have wk: "pr_worker p = Waiting" by (auto simp: processOk_def split: if_splits)
  let ?c = "c\<lparr>ct_active := Some (it_Key it), ct_pending := remove1 (it_Key it) (ct_pending c)\<rparr>"
  have "processOk p'" using assms(2) h w wk given(2) by (simp add: processOk_def)
  moreover have "simulates p' ?c" using assms(3) h(4) given(2) by (simp add: simulates_def)
  moreover have "qstep e vs blank c (QTake (it_Key it)) ?c"
    by (rule qstep.taken) (use assms(3) h(2) wk in \<open>simp_all add: simulates_def\<close>)
  ultimately show ?thesis using given(1) by auto
next
  case (reconciled req priority)
  have "qstep e vs blank c (QDone req) (reconcileHandler e req c)"
    by (rule qstep.reconciled) (use assms(3) reconciled in \<open>simp add: simulates_def\<close>)
  with reconciled_step [OF assms(2,3) reconciled(3)] reconciled show ?thesis by auto
next
  case (goroutine t)
  let ?c = "c\<lparr>ct_state := runGoroutine e t (ct_state c)\<rparr>"
  have "qstep e vs blank c (QTask t) ?c"
    by (rule qstep.goroutine) (use assms(3) goroutine in \<open>simp add: simulates_def\<close>)
  moreover have "processOk p'" "simulates p' ?c" using assms(2,3) goroutine by (simp_all add: processOk_def simulates_def)
  ultimately show ?thesis using goroutine(1) by auto
next
  case restart
  have "qstep e vs blank c QRestart (newController (restarted e (ct_state c)))" by (rule qstep.restart)
  with restart assms(3) processOk_new simulates_new show ?thesis by (auto simp: simulates_def)
qed

lemma prun_refines:
  "prun e vs blank p ls p' \<Longrightarrow> processOk p \<Longrightarrow> simulates p c \<Longrightarrow>
     processOk p' \<and> (\<exists>d. qrun e vs blank c ls d \<and> simulates p' d)"
proof (induction rule: prun.induct)
  case (none p)
  then show ?case using qrun.none by blast
next
  case (quiet p ls q q')
  then obtain d where "processOk q" "qrun e vs blank c ls d" "simulates q d" by blast
  with pstep_refines [OF quiet.hyps(2)] show ?case by fastforce
next
  case (visible p ls q l q')
  then obtain d where d: "processOk q" "qrun e vs blank c ls d" "simulates q d" by blast
  from pstep_refines [OF visible.hyps(2) d(1,3)] obtain d' where "processOk q'" "simulates q' d'" "qstep e vs blank d l d'" by auto
  with qrun.more [OF d(2)] show ?case by blast
qed

text \<open>
  C6: The process with the real work queue refines the process whose queue is a list.  Whatever the three goroutines
  of the queue do, however requests are delayed, limited in rate and ordered by priority: the reconciler goes through
  the same steps as in a run of \<open>qrun\<close>, the requests that wait anywhere in the queue (buffer, ready, not yet due) are
  the pending ones, and the request the worker is busy with is the active one; none is lost, duplicated or handed out
  while it is being worked on.
\<close>

theorem queue_refines:
  assumes "prun e vs blank (newProcess s) ls p"
  shows "\<exists>c. qrun e vs blank (newController s) ls c \<and> ct_state c = pr_state p
    \<and> set (ct_pending c) = pendingKeys (pr_queue p) \<and> distinct (ct_pending c) \<and> ct_active c = activeOf (pr_worker p)
    \<and> locked (pr_queue p) = set_option (activeOf (pr_worker p))"
  using prun_refines [OF assms processOk_new simulates_new] by (auto simp: simulates_def processOk_def)

section \<open>A worker that waits is served\<close>

lemma flush_empty: "addBuffer q = [] \<Longrightarrow> lockedFlushAddBuffer now q = q"
  by (simp add: lockedFlushAddBuffer_def)

lemma served_rounds:
  fixes q :: "'k pqueue" and timer :: bool and now before later :: int
  assumes "usableQueue q" and "waiters q = 1" and "locked q = {}" and "k \<in> pendingKeys q"
    and "\<forall>it \<in> set (waiting (handleAddBuffer before q)). due now it"
  defines "q1 \<equiv> handleAddBuffer before q"
  defines "q2 \<equiv> handleWaitingItems timer now q1"
  shows "addBuffer q \<noteq> [] \<longrightarrow> itemAddedToAddBuffer q"
    and "waiting q1 \<noteq> [] \<longrightarrow> waitingItemAddedOrUpdated q1 \<or> (\<exists>t \<le> now. nextReady q1 = Some t)"
    and "readyItemOrWaiterAdded q2"
    and "\<exists>it. fst (handleReadyItems later q2) = [it] \<and> it_Key it \<in> pendingKeys q \<and> (\<forall>it' \<in> set (ready q2). readyRank it \<le> readyRank it')"
proof -
  have q: "wfQueue q" "awake q" "\<not> shutdown q" using assms(1) by (simp_all add: usableQueue_def)
  note ab = handleAddBuffer_ok [OF q(1,3), of before, folded q1_def]
  have a1: "awake q1" using ab(7) q(2) .
  note wi = handleWaitingItems_ok [OF ab(1) a1, of timer now, folded q2_def]
  show "addBuffer q \<noteq> [] \<longrightarrow> itemAddedToAddBuffer q" using q(2) by (simp add: awake_def)
  show "waiting q1 \<noteq> [] \<longrightarrow> waitingItemAddedOrUpdated q1 \<or> (\<exists>t \<le> now. nextReady q1 = Some t)"
  proof
    assume "waiting q1 \<noteq> []"
    then obtain x where x: "x \<in> set (waiting q1)" by (cases "waiting q1") auto
    with assms(5) have "due now x" by (simp add: q1_def)
    moreover have "waitingItemAddedOrUpdated q1 \<or> (\<exists>t u. nextReady q1 = Some t \<and> it_ReadyAt x = Some u \<and> t \<le> u)"
      using a1 x unfolding awake_def timerSet_def by blast
    ultimately show "waitingItemAddedOrUpdated q1 \<or> (\<exists>t \<le> now. nextReady q1 = Some t)" by (auto simp: due_def)
  qed
  have empty: "addBuffer q2 = []" "waiting q2 = []"
  proof -
    show "addBuffer q2 = []" using wi(7) ab(6) by simp
    have "x \<notin> set (waiting q2)" for x
    proof
      assume x: "x \<in> set (waiting q2)"
      with wi(9) have "x \<in> set (waiting (handleAddBuffer before q))" unfolding q1_def by (rule subsetD)
      then have "due now x" by (rule bspec [OF assms(5)])
      moreover have "\<not> due now x" using x by (rule bspec [OF wi(8)])
      ultimately show False by contradiction
    qed
    then show "waiting q2 = []" by (metis list.set_intros(1) neq_Nil_conv)
  qed
  have "k \<in> dom (items q2)" using wi(3) ab(2) assms(4) empty(1) by (simp add: pendingKeys_def bufferedKeys_def)
  then obtain x where x: "items q2 k = Some x" by blast
  then have "it_ReadyAt x = None" using wfQueue_trees(2) [OF wi(1)] wfQueue_items(1) [OF wi(1) x] empty(2) by auto
  then have r: "x \<in> set (ready q2)" using wfQueue_trees(1) [OF wi(1)] wfQueue_items(1) [OF wi(1) x] x by auto
  have w: "waiters q2 = 1" "locked q2 = {}" using wi(4,5) ab(3,4) assms(2,3) by simp_all
  show "readyItemOrWaiterAdded q2" using wi(2) w r by (auto simp: awake_def)
  have "lockedFlushAddBuffer later (q2\<lparr>readyItemOrWaiterAdded := False\<rparr>) = q2\<lparr>readyItemOrWaiterAdded := False\<rparr>"
    using empty(1) by (simp add: flush_empty)
  then have h: "handed later q2 = [hd (ready q2)]" using w r by (cases "ready q2") (simp_all add: handed_def)
  have ok: "wfQueue q2" "\<not> shutdown q2" using wi(1,6) ab(5) q(3) by simp_all
  note hr = handleReadyItems_ok(1,8) [OF ok, of later, unfolded h]
  have "it_Key (hd (ready q2)) \<in> pendingKeys q" using hr(2) wi(3) ab(2) by auto
  moreover have "readyRank (hd (ready q2)) \<le> readyRank y" if "y \<in> set (ready q2)" for y
    using readyTree.ordered_first [OF wfQueue_trees(3) [OF ok(1)], of "[]" "hd (ready q2)" "tl (ready q2)" y] that r
    by (cases "ready q2") auto
  ultimately show "\<exists>it. fst (handleReadyItems later q2) = [it] \<and> it_Key it \<in> pendingKeys q \<and> (\<forall>it' \<in> set (ready q2). readyRank it \<le> readyRank it')"
    using hr(1) by auto
qed

text \<open>
  C7: A worker that waits is served.  In every state the process can reach in which its worker waits and a request is
  pending, the queue is on the move: requests in the buffer have their goroutine notified; once they are in the trees,
  the waiting ones have theirs notified or a timer set for no later than the time they are due; and once that time has
  come and the goroutine has run, the one that hands out requests is notified, and when it runs it hands out exactly one
  of the pending requests, none of the others that are ready having a higher priority or, with the same priority, being older.
\<close>

theorem queue_serves:
  fixes timer :: bool and now before later :: int
  assumes "prun e vs blank (newProcess s) ls p" and "pr_worker p = Waiting" and "req \<in> pendingKeys (pr_queue p)"
  defines "q0 \<equiv> pr_queue p"
  defines "q1 \<equiv> handleAddBuffer before q0"
  defines "q2 \<equiv> handleWaitingItems timer now q1"
  assumes "\<forall>it \<in> set (waiting q1). due now it"
  shows "(addBuffer q0 \<noteq> [] \<longrightarrow> itemAddedToAddBuffer q0)
    \<and> (waiting q1 \<noteq> [] \<longrightarrow> waitingItemAddedOrUpdated q1 \<or> (\<exists>t \<le> now. nextReady q1 = Some t))
    \<and> readyItemOrWaiterAdded q2
    \<and> (\<exists>it. fst (handleReadyItems later q2) = [it] \<and> it_Key it \<in> pendingKeys q0 \<and> (\<forall>it' \<in> set (ready q2). \<not> lessReady it' it))"
proof -
  have "usableQueue q0" "waiters q0 = 1" "locked q0 = {}"
    using prun_refines [OF assms(1) processOk_new simulates_new] assms(2) by (simp_all add: processOk_def q0_def)
  from served_rounds [OF this, of req before now] assms(3,7) show ?thesis
    unfolding lessReady_def not_less q2_def q1_def q0_def by simp
qed

section \<open>A run\<close>

definition plainOpts :: AddOpts where
  "plainOpts = \<lparr>ao_After = 0, ao_RateLimited = False, ao_Priority = None\<rparr>"

definition sampleQueue :: "NamespacedName pqueue" where
  "sampleQueue = GetWithPriority (AddWithOpts plainOpts [sampleReq] newQueue)"

lemma sampleQueue_run:
  "prun sampleRenv \<lparr>vs_Bind = [], vs_Unbind = []\<rparr> sampleDC (newProcess sampleReconciler)
     [QChange (EDeviceConfig (Created sampleDC))] \<lparr>pr_state = sampleReconciler, pr_queue = sampleQueue, pr_worker = Waiting\<rparr>"
proof -
  let ?vs = "\<lparr>vs_Bind = [], vs_Unbind = []\<rparr>" and ?p = "newProcess sampleReconciler" and ?ev = "EDeviceConfig (Created sampleDC)"
  let ?q = "?p\<lparr>pr_state := sampleReconciler, pr_queue := fold (\<lambda>(opts, r). AddWithOpts opts [r]) (zip [plainOpts] [sampleReq]) (pr_queue ?p)\<rparr>"
  have "SetupWithManager sampleRenv ?vs sampleDC ?ev (pr_state ?p) = ([sampleReq], sampleReconciler)"
    by (simp add: newProcess_def EnqueueRequestForObject_def sampleReq_def sampleDC_def)
  from pstep.changed [OF this, of "[plainOpts]"] have "pstep sampleRenv ?vs sampleDC ?p (Some (QChange ?ev)) ?q" by simp
  from prun.visible [OF prun.none this] have "prun sampleRenv ?vs sampleDC ?p [QChange ?ev] ?q" by simp
  moreover have "pstep sampleRenv ?vs sampleDC ?q None (?q\<lparr>pr_queue := GetWithPriority (pr_queue ?q), pr_worker := Waiting\<rparr>)"
    by (rule pstep.asks) (simp add: newProcess_def)
  ultimately have "prun sampleRenv ?vs sampleDC ?p [QChange ?ev] (?q\<lparr>pr_queue := GetWithPriority (pr_queue ?q), pr_worker := Waiting\<rparr>)"
    by (rule prun.quiet)
  then show ?thesis by (simp add: newProcess_def sampleQueue_def)
qed

lemma sampleQueue_pending: "pendingKeys sampleQueue = {sampleReq}"
  by (simp add: sampleQueue_def GetWithPriority_def AddWithOpts_def newQueue_def pendingKeys_def bufferedKeys_def)

theorem queue_refines_witness:
  "\<exists>c. qrun sampleRenv \<lparr>vs_Bind = [], vs_Unbind = []\<rparr> sampleDC (newController sampleReconciler)
      [QChange (EDeviceConfig (Created sampleDC))] c \<and> ct_pending c = [sampleReq] \<and> ct_active c = None"
proof -
  from queue_refines [OF sampleQueue_run] obtain c where
    c: "qrun sampleRenv \<lparr>vs_Bind = [], vs_Unbind = []\<rparr> sampleDC (newController sampleReconciler)
        [QChange (EDeviceConfig (Created sampleDC))] c"
      "set (ct_pending c) = {sampleReq}" "distinct (ct_pending c)" "ct_active c = None"
    by (auto simp: sampleQueue_pending)
  from c(2,3) have "ct_pending c = [sampleReq]"
    by (cases "ct_pending c" rule: remdups_adj.cases) auto
  with c show ?thesis by blast
qed

theorem queue_serves_witness:
  "\<exists>it. fst (handleReadyItems 0 (handleWaitingItems False 0 (handleAddBuffer 0 sampleQueue))) = [it] \<and> it_Key it = sampleReq"
proof -
  have "waiting (handleAddBuffer 0 sampleQueue) = []" by code_simp
  with queue_serves [OF sampleQueue_run, where req = sampleReq and timer = False and now = 0 and before = 0 and later = 0] show ?thesis by (auto simp: sampleQueue_pending)
qed

end
