(* ===== verification/Spec2Isabelle.thy ===== *)
theory Spec2Isabelle
  imports Upgrade_Safety Upgrade_Steps Driver_Props Conditions Validator_Props Recovery_Props
    Remediation_Props Remediation_Safety Remediation_Resume Operand_Props Watchers Reconciler_Reject
    Reconciler_Final Reconciler_Operands Reconciler_Status Kmm_Off Upgrade_Cycle Queue_Process
begin

text \<open>
  The ROCm GPU operator.

  The operator is a Kubernetes controller for the custom resource \<open>DeviceConfig\<close> (\<open>src/api/v1alpha1\<close>).  A
  DeviceConfig selects nodes and says which driver, device plugin, DRA driver, node labeller, metrics exporter,
  test runner and configuration manager run on them.  One reconciler
  (\<open>src/internal/controllers/device_config_reconciler.go\<close>) reads a DeviceConfig, validates it, makes sure no node
  belongs to two DeviceConfigs, builds the objects of its components, hands driver upgrades to the upgrade manager
  (\<open>upgrademgr.go\<close>) and broken nodes to the remediation manager (\<open>remediation_handler.go\<close>), and reports the result
  in the status.  Event handlers (\<open>watchers\<close>) turn changes of the cluster into requests, which the work queue of controller-runtime
  holds until the reconciler has dealt with them.

  \<^bold>\<open>How the code is modelled.\<close>  Go structs are records with the field names of the source under a short prefix
  (\<open>dc_\<close>, \<open>s_\<close>, \<open>d_\<close>, \<dots>), enumerations are datatypes or strings, maps are association lists in the order Go happens to
  visit them, nil pointers are \<open>None\<close>.  A function that can fail returns \<open>kerr + 'a\<close>; one that can panic returns an
  option of that.  The cluster is not part of the repository: it is a parameter, an \<open>apiserver\<close> record whose fields
  answer every call from the log of all earlier calls (theory \<open>Cluster\<close>), so that a theorem about all servers is
  a theorem about all interleavings of the operator with other clients.  A component's memory is a record that
  extends \<open>world\<close>, the log of the calls made; an operation maps it to a result and the record after it.  What an
  operation does to the cluster is the part of the log it adds (\<open>issued\<close>).  Loops over nodes are structural
  recursions.  Loops that wait for the cluster are bounded in the source and count down its number of attempts
  (\<open>waitForDriverUpgrade\<close>, \<open>waitForRebootPod\<close>, \<open>awaitNodeReady\<close>); \<open>retry.RetryOnConflict\<close> makes at most the five
  attempts of \<open>retry.DefaultRetry\<close>.  No fuel is chosen by the model.  Integers are unbounded where the CRD bounds
  them; the one narrowing conversion of the sources is written out (\<open>toInt32\<close>).

  \<^bold>\<open>Theories.\<close>

  \<^item> \<open>Go_Prelude\<close>: strings, numbers, durations, maps and retries as the sources use them, with the simplification
    rules the components share.  \<open>Api_Types\<close>, \<open>Workflow_Types\<close>, \<open>Operand_Types\<close>: the data.  \<open>Cluster\<close>, \<open>Traces\<close>:
    the server, the log of calls and the calculus of what a computation may call.  \<open>Samples\<close>: concrete inputs.
  \<^item> \<open>Upgrade_Helper\<close>, \<open>Upgrade_Mgr\<close> (\<open>upgrademgr.go\<close>): the helper's state and tests, the pass \<open>HandleUpgrade\<close>, and
    the goroutines it starts as tasks.  \<open>Upgrade_Facts\<close>, \<open>Upgrade_Pass\<close>, \<open>Upgrade_Safety\<close>, \<open>Upgrade_Steps\<close>: the limits on
    parallel and unavailable nodes, what a pass starts, that a pass refines a state machine per node, what a goroutine
    may do, and that it ends.  \<open>Upgrade_Runs\<close>: passes and goroutines interleaved as a transition system \<open>ustep\<close>, in which
    the parallel limit is an invariant.  \<open>Upgrade_Cycle\<close>: on a server that does what it is asked, a node's upgrade
    reaches Upgrade-Complete.
  \<^item> \<open>Recovery_Tracker\<close>, \<open>Workflow_Templates\<close>, \<open>Remediation\<close> (\<open>remediation_handler.go\<close>): the record of recent runs, the
    built-in workflow, and the pass over the nodes.  \<open>Recovery_Props\<close>, \<open>Remediation_Props\<close>, \<open>Remediation_Safety\<close>,
    \<open>Remediation_Resume\<close>: when a workflow is created, how many, where it runs, how it is resumed, and that the tracker
    agrees with the history in the status resource.
  \<^item> \<open>Driver_Utils\<close> (\<open>src/internal/utils.go\<close>), \<open>Conditions\<close> (\<open>src/internal/conditions\<close>), \<open>Validator\<close>
    (\<open>src/internal/validator\<close>), with \<open>Driver_Props\<close> and \<open>Validator_Props\<close>: labels, default versions, the registry check
    with its cache, conditions, and soundness and completeness of the validation.
  \<^item> \<open>Operand_Base\<close>: \<open>CreateOrPatch\<close> and \<open>SetControllerReference\<close> of controller-runtime, the idioms of the builders, and
    the locale \<open>operand\<close>, the contract between a builder and \<open>CreateOrPatch\<close>.  \<open>Device_Plugin\<close>, \<open>Node_Labeller\<close>,
    \<open>Metrics_Exporter\<close>, \<open>Test_Runner\<close>, \<open>Config_Manager\<close>, \<open>Kmm_Module\<close>, \<open>Worker_Mgr\<close>: one builder each, from the package of
    the same name, each interpreting \<open>operand\<close>.  \<open>Kmm_Props\<close>, \<open>Operand_Props\<close>: what the built objects promise.
  \<^item> \<open>Watchers\<close> (\<open>src/internal/controllers/watchers\<close>): predicates and event handlers.
  \<^item> \<open>Reconciler_State\<close>, \<open>Reconciler_Handlers\<close>, \<open>Reconciler\<close> (\<open>device_config_reconciler.go\<close>): the state of the
    reconciler with the managers inside it, one definition per handler and finalizer, \<open>Reconcile\<close>, and the controller as
    a transition system \<open>cstep\<close> whose steps are reconciles, goroutines, events and restarts.  \<open>Reconciler_Facts\<close>: what
    each handler leaves alone.  \<open>Reconciler_Props\<close>: a node keeps its DeviceConfig along every run.  \<open>Reconciler_Reject\<close>:
    a rejected DeviceConfig changes nothing but its status.  \<open>Reconciler_Final\<close>: the finalizer goes last, and does go.
    \<open>Reconciler_Operands\<close>: secrets are watched, Dockerfiles exist before the module that names them.
    \<open>Reconciler_Status\<close>: what a successful reconcile reports.
  \<^item> \<open>Controller\<close> (\<open>src/cmd/main.go\<close>, \<open>src/internal/config\<close>, \<open>SetupWithManager\<close>, and the parts of controller-runtime they
    rely on): the start of the process, the requests each watched change leads to, and the process with its work queue as
    a transition system \<open>qstep\<close>, in which requests are taken and finished, repeated after a failure, and joined when they
    are queued twice.  \<open>Controller_Props\<close>: its runs are runs of \<open>cstep\<close>, no relevant change is missed, and the queue runs
    empty only after a successful reconcile of every DeviceConfig a change was about.
  \<^item> \<open>Work_Queue\<close> (controller-runtime's \<open>priorityqueue.go\<close> and client-go's rate limiter): the add buffer, the two B-trees,
    priorities, delays, back-off and the locked set.  \<open>Work_Queue_Props\<close>: the invariant of the queue, kept by every
    operation.  \<open>Queue_Process\<close>: the worker loop \<open>processNextWorkItem\<close> over this queue refines \<open>qstep\<close>, and the key
    at the front is handed out.
  \<^item> \<open>Module_Calls\<close>, \<open>Kmm_Off\<close>: the calls on KMM modules, and that an operator started without KMM makes none.

  \<^bold>\<open>Interfaces.\<close>  The locales are \<open>node_store\<close> (a map from nodes to values, interpreted by the three maps of the upgrade
  manager), \<open>node_pass\<close> (a loop that changes one node at a time), \<open>condition_store\<close>, \<open>operand\<close>, and \<open>handler_calls\<close> (what the
  handlers of the reconciler need of a bound on their calls, interpreted for calls off the DeviceConfig and off KMM modules),
  \<open>ordered_tree\<close> (a B-tree under an order, interpreted by the ready and the waiting order), and \<open>work_queue\<close> (what the
  worker relies on, interpreted by the priority queue).

  \<^bold>\<open>Not modelled.\<close>  Logging, metrics, contexts, command line flags and the registration of schemes; the manager's cache and leader election;
  generated deep copies and mocks; the text of the embedded Dockerfiles, scripts and YAML, which are parameters, as are YAML parsing,
  HTTP and discovery; Go's scheduler, beyond the interleaving of goroutines with passes.  Fields of Kubernetes objects
  that no modelled function reads or writes are left out; the two raw merge patches of the sources are compared as
  whole objects.
\<close>

end
